(* ===== verification/Cosi_Prelude.thy ===== *)
theory Cosi_Prelude
  imports Main "HOL-Library.AList" "HOL-Library.Multiset" "HOL-Library.State_Monad"
begin

text \<open>
  Shared ground of the development.
  \<^item> Go values: maps that may be nil, pointers to optional values, \<open>ptr.Deref\<close>.
  \<^item> Histories: a program that talks to the outside world appends one event per call to a
    history; \<open>guarded\<close> says that every event of a history was allowed by what came before it.
  \<^item> Programs: a \<open>('e list, 'a) state\<close> computation over a history, its weakest
    precondition \<open>wp\<close> and the rules (collection \<open>wp_intro\<close>) that run a program
    symbolically, one call, branch or return at a time.
  \<^item> The locale \<open>effect_call\<close>: the contract of a primitive that asks the outside world one
    question and records question and answer.
\<close>

named_theorems wp_intro "rules that step through a program under wp"

section \<open>Go values\<close>

text \<open>A Go map with string keys: \<open>None\<close> is the nil map, \<open>Some\<close> an association list.\<close>

type_synonym 'v gomap = "(string \<times> 'v) list option"

definition gm_entries :: "'v gomap \<Rightarrow> (string \<times> 'v) list" where
  "gm_entries m = (case m of None \<Rightarrow> [] | Some al \<Rightarrow> al)"

definition gm_lookup :: "'v gomap \<Rightarrow> string \<Rightarrow> 'v option" where
  "gm_lookup m k = map_of (gm_entries m) k"

definition gm_has :: "'v gomap \<Rightarrow> string \<Rightarrow> bool" where
  "gm_has m k \<longleftrightarrow> gm_lookup m k \<noteq> None"

text \<open>Reading a missing key yields the zero value, here the empty string.\<close>

definition gm_get :: "string gomap \<Rightarrow> string \<Rightarrow> string" where
  "gm_get m k = (case gm_lookup m k of None \<Rightarrow> [] | Some v \<Rightarrow> v)"

definition gm_len :: "'v gomap \<Rightarrow> nat" where
  "gm_len m = length (gm_entries m)"

text \<open>
  The write \<open>m[k] = v\<close> after the guard \<open>if m == nil { m = map[string]V{} }\<close> that the
  code always puts before it.
\<close>

definition gm_put :: "string \<Rightarrow> 'v \<Rightarrow> 'v gomap \<Rightarrow> 'v gomap" where
  "gm_put k v m = Some (AList.update k v (gm_entries m))"

text \<open>\<open>delete(m, k)\<close>, a no-op on the nil map.\<close>

definition gm_delete :: "string \<Rightarrow> 'v gomap \<Rightarrow> 'v gomap" where
  "gm_delete k m = map_option (AList.delete k) m"

text \<open>\<open>ptr.Deref(p, default)\<close> for a pointer modelled as an option.\<close>

definition ptr_Deref :: "'a option \<Rightarrow> 'a \<Rightarrow> 'a" where
  "ptr_Deref p d = (case p of None \<Rightarrow> d | Some x \<Rightarrow> x)"

text \<open>
  The order in which \<open>for k := range m\<close> visits the keys is chosen by the runtime. A
  chooser is any function; a proposal that is not a rearrangement of the keys is ignored, so
  the result ranges over exactly the rearrangements.
\<close>

definition range_order :: "(string list \<Rightarrow> string list) \<Rightarrow> string list \<Rightarrow> string list" where
  "range_order pick ks = (if mset (pick ks) = mset ks then pick ks else ks)"

text \<open>The entries of a map in the order of the visited keys.\<close>

definition range_entries :: "(string \<times> 'v) list \<Rightarrow> string list \<Rightarrow> (string \<times> 'v) list" where
  "range_entries m ks = List.map_filter (\<lambda>k. map_option (Pair k) (map_of m k)) ks"

section \<open>Histories\<close>

primrec ok_after :: "('e list \<Rightarrow> 'e \<Rightarrow> bool) \<Rightarrow> 'e list \<Rightarrow> 'e list \<Rightarrow> bool" where
  "ok_after P pre [] = True"
| "ok_after P pre (e # es) = (P pre e \<and> ok_after P (pre @ [e]) es)"

definition guarded :: "('e list \<Rightarrow> 'e \<Rightarrow> bool) \<Rightarrow> 'e list \<Rightarrow> bool" where
  "guarded P tr = ok_after P [] tr"

text \<open>A run went on from one history to another within its guard.\<close>

definition continues :: "('e list \<Rightarrow> 'e \<Rightarrow> bool) \<Rightarrow> 'e list \<Rightarrow> 'e list \<Rightarrow> bool" where
  "continues P tr tr' \<longleftrightarrow> guarded P tr' \<and> (\<exists>es. tr' = tr @ es)"

section \<open>Programs over histories\<close>

definition wp :: "('e list, 'a) state \<Rightarrow> ('a \<Rightarrow> 'e list \<Rightarrow> bool) \<Rightarrow> 'e list \<Rightarrow> bool" where
  "wp m Q tr = (case run_state m tr of (r, tr') \<Rightarrow> Q r tr')"

abbreviation ret :: "'a \<Rightarrow> ('s, 'a) state" where
  "ret \<equiv> State_Monad.return"

text \<open>
  Asking the outside world: the answer may depend on everything that happened so far, and the
  question is recorded together with its answer.
\<close>

definition call :: "('e list \<Rightarrow> 'r) \<Rightarrow> ('r \<Rightarrow> 'e) \<Rightarrow> ('e list, 'r) state" where
  "call answer log = State (\<lambda>tr. (answer tr, tr @ [log (answer tr)]))"

text \<open>Looking at the history (or at a clock) without recording anything.\<close>

definition peek :: "('e list \<Rightarrow> 'r) \<Rightarrow> ('e list, 'r) state" where
  "peek f = State (\<lambda>tr. (f tr, tr))"

section \<open>Lemmas on Go values\<close>

lemma gm_lookup_nil [simp]: "gm_lookup None k = None"
  by (simp add: gm_lookup_def gm_entries_def)

lemma gm_entries_Some [simp]: "gm_entries (Some al) = al"
  by (simp add: gm_entries_def)

lemma gm_entries_None [simp]: "gm_entries None = []"
  by (simp add: gm_entries_def)

lemma gm_lookup_Some [simp]: "gm_lookup (Some al) k = map_of al k"
  by (simp add: gm_lookup_def)

lemma gm_lookup_put [simp]: "gm_lookup (gm_put k v m) k' = (if k = k' then Some v else gm_lookup m k')"
  by (simp add: gm_put_def gm_lookup_def update_conv')

lemma gm_lookup_delete [simp]:
  "gm_lookup (gm_delete k m) k' = (if k = k' then None else gm_lookup m k')"
  by (cases m) (simp_all add: gm_delete_def delete_conv')

lemma gm_has_put [simp]: "gm_has (gm_put k v m) k' \<longleftrightarrow> k = k' \<or> gm_has m k'"
  by (simp add: gm_has_def)

lemma gm_has_delete [simp]: "gm_has (gm_delete k m) k' \<longleftrightarrow> k \<noteq> k' \<and> gm_has m k'"
  by (simp add: gm_has_def)

lemma gm_has_nil [simp]: "\<not> gm_has None k"
  by (simp add: gm_has_def)

lemma gm_lookup_map_of: "gm_lookup m = map_of (gm_entries m)"
  by (rule ext) (simp add: gm_lookup_def)

lemma dom_gm_lookup [simp]: "dom (gm_lookup m) = fst ` set (gm_entries m)"
  by (simp add: gm_lookup_map_of dom_map_of_conv_image_fst)

lemma ptr_Deref_simps [simp]: "ptr_Deref None d = d" "ptr_Deref (Some x) d = x"
  by (simp_all add: ptr_Deref_def)

lemma mset_range_order [simp]: "mset (range_order pick ks) = mset ks"
  by (simp add: range_order_def)

lemma set_range_order [simp]: "set (range_order pick ks) = set ks"
  using mset_range_order[of pick ks] by (metis set_mset_mset)

lemma distinct_range_order [simp]: "distinct (range_order pick ks) = distinct ks"
  using mset_range_order[of pick ks] by (metis mset_eq_imp_distinct_iff)

lemma length_range_order [simp]: "length (range_order pick ks) = length ks"
  using mset_range_order[of pick ks] by (metis size_mset)

lemma range_entries_simps [simp]:
  "range_entries m [] = []"
  "range_entries m (k # ks) =
     (case map_of m k of None \<Rightarrow> range_entries m ks | Some v \<Rightarrow> (k, v) # range_entries m ks)"
  by (simp_all add: range_entries_def List.map_filter_simps split: option.split)

lemma in_range_entries: "(k, v) \<in> set (range_entries m ks) \<longleftrightarrow> k \<in> set ks \<and> map_of m k = Some v"
  by (induction ks) (auto split: option.split)

lemma map_fst_range_entries:
  "set ks \<subseteq> fst ` set m \<Longrightarrow> map fst (range_entries m ks) = ks"
proof (induction ks)
  case Nil
  then show ?case by simp
next
  case (Cons k ks)
  then have "map_of m k \<noteq> None" by (simp add: map_of_eq_None_iff)
  then show ?case using Cons by auto
qed

lemma visited_keys: "mset ks = mset (map fst m) \<Longrightarrow> set ks = fst ` set m"
  by (metis set_mset_mset set_map)

lemma range_order_single [simp]: "range_order pick [k] = [k]"
  by (auto simp: range_order_def)

text \<open>Writing every entry of one map into another.\<close>

lemma map_of_fold_update:
  "distinct (map fst kvs) \<Longrightarrow>
    map_of (fold (\<lambda>(k, v). AList.update k v) kvs al) = map_of al ++ map_of kvs"
proof (induction kvs arbitrary: al)
  case Nil
  then show ?case by simp
next
  case (Cons kv kvs)
  obtain k v where kv: "kv = (k, v)" by (cases kv)
  with Cons.prems have k: "k \<notin> dom (map_of kvs)" by (auto simp: dom_map_of_conv_image_fst)
  have "map_of (fold (\<lambda>(k, v). AList.update k v) (kv # kvs) al) = (map_of al)(k \<mapsto> v) ++ map_of kvs"
    using Cons kv by (simp add: update_conv')
  also have "\<dots> = map_of al ++ map_of (kv # kvs)"
    using k kv by (simp add: map_add_upd_left)
  finally show ?case .
qed

lemma distinct_fold_update:
  "distinct (map fst al) \<Longrightarrow> distinct (map fst (fold (\<lambda>(k, v). AList.update k v) kvs al))"
  by (induction kvs arbitrary: al) (auto simp: distinct_update split: prod.split)

section \<open>Lemmas on histories\<close>

lemma ok_after_append:
  "ok_after P pre (xs @ ys) \<longleftrightarrow> ok_after P pre xs \<and> ok_after P (pre @ xs) ys"
  by (induction xs arbitrary: pre) auto

lemma guarded_Nil [simp]: "guarded P []"
  by (simp add: guarded_def)

lemma guarded_append [simp]: "guarded P (tr @ es) \<longleftrightarrow> guarded P tr \<and> ok_after P tr es"
  by (simp add: guarded_def ok_after_append)

lemma guarded_snoc: "guarded P (tr @ [e]) \<longleftrightarrow> guarded P tr \<and> P tr e"
  by simp

text \<open>What \<open>guarded\<close> means, without the recursion.\<close>

lemma guarded_iff: "guarded P tr \<longleftrightarrow> (\<forall>pre e post. tr = pre @ e # post \<longrightarrow> P pre e)"
proof (induction tr rule: rev_induct)
  case Nil
  then show ?case by simp
next
  case (snoc x xs)
  have split: "xs @ [x] = pre @ e # post \<longleftrightarrow>
      (pre = xs \<and> e = x \<and> post = []) \<or> (\<exists>post'. post = post' @ [x] \<and> xs = pre @ e # post')"
    for pre e post
    by (cases post rule: rev_cases) auto
  show ?case unfolding guarded_snoc snoc.IH split by blast
qed

lemma guardedD: "guarded P tr \<Longrightarrow> tr = pre @ e # post \<Longrightarrow> P pre e"
  by (simp add: guarded_iff)

lemma guarded_weaken: "guarded P tr \<Longrightarrow> (\<And>tr e. P tr e \<Longrightarrow> Q tr e) \<Longrightarrow> guarded Q tr"
  by (simp add: guarded_iff)

lemma continues_refl: "guarded P tr \<Longrightarrow> continues P tr tr"
  by (simp add: continues_def)

lemma continues_append: "continues P (tr @ es) tr' \<Longrightarrow> continues P tr tr'"
  by (auto simp: continues_def)

lemma continues_guarded: "continues P tr tr' \<Longrightarrow> guarded P tr'"
  by (simp add: continues_def)

lemma continues_trans: "continues P tr tr' \<Longrightarrow> continues P tr' tr'' \<Longrightarrow> continues P tr tr''"
  by (auto simp: continues_def)

lemma continuesE: "continues P tr tr' \<Longrightarrow> (\<And>es. tr' = tr @ es \<Longrightarrow> guarded P tr' \<Longrightarrow> R) \<Longrightarrow> R"
  by (auto simp: continues_def)

section \<open>Rules for programs\<close>

lemma run_state_call [simp]: "run_state (call answer log) tr = (answer tr, tr @ [log (answer tr)])"
  by (simp add: call_def)

lemma run_state_peek [simp]: "run_state (peek f) tr = (f tr, tr)"
  by (simp add: peek_def)

lemma wpD: "wp m Q tr \<Longrightarrow> run_state m tr = (r, tr') \<Longrightarrow> Q r tr'"
  by (simp add: wp_def)

lemma wp_snd: "wp m (\<lambda>_. Q) tr \<Longrightarrow> Q (snd (run_state m tr))"
  by (simp add: wp_def split: prod.splits)

lemma wp_run: "wp m Q tr \<Longrightarrow> Q (fst (run_state m tr)) (snd (run_state m tr))"
  by (simp add: wp_def split: prod.splits)

lemma wp_mono: "wp m Q tr \<Longrightarrow> (\<And>r tr'. Q r tr' \<Longrightarrow> Q' r tr') \<Longrightarrow> wp m Q' tr"
  by (auto simp: wp_def split: prod.splits)

lemma wp_conj: "wp m Q tr \<Longrightarrow> wp m Q' tr \<Longrightarrow> wp m (\<lambda>r tr'. Q r tr' \<and> Q' r tr') tr"
  by (auto simp: wp_def split: prod.splits)

text \<open>
  A case distinction on a value already in constructor form takes one branch. These rules are
  declared first, so that they are preferred to the general ones.
\<close>

lemma wp_case_constructor [wp_intro]:
  "wp (f a b) Q tr \<Longrightarrow> wp (case (a, b) of (x, y) \<Rightarrow> f x y) Q tr"
  "wp (h c) Q tr \<Longrightarrow> wp (case Some c of None \<Rightarrow> m | Some x \<Rightarrow> h x) Q tr"
  "wp m Q tr \<Longrightarrow> wp (case None of None \<Rightarrow> m | Some x \<Rightarrow> h x) Q tr"
  "wp (l d) Q tr \<Longrightarrow> wp (case Inl d of Inl x \<Rightarrow> l x | Inr y \<Rightarrow> r y) Q tr"
  "wp (r e) Q tr \<Longrightarrow> wp (case Inr e of Inl x \<Rightarrow> l x | Inr y \<Rightarrow> r y) Q tr"
  by simp_all

lemma wp_return [wp_intro]: "Q x tr \<Longrightarrow> wp (State_Monad.return x) Q tr"
  by (simp add: wp_def)

lemma wp_bind [wp_intro]: "wp m (\<lambda>x. wp (f x) Q) tr \<Longrightarrow> wp (State_Monad.bind m f) Q tr"
  by (auto simp: wp_def split: prod.splits)

text \<open>
  Sequencing through a specification of the first program, split by whether it reports an error:
  for programs that return an error next to a value, and for programs that return one of the two.
\<close>

lemma wp_bind_err:
  assumes "wp m P tr"
    and "\<And>e x tr'. P (Some e, x) tr' \<Longrightarrow> wp (f (Some e, x)) Q tr'"
    and "\<And>x tr'. P (None, x) tr' \<Longrightarrow> wp (f (None, x)) Q tr'"
  shows "wp (State_Monad.bind m f) Q tr"
proof (rule wp_bind, rule wp_mono[OF assms(1)])
  fix r tr' assume "P r tr'"
  with assms(2,3) show "wp (f r) Q tr'" by (cases r; cases "fst r") auto
qed

lemma wp_bind_sum:
  assumes "wp m P tr"
    and "\<And>e tr'. P (Inl e) tr' \<Longrightarrow> wp (f (Inl e)) Q tr'"
    and "\<And>x tr'. P (Inr x) tr' \<Longrightarrow> wp (f (Inr x)) Q tr'"
  shows "wp (State_Monad.bind m f) Q tr"
proof (rule wp_bind, rule wp_mono[OF assms(1)])
  fix r tr' assume "P r tr'"
  with assms(2,3) show "wp (f r) Q tr'" by (cases r) auto
qed

lemma wp_call: "(\<And>r. Q r (tr @ [log r])) \<Longrightarrow> wp (call answer log) Q tr"
  by (simp add: wp_def)

lemma wp_peek [wp_intro]: "(\<And>r. Q r tr) \<Longrightarrow> wp (peek f) Q tr"
  by (simp add: wp_def)

lemma wp_if [wp_intro]:
  "(b \<Longrightarrow> wp m Q tr) \<Longrightarrow> (\<not> b \<Longrightarrow> wp n Q tr) \<Longrightarrow> wp (if b then m else n) Q tr"
  by simp

lemma wp_case_sum [wp_intro]:
  "(\<And>a. x = Inl a \<Longrightarrow> wp (f a) Q tr) \<Longrightarrow> (\<And>b. x = Inr b \<Longrightarrow> wp (g b) Q tr) \<Longrightarrow>
    wp (case x of Inl a \<Rightarrow> f a | Inr b \<Rightarrow> g b) Q tr"
  by (cases x) simp_all

lemma wp_case_option [wp_intro]:
  "(x = None \<Longrightarrow> wp m Q tr) \<Longrightarrow> (\<And>a. x = Some a \<Longrightarrow> wp (f a) Q tr) \<Longrightarrow>
    wp (case x of None \<Rightarrow> m | Some a \<Rightarrow> f a) Q tr"
  by (cases x) simp_all

lemma wp_case_prod [wp_intro]:
  "(\<And>a b. x = (a, b) \<Longrightarrow> wp (f a b) Q tr) \<Longrightarrow> wp (case x of (a, b) \<Rightarrow> f a b) Q tr"
  by (cases x) simp

lemma wp_Let [wp_intro]: "wp (f x) Q tr \<Longrightarrow> wp (let y = x in f y) Q tr"
  by simp

section \<open>The contract of a primitive\<close>

locale effect_call =
  fixes oper :: "'x \<Rightarrow> ('e list, 'r) state"
    and answer :: "'e list \<Rightarrow> 'x \<Rightarrow> 'r"
    and log :: "'x \<Rightarrow> 'r \<Rightarrow> 'e"
  assumes run_oper: "run_state (oper x) tr = (answer tr x, tr @ [log x (answer tr x)])"
begin

lemma wp_oper: "(\<And>r. Q r (tr @ [log x r])) \<Longrightarrow> wp (oper x) Q tr"
  by (simp add: wp_def run_oper)

lemma one_event: "\<exists>e. snd (run_state (oper x) tr) = tr @ [e]"
  by (simp add: run_oper)

end

end
