(* ===== verification/Api_Types.thy ===== *)
theory Api_Types
  imports Cosi_Prelude
begin

text \<open>
  The Kubernetes API of COSI (\<^verbatim>\<open>src/client/apis/objectstorage/v1alpha2\<close>): one record per
  Go struct, with the fields in the order of the struct and a short prefix per struct, and the
  exported string constants. Go's string-based types (\<open>ObjectProtocol\<close>,
  \<open>BucketAccessMode\<close>, \<open>BucketDeletionPolicy\<close>, \<dots>) stay strings, because the API
  server, not the type, restricts their values. A pointer is an option. A time is a natural
  number whose 0 is Go's zero time.

  Of the Kubernetes types that COSI embeds (\<open>ObjectMeta\<close>, \<open>OwnerReference\<close>,
  \<open>Secret\<close>) the records hold the fields COSI reads or writes, with the helpers of
  controller-runtime that COSI calls on them.
\<close>

section \<open>Definitions shared by all resources\<close>

type_synonym time = nat
type_synonym UID = string
type_synonym ObjectProtocol = string
type_synonym BucketAccessMode = string
type_synonym BucketAccessAuthenticationType = string
type_synonym BucketDeletionPolicy = string
type_synonym MultiBucketAccess = string

definition ProtectionFinalizer :: string where
  "ProtectionFinalizer = ''objectstorage.k8s.io/protection''"

definition BucketClaimBeingDeletedAnnotation :: string where
  "BucketClaimBeingDeletedAnnotation = ''objectstorage.k8.io/bucketclaim-being-deleted''"

definition HasBucketAccessReferencesAnnotation :: string where
  "HasBucketAccessReferencesAnnotation = ''objectstorage.k8s.io/has-bucketaccess-references''"

definition SidecarCleanupFinishedAnnotation :: string where
  "SidecarCleanupFinishedAnnotation = ''objectstorage.k8s.io/sidecar-cleanup-finished''"

definition ControllerManagementOverrideAnnotation :: string where
  "ControllerManagementOverrideAnnotation = ''objectstorage.k8s.io/controller-management-override''"

definition RpcEndpointDefault :: string where
  "RpcEndpointDefault = ''unix:///var/lib/cosi/cosi.sock''"

definition ObjectProtocolS3 :: ObjectProtocol where
  "ObjectProtocolS3 = ''S3''"

definition ObjectProtocolAzure :: ObjectProtocol where
  "ObjectProtocolAzure = ''Azure''"

definition ObjectProtocolGcs :: ObjectProtocol where
  "ObjectProtocolGcs = ''GCS''"

definition BucketAccessModeReadWrite :: BucketAccessMode where
  "BucketAccessModeReadWrite = ''ReadWrite''"

definition BucketAccessModeReadOnly :: BucketAccessMode where
  "BucketAccessModeReadOnly = ''ReadOnly''"

definition BucketAccessModeWriteOnly :: BucketAccessMode where
  "BucketAccessModeWriteOnly = ''WriteOnly''"

definition BucketAccessAuthenticationTypeKey :: BucketAccessAuthenticationType where
  "BucketAccessAuthenticationTypeKey = ''Key''"

definition BucketAccessAuthenticationTypeServiceAccount :: BucketAccessAuthenticationType where
  "BucketAccessAuthenticationTypeServiceAccount = ''ServiceAccount''"

definition BucketDeletionPolicyRetain :: BucketDeletionPolicy where
  "BucketDeletionPolicyRetain = ''Retain''"

definition BucketDeletionPolicyDelete :: BucketDeletionPolicy where
  "BucketDeletionPolicyDelete = ''Delete''"

definition MultiBucketAccessMultipleBuckets :: MultiBucketAccess where
  "MultiBucketAccessMultipleBuckets = ''MultipleBuckets''"

record NamespacedName =
  nn_Namespace :: string
  nn_Name :: string

record TimestampedError =
  te_Time :: "time option"
  te_Message :: "string option"

text \<open>Result fields are nil for zero-value inputs.\<close>

definition NewTimestampedError :: "time \<Rightarrow> string \<Rightarrow> TimestampedError" where
  "NewTimestampedError t message =
     \<lparr>te_Time = (if t = 0 then None else Some t),
      te_Message = (if message = [] then None else Some message)\<rparr>"

section \<open>Object metadata\<close>

record OwnerReference =
  or_APIVersion :: string
  or_Kind :: string
  or_Name :: string
  or_UID :: UID
  or_Controller :: "bool option"
  or_BlockOwnerDeletion :: "bool option"

record ObjectMeta =
  om_Name :: string
  om_Namespace :: string
  om_UID :: UID
  om_ResourceVersion :: string
  om_Generation :: int
  om_DeletionTimestamp :: "time option"
  om_Annotations :: "string gomap"
  om_OwnerReferences :: "OwnerReference list"
  om_Finalizers :: "string list"

text \<open>\<open>(*metav1.Time).IsZero\<close>: a nil pointer and the zero time are both zero.\<close>

definition IsZero :: "time option \<Rightarrow> bool" where
  "IsZero t = (case t of None \<Rightarrow> True | Some n \<Rightarrow> n = 0)"

definition ContainsFinalizer :: "ObjectMeta \<Rightarrow> string \<Rightarrow> bool" where
  "ContainsFinalizer m f = (f \<in> set (om_Finalizers m))"

text \<open>\<open>controllerutil.AddFinalizer\<close>: whether the list changed, and the object.\<close>

definition AddFinalizer :: "ObjectMeta \<Rightarrow> string \<Rightarrow> bool \<times> ObjectMeta" where
  "AddFinalizer m f =
     (if f \<in> set (om_Finalizers m) then (False, m)
      else (True, m\<lparr>om_Finalizers := om_Finalizers m @ [f]\<rparr>))"

definition RemoveFinalizer :: "ObjectMeta \<Rightarrow> string \<Rightarrow> ObjectMeta" where
  "RemoveFinalizer m f = m\<lparr>om_Finalizers := filter (\<lambda>g. g \<noteq> f) (om_Finalizers m)\<rparr>"

fun GetControllerOfNoCopy :: "OwnerReference list \<Rightarrow> OwnerReference option" where
  "GetControllerOfNoCopy [] = None"
| "GetControllerOfNoCopy (r # rs) =
     (if or_Controller r = Some True then Some r else GetControllerOfNoCopy rs)"

definition IsControlledBy :: "ObjectMeta \<Rightarrow> ObjectMeta \<Rightarrow> bool" where
  "IsControlledBy obj owner =
     (case GetControllerOfNoCopy (om_OwnerReferences obj) of
        None \<Rightarrow> False
      | Some ref \<Rightarrow> or_UID ref = om_UID owner)"

section \<open>Bucket and BucketClass\<close>

record BucketClaimReference =
  cr_Name :: string
  cr_Namespace :: string
  cr_UID :: UID

record BucketSpec =
  bs_DriverName :: string
  bs_DeletionPolicy :: BucketDeletionPolicy
  bs_Parameters :: "string gomap"
  bs_Protocols :: "ObjectProtocol list"
  bs_BucketClaimRef :: BucketClaimReference
  bs_ExistingBucketID :: string

record BucketStatus =
  bst_ReadyToUse :: "bool option"
  bst_BucketID :: string
  bst_Protocols :: "ObjectProtocol list"
  bst_BucketInfo :: "string gomap"
  bst_Error :: "TimestampedError option"

record Bucket =
  b_Meta :: ObjectMeta
  b_Spec :: BucketSpec
  b_Status :: BucketStatus

record BucketClassSpec =
  bcs_DriverName :: string
  bcs_DeletionPolicy :: BucketDeletionPolicy
  bcs_Parameters :: "string gomap"

record BucketClass =
  bc_Meta :: ObjectMeta
  bc_Spec :: BucketClassSpec

section \<open>BucketClaim\<close>

record BucketClaimSpec =
  cs_BucketClassName :: string
  cs_Protocols :: "ObjectProtocol list"
  cs_ExistingBucketName :: string

record BucketClaimStatus =
  cst_BoundBucketName :: string
  cst_ReadyToUse :: "bool option"
  cst_Protocols :: "ObjectProtocol list"
  cst_Error :: "TimestampedError option"

record BucketClaim =
  c_Meta :: ObjectMeta
  c_Spec :: BucketClaimSpec
  c_Status :: BucketClaimStatus

section \<open>BucketAccess and BucketAccessClass\<close>

record BucketAccessModes =
  am_ObjectData :: BucketAccessMode
  am_ObjectMetadata :: BucketAccessMode
  am_BucketMetadata :: BucketAccessMode

record BucketClaimAccess =
  bca_BucketClaimName :: string
  bca_AccessModes :: BucketAccessModes
  bca_AccessSecretName :: string

record AccessedBucket =
  ab_BucketName :: string
  ab_BucketID :: string
  ab_BucketClaimName :: string

record BucketAccessSpec =
  as_BucketClaims :: "BucketClaimAccess list"
  as_BucketAccessClassName :: string
  as_Protocol :: ObjectProtocol
  as_ServiceAccountName :: string

record BucketAccessStatus =
  ast_ReadyToUse :: "bool option"
  ast_AccountID :: string
  ast_AccessedBuckets :: "AccessedBucket list"
  ast_DriverName :: string
  ast_AuthenticationType :: BucketAccessAuthenticationType
  ast_Parameters :: "string gomap"
  ast_Error :: "TimestampedError option"

record BucketAccess =
  a_Meta :: ObjectMeta
  a_Spec :: BucketAccessSpec
  a_Status :: BucketAccessStatus

record DisallowedBucketAccessModes =
  dm_ObjectData :: "BucketAccessMode list"
  dm_ObjectMetadata :: "BucketAccessMode list"
  dm_BucketMetadata :: "BucketAccessMode list"

record BucketAccessClassSpec =
  acs_DriverName :: string
  acs_AuthenticationType :: BucketAccessAuthenticationType
  acs_Parameters :: "string gomap"
  acs_DisallowedBucketAccessModes :: DisallowedBucketAccessModes
  acs_MultiBucketAccess :: MultiBucketAccess

record BucketAccessClass =
  ac_Meta :: ObjectMeta
  ac_Spec :: BucketAccessClassSpec

definition SupportsMultiBucketAccess :: "BucketAccessClassSpec \<Rightarrow> bool" where
  "SupportsMultiBucketAccess class =
     (if acs_MultiBucketAccess class = MultiBucketAccessMultipleBuckets then True else False)"

section \<open>Secret\<close>

definition SecretTypeOpaque :: string where
  "SecretTypeOpaque = ''Opaque''"

record Secret =
  sec_Meta :: ObjectMeta
  sec_Type :: string
  sec_StringData :: "string gomap"

section \<open>Zero values and field access used throughout\<close>

definition zero_meta :: ObjectMeta where
  "zero_meta =
     \<lparr>om_Name = [], om_Namespace = [], om_UID = [], om_ResourceVersion = [], om_Generation = 0,
      om_DeletionTimestamp = None, om_Annotations = None, om_OwnerReferences = [],
      om_Finalizers = []\<rparr>"

definition zero_BucketStatus :: BucketStatus where
  "zero_BucketStatus =
     \<lparr>bst_ReadyToUse = None, bst_BucketID = [], bst_Protocols = [], bst_BucketInfo = None,
      bst_Error = None\<rparr>"

definition zero_Secret :: Secret where
  "zero_Secret = \<lparr>sec_Meta = zero_meta, sec_Type = [], sec_StringData = None\<rparr>"

definition has_annotation :: "ObjectMeta \<Rightarrow> string \<Rightarrow> bool" where
  "has_annotation m k = gm_has (om_Annotations m) k"

definition add_annotation :: "string \<Rightarrow> ObjectMeta \<Rightarrow> ObjectMeta" where
  "add_annotation k m = m\<lparr>om_Annotations := gm_put k [] (om_Annotations m)\<rparr>"

section \<open>Lemmas\<close>

lemmas protocol_name_defs =
  ObjectProtocolS3_def ObjectProtocolAzure_def ObjectProtocolGcs_def

lemmas authentication_type_defs =
  BucketAccessAuthenticationTypeKey_def BucketAccessAuthenticationTypeServiceAccount_def

lemmas access_mode_defs =
  BucketAccessModeReadWrite_def BucketAccessModeReadOnly_def BucketAccessModeWriteOnly_def

lemma protocol_names_distinct [simp]:
  "ObjectProtocolS3 \<noteq> ObjectProtocolAzure" "ObjectProtocolAzure \<noteq> ObjectProtocolS3"
  "ObjectProtocolS3 \<noteq> ObjectProtocolGcs" "ObjectProtocolGcs \<noteq> ObjectProtocolS3"
  "ObjectProtocolAzure \<noteq> ObjectProtocolGcs" "ObjectProtocolGcs \<noteq> ObjectProtocolAzure"
  by (simp_all add: protocol_name_defs)

lemma deletion_policies_distinct [simp]:
  "BucketDeletionPolicyRetain \<noteq> BucketDeletionPolicyDelete"
  "BucketDeletionPolicyDelete \<noteq> BucketDeletionPolicyRetain"
  by (simp_all add: BucketDeletionPolicyRetain_def BucketDeletionPolicyDelete_def)

lemma authentication_types_distinct [simp]:
  "BucketAccessAuthenticationTypeKey \<noteq> BucketAccessAuthenticationTypeServiceAccount"
  "BucketAccessAuthenticationTypeServiceAccount \<noteq> BucketAccessAuthenticationTypeKey"
  by (simp_all add: authentication_type_defs)

lemma annotation_names_distinct [simp]:
  "SidecarCleanupFinishedAnnotation \<noteq> ControllerManagementOverrideAnnotation"
  "ControllerManagementOverrideAnnotation \<noteq> SidecarCleanupFinishedAnnotation"
  "HasBucketAccessReferencesAnnotation \<noteq> BucketClaimBeingDeletedAnnotation"
  "BucketClaimBeingDeletedAnnotation \<noteq> HasBucketAccessReferencesAnnotation"
  by (simp_all add: SidecarCleanupFinishedAnnotation_def ControllerManagementOverrideAnnotation_def
      HasBucketAccessReferencesAnnotation_def BucketClaimBeingDeletedAnnotation_def)

lemma IsZero_simps [simp]: "IsZero None" "IsZero (Some n) \<longleftrightarrow> n = 0"
  by (simp_all add: IsZero_def)

lemma ContainsFinalizer_AddFinalizer [simp]: "ContainsFinalizer (snd (AddFinalizer m f)) f"
  by (simp add: AddFinalizer_def ContainsFinalizer_def)

lemma AddFinalizer_unchanged: "AddFinalizer m f = (False, m') \<Longrightarrow> m' = m \<and> ContainsFinalizer m f"
  by (auto simp: AddFinalizer_def ContainsFinalizer_def split: if_splits)

lemma AddFinalizer_changed:
  "AddFinalizer m f = (True, m') \<Longrightarrow> ContainsFinalizer m' f \<and> \<not> ContainsFinalizer m f"
  by (auto simp: AddFinalizer_def ContainsFinalizer_def split: if_splits)

lemma AddFinalizer_present: "ContainsFinalizer m f \<Longrightarrow> AddFinalizer m f = (False, m)"
  by (simp add: AddFinalizer_def ContainsFinalizer_def)

lemma AddFinalizer_frame:
  assumes "AddFinalizer m f = (b, m')"
  shows "om_Name m' = om_Name m" "om_Namespace m' = om_Namespace m" "om_UID m' = om_UID m"
    "om_Annotations m' = om_Annotations m" "om_DeletionTimestamp m' = om_DeletionTimestamp m"
    "ContainsFinalizer m' f"
  using assms by (auto simp: AddFinalizer_def ContainsFinalizer_def split: if_splits)

lemma ContainsFinalizer_RemoveFinalizer [simp]: "\<not> ContainsFinalizer (RemoveFinalizer m f) f"
  by (simp add: RemoveFinalizer_def ContainsFinalizer_def)

lemma has_annotation_add [simp]:
  "has_annotation (add_annotation k m) k' \<longleftrightarrow> k = k' \<or> has_annotation m k'"
  by (simp add: has_annotation_def add_annotation_def)

lemma add_annotation_frame [simp]:
  "om_Name (add_annotation k m) = om_Name m"
  "om_Namespace (add_annotation k m) = om_Namespace m"
  "om_UID (add_annotation k m) = om_UID m"
  "om_Finalizers (add_annotation k m) = om_Finalizers m"
  "om_DeletionTimestamp (add_annotation k m) = om_DeletionTimestamp m"
  by (simp_all add: add_annotation_def)

end
