(* ===== verification/Errors.thy ===== *)
theory Errors
  imports Api_Types
begin

text \<open>
  Go error values as COSI builds and inspects them: \<open>fmt.Errorf\<close> with and without
  \<open>%w\<close>, \<open>errors.Join\<close>, the API server's and gRPC's errors, and
  \<open>cosierr.NonRetryableError\<close> (\<^verbatim>\<open>src/internal/errors/errors.go\<close>).

  A message is kept as its format (one constructor per format string of the code) with its
  arguments; how package fmt renders it is a parameter of the model (\<open>e_ErrorText\<close> of the
  environment), so every theorem holds for every rendering.
\<close>

section \<open>Messages\<close>

datatype (plugins only: code size) claim_msg =
    DeterminedNameEmpty | BoundNameMismatch | BoundBucketGone | DynamicBucketMalformed | BindFailed
  | NoBucketID | NoProtocols | ClaimStatusBeforeDeletionFailed | DynamicBucketNotReferencing
  | DeleteBucketFailed | UnknownDeletionPolicy | AnnotateBucketFailed | EmptyBucketClassName
  | ClaimRefNamespaceMismatch | ClaimRefNameMismatch | ClaimRefUIDMismatch
  | UnboundBucketMismatch | BoundBucketMismatch | SetUIDFailed

datatype (plugins only: code size) access_msg =
    ControllerError | DegradedAccess | ManagedBySidecarError | ClaimsReferencedTwice
  | GetClaimsFailed | MarkClaimsFailed | UnmarkClaimsFailed | ServiceAccountNameRequired
  | MultiBucketDisallowed | FeaturesDisallowed | NoAccessModeRequested | ObjectDataDisallowed
  | ObjectMetadataDisallowed | BucketMetadataDisallowed | BucketGoneMissing | GetBucketsFailed
  | BucketsMissingNoErrors | AccessBlocked | WaitingForPrerequisites | WaitingForClaims
  | MissingBucketForClaim | MissingBucketIDs | PartiallyInitialized
  | StuckDeletingClaim | ProtocolUnsupportedByClaim | WaitClaimExists | WaitClaimBound
  | WaitInternalMissingBucket | WaitBucketExists | WaitBucketProvisioned | WaitClaimProvisioned

datatype (plugins only: code size) bucket_msg =
    TooLong | PatternMismatch | InvalidBucketID | BucketStatusBeforeDeletionFailed
  | InternalNoBucketID | CreatedNoProtocols | RequiredProtocolsMissing | StatusAfterCreationFailed
  | NonDeletePolicy | BoundToNonDeletingClaim | ReadyWithoutBucketID | RecordBucketIDFailed
  | GeneratedIDMissing | DynamicClaimRefUnset | CreatedProtocolsResponseMissing
  | StaticClaimRefUnset | WaitingForBackendBucket | ExistingProtocolsResponseMissing
  | ParseProtocolsFailed | DriverProtocolsUnsupported | RequiredProtocolsUnsupported
  | UnsupportedProtocolName

datatype (plugins only: code size) grant_msg =
    SidecarError | ManagedByControllerError | GrantConfigFailed | MultiBucketUnsupported
  | StatusAfterGrantFailed | AccessStatusBeforeDeletionFailed | UpdateAfterRevokeFailed
  | RevokeConfigFailed | ClaimNotMapped | NoAccessModesSet | AccessModeParseFailed
  | AccessConfigFailed | NoAccountID | AccessedBucketMissingID | MissingAccountID
  | InvalidCredentials | MissingBucketIDAtIndex | InvalidBucketInfoAtIndex | GrantResponseInvalid
  | GrantMissingForBucket | GrantForUnknownBucket | GrantInvalid | UnknownBucketID
  | SecretLookupFailed | UpdateSecretFailed | UpdateSecretsFailed | GetAccessedBucketsFailed
  | BucketClaimDeleting | BucketDeleting | BucketHasNoID | BucketIDMismatch | BucketDriverMismatch
  | BucketsNotReady | SecretNameReused | ReserveSecretsFailed | SecretsNotReserved
  | SecretNotOwned | RemoveSecretFinalizerFailed | DeleteSecretsFailed

datatype (plugins only: code size) translator_msg =
    UnknownDriverProtocol | UnknownApiProtocol | BucketInfoNil | TranslateBucketInfoFailed
  | BucketInfosFailed | CredentialInfoNil | TranslateCredentialsFailed | CredentialsFailed
  | UnexpectedProtocol | MissingExpectedProtocol | UnknownAuthenticationType | UnknownAccessMode
  | FieldUnset | BadAddressingStyle | BucketInfoInvalid | CredentialInfoInvalid

datatype (plugins only: code size) driver_msg =
    DriverNameInvalid | NameTooLong | BadLabel | ProtocolsListInvalid | NoObjectProtocol
  | ObjectProtocolUnknown | ObjectProtocolTwice | EndpointNotUnix | EndpointNotSock | ConnectFailed
  | ClientNotIdle | ConnectTimeout | NewClientFailed | GetInfoFailed | DriverInfoInvalid

datatype (plugins only: code size) owner_msg = NamespacedOwner | CrossNamespaceOwner | AlreadyOwned

datatype msg =
    AddFinalizerFailed | RemoveFinalizerFailed | OwnerMsg owner_msg
  | ClaimMsg claim_msg | AccessMsg access_msg | BucketMsg bucket_msg | GrantMsg grant_msg
  | TranslatorMsg translator_msg | DriverMsg driver_msg

text \<open>A format with its string arguments and its list-valued (\<open>%v\<close>) arguments.\<close>

datatype ftext = Text msg "string list" "ftext list"

text \<open>The verb \<open>%d\<close> for a number that is not negative.\<close>

fun decimal :: "nat \<Rightarrow> string" where
  "decimal n = (if n < 10 then [char_of (48 + n)] else decimal (n div 10) @ [char_of (48 + n mod 10)])"

declare decimal.simps [simp del]

section \<open>Error values\<close>

datatype api_error = ApiNotFound string | ApiAlreadyExists string | ApiConflict string | ApiOther string

fun IsNotFound :: "api_error \<Rightarrow> bool" where
  "IsNotFound (ApiNotFound _) = True"
| "IsNotFound _ = False"

fun IsAlreadyExists :: "api_error \<Rightarrow> bool" where
  "IsAlreadyExists (ApiAlreadyExists _) = True"
| "IsAlreadyExists _ = False"

text \<open>The gRPC status codes (\<^verbatim>\<open>google.golang.org/grpc/codes\<close>); the type is an open integer.\<close>

datatype code =
    OK | Canceled | Unknown | InvalidArgument | DeadlineExceeded | NotFound | AlreadyExists
  | PermissionDenied | ResourceExhausted | FailedPrecondition | Aborted | OutOfRange
  | Unimplemented | Internal | Unavailable | DataLoss | Unauthenticated | UnlistedCode nat

type_synonym rpc_error = "code \<times> string"

datatype error =
    Errorf ftext
  | Wrapf ftext error
  | Joined "error list"
  | NonRetryableError error
  | ApiError api_error
  | RpcError rpc_error

abbreviation errf :: "msg \<Rightarrow> string list \<Rightarrow> error" where
  "errf m args \<equiv> Errorf (Text m args [])"

abbreviation wrapf :: "msg \<Rightarrow> string list \<Rightarrow> error \<Rightarrow> error" where
  "wrapf m args e \<equiv> Wrapf (Text m args []) e"

text \<open>\<open>errors.Join\<close>: nil arguments are dropped, and no error is left if all are nil.\<close>

definition errors_Join :: "error option list \<Rightarrow> error option" where
  "errors_Join es =
     (let errs = List.map_filter id es in if errs = [] then None else Some (Joined errs))"

text \<open>
  \<open>errors.Is(err, cosierr.NonRetryableError(nil))\<close>: package errors walks the tree of
  wrapped and joined errors and asks each \<open>nonRetryableError\<close> whether it matches.
\<close>

fun IsNonRetryable :: "error \<Rightarrow> bool" where
  "IsNonRetryable (Errorf _) = False"
| "IsNonRetryable (Wrapf _ e) = IsNonRetryable e"
| "IsNonRetryable (Joined es) = (\<exists>e \<in> set es. IsNonRetryable e)"
| "IsNonRetryable (NonRetryableError _) = True"
| "IsNonRetryable (ApiError _) = False"
| "IsNonRetryable (RpcError _) = False"

text \<open>What a reconcile returns to controller-runtime.\<close>

datatype reconcile_result =
    Done \<comment> \<open>\<open>Result{}, nil\<close>\<close>
  | Retry error \<comment> \<open>\<open>Result{}, err\<close>: requeued with backoff\<close>
  | Terminal error \<comment> \<open>\<open>Result{}, reconcile.TerminalError(err)\<close>: not requeued\<close>

text \<open>The tail \<open>if errors.Is(err, NonRetryableError(nil)) { ... }\<close> shared by all reconcilers.\<close>

definition classify :: "error \<Rightarrow> reconcile_result" where
  "classify err = (if IsNonRetryable err then Terminal err else Retry err)"

text \<open>
  The idiom \<open>if len(errs) > 0 { return fmt.Errorf("...: %w", errors.Join(errs...)) }\<close>.
\<close>

definition join_errs :: "ftext \<Rightarrow> error list \<Rightarrow> error option" where
  "join_errs t errs = (if length errs > 0 then Some (Wrapf t (Joined errs)) else None)"

section \<open>Lemmas\<close>

lemma IsNotFound_iff: "IsNotFound e \<longleftrightarrow> (\<exists>s. e = ApiNotFound s)"
  by (cases e) auto

lemma errors_Join_None [simp]: "errors_Join es = None \<longleftrightarrow> (\<forall>e \<in> set es. e = None)"
  by (induction es) (auto simp: errors_Join_def List.map_filter_simps Let_def split: option.splits)

lemma join_errs_None [simp]: "join_errs t errs = None \<longleftrightarrow> errs = []"
  by (simp add: join_errs_def)

lemma join_errs_Some [simp]: "join_errs t errs = Some e \<longleftrightarrow> errs \<noteq> [] \<and> e = Wrapf t (Joined errs)"
  by (auto simp: join_errs_def)

lemma join_errs_NonRetryable:
  "join_errs t errs = Some e \<Longrightarrow> IsNonRetryable e \<longleftrightarrow> (\<exists>x \<in> set errs. IsNonRetryable x)"
  by auto

lemma classify_Terminal [simp]: "classify e = Terminal e' \<longleftrightarrow> e' = e \<and> IsNonRetryable e"
  by (auto simp: classify_def)

lemma classify_Retry [simp]: "classify e = Retry e' \<longleftrightarrow> e' = e \<and> \<not> IsNonRetryable e"
  by (auto simp: classify_def)

lemma classify_not_Done [simp]: "classify e \<noteq> Done"
  by (simp add: classify_def)

end
