(* ===== verification/Protocol.thy ===== *)
theory Protocol
  imports Errors
begin

text \<open>
  Object protocols (\<^verbatim>\<open>src/internal/protocol\<close>) and the driver-side messages they translate
  (\<^verbatim>\<open>src/proto/cosi.pb.go\<close>). A protobuf enum is an open integer type, so each enum has a
  constructor for the numbers the schema does not list. A message pointer is an option.

  The Go interface \<open>RpcApiTranslator\<close> is the locale \<open>rpc_api_translator\<close>: its
  assumptions are the contract stated in the interface's comments, and the six translators of
  the package are its interpretations.
\<close>

section \<open>Driver-side messages\<close>

datatype ObjectProtocol_Type =
    ObjectProtocol_UNKNOWN | ObjectProtocol_S3 | ObjectProtocol_AZURE | ObjectProtocol_GCS
  | ObjectProtocol_Unlisted int

datatype S3AddressingStyle_Style =
    S3AddressingStyle_UNKNOWN | S3AddressingStyle_PATH | S3AddressingStyle_VIRTUAL
  | S3AddressingStyle_Unlisted int

datatype AuthenticationType_Type =
    AuthenticationType_UNKNOWN | AuthenticationType_KEY | AuthenticationType_SERVICE_ACCOUNT
  | AuthenticationType_Unlisted int

datatype AccessMode_Mode =
    AccessMode_UNKNOWN | AccessMode_ANY | AccessMode_READ_WRITE | AccessMode_READ_ONLY
  | AccessMode_WRITE_ONLY | AccessMode_Unlisted int

record S3BucketInfo =
  s3b_BucketId :: string
  s3b_Endpoint :: string
  s3b_Region :: string
  s3b_AddressingStyle :: "S3AddressingStyle_Style option"

record S3CredentialInfo =
  s3c_AccessKeyId :: string
  s3c_AccessSecretKey :: string

record AzureBucketInfo =
  azb_StorageAccount :: string

record AzureCredentialInfo =
  azc_AccessToken :: string
  azc_ExpiryTimestamp :: string

record GcsBucketInfo =
  gcb_ProjectId :: string
  gcb_BucketName :: string

record GcsCredentialInfo =
  gcc_AccessId :: string
  gcc_AccessSecret :: string
  gcc_PrivateKeyName :: string
  gcc_ServiceAccount :: string

record ObjectProtocolAndBucketInfo =
  bi_S3 :: "S3BucketInfo option"
  bi_Azure :: "AzureBucketInfo option"
  bi_Gcs :: "GcsBucketInfo option"

record CredentialInfo =
  ci_S3 :: "S3CredentialInfo option"
  ci_Azure :: "AzureCredentialInfo option"
  ci_Gcs :: "GcsCredentialInfo option"

section \<open>Environment variable names\<close>

definition BucketInfoVar_S3_BucketId :: string where
  "BucketInfoVar_S3_BucketId = ''COSI_S3_BUCKET_ID''"
definition BucketInfoVar_S3_Endpoint :: string where
  "BucketInfoVar_S3_Endpoint = ''COSI_S3_ENDPOINT''"
definition BucketInfoVar_S3_Region :: string where
  "BucketInfoVar_S3_Region = ''COSI_S3_REGION''"
definition BucketInfoVar_S3_AddressingStyle :: string where
  "BucketInfoVar_S3_AddressingStyle = ''COSI_S3_ADDRESSING_STYLE''"
definition CredentialVar_S3_AccessKeyId :: string where
  "CredentialVar_S3_AccessKeyId = ''COSI_S3_ACCESS_KEY_ID''"
definition CredentialVar_S3_AccessSecretKey :: string where
  "CredentialVar_S3_AccessSecretKey = ''COSI_S3_ACCESS_SECRET_KEY''"
definition BucketInfoVar_Azure_StorageAccount :: string where
  "BucketInfoVar_Azure_StorageAccount = ''COSI_AZURE_STORAGE_ACCOUNT''"
definition CredentialVar_Azure_AccessToken :: string where
  "CredentialVar_Azure_AccessToken = ''COSI_AZURE_ACCESS_TOKEN''"
definition CredentialVar_Azure_ExpiryTimestamp :: string where
  "CredentialVar_Azure_ExpiryTimestamp = ''COSI_AZURE_EXPIRY_TIMESTAMP''"
definition BucketInfoVar_GCS_ProjectId :: string where
  "BucketInfoVar_GCS_ProjectId = ''COSI_GCS_PROJECT_ID''"
definition BucketInfoVar_GCS_BucketName :: string where
  "BucketInfoVar_GCS_BucketName = ''COSI_GCS_BUCKET_NAME''"
definition CredentialVar_GCS_AccessId :: string where
  "CredentialVar_GCS_AccessId = ''COSI_GCS_ACCESS_ID''"
definition CredentialVar_GCS_AccessSecret :: string where
  "CredentialVar_GCS_AccessSecret = ''COSI_GCS_ACCESS_SECRET''"
definition CredentialVar_GCS_PrivateKeyName :: string where
  "CredentialVar_GCS_PrivateKeyName = ''COSI_GCS_PRIVATE_KEY_NAME''"
definition CredentialVar_GCS_ServiceAccount :: string where
  "CredentialVar_GCS_ServiceAccount = ''COSI_GCS_SERVICE_ACCOUNT''"

section \<open>Object protocol names\<close>

definition objectProtocolProtoApiMapping :: "(ObjectProtocol_Type \<times> ObjectProtocol) list" where
  "objectProtocolProtoApiMapping =
     [(ObjectProtocol_S3, ObjectProtocolS3),
      (ObjectProtocol_AZURE, ObjectProtocolAzure),
      (ObjectProtocol_GCS, ObjectProtocolGcs)]"

text \<open>The driver protocol is named by its number in the error text; the number is not modelled.\<close>

definition ObjectProtocol_RpcToApi :: "ObjectProtocol_Type \<Rightarrow> error + ObjectProtocol" where
  "ObjectProtocol_RpcToApi inp =
     (case map_of objectProtocolProtoApiMapping inp of
        None \<Rightarrow> Inl (errf (TranslatorMsg UnknownDriverProtocol) [])
      | Some a \<Rightarrow> Inr a)"

text \<open>
  The loop over the mapping, whatever order the runtime visits it in; the first entry with the
  wanted API name is returned.
\<close>

fun find_rpc :: "(ObjectProtocol_Type \<times> ObjectProtocol) list \<Rightarrow> ObjectProtocol \<Rightarrow> ObjectProtocol_Type option" where
  "find_rpc [] inp = None"
| "find_rpc ((p, a) # rest) inp = (if a = inp then Some p else find_rpc rest inp)"

definition ObjectProtocol_ApiToRpc :: "ObjectProtocol \<Rightarrow> error + ObjectProtocol_Type" where
  "ObjectProtocol_ApiToRpc inp =
     (case find_rpc objectProtocolProtoApiMapping inp of
        Some p \<Rightarrow> Inr p
      | None \<Rightarrow> Inl (errf (TranslatorMsg UnknownApiProtocol) [inp]))"

section \<open>S3\<close>

definition s3AddressingStylePath :: string where "s3AddressingStylePath = ''path''"
definition s3AddressingStyleVirtual :: string where "s3AddressingStyleVirtual = ''virtual''"

definition validS3AddressingStyles :: "string list" where
  "validS3AddressingStyles = [s3AddressingStylePath, s3AddressingStyleVirtual]"

text \<open>\<open>if vars[v] == "" { errs = append(errs, ...) }\<close>, the check all \<open>Validate\<close>s are made of.\<close>

definition unset_err :: "string gomap \<Rightarrow> string \<Rightarrow> error list" where
  "unset_err vars v =
     (if gm_get vars v = [] then [errf (TranslatorMsg FieldUnset) [v]] else [])"

definition S3BucketInfo_RpcToApi :: "S3BucketInfo option \<Rightarrow> string gomap" where
  "S3BucketInfo_RpcToApi b =
     (case b of
        None \<Rightarrow> None
      | Some b \<Rightarrow> Some
          [(BucketInfoVar_S3_BucketId, s3b_BucketId b),
           (BucketInfoVar_S3_Endpoint, s3b_Endpoint b),
           (BucketInfoVar_S3_Region, s3b_Region b),
           (BucketInfoVar_S3_AddressingStyle,
              (case s3b_AddressingStyle b of
                 Some S3AddressingStyle_PATH \<Rightarrow> s3AddressingStylePath
               | Some S3AddressingStyle_VIRTUAL \<Rightarrow> s3AddressingStyleVirtual
               | _ \<Rightarrow> []))])"

definition S3BucketInfo_ApiToRpc :: "string gomap \<Rightarrow> S3BucketInfo option" where
  "S3BucketInfo_ApiToRpc vars =
     (if gm_len vars = 0 then None
      else Some
        \<lparr>s3b_BucketId = gm_get vars BucketInfoVar_S3_BucketId,
         s3b_Endpoint = gm_get vars BucketInfoVar_S3_Endpoint,
         s3b_Region = gm_get vars BucketInfoVar_S3_Region,
         s3b_AddressingStyle =
           (let addrStyle = gm_get vars BucketInfoVar_S3_AddressingStyle in
            if addrStyle = s3AddressingStylePath then Some S3AddressingStyle_PATH
            else if addrStyle = s3AddressingStyleVirtual then Some S3AddressingStyle_VIRTUAL
            else Some S3AddressingStyle_UNKNOWN)\<rparr>)"

definition S3BucketInfo_Validate ::
  "string gomap \<Rightarrow> BucketAccessAuthenticationType \<Rightarrow> error option" where
  "S3BucketInfo_Validate vars authType =
     (let as = gm_get vars BucketInfoVar_S3_AddressingStyle;
          errs = unset_err vars BucketInfoVar_S3_BucketId @
                 unset_err vars BucketInfoVar_S3_Endpoint @
                 unset_err vars BucketInfoVar_S3_Region @
                 (if as \<notin> set validS3AddressingStyles
                  then [errf (TranslatorMsg BadAddressingStyle) [as]] else [])
      in join_errs (Text (TranslatorMsg BucketInfoInvalid) [ObjectProtocolS3] []) errs)"

definition S3Credential_RpcToApi :: "S3CredentialInfo option \<Rightarrow> string gomap" where
  "S3Credential_RpcToApi c =
     (case c of
        None \<Rightarrow> None
      | Some c \<Rightarrow> Some
          [(CredentialVar_S3_AccessKeyId, s3c_AccessKeyId c),
           (CredentialVar_S3_AccessSecretKey, s3c_AccessSecretKey c)])"

definition S3Credential_ApiToRpc :: "string gomap \<Rightarrow> S3CredentialInfo option" where
  "S3Credential_ApiToRpc vars =
     (if gm_len vars = 0 then None
      else Some
        \<lparr>s3c_AccessKeyId = gm_get vars CredentialVar_S3_AccessKeyId,
         s3c_AccessSecretKey = gm_get vars CredentialVar_S3_AccessSecretKey\<rparr>)"

definition S3Credential_Validate ::
  "string gomap \<Rightarrow> BucketAccessAuthenticationType \<Rightarrow> error option" where
  "S3Credential_Validate vars authType =
     (if authType \<noteq> BucketAccessAuthenticationTypeKey then None
      else join_errs (Text (TranslatorMsg CredentialInfoInvalid) [ObjectProtocolS3] [])
             (unset_err vars CredentialVar_S3_AccessKeyId @
              unset_err vars CredentialVar_S3_AccessSecretKey))"

section \<open>Azure\<close>

definition AzureBucketInfo_RpcToApi :: "AzureBucketInfo option \<Rightarrow> string gomap" where
  "AzureBucketInfo_RpcToApi b =
     (case b of
        None \<Rightarrow> None
      | Some b \<Rightarrow> Some [(BucketInfoVar_Azure_StorageAccount, azb_StorageAccount b)])"

definition AzureBucketInfo_ApiToRpc :: "string gomap \<Rightarrow> AzureBucketInfo option" where
  "AzureBucketInfo_ApiToRpc vars =
     (if gm_len vars = 0 then None
      else Some \<lparr>azb_StorageAccount = gm_get vars BucketInfoVar_Azure_StorageAccount\<rparr>)"

definition AzureBucketInfo_Validate ::
  "string gomap \<Rightarrow> BucketAccessAuthenticationType \<Rightarrow> error option" where
  "AzureBucketInfo_Validate vars authType =
     join_errs (Text (TranslatorMsg BucketInfoInvalid) [ObjectProtocolAzure] [])
       (unset_err vars BucketInfoVar_Azure_StorageAccount)"

definition AzureCredential_RpcToApi :: "AzureCredentialInfo option \<Rightarrow> string gomap" where
  "AzureCredential_RpcToApi c =
     (case c of
        None \<Rightarrow> None
      | Some c \<Rightarrow> Some
          [(CredentialVar_Azure_AccessToken, azc_AccessToken c),
           (CredentialVar_Azure_ExpiryTimestamp, azc_ExpiryTimestamp c)])"

definition AzureCredential_ApiToRpc :: "string gomap \<Rightarrow> AzureCredentialInfo option" where
  "AzureCredential_ApiToRpc vars =
     (if gm_len vars = 0 then None
      else Some
        \<lparr>azc_AccessToken = gm_get vars CredentialVar_Azure_AccessToken,
         azc_ExpiryTimestamp = gm_get vars CredentialVar_Azure_ExpiryTimestamp\<rparr>)"

definition AzureCredential_Validate ::
  "string gomap \<Rightarrow> BucketAccessAuthenticationType \<Rightarrow> error option" where
  "AzureCredential_Validate vars authType =
     (if authType \<noteq> BucketAccessAuthenticationTypeKey then None
      else join_errs (Text (TranslatorMsg CredentialInfoInvalid) [ObjectProtocolAzure] [])
             (unset_err vars CredentialVar_Azure_AccessToken))"

section \<open>GCS\<close>

definition GcsBucketInfo_RpcToApi :: "GcsBucketInfo option \<Rightarrow> string gomap" where
  "GcsBucketInfo_RpcToApi b =
     (case b of
        None \<Rightarrow> None
      | Some b \<Rightarrow> Some
          [(BucketInfoVar_GCS_BucketName, gcb_BucketName b),
           (BucketInfoVar_GCS_ProjectId, gcb_ProjectId b)])"

definition GcsBucketInfo_ApiToRpc :: "string gomap \<Rightarrow> GcsBucketInfo option" where
  "GcsBucketInfo_ApiToRpc vars =
     (if gm_len vars = 0 then None
      else Some
        \<lparr>gcb_ProjectId = gm_get vars BucketInfoVar_GCS_ProjectId,
         gcb_BucketName = gm_get vars BucketInfoVar_GCS_BucketName\<rparr>)"

definition GcsBucketInfo_Validate ::
  "string gomap \<Rightarrow> BucketAccessAuthenticationType \<Rightarrow> error option" where
  "GcsBucketInfo_Validate vars authType =
     join_errs (Text (TranslatorMsg BucketInfoInvalid) [ObjectProtocolGcs] [])
       (unset_err vars BucketInfoVar_GCS_BucketName @ unset_err vars BucketInfoVar_GCS_ProjectId)"

definition GcsCredential_RpcToApi :: "GcsCredentialInfo option \<Rightarrow> string gomap" where
  "GcsCredential_RpcToApi c =
     (case c of
        None \<Rightarrow> None
      | Some c \<Rightarrow> Some
          [(CredentialVar_GCS_AccessId, gcc_AccessId c),
           (CredentialVar_GCS_AccessSecret, gcc_AccessSecret c),
           (CredentialVar_GCS_PrivateKeyName, gcc_PrivateKeyName c),
           (CredentialVar_GCS_ServiceAccount, gcc_ServiceAccount c)])"

definition GcsCredential_ApiToRpc :: "string gomap \<Rightarrow> GcsCredentialInfo option" where
  "GcsCredential_ApiToRpc vars =
     (if gm_len vars = 0 then None
      else Some
        \<lparr>gcc_AccessId = gm_get vars CredentialVar_GCS_AccessId,
         gcc_AccessSecret = gm_get vars CredentialVar_GCS_AccessSecret,
         gcc_PrivateKeyName = gm_get vars CredentialVar_GCS_PrivateKeyName,
         gcc_ServiceAccount = gm_get vars CredentialVar_GCS_ServiceAccount\<rparr>)"

definition GcsCredential_Validate ::
  "string gomap \<Rightarrow> BucketAccessAuthenticationType \<Rightarrow> error option" where
  "GcsCredential_Validate vars authType =
     join_errs (Text (TranslatorMsg CredentialInfoInvalid) [ObjectProtocolGcs] [])
       (if authType = BucketAccessAuthenticationTypeKey then
          unset_err vars CredentialVar_GCS_AccessId @ unset_err vars CredentialVar_GCS_AccessSecret
        else if authType = BucketAccessAuthenticationTypeServiceAccount then
          unset_err vars CredentialVar_GCS_PrivateKeyName @
          unset_err vars CredentialVar_GCS_ServiceAccount
        else [])"

section \<open>The translator contract\<close>

text \<open>
  \<open>canonical\<close> picks the messages that only use values the API side can express, and
  \<open>vars\<close> lists the API names of the protocol.
\<close>

locale rpc_api_translator =
  fixes ApiProtocol :: ObjectProtocol
    and RpcToApi :: "'r option \<Rightarrow> string gomap"
    and ApiToRpc :: "string gomap \<Rightarrow> 'r option"
    and Validate :: "string gomap \<Rightarrow> BucketAccessAuthenticationType \<Rightarrow> error option"
    and canonical :: "'r \<Rightarrow> bool"
    and vars :: "string list"
  assumes nil_to_nil: "RpcToApi None = None"
    and all_fields: "\<exists>al. RpcToApi (Some x) = Some al \<and> map fst al = vars"
    and empty_to_nil: "gm_len m = 0 \<Longrightarrow> ApiToRpc m = None"
    and nonempty: "gm_len m \<noteq> 0 \<Longrightarrow> ApiToRpc m \<noteq> None"
    and there_and_back: "canonical x \<Longrightarrow> ApiToRpc (RpcToApi (Some x)) = Some x"
    and vars_ok: "distinct vars" "vars \<noteq> []"
begin

lemma round_trip: "pred_option canonical x \<Longrightarrow> ApiToRpc (RpcToApi x) = x"
  by (cases x) (simp_all add: nil_to_nil empty_to_nil gm_len_def there_and_back)

lemma RpcToApi_inj: "canonical x \<Longrightarrow> canonical y \<Longrightarrow> RpcToApi (Some x) = RpcToApi (Some y) \<Longrightarrow> x = y"
  by (metis there_and_back option.inject)

lemma RpcToApi_nil_iff: "RpcToApi x = None \<longleftrightarrow> x = None"
  using all_fields by (cases x) (auto simp: nil_to_nil)

lemma keys_present: "dom (gm_lookup (RpcToApi (Some x))) = set vars"
proof -
  obtain al where "RpcToApi (Some x) = Some al" "map fst al = vars"
    using all_fields by blast
  then show ?thesis by (metis dom_gm_lookup gm_entries_Some list.set_map)
qed

lemma keys_subset: "dom (gm_lookup (RpcToApi x)) \<subseteq> set vars"
proof (cases x)
  case None
  then show ?thesis by (simp add: nil_to_nil)
next
  case (Some y)
  then show ?thesis using keys_present[of y] by simp
qed

lemma distinct_entries: "distinct (map fst (gm_entries (RpcToApi x)))"
proof (cases x)
  case None
  then show ?thesis by (simp add: nil_to_nil)
next
  case (Some y)
  then show ?thesis using all_fields[of y] vars_ok(1) by auto
qed

end

section \<open>The six translators meet it\<close>

lemmas var_name_defs =
  BucketInfoVar_S3_BucketId_def BucketInfoVar_S3_Endpoint_def BucketInfoVar_S3_Region_def
  BucketInfoVar_S3_AddressingStyle_def CredentialVar_S3_AccessKeyId_def
  CredentialVar_S3_AccessSecretKey_def BucketInfoVar_Azure_StorageAccount_def
  CredentialVar_Azure_AccessToken_def CredentialVar_Azure_ExpiryTimestamp_def
  BucketInfoVar_GCS_ProjectId_def BucketInfoVar_GCS_BucketName_def CredentialVar_GCS_AccessId_def
  CredentialVar_GCS_AccessSecret_def CredentialVar_GCS_PrivateKeyName_def
  CredentialVar_GCS_ServiceAccount_def

lemma addressing_styles_distinct [simp]:
  "s3AddressingStylePath \<noteq> s3AddressingStyleVirtual" "s3AddressingStyleVirtual \<noteq> s3AddressingStylePath"
  "s3AddressingStylePath \<noteq> []" "s3AddressingStyleVirtual \<noteq> []"
  "[] \<noteq> s3AddressingStylePath" "[] \<noteq> s3AddressingStyleVirtual"
  by (simp_all add: s3AddressingStylePath_def s3AddressingStyleVirtual_def)

text \<open>An S3 message that sets a listed addressing style, as \<open>ApiToRpc\<close> always does.\<close>

definition s3_canonical :: "S3BucketInfo \<Rightarrow> bool" where
  "s3_canonical b \<longleftrightarrow> s3b_AddressingStyle b \<in>
     {Some S3AddressingStyle_PATH, Some S3AddressingStyle_VIRTUAL, Some S3AddressingStyle_UNKNOWN}"

interpretation s3_bucket: rpc_api_translator ObjectProtocolS3 S3BucketInfo_RpcToApi
  S3BucketInfo_ApiToRpc S3BucketInfo_Validate s3_canonical
  "[BucketInfoVar_S3_BucketId, BucketInfoVar_S3_Endpoint, BucketInfoVar_S3_Region,
    BucketInfoVar_S3_AddressingStyle]"
  by unfold_locales
    (auto simp: S3BucketInfo_RpcToApi_def S3BucketInfo_ApiToRpc_def gm_len_def gm_get_def
      s3_canonical_def var_name_defs split: option.splits)

interpretation s3_credential: rpc_api_translator ObjectProtocolS3 S3Credential_RpcToApi
  S3Credential_ApiToRpc S3Credential_Validate "\<lambda>_. True"
  "[CredentialVar_S3_AccessKeyId, CredentialVar_S3_AccessSecretKey]"
  by unfold_locales
    (auto simp: S3Credential_RpcToApi_def S3Credential_ApiToRpc_def gm_len_def gm_get_def
      var_name_defs)

interpretation azure_bucket: rpc_api_translator ObjectProtocolAzure AzureBucketInfo_RpcToApi
  AzureBucketInfo_ApiToRpc AzureBucketInfo_Validate "\<lambda>_. True"
  "[BucketInfoVar_Azure_StorageAccount]"
  by unfold_locales
    (auto simp: AzureBucketInfo_RpcToApi_def AzureBucketInfo_ApiToRpc_def gm_len_def gm_get_def)

interpretation azure_credential: rpc_api_translator ObjectProtocolAzure AzureCredential_RpcToApi
  AzureCredential_ApiToRpc AzureCredential_Validate "\<lambda>_. True"
  "[CredentialVar_Azure_AccessToken, CredentialVar_Azure_ExpiryTimestamp]"
  by unfold_locales
    (auto simp: AzureCredential_RpcToApi_def AzureCredential_ApiToRpc_def gm_len_def gm_get_def
      var_name_defs)

interpretation gcs_bucket: rpc_api_translator ObjectProtocolGcs GcsBucketInfo_RpcToApi
  GcsBucketInfo_ApiToRpc GcsBucketInfo_Validate "\<lambda>_. True"
  "[BucketInfoVar_GCS_BucketName, BucketInfoVar_GCS_ProjectId]"
  by unfold_locales
    (auto simp: GcsBucketInfo_RpcToApi_def GcsBucketInfo_ApiToRpc_def gm_len_def gm_get_def
      var_name_defs)

interpretation gcs_credential: rpc_api_translator ObjectProtocolGcs GcsCredential_RpcToApi
  GcsCredential_ApiToRpc GcsCredential_Validate "\<lambda>_. True"
  "[CredentialVar_GCS_AccessId, CredentialVar_GCS_AccessSecret, CredentialVar_GCS_PrivateKeyName,
    CredentialVar_GCS_ServiceAccount]"
  by unfold_locales
    (auto simp: GcsCredential_RpcToApi_def GcsCredential_ApiToRpc_def gm_len_def gm_get_def
      var_name_defs)

end
