(* ===== verification/Translator.thy ===== *)
theory Translator
  imports Protocol
begin

text \<open>
  The sidecar's translator (\<^verbatim>\<open>src/sidecar/internal/translator/translator.go\<close>): driver
  responses become flat maps of environment variables, checked against the protocol and
  authentication type a BucketAccess expects. The generic Go function \<open>translate\<close> takes the
  methods of a translator as arguments; the reflection guards it has for translators that are nil
  pointers and for messages that are not pointers cannot fire for the six instances used here
  (empty structs and message pointers).
\<close>

section \<open>Definitions\<close>

record ValidationConfig =
  vc_ExpectedProtocol :: ObjectProtocol
  vc_AuthenticationType :: BucketAccessAuthenticationType

definition translate ::
  "ObjectProtocol \<Rightarrow> ('r option \<Rightarrow> string gomap) \<Rightarrow>
   (string gomap \<Rightarrow> BucketAccessAuthenticationType \<Rightarrow> error option) \<Rightarrow>
   'r option \<Rightarrow> ValidationConfig option \<Rightarrow> error + string gomap" where
  "translate thisProto toApi validate rpcInfo validation =
     (case validation of
        Some v \<Rightarrow>
          if vc_ExpectedProtocol v \<noteq> thisProto then
            (case rpcInfo of
               None \<Rightarrow> Inr (Some [])
             | Some _ \<Rightarrow> Inl (errf (TranslatorMsg UnexpectedProtocol) [thisProto, vc_ExpectedProtocol v]))
          else
            (case rpcInfo of
               None \<Rightarrow> Inl (errf (TranslatorMsg MissingExpectedProtocol) [thisProto])
             | Some _ \<Rightarrow>
                 (let out = toApi rpcInfo in
                  case validate out (vc_AuthenticationType v) of
                    Some err \<Rightarrow> Inl err
                  | None \<Rightarrow> Inr out))
      | None \<Rightarrow> Inr (toApi rpcInfo))"

text \<open>Writes every entry of \<open>varKey\<close> into the (non-nil) target map.\<close>

definition MergeApiInfoIntoStringMap ::
  "string gomap \<Rightarrow> (string \<times> string) list \<Rightarrow> (string \<times> string) list" where
  "MergeApiInfoIntoStringMap varKey target =
     fold (\<lambda>(k, v). AList.update k v) (gm_entries varKey) target"

text \<open>One \<open>if err != nil { errs = append(...) } else { Merge... }\<close> step of the two functions below.\<close>

definition merge_or_err ::
  "ftext \<Rightarrow> error + string gomap \<Rightarrow> error list \<times> (string \<times> string) list \<Rightarrow>
   error list \<times> (string \<times> string) list" where
  "merge_or_err t r acc =
     (case r of
        Inl err \<Rightarrow> (fst acc @ [Wrapf t err], snd acc)
      | Inr info \<Rightarrow> (fst acc, MergeApiInfoIntoStringMap info (snd acc)))"

definition BucketInfoToApi ::
  "ObjectProtocolAndBucketInfo option \<Rightarrow> ValidationConfig option \<Rightarrow>
   error + ObjectProtocol list \<times> (string \<times> string) list" where
  "BucketInfoToApi bi validation =
     (case bi of
        None \<Rightarrow> Inl (errf (TranslatorMsg BucketInfoNil) [])
      | Some bi \<Rightarrow>
          (let protos = (if bi_S3 bi \<noteq> None then [ObjectProtocolS3] else []);
               s3 = translate ObjectProtocolS3 S3BucketInfo_RpcToApi S3BucketInfo_Validate
                      (bi_S3 bi) validation;
               acc = merge_or_err (Text (TranslatorMsg TranslateBucketInfoFailed) [ObjectProtocolS3] [])
                       s3 ([], []);
               protos = protos @ (if bi_Azure bi \<noteq> None then [ObjectProtocolAzure] else []);
               azure = translate ObjectProtocolAzure AzureBucketInfo_RpcToApi AzureBucketInfo_Validate
                      (bi_Azure bi) validation;
               acc = merge_or_err (Text (TranslatorMsg TranslateBucketInfoFailed) [ObjectProtocolAzure] [])
                       azure acc;
               protos = protos @ (if bi_Gcs bi \<noteq> None then [ObjectProtocolGcs] else []);
               gcs = translate ObjectProtocolGcs GcsBucketInfo_RpcToApi GcsBucketInfo_Validate
                      (bi_Gcs bi) validation;
               acc = merge_or_err (Text (TranslatorMsg TranslateBucketInfoFailed) [ObjectProtocolGcs] [])
                       gcs acc
           in case join_errs (Text (TranslatorMsg BucketInfosFailed) [] []) (fst acc) of
                Some err \<Rightarrow> Inl err
              | None \<Rightarrow> Inr (protos, snd acc)))"

definition CredentialsToApi ::
  "CredentialInfo option \<Rightarrow> ValidationConfig \<Rightarrow> error + (string \<times> string) list" where
  "CredentialsToApi ci validation =
     (case ci of
        None \<Rightarrow> Inl (errf (TranslatorMsg CredentialInfoNil) [])
      | Some ci \<Rightarrow>
          (let s3 = translate ObjectProtocolS3 S3Credential_RpcToApi S3Credential_Validate
                      (ci_S3 ci) (Some validation);
               acc = merge_or_err (Text (TranslatorMsg TranslateCredentialsFailed) [ObjectProtocolS3] [])
                       s3 ([], []);
               azure = translate ObjectProtocolAzure AzureCredential_RpcToApi AzureCredential_Validate
                      (ci_Azure ci) (Some validation);
               acc = merge_or_err (Text (TranslatorMsg TranslateCredentialsFailed) [ObjectProtocolAzure] [])
                       azure acc;
               gcs = translate ObjectProtocolGcs GcsCredential_RpcToApi GcsCredential_Validate
                      (ci_Gcs ci) (Some validation);
               acc = merge_or_err (Text (TranslatorMsg TranslateCredentialsFailed) [ObjectProtocolGcs] [])
                       gcs acc
           in case join_errs (Text (TranslatorMsg CredentialsFailed) [] []) (fst acc) of
                Some err \<Rightarrow> Inl err
              | None \<Rightarrow> Inr (snd acc)))"

definition AuthenticationTypeToRpc ::
  "BucketAccessAuthenticationType \<Rightarrow> error + AuthenticationType_Type" where
  "AuthenticationTypeToRpc a =
     (if a = BucketAccessAuthenticationTypeKey then Inr AuthenticationType_KEY
      else if a = BucketAccessAuthenticationTypeServiceAccount then Inr AuthenticationType_SERVICE_ACCOUNT
      else Inl (errf (TranslatorMsg UnknownAuthenticationType) [a]))"

definition AccessModeToRpc :: "BucketAccessMode \<Rightarrow> error + AccessMode_Mode" where
  "AccessModeToRpc m =
     (if m = [] then Inr AccessMode_ANY
      else if m = BucketAccessModeReadOnly then Inr AccessMode_READ_ONLY
      else if m = BucketAccessModeReadWrite then Inr AccessMode_READ_WRITE
      else if m = BucketAccessModeWriteOnly then Inr AccessMode_WRITE_ONLY
      else Inl (errf (TranslatorMsg UnknownAccessMode) [m]))"

section \<open>Translation through one translator\<close>

context rpc_api_translator
begin

lemma translate_unvalidated: "translate ApiProtocol RpcToApi Validate x None = Inr (RpcToApi x)"
  by (simp add: translate_def)

lemma translate_expected:
  "vc_ExpectedProtocol v = ApiProtocol \<Longrightarrow>
    translate ApiProtocol RpcToApi Validate x (Some v) = Inr m \<longleftrightarrow>
    x \<noteq> None \<and> m = RpcToApi x \<and> Validate m (vc_AuthenticationType v) = None"
  by (auto simp: translate_def Let_def split: option.splits)

lemma translate_other:
  "vc_ExpectedProtocol v \<noteq> ApiProtocol \<Longrightarrow>
    translate ApiProtocol RpcToApi Validate x (Some v) = Inr m \<longleftrightarrow> x = None \<and> m = Some []"
  by (auto simp: translate_def split: option.splits)

lemma map_of_merge:
  "map_of (MergeApiInfoIntoStringMap (RpcToApi x) target) = map_of target ++ gm_lookup (RpcToApi x)"
  unfolding MergeApiInfoIntoStringMap_def gm_lookup_map_of
  by (rule map_of_fold_update) (rule distinct_entries)

end

lemmas translate_unvalidated_simps =
  s3_bucket.translate_unvalidated azure_bucket.translate_unvalidated gcs_bucket.translate_unvalidated

lemmas map_of_merge_simps =
  s3_bucket.map_of_merge azure_bucket.map_of_merge gcs_bucket.map_of_merge
  s3_credential.map_of_merge azure_credential.map_of_merge gcs_credential.map_of_merge

lemma MergeApiInfoIntoStringMap_empty [simp]:
  "MergeApiInfoIntoStringMap (Some []) target = target" "MergeApiInfoIntoStringMap None target = target"
  by (simp_all add: MergeApiInfoIntoStringMap_def)

lemma merge_or_err_simps [simp]:
  "merge_or_err t (Inl err) acc = (fst acc @ [Wrapf t err], snd acc)"
  "merge_or_err t (Inr info) acc = (fst acc, MergeApiInfoIntoStringMap info (snd acc))"
  by (simp_all add: merge_or_err_def)

lemma merge_or_err_ok:
  "fst (merge_or_err t r acc) = [] \<longleftrightarrow> fst acc = [] \<and> (\<exists>info. r = Inr info)"
  by (cases r) auto

text \<open>Three merge steps in a row report no error exactly when all three translations succeed.\<close>

lemma merge_chain_ok:
  "(case join_errs t (fst (merge_or_err t3 r3 (merge_or_err t2 r2 (merge_or_err t1 r1 ([], []))))) of
      Some err \<Rightarrow> Inl err
    | None \<Rightarrow> Inr (f (snd (merge_or_err t3 r3 (merge_or_err t2 r2 (merge_or_err t1 r1 ([], []))))))) = Inr y
   \<longleftrightarrow>
   (\<exists>m1 m2 m3. r1 = Inr m1 \<and> r2 = Inr m2 \<and> r3 = Inr m3 \<and>
      y = f (MergeApiInfoIntoStringMap m3 (MergeApiInfoIntoStringMap m2 (MergeApiInfoIntoStringMap m1 []))))"
  by (cases r1; cases r2; cases r3) (auto simp: join_errs_def)

section \<open>Whole responses\<close>

text \<open>Protocols a bucket-info response covers, in the order the code lists them.\<close>

definition covered_protocols :: "ObjectProtocolAndBucketInfo \<Rightarrow> ObjectProtocol list" where
  "covered_protocols bi =
     (if bi_S3 bi \<noteq> None then [ObjectProtocolS3] else []) @
     (if bi_Azure bi \<noteq> None then [ObjectProtocolAzure] else []) @
     (if bi_Gcs bi \<noteq> None then [ObjectProtocolGcs] else [])"

lemma BucketInfoToApi_ok:
  "BucketInfoToApi bi validation = Inr (protos, info) \<longleftrightarrow>
   (\<exists>b m1 m2 m3. bi = Some b \<and> protos = covered_protocols b \<and>
      translate ObjectProtocolS3 S3BucketInfo_RpcToApi S3BucketInfo_Validate (bi_S3 b) validation = Inr m1 \<and>
      translate ObjectProtocolAzure AzureBucketInfo_RpcToApi AzureBucketInfo_Validate (bi_Azure b) validation
        = Inr m2 \<and>
      translate ObjectProtocolGcs GcsBucketInfo_RpcToApi GcsBucketInfo_Validate (bi_Gcs b) validation = Inr m3 \<and>
      info = MergeApiInfoIntoStringMap m3 (MergeApiInfoIntoStringMap m2 (MergeApiInfoIntoStringMap m1 [])))"
proof (cases bi)
  case None
  then show ?thesis by (simp add: BucketInfoToApi_def)
next
  case (Some b)
  show ?thesis
    unfolding Some BucketInfoToApi_def Let_def option.case covered_protocols_def
    by (subst merge_chain_ok [where f = "Pair _"]) auto
qed

lemma CredentialsToApi_ok:
  "CredentialsToApi ci v = Inr info \<longleftrightarrow>
   (\<exists>c m1 m2 m3. ci = Some c \<and>
      translate ObjectProtocolS3 S3Credential_RpcToApi S3Credential_Validate (ci_S3 c) (Some v) = Inr m1 \<and>
      translate ObjectProtocolAzure AzureCredential_RpcToApi AzureCredential_Validate (ci_Azure c) (Some v)
        = Inr m2 \<and>
      translate ObjectProtocolGcs GcsCredential_RpcToApi GcsCredential_Validate (ci_Gcs c) (Some v) = Inr m3 \<and>
      info = MergeApiInfoIntoStringMap m3 (MergeApiInfoIntoStringMap m2 (MergeApiInfoIntoStringMap m1 [])))"
proof (cases ci)
  case None
  then show ?thesis by (simp add: CredentialsToApi_def)
next
  case (Some c)
  show ?thesis
    unfolding Some CredentialsToApi_def Let_def option.case
    by (subst merge_chain_ok [where f = id, unfolded id_apply]) auto
qed

text \<open>Without validation every non-nil response translates.\<close>

lemma BucketInfoToApi_unvalidated:
  "BucketInfoToApi (Some b) None = Inr (covered_protocols b,
     MergeApiInfoIntoStringMap (GcsBucketInfo_RpcToApi (bi_Gcs b))
       (MergeApiInfoIntoStringMap (AzureBucketInfo_RpcToApi (bi_Azure b))
         (MergeApiInfoIntoStringMap (S3BucketInfo_RpcToApi (bi_S3 b)) [])))"
  by (simp add: BucketInfoToApi_ok translate_unvalidated_simps)

section \<open>Contents of validated responses\<close>

text \<open>
  The variables a validated response is translated to, for the expected protocol, and those of
  them that must have a value for the given authentication type.
\<close>

definition credential_vars :: "ObjectProtocol \<Rightarrow> string list" where
  "credential_vars p =
     (if p = ObjectProtocolS3 then [CredentialVar_S3_AccessKeyId, CredentialVar_S3_AccessSecretKey]
      else if p = ObjectProtocolAzure then [CredentialVar_Azure_AccessToken, CredentialVar_Azure_ExpiryTimestamp]
      else if p = ObjectProtocolGcs then
        [CredentialVar_GCS_AccessId, CredentialVar_GCS_AccessSecret, CredentialVar_GCS_PrivateKeyName,
         CredentialVar_GCS_ServiceAccount]
      else [])"

definition bucket_info_vars :: "ObjectProtocol \<Rightarrow> string list" where
  "bucket_info_vars p =
     (if p = ObjectProtocolS3 then [BucketInfoVar_S3_BucketId, BucketInfoVar_S3_Endpoint,
        BucketInfoVar_S3_Region, BucketInfoVar_S3_AddressingStyle]
      else if p = ObjectProtocolAzure then [BucketInfoVar_Azure_StorageAccount]
      else if p = ObjectProtocolGcs then [BucketInfoVar_GCS_BucketName, BucketInfoVar_GCS_ProjectId]
      else [])"

definition required_credentials :: "ObjectProtocol \<Rightarrow> BucketAccessAuthenticationType \<Rightarrow> string list" where
  "required_credentials p auth =
     (if p = ObjectProtocolGcs then
        (if auth = BucketAccessAuthenticationTypeKey then
           [CredentialVar_GCS_AccessId, CredentialVar_GCS_AccessSecret]
         else if auth = BucketAccessAuthenticationTypeServiceAccount then
           [CredentialVar_GCS_PrivateKeyName, CredentialVar_GCS_ServiceAccount]
         else [])
      else if auth \<noteq> BucketAccessAuthenticationTypeKey then []
      else if p = ObjectProtocolS3 then [CredentialVar_S3_AccessKeyId, CredentialVar_S3_AccessSecretKey]
      else if p = ObjectProtocolAzure then [CredentialVar_Azure_AccessToken]
      else [])"

lemma unset_err_ok: "unset_err m k = [] \<longleftrightarrow> gm_get m k \<noteq> []"
  by (simp add: unset_err_def)

lemma gm_get_set: "gm_get m k \<noteq> [] \<longleftrightarrow> (\<exists>s. gm_lookup m k = Some s \<and> s \<noteq> [])"
  by (auto simp: gm_get_def split: option.splits)

lemmas translate_expected_simps =
  s3_bucket.translate_expected azure_bucket.translate_expected gcs_bucket.translate_expected
  s3_credential.translate_expected azure_credential.translate_expected gcs_credential.translate_expected

lemmas translate_other_simps =
  s3_bucket.translate_other azure_bucket.translate_other gcs_bucket.translate_other
  s3_credential.translate_other azure_credential.translate_other gcs_credential.translate_other

lemma CredentialsToApi_contents:
  assumes "CredentialsToApi ci v = Inr info"
  shows "dom (map_of info) = set (credential_vars (vc_ExpectedProtocol v))"
    and "\<And>x. x \<in> set (required_credentials (vc_ExpectedProtocol v) (vc_AuthenticationType v)) \<Longrightarrow>
      \<exists>s. map_of info x = Some s \<and> s \<noteq> []"
proof -
  consider "vc_ExpectedProtocol v = ObjectProtocolS3" | "vc_ExpectedProtocol v = ObjectProtocolAzure"
    | "vc_ExpectedProtocol v = ObjectProtocolGcs"
    | "vc_ExpectedProtocol v \<notin> {ObjectProtocolS3, ObjectProtocolAzure, ObjectProtocolGcs}" by blast
  then have "dom (map_of info) = set (credential_vars (vc_ExpectedProtocol v)) \<and>
    (\<forall>x \<in> set (required_credentials (vc_ExpectedProtocol v) (vc_AuthenticationType v)).
      \<exists>s. map_of info x = Some s \<and> s \<noteq> [])"
  proof cases
    case 1
    with assms obtain c where "info = MergeApiInfoIntoStringMap (S3Credential_RpcToApi (Some c)) []"
      "S3Credential_Validate (S3Credential_RpcToApi (Some c)) (vc_AuthenticationType v) = None"
      by (auto simp: CredentialsToApi_ok translate_expected_simps translate_other_simps)
    then show ?thesis using 1 s3_credential.keys_present[of c]
      by (auto simp: map_of_merge_simps credential_vars_def required_credentials_def S3Credential_Validate_def
          unset_err_ok gm_get_set split: if_splits)
  next
    case 2
    with assms obtain c where "info = MergeApiInfoIntoStringMap (AzureCredential_RpcToApi (Some c)) []"
      "AzureCredential_Validate (AzureCredential_RpcToApi (Some c)) (vc_AuthenticationType v) = None"
      by (auto simp: CredentialsToApi_ok translate_expected_simps translate_other_simps)
    then show ?thesis using 2 azure_credential.keys_present[of c]
      by (auto simp: map_of_merge_simps credential_vars_def required_credentials_def AzureCredential_Validate_def
          unset_err_ok gm_get_set split: if_splits)
  next
    case 3
    with assms obtain c where "info = MergeApiInfoIntoStringMap (GcsCredential_RpcToApi (Some c)) []"
      "GcsCredential_Validate (GcsCredential_RpcToApi (Some c)) (vc_AuthenticationType v) = None"
      by (auto simp: CredentialsToApi_ok translate_expected_simps translate_other_simps)
    then show ?thesis using 3 gcs_credential.keys_present[of c]
      by (auto simp: map_of_merge_simps credential_vars_def required_credentials_def GcsCredential_Validate_def
          unset_err_ok gm_get_set split: if_splits)
  next
    case 4
    with assms show ?thesis
      by (auto simp: CredentialsToApi_ok translate_other_simps credential_vars_def required_credentials_def)
  qed
  then show "dom (map_of info) = set (credential_vars (vc_ExpectedProtocol v))"
    and "\<And>x. x \<in> set (required_credentials (vc_ExpectedProtocol v) (vc_AuthenticationType v)) \<Longrightarrow>
      \<exists>s. map_of info x = Some s \<and> s \<noteq> []" by simp_all
qed

lemma BucketInfoToApi_contents:
  assumes "BucketInfoToApi bi (Some v) = Inr (protos, info)"
  shows "dom (map_of info) = set (bucket_info_vars (vc_ExpectedProtocol v))"
    and "\<And>x. x \<in> set (bucket_info_vars (vc_ExpectedProtocol v)) \<Longrightarrow> \<exists>s. map_of info x = Some s \<and> s \<noteq> []"
proof -
  consider "vc_ExpectedProtocol v = ObjectProtocolS3" | "vc_ExpectedProtocol v = ObjectProtocolAzure"
    | "vc_ExpectedProtocol v = ObjectProtocolGcs"
    | "vc_ExpectedProtocol v \<notin> {ObjectProtocolS3, ObjectProtocolAzure, ObjectProtocolGcs}" by blast
  then have "dom (map_of info) = set (bucket_info_vars (vc_ExpectedProtocol v)) \<and>
    (\<forall>x \<in> set (bucket_info_vars (vc_ExpectedProtocol v)). \<exists>s. map_of info x = Some s \<and> s \<noteq> [])"
  proof cases
    case 1
    with assms obtain c where c: "info = MergeApiInfoIntoStringMap (S3BucketInfo_RpcToApi (Some c)) []"
      "S3BucketInfo_Validate (S3BucketInfo_RpcToApi (Some c)) (vc_AuthenticationType v) = None"
      by (auto simp: BucketInfoToApi_ok translate_expected_simps translate_other_simps)
    have "gm_get (S3BucketInfo_RpcToApi (Some c)) BucketInfoVar_S3_AddressingStyle \<noteq> []"
      using c(2) by (auto simp: S3BucketInfo_Validate_def Let_def validS3AddressingStyles_def split: if_splits)
    with c show ?thesis using 1 s3_bucket.keys_present[of c]
      by (auto simp: map_of_merge_simps bucket_info_vars_def S3BucketInfo_Validate_def Let_def
          unset_err_ok gm_get_set split: if_splits)
  next
    case 2
    with assms obtain c where "info = MergeApiInfoIntoStringMap (AzureBucketInfo_RpcToApi (Some c)) []"
      "AzureBucketInfo_Validate (AzureBucketInfo_RpcToApi (Some c)) (vc_AuthenticationType v) = None"
      by (auto simp: BucketInfoToApi_ok translate_expected_simps translate_other_simps)
    then show ?thesis using 2 azure_bucket.keys_present[of c]
      by (auto simp: map_of_merge_simps bucket_info_vars_def AzureBucketInfo_Validate_def unset_err_ok gm_get_set)
  next
    case 3
    with assms obtain c where "info = MergeApiInfoIntoStringMap (GcsBucketInfo_RpcToApi (Some c)) []"
      "GcsBucketInfo_Validate (GcsBucketInfo_RpcToApi (Some c)) (vc_AuthenticationType v) = None"
      by (auto simp: BucketInfoToApi_ok translate_expected_simps translate_other_simps)
    then show ?thesis using 3 gcs_bucket.keys_present[of c]
      by (auto simp: map_of_merge_simps bucket_info_vars_def GcsBucketInfo_Validate_def unset_err_ok gm_get_set)
  next
    case 4
    with assms show ?thesis by (auto simp: BucketInfoToApi_ok translate_other_simps bucket_info_vars_def)
  qed
  then show "dom (map_of info) = set (bucket_info_vars (vc_ExpectedProtocol v))"
    and "\<And>x. x \<in> set (bucket_info_vars (vc_ExpectedProtocol v)) \<Longrightarrow> \<exists>s. map_of info x = Some s \<and> s \<noteq> []"
    by simp_all
qed

end
