(* ===== verification/Driver.thy ===== *)
theory Driver
  imports Protocol
begin

text \<open>
  The sidecar's view of its driver: connection and validation of the reported identity
  (\<^verbatim>\<open>src/sidecar/pkg/reconciler/driver.go\<close>, \<^verbatim>\<open>src/sidecar/cmd/rpc.go\<close>), the RPC
  error scheme, and the check of generated bucket IDs
  (\<^verbatim>\<open>src/sidecar/pkg/reconciler/bucket.go\<close>). Regular expressions are matchers on character
  lists; Go's \<open>len\<close> of a string is the length of that list (its bytes).
\<close>

section \<open>Character classes\<close>

definition lower_chars :: string where "lower_chars = ''abcdefghijklmnopqrstuvwxyz''"
definition upper_chars :: string where "upper_chars = ''ABCDEFGHIJKLMNOPQRSTUVWXYZ''"
definition digit_chars :: string where "digit_chars = ''0123456789''"

definition is_lower_alnum :: "char \<Rightarrow> bool" where
  "is_lower_alnum c \<longleftrightarrow> c \<in> set lower_chars \<or> c \<in> set digit_chars"

definition is_alnum :: "char \<Rightarrow> bool" where
  "is_alnum c \<longleftrightarrow> c \<in> set lower_chars \<or> c \<in> set upper_chars \<or> c \<in> set digit_chars"

section \<open>Driver name\<close>

text \<open>\<open>strings.Split(n, ".")\<close>.\<close>

fun split_dots :: "string \<Rightarrow> string list" where
  "split_dots [] = [[]]"
| "split_dots (c # cs) =
     (if c = CHR ''.'' then [] # split_dots cs
      else (case split_dots cs of [] \<Rightarrow> [[c]] | l # ls \<Rightarrow> (c # l) # ls))"

text \<open>The regular expression \<open>^[a-z]([-a-z0-9]*[a-z0-9])?$\<close>.\<close>

definition dns1035LabelRegexp :: "string \<Rightarrow> bool" where
  "dns1035LabelRegexp s =
     (case s of
        [] \<Rightarrow> False
      | c # cs \<Rightarrow> c \<in> set lower_chars \<and>
          (cs = [] \<or> (list_all (\<lambda>x. x = CHR ''-'' \<or> is_lower_alnum x) cs \<and> is_lower_alnum (last cs))))"

definition DNS1035LabelMaxLength :: nat where "DNS1035LabelMaxLength = 63"

text \<open>The errors of \<open>validation.IsDNS1035Label\<close>; only their number is used.\<close>

definition IsDNS1035Label :: "string \<Rightarrow> ftext list" where
  "IsDNS1035Label value =
     (if length value > DNS1035LabelMaxLength then [Text (DriverMsg NameTooLong) [] []] else []) @
     (if \<not> dns1035LabelRegexp value then [Text (DriverMsg BadLabel) [] []] else [])"

definition validateDriverName :: "string \<Rightarrow> error option" where
  "validateDriverName n =
     (let tooLong = (if length n > 63 then [Text (DriverMsg NameTooLong) [] []] else []);
          badLabels = concat (map (\<lambda>l.
            let errs = IsDNS1035Label l in
            if length errs > 0 then [Text (DriverMsg BadLabel) [l] errs] else []) (split_dots n));
          allErrs = tooLong @ badLabels
      in if length allErrs > 0 then Some (Errorf (Text (DriverMsg DriverNameInvalid) [n] allErrs))
         else None)"

section \<open>Supported protocols\<close>

record DriverInfo =
  di_Name :: string
  di_SupportedProtocols :: "ObjectProtocol_Type list"

fun supports_loop :: "ObjectProtocol_Type list \<Rightarrow> ObjectProtocol_Type \<Rightarrow> bool" where
  "supports_loop [] p = False"
| "supports_loop (sp # sps) p = (if sp = p then True else supports_loop sps p)"

definition SupportsProtocol :: "DriverInfo \<Rightarrow> ObjectProtocol_Type \<Rightarrow> bool" where
  "SupportsProtocol d p = supports_loop (di_SupportedProtocols d) p"

text \<open>The loop, with the output list and the set of protocols seen so far.\<close>

fun parse_protocols_loop ::
  "ObjectProtocol_Type list \<Rightarrow> ObjectProtocol_Type list \<Rightarrow> ObjectProtocol_Type list \<Rightarrow>
   error + ObjectProtocol_Type list" where
  "parse_protocols_loop [] seen out = Inr out"
| "parse_protocols_loop (t # ts) seen out =
     (if t = ObjectProtocol_UNKNOWN then Inl (errf (DriverMsg ObjectProtocolUnknown) [])
      else if t \<in> set seen then Inl (errf (DriverMsg ObjectProtocolTwice) [])
      else parse_protocols_loop ts (t # seen) (out @ [t]))"

definition validateAndParseProtocols ::
  "ObjectProtocol_Type list \<Rightarrow> error + ObjectProtocol_Type list" where
  "validateAndParseProtocols objProtocols =
     (if length objProtocols = 0 then Inl (errf (DriverMsg NoObjectProtocol) [])
      else parse_protocols_loop objProtocols [] [])"

record DriverGetInfoResponse =
  gi_Name :: string
  gi_SupportedProtocols :: "ObjectProtocol_Type list"

definition ValidateAndSetDriverConnectionInfo :: "DriverGetInfoResponse \<Rightarrow> error + DriverInfo" where
  "ValidateAndSetDriverConnectionInfo info =
     (case validateDriverName (gi_Name info) of
        Some err \<Rightarrow> Inl (wrapf (DriverMsg DriverNameInvalid) [] err)
      | None \<Rightarrow>
          (case validateAndParseProtocols (gi_SupportedProtocols info) of
             Inl err \<Rightarrow> Inl (wrapf (DriverMsg ProtocolsListInvalid) [] err)
           | Inr parsedProtocols \<Rightarrow>
               Inr \<lparr>di_Name = gi_Name info, di_SupportedProtocols = parsedProtocols\<rparr>))"

section \<open>RPC error scheme\<close>

fun rpcErrorIsRetryable :: "code \<Rightarrow> bool" where
  "rpcErrorIsRetryable InvalidArgument = False"
| "rpcErrorIsRetryable PermissionDenied = True"
| "rpcErrorIsRetryable AlreadyExists = False"
| "rpcErrorIsRetryable Aborted = True"
| "rpcErrorIsRetryable Unimplemented = False"
| "rpcErrorIsRetryable Unauthenticated = True"
| "rpcErrorIsRetryable _ = True"

text \<open>
  \<open>if rpcErrorIsRetryable(status.Code(err)) { return err }; return NonRetryableError(err)\<close>,
  the tail of every failed RPC.
\<close>

definition rpc_failure :: "rpc_error \<Rightarrow> error" where
  "rpc_failure err =
     (if rpcErrorIsRetryable (fst err) then RpcError err else NonRetryableError (RpcError err))"

section \<open>Bucket IDs\<close>

definition bucketIDMaxLength :: nat where "bucketIDMaxLength = 2048"

text \<open>The regular expression \<open>^[a-zA-Z0-9/._-]+$\<close>.\<close>

definition bucketIDPattern :: "string \<Rightarrow> bool" where
  "bucketIDPattern s \<longleftrightarrow> s \<noteq> [] \<and> list_all (\<lambda>c. is_alnum c \<or> c \<in> set ''/._-'') s"

definition validateBucketID :: "string \<Rightarrow> error option" where
  "validateBucketID i =
     (let allErrs =
        (if length i > bucketIDMaxLength then [Text (BucketMsg TooLong) [] []] else []) @
        (if \<not> bucketIDPattern i then [Text (BucketMsg PatternMismatch) [] []] else [])
      in if length allErrs > 0 then Some (Errorf (Text (BucketMsg InvalidBucketID) [i] allErrs))
         else None)"

section \<open>Connecting to the driver\<close>

datatype connectivity = Idle | Connecting | Ready | TransientFailure | Shutdown

text \<open>
  The wait loop of \<open>connectRpc\<close>. The states the connection goes through before the 120 s
  deadline are given; when they are used up, \<open>WaitForStateChange\<close> reports the timeout.
\<close>

fun wait_ready :: "connectivity list \<Rightarrow> error option" where
  "wait_ready [] = Some (errf (DriverMsg ConnectTimeout) [])"
| "wait_ready (state # states) = (if state = Ready then None else wait_ready states)"

text \<open>
  \<open>newClient\<close> is what \<open>grpc.NewClient\<close> returns: an error, or the connection's first state and
  its state changes before the deadline.
\<close>

definition connectRpc :: "error + connectivity \<times> connectivity list \<Rightarrow> error option" where
  "connectRpc newClient =
     (case newClient of
        Inl err \<Rightarrow> Some (wrapf (DriverMsg NewClientFailed) [] err)
      | Inr (state, changes) \<Rightarrow>
          if state \<noteq> Idle then Some (errf (DriverMsg ClientNotIdle) [])
          else wait_ready changes)"

definition HasPrefix :: "string \<Rightarrow> string \<Rightarrow> bool" where
  "HasPrefix s p \<longleftrightarrow> length p \<le> length s \<and> take (length p) s = p"

definition HasSuffix :: "string \<Rightarrow> string \<Rightarrow> bool" where
  "HasSuffix s p \<longleftrightarrow> length p \<le> length s \<and> drop (length s - length p) s = p"

definition connectRpcAndGetDriverInfo ::
  "string \<Rightarrow> error + connectivity \<times> connectivity list \<Rightarrow> rpc_error + DriverGetInfoResponse \<Rightarrow>
   error + DriverInfo" where
  "connectRpcAndGetDriverInfo rpcEndpoint newClient getInfo =
     (if \<not> HasPrefix rpcEndpoint ''unix://'' then Inl (errf (DriverMsg EndpointNotUnix) [rpcEndpoint])
      else if \<not> HasSuffix rpcEndpoint ''.sock'' then Inl (errf (DriverMsg EndpointNotSock) [rpcEndpoint])
      else
        (case connectRpc newClient of
           Some err \<Rightarrow> Inl (wrapf (DriverMsg ConnectFailed) [rpcEndpoint] err)
         | None \<Rightarrow>
             (case getInfo of
                Inl err \<Rightarrow> Inl (wrapf (DriverMsg GetInfoFailed) [] (RpcError err))
              | Inr driverResponse \<Rightarrow>
                  (case ValidateAndSetDriverConnectionInfo driverResponse of
                     Inl err \<Rightarrow> Inl (wrapf (DriverMsg DriverInfoInvalid) [] err)
                   | Inr validatedInfo \<Rightarrow> Inr validatedInfo))))"

section \<open>Lemmas\<close>

lemma supports_loop_iff: "supports_loop sps p \<longleftrightarrow> p \<in> set sps"
  by (induction sps) auto

lemma SupportsProtocol_iff [simp]: "SupportsProtocol d p \<longleftrightarrow> p \<in> set (di_SupportedProtocols d)"
  by (simp add: SupportsProtocol_def supports_loop_iff)

lemma parse_protocols_loop_iff:
  "parse_protocols_loop ts seen out = Inr r \<longleftrightarrow>
    ObjectProtocol_UNKNOWN \<notin> set ts \<and> distinct ts \<and> set ts \<inter> set seen = {} \<and> r = out @ ts"
  by (induction ts arbitrary: seen out) auto

lemma validateAndParseProtocols_ok:
  "validateAndParseProtocols ps = Inr out \<longleftrightarrow>
    ps \<noteq> [] \<and> ObjectProtocol_UNKNOWN \<notin> set ps \<and> distinct ps \<and> out = ps"
  by (auto simp: validateAndParseProtocols_def parse_protocols_loop_iff)

lemma IsDNS1035Label_ok: "IsDNS1035Label l = [] \<longleftrightarrow> length l \<le> 63 \<and> dns1035LabelRegexp l"
  by (auto simp: IsDNS1035Label_def DNS1035LabelMaxLength_def)

lemma validateDriverName_ok:
  "validateDriverName n = None \<longleftrightarrow>
    length n \<le> 63 \<and> (\<forall>l \<in> set (split_dots n). length l \<le> 63 \<and> dns1035LabelRegexp l)"
  by (auto simp: validateDriverName_def Let_def IsDNS1035Label_ok split: if_splits)

lemma validateBucketID_ok:
  "validateBucketID i = None \<longleftrightarrow> length i \<le> 2048 \<and> bucketIDPattern i"
  by (auto simp: validateBucketID_def Let_def bucketIDMaxLength_def)

lemma rpcErrorIsRetryable_iff:
  "rpcErrorIsRetryable c \<longleftrightarrow> c \<notin> {InvalidArgument, AlreadyExists, Unimplemented}"
  by (cases c) simp_all

lemma IsNonRetryable_rpc_failure [simp]: "IsNonRetryable (rpc_failure err) \<longleftrightarrow> \<not> rpcErrorIsRetryable (fst err)"
  by (simp add: rpc_failure_def)

lemma wait_ready_iff: "wait_ready states = None \<longleftrightarrow> Ready \<in> set states"
  by (induction states) auto

lemma split_dots_nonempty [simp]: "split_dots s \<noteq> []"
  by (cases s) (simp_all split: list.splits)

text \<open>Splitting loses nothing: joining the labels with dots gives the name back.\<close>

fun join_dots :: "string list \<Rightarrow> string" where
  "join_dots [] = []"
| "join_dots [l] = l"
| "join_dots (l # ls) = l @ CHR ''.'' # join_dots ls"

lemma join_dots_Cons: "ls \<noteq> [] \<Longrightarrow> join_dots (l # ls) = l @ CHR ''.'' # join_dots ls"
  by (cases ls) simp_all

lemma join_split_dots: "join_dots (split_dots s) = s"
proof (induction s)
  case Nil
  then show ?case by simp
next
  case (Cons c cs)
  obtain l ls where split: "split_dots cs = l # ls"
    using split_dots_nonempty by (metis neq_Nil_conv)
  with Cons.IH have "join_dots ((c # l) # ls) = c # cs"
    by (cases ls) auto
  with split Cons.IH show ?case by (auto simp: join_dots_Cons)
qed

lemma split_dots_no_dot: "l \<in> set (split_dots s) \<Longrightarrow> CHR ''.'' \<notin> set l"
  by (induction s arbitrary: l) (auto split: if_splits list.splits)

text \<open>A lower-case label, and names that consist of such labels.\<close>

definition lower_label :: "string \<Rightarrow> bool" where
  "lower_label l \<longleftrightarrow> l \<noteq> [] \<and> hd l \<in> set lower_chars \<and> last l \<noteq> CHR ''-'' \<and>
     set l \<subseteq> set lower_chars \<union> set digit_chars \<union> {CHR ''-''}"

lemma split_dots_label: "CHR ''.'' \<notin> set l \<Longrightarrow> split_dots l = [l]"
  by (induction l) auto

lemma split_dots_append: "CHR ''.'' \<notin> set l \<Longrightarrow> split_dots (l @ CHR ''.'' # n) = l # split_dots n"
  by (induction l) auto

lemma split_join_dots:
  assumes "ls \<noteq> []" "list_all (\<lambda>l. CHR ''.'' \<notin> set l) ls"
  shows "split_dots (join_dots ls) = ls"
  using assms by (induction ls rule: join_dots.induct) (auto simp: split_dots_label split_dots_append)

lemma dns1035LabelRegexp_iff: "dns1035LabelRegexp l \<longleftrightarrow> lower_label l"
proof (cases l)
  case (Cons c cs)
  have dash: "CHR ''-'' \<notin> set lower_chars" "CHR ''-'' \<notin> set digit_chars"
    by (simp_all add: lower_chars_def digit_chars_def)
  have "dns1035LabelRegexp l \<longleftrightarrow> c \<in> set lower_chars \<and>
      (cs = [] \<or> set cs \<subseteq> set lower_chars \<union> set digit_chars \<union> {CHR ''-''} \<and> is_lower_alnum (last cs))"
    unfolding Cons dns1035LabelRegexp_def list.case list_all_iff is_lower_alnum_def by blast
  moreover have "is_lower_alnum (last cs) \<longleftrightarrow> last cs \<noteq> CHR ''-''"
    if "cs \<noteq> []" "set cs \<subseteq> set lower_chars \<union> set digit_chars \<union> {CHR ''-''}"
  proof -
    have "x \<in> A \<or> x \<in> B \<longleftrightarrow> x \<noteq> d" if "x \<in> A \<union> B \<union> {d}" "d \<notin> A" "d \<notin> B" for x d :: char and A B
      using that by auto
    then show ?thesis
      using subsetD[OF that(2) last_in_set[OF that(1)]] dash unfolding is_lower_alnum_def by this
  qed
  moreover have "c \<noteq> CHR ''-''" if "c \<in> set lower_chars" using that dash(1) by blast
  ultimately show ?thesis unfolding lower_label_def Cons by (cases "cs = []") auto
qed (simp add: dns1035LabelRegexp_def lower_label_def)

lemma labels_iff:
  "list_all dns1035LabelRegexp (split_dots n) \<longleftrightarrow> (\<exists>ls. ls \<noteq> [] \<and> n = join_dots ls \<and> list_all lower_label ls)"
proof
  assume "list_all dns1035LabelRegexp (split_dots n)"
  then show "\<exists>ls. ls \<noteq> [] \<and> n = join_dots ls \<and> list_all lower_label ls"
    by (intro exI[of _ "split_dots n"]) (simp add: join_split_dots dns1035LabelRegexp_iff[abs_def])
next
  assume "\<exists>ls. ls \<noteq> [] \<and> n = join_dots ls \<and> list_all lower_label ls"
  then obtain ls where ls: "ls \<noteq> []" "n = join_dots ls" "list_all lower_label ls" by blast
  have "CHR ''.'' \<notin> set lower_chars" "CHR ''.'' \<notin> set digit_chars"
    by (simp_all add: lower_chars_def digit_chars_def)
  then have "list_all (\<lambda>l. CHR ''.'' \<notin> set l) ls" using ls(3) by (auto simp: list_all_iff lower_label_def)
  then show "list_all dns1035LabelRegexp (split_dots n)"
    using ls split_join_dots by (simp add: dns1035LabelRegexp_iff[abs_def])
qed

end
