(* ===== verification/Client.thy ===== *)
theory Client
  imports Translator Driver
begin

text \<open>
  The outside world of the reconcilers: the Kubernetes API server behind controller-runtime's
  client, the COSI driver behind gRPC, the clock, package fmt and Go's map iteration order.
  None of this is code of the repository, so it is a parameter: an environment \<open>env\<close> answers
  every call, and the answer may be any function of the history of calls and answers so far. A
  theorem that holds for every environment holds for every interleaving with other actors and
  every failure. Each call is recorded in the history as one \<open>event\<close> with its argument and its
  answer.

  The client's conventions are those of controller-runtime: a successful \<open>Get\<close>,
  \<open>Create\<close>, \<open>Update\<close> or \<open>Status().Update\<close> overwrites the caller's object with the
  object the server returned, a failed one leaves it alone.
\<close>

section \<open>Driver requests and responses\<close>

record DriverGenerateBucketIdRequest =
  gen_Name :: string
  gen_Protocols :: "ObjectProtocol_Type list"
  gen_Parameters :: "string gomap"

record DriverCreateBucketRequest =
  cre_BucketId :: string
  cre_Protocols :: "ObjectProtocol_Type list"
  cre_Parameters :: "string gomap"

record DriverGetBucketRequest =
  get_BucketId :: string
  get_Protocols :: "ObjectProtocol_Type list"
  get_Parameters :: "string gomap"

record DriverDeleteBucketRequest =
  del_BucketId :: string
  del_Parameters :: "string gomap"

record GrantAccessedBucket =
  gab_BucketId :: string
  gab_ObjectDataAccessMode :: AccessMode_Mode
  gab_ObjectMetadataAccessMode :: AccessMode_Mode
  gab_BucketMetadataAccessMode :: AccessMode_Mode

record DriverGrantBucketAccessRequest =
  gr_AccountName :: string
  gr_Protocol :: ObjectProtocol_Type
  gr_AuthenticationType :: AuthenticationType_Type
  gr_ServiceAccountName :: string
  gr_Parameters :: "string gomap"
  gr_Buckets :: "GrantAccessedBucket list"

record GrantBucketInfo =
  gbi_BucketId :: string
  gbi_BucketInfo :: "ObjectProtocolAndBucketInfo option"

record DriverGrantBucketAccessResponse =
  grr_AccountId :: string
  grr_Buckets :: "GrantBucketInfo list"
  grr_Credentials :: "CredentialInfo option"

record DriverRevokeBucketAccessRequest =
  rv_AccountId :: string
  rv_Protocol :: ObjectProtocol_Type
  rv_AuthenticationType :: AuthenticationType_Type
  rv_ServiceAccountName :: string
  rv_Parameters :: "string gomap"
  rv_Buckets :: "string list"

section \<open>Events and environments\<close>

datatype event =
    EvGetBucketClaim NamespacedName "api_error + BucketClaim"
  | EvUpdateBucketClaim BucketClaim "api_error + BucketClaim"
  | EvStatusUpdateBucketClaim BucketClaim "api_error + BucketClaim"
  | EvGetBucket NamespacedName "api_error + Bucket"
  | EvCreateBucket Bucket "api_error + Bucket"
  | EvUpdateBucket Bucket "api_error + Bucket"
  | EvStatusUpdateBucket Bucket "api_error + Bucket"
  | EvDeleteBucket Bucket "api_error option"
  | EvGetBucketClass NamespacedName "api_error + BucketClass"
  | EvGetBucketAccess NamespacedName "api_error + BucketAccess"
  | EvUpdateBucketAccess BucketAccess "api_error + BucketAccess"
  | EvStatusUpdateBucketAccess BucketAccess "api_error + BucketAccess"
  | EvListBucketAccess string "api_error + BucketAccess list"
  | EvGetBucketAccessClass NamespacedName "api_error + BucketAccessClass"
  | EvGetSecret NamespacedName "api_error + Secret"
  | EvCreateSecret Secret "api_error + Secret"
  | EvUpdateSecret Secret "api_error + Secret"
  | EvDeleteSecret Secret "api_error option"
  | EvDriverGenerateBucketId DriverGenerateBucketIdRequest "rpc_error + string"
  | EvDriverCreateBucket DriverCreateBucketRequest "rpc_error + ObjectProtocolAndBucketInfo option"
  | EvDriverGetBucket DriverGetBucketRequest "rpc_error + ObjectProtocolAndBucketInfo option"
  | EvDriverDeleteBucket DriverDeleteBucketRequest "rpc_error option"
  | EvDriverGrantBucketAccess DriverGrantBucketAccessRequest
      "rpc_error + DriverGrantBucketAccessResponse"
  | EvDriverRevokeBucketAccess DriverRevokeBucketAccessRequest "rpc_error option"

type_synonym history = "event list"
type_synonym 'a prog = "(event list, 'a) state"

record env =
  e_GetBucketClaim :: "history \<Rightarrow> NamespacedName \<Rightarrow> api_error + BucketClaim"
  e_UpdateBucketClaim :: "history \<Rightarrow> BucketClaim \<Rightarrow> api_error + BucketClaim"
  e_StatusUpdateBucketClaim :: "history \<Rightarrow> BucketClaim \<Rightarrow> api_error + BucketClaim"
  e_GetBucket :: "history \<Rightarrow> NamespacedName \<Rightarrow> api_error + Bucket"
  e_CreateBucket :: "history \<Rightarrow> Bucket \<Rightarrow> api_error + Bucket"
  e_UpdateBucket :: "history \<Rightarrow> Bucket \<Rightarrow> api_error + Bucket"
  e_StatusUpdateBucket :: "history \<Rightarrow> Bucket \<Rightarrow> api_error + Bucket"
  e_DeleteBucket :: "history \<Rightarrow> Bucket \<Rightarrow> api_error option"
  e_GetBucketClass :: "history \<Rightarrow> NamespacedName \<Rightarrow> api_error + BucketClass"
  e_GetBucketAccess :: "history \<Rightarrow> NamespacedName \<Rightarrow> api_error + BucketAccess"
  e_UpdateBucketAccess :: "history \<Rightarrow> BucketAccess \<Rightarrow> api_error + BucketAccess"
  e_StatusUpdateBucketAccess :: "history \<Rightarrow> BucketAccess \<Rightarrow> api_error + BucketAccess"
  e_ListBucketAccess :: "history \<Rightarrow> string \<Rightarrow> api_error + BucketAccess list"
  e_GetBucketAccessClass :: "history \<Rightarrow> NamespacedName \<Rightarrow> api_error + BucketAccessClass"
  e_GetSecret :: "history \<Rightarrow> NamespacedName \<Rightarrow> api_error + Secret"
  e_CreateSecret :: "history \<Rightarrow> Secret \<Rightarrow> api_error + Secret"
  e_UpdateSecret :: "history \<Rightarrow> Secret \<Rightarrow> api_error + Secret"
  e_DeleteSecret :: "history \<Rightarrow> Secret \<Rightarrow> api_error option"
  e_DriverGenerateBucketId :: "history \<Rightarrow> DriverGenerateBucketIdRequest \<Rightarrow> rpc_error + string"
  e_DriverCreateBucket :: "history \<Rightarrow> DriverCreateBucketRequest \<Rightarrow>
     rpc_error + ObjectProtocolAndBucketInfo option"
  e_DriverGetBucket :: "history \<Rightarrow> DriverGetBucketRequest \<Rightarrow>
     rpc_error + ObjectProtocolAndBucketInfo option"
  e_DriverDeleteBucket :: "history \<Rightarrow> DriverDeleteBucketRequest \<Rightarrow> rpc_error option"
  e_DriverGrantBucketAccess :: "history \<Rightarrow> DriverGrantBucketAccessRequest \<Rightarrow>
     rpc_error + DriverGrantBucketAccessResponse"
  e_DriverRevokeBucketAccess :: "history \<Rightarrow> DriverRevokeBucketAccessRequest \<Rightarrow> rpc_error option"
  e_Now :: "history \<Rightarrow> time" \<comment> \<open>\<open>time.Now()\<close>\<close>
  e_ErrorText :: "error \<Rightarrow> string" \<comment> \<open>\<open>err.Error()\<close>\<close>
  e_MapOrder :: "history \<Rightarrow> string list \<Rightarrow> string list" \<comment> \<open>order of \<open>range\<close> over a map\<close>

section \<open>The calls\<close>

definition Get_BucketClaim :: "env \<Rightarrow> NamespacedName \<Rightarrow> (api_error + BucketClaim) prog" where
  "Get_BucketClaim E k = call (\<lambda>tr. e_GetBucketClaim E tr k) (EvGetBucketClaim k)"

definition Update_BucketClaim :: "env \<Rightarrow> BucketClaim \<Rightarrow> (api_error + BucketClaim) prog" where
  "Update_BucketClaim E x = call (\<lambda>tr. e_UpdateBucketClaim E tr x) (EvUpdateBucketClaim x)"

definition StatusUpdate_BucketClaim :: "env \<Rightarrow> BucketClaim \<Rightarrow> (api_error + BucketClaim) prog" where
  "StatusUpdate_BucketClaim E x =
     call (\<lambda>tr. e_StatusUpdateBucketClaim E tr x) (EvStatusUpdateBucketClaim x)"

definition Get_Bucket :: "env \<Rightarrow> NamespacedName \<Rightarrow> (api_error + Bucket) prog" where
  "Get_Bucket E k = call (\<lambda>tr. e_GetBucket E tr k) (EvGetBucket k)"

definition Create_Bucket :: "env \<Rightarrow> Bucket \<Rightarrow> (api_error + Bucket) prog" where
  "Create_Bucket E x = call (\<lambda>tr. e_CreateBucket E tr x) (EvCreateBucket x)"

definition Update_Bucket :: "env \<Rightarrow> Bucket \<Rightarrow> (api_error + Bucket) prog" where
  "Update_Bucket E x = call (\<lambda>tr. e_UpdateBucket E tr x) (EvUpdateBucket x)"

definition StatusUpdate_Bucket :: "env \<Rightarrow> Bucket \<Rightarrow> (api_error + Bucket) prog" where
  "StatusUpdate_Bucket E x = call (\<lambda>tr. e_StatusUpdateBucket E tr x) (EvStatusUpdateBucket x)"

definition Delete_Bucket :: "env \<Rightarrow> Bucket \<Rightarrow> (api_error option) prog" where
  "Delete_Bucket E x = call (\<lambda>tr. e_DeleteBucket E tr x) (EvDeleteBucket x)"

definition Get_BucketClass :: "env \<Rightarrow> NamespacedName \<Rightarrow> (api_error + BucketClass) prog" where
  "Get_BucketClass E k = call (\<lambda>tr. e_GetBucketClass E tr k) (EvGetBucketClass k)"

definition Get_BucketAccess :: "env \<Rightarrow> NamespacedName \<Rightarrow> (api_error + BucketAccess) prog" where
  "Get_BucketAccess E k = call (\<lambda>tr. e_GetBucketAccess E tr k) (EvGetBucketAccess k)"

definition Update_BucketAccess :: "env \<Rightarrow> BucketAccess \<Rightarrow> (api_error + BucketAccess) prog" where
  "Update_BucketAccess E x = call (\<lambda>tr. e_UpdateBucketAccess E tr x) (EvUpdateBucketAccess x)"

definition StatusUpdate_BucketAccess :: "env \<Rightarrow> BucketAccess \<Rightarrow> (api_error + BucketAccess) prog" where
  "StatusUpdate_BucketAccess E x =
     call (\<lambda>tr. e_StatusUpdateBucketAccess E tr x) (EvStatusUpdateBucketAccess x)"

definition List_BucketAccess :: "env \<Rightarrow> string \<Rightarrow> (api_error + BucketAccess list) prog" where
  "List_BucketAccess E ns = call (\<lambda>tr. e_ListBucketAccess E tr ns) (EvListBucketAccess ns)"

definition Get_BucketAccessClass :: "env \<Rightarrow> NamespacedName \<Rightarrow> (api_error + BucketAccessClass) prog" where
  "Get_BucketAccessClass E k = call (\<lambda>tr. e_GetBucketAccessClass E tr k) (EvGetBucketAccessClass k)"

definition Get_Secret :: "env \<Rightarrow> NamespacedName \<Rightarrow> (api_error + Secret) prog" where
  "Get_Secret E k = call (\<lambda>tr. e_GetSecret E tr k) (EvGetSecret k)"

definition Create_Secret :: "env \<Rightarrow> Secret \<Rightarrow> (api_error + Secret) prog" where
  "Create_Secret E x = call (\<lambda>tr. e_CreateSecret E tr x) (EvCreateSecret x)"

definition Update_Secret :: "env \<Rightarrow> Secret \<Rightarrow> (api_error + Secret) prog" where
  "Update_Secret E x = call (\<lambda>tr. e_UpdateSecret E tr x) (EvUpdateSecret x)"

definition Delete_Secret :: "env \<Rightarrow> Secret \<Rightarrow> (api_error option) prog" where
  "Delete_Secret E x = call (\<lambda>tr. e_DeleteSecret E tr x) (EvDeleteSecret x)"

definition DriverGenerateBucketId ::
  "env \<Rightarrow> DriverGenerateBucketIdRequest \<Rightarrow> (rpc_error + string) prog" where
  "DriverGenerateBucketId E q =
     call (\<lambda>tr. e_DriverGenerateBucketId E tr q) (EvDriverGenerateBucketId q)"

definition DriverCreateBucket ::
  "env \<Rightarrow> DriverCreateBucketRequest \<Rightarrow> (rpc_error + ObjectProtocolAndBucketInfo option) prog" where
  "DriverCreateBucket E q = call (\<lambda>tr. e_DriverCreateBucket E tr q) (EvDriverCreateBucket q)"

definition DriverGetBucket ::
  "env \<Rightarrow> DriverGetBucketRequest \<Rightarrow> (rpc_error + ObjectProtocolAndBucketInfo option) prog" where
  "DriverGetBucket E q = call (\<lambda>tr. e_DriverGetBucket E tr q) (EvDriverGetBucket q)"

definition DriverDeleteBucket ::
  "env \<Rightarrow> DriverDeleteBucketRequest \<Rightarrow> (rpc_error option) prog" where
  "DriverDeleteBucket E q = call (\<lambda>tr. e_DriverDeleteBucket E tr q) (EvDriverDeleteBucket q)"

definition DriverGrantBucketAccess ::
  "env \<Rightarrow> DriverGrantBucketAccessRequest \<Rightarrow> (rpc_error + DriverGrantBucketAccessResponse) prog" where
  "DriverGrantBucketAccess E q =
     call (\<lambda>tr. e_DriverGrantBucketAccess E tr q) (EvDriverGrantBucketAccess q)"

definition DriverRevokeBucketAccess ::
  "env \<Rightarrow> DriverRevokeBucketAccessRequest \<Rightarrow> (rpc_error option) prog" where
  "DriverRevokeBucketAccess E q =
     call (\<lambda>tr. e_DriverRevokeBucketAccess E tr q) (EvDriverRevokeBucketAccess q)"

definition Now :: "env \<Rightarrow> time prog" where
  "Now E = peek (e_Now E)"

text \<open>The keys of a map in the order the runtime visits them.\<close>

definition Range :: "env \<Rightarrow> (string \<times> 'v) list \<Rightarrow> string list prog" where
  "Range E m = peek (\<lambda>tr. range_order (e_MapOrder E tr) (map fst m))"

text \<open>Running a reconcile from the start of a history.\<close>

definition result_of :: "'a prog \<Rightarrow> 'a" where
  "result_of m = fst (run_state m [])"

definition history_of :: "'a prog \<Rightarrow> history" where
  "history_of m = snd (run_state m [])"

section \<open>A concrete environment\<close>

text \<open>
  An environment to instantiate the parameter with: nothing exists, every write is stored as it
  is, and the driver implements nothing. Witnesses replace the answers they need.
\<close>

definition echo_env :: env where
  "echo_env =
     \<lparr>e_GetBucketClaim = \<lambda>_ _. Inl (ApiNotFound []),
      e_UpdateBucketClaim = \<lambda>_ x. Inr x, e_StatusUpdateBucketClaim = \<lambda>_ x. Inr x,
      e_GetBucket = \<lambda>_ _. Inl (ApiNotFound []), e_CreateBucket = \<lambda>_ x. Inr x,
      e_UpdateBucket = \<lambda>_ x. Inr x, e_StatusUpdateBucket = \<lambda>_ x. Inr x, e_DeleteBucket = \<lambda>_ _. None,
      e_GetBucketClass = \<lambda>_ _. Inl (ApiNotFound []), e_GetBucketAccess = \<lambda>_ _. Inl (ApiNotFound []),
      e_UpdateBucketAccess = \<lambda>_ x. Inr x, e_StatusUpdateBucketAccess = \<lambda>_ x. Inr x,
      e_ListBucketAccess = \<lambda>_ _. Inr [], e_GetBucketAccessClass = \<lambda>_ _. Inl (ApiNotFound []),
      e_GetSecret = \<lambda>_ _. Inl (ApiNotFound []), e_CreateSecret = \<lambda>_ x. Inr x,
      e_UpdateSecret = \<lambda>_ x. Inr x, e_DeleteSecret = \<lambda>_ _. None,
      e_DriverGenerateBucketId = \<lambda>_ _. Inl (Unimplemented, []),
      e_DriverCreateBucket = \<lambda>_ _. Inl (Unimplemented, []),
      e_DriverGetBucket = \<lambda>_ _. Inl (Unimplemented, []),
      e_DriverDeleteBucket = \<lambda>_ _. Some (Unimplemented, []),
      e_DriverGrantBucketAccess = \<lambda>_ _. Inl (Unimplemented, []),
      e_DriverRevokeBucketAccess = \<lambda>_ _. Some (Unimplemented, []),
      e_Now = \<lambda>_. 0, e_ErrorText = \<lambda>_. [], e_MapOrder = \<lambda>_ ks. ks\<rparr>"

section \<open>Every call meets the contract of a primitive\<close>

interpretation get_claim: effect_call "Get_BucketClaim E" "e_GetBucketClaim E" EvGetBucketClaim for E
  by unfold_locales (simp add: Get_BucketClaim_def)
interpretation update_claim: effect_call "Update_BucketClaim E" "e_UpdateBucketClaim E" EvUpdateBucketClaim for E
  by unfold_locales (simp add: Update_BucketClaim_def)
interpretation status_claim: effect_call "StatusUpdate_BucketClaim E" "e_StatusUpdateBucketClaim E"
  EvStatusUpdateBucketClaim for E
  by unfold_locales (simp add: StatusUpdate_BucketClaim_def)
interpretation get_bucket: effect_call "Get_Bucket E" "e_GetBucket E" EvGetBucket for E
  by unfold_locales (simp add: Get_Bucket_def)
interpretation create_bucket: effect_call "Create_Bucket E" "e_CreateBucket E" EvCreateBucket for E
  by unfold_locales (simp add: Create_Bucket_def)
interpretation update_bucket: effect_call "Update_Bucket E" "e_UpdateBucket E" EvUpdateBucket for E
  by unfold_locales (simp add: Update_Bucket_def)
interpretation status_bucket: effect_call "StatusUpdate_Bucket E" "e_StatusUpdateBucket E"
  EvStatusUpdateBucket for E
  by unfold_locales (simp add: StatusUpdate_Bucket_def)
interpretation delete_bucket: effect_call "Delete_Bucket E" "e_DeleteBucket E" EvDeleteBucket for E
  by unfold_locales (simp add: Delete_Bucket_def)
interpretation get_class: effect_call "Get_BucketClass E" "e_GetBucketClass E" EvGetBucketClass for E
  by unfold_locales (simp add: Get_BucketClass_def)
interpretation get_access: effect_call "Get_BucketAccess E" "e_GetBucketAccess E" EvGetBucketAccess for E
  by unfold_locales (simp add: Get_BucketAccess_def)
interpretation update_access: effect_call "Update_BucketAccess E" "e_UpdateBucketAccess E"
  EvUpdateBucketAccess for E
  by unfold_locales (simp add: Update_BucketAccess_def)
interpretation status_access: effect_call "StatusUpdate_BucketAccess E" "e_StatusUpdateBucketAccess E"
  EvStatusUpdateBucketAccess for E
  by unfold_locales (simp add: StatusUpdate_BucketAccess_def)
interpretation list_access: effect_call "List_BucketAccess E" "e_ListBucketAccess E" EvListBucketAccess for E
  by unfold_locales (simp add: List_BucketAccess_def)
interpretation get_access_class: effect_call "Get_BucketAccessClass E" "e_GetBucketAccessClass E"
  EvGetBucketAccessClass for E
  by unfold_locales (simp add: Get_BucketAccessClass_def)
interpretation get_secret: effect_call "Get_Secret E" "e_GetSecret E" EvGetSecret for E
  by unfold_locales (simp add: Get_Secret_def)
interpretation create_secret: effect_call "Create_Secret E" "e_CreateSecret E" EvCreateSecret for E
  by unfold_locales (simp add: Create_Secret_def)
interpretation update_secret: effect_call "Update_Secret E" "e_UpdateSecret E" EvUpdateSecret for E
  by unfold_locales (simp add: Update_Secret_def)
interpretation delete_secret: effect_call "Delete_Secret E" "e_DeleteSecret E" EvDeleteSecret for E
  by unfold_locales (simp add: Delete_Secret_def)
interpretation rpc_generate: effect_call "DriverGenerateBucketId E" "e_DriverGenerateBucketId E"
  EvDriverGenerateBucketId for E
  by unfold_locales (simp add: DriverGenerateBucketId_def)
interpretation rpc_create: effect_call "DriverCreateBucket E" "e_DriverCreateBucket E"
  EvDriverCreateBucket for E
  by unfold_locales (simp add: DriverCreateBucket_def)
interpretation rpc_get: effect_call "DriverGetBucket E" "e_DriverGetBucket E" EvDriverGetBucket for E
  by unfold_locales (simp add: DriverGetBucket_def)
interpretation rpc_delete: effect_call "DriverDeleteBucket E" "e_DriverDeleteBucket E"
  EvDriverDeleteBucket for E
  by unfold_locales (simp add: DriverDeleteBucket_def)
interpretation rpc_grant: effect_call "DriverGrantBucketAccess E" "e_DriverGrantBucketAccess E"
  EvDriverGrantBucketAccess for E
  by unfold_locales (simp add: DriverGrantBucketAccess_def)
interpretation rpc_revoke: effect_call "DriverRevokeBucketAccess E" "e_DriverRevokeBucketAccess E"
  EvDriverRevokeBucketAccess for E
  by unfold_locales (simp add: DriverRevokeBucketAccess_def)

lemmas wp_calls [wp_intro] =
  get_claim.wp_oper update_claim.wp_oper status_claim.wp_oper get_bucket.wp_oper
  create_bucket.wp_oper update_bucket.wp_oper status_bucket.wp_oper delete_bucket.wp_oper
  get_class.wp_oper get_access.wp_oper update_access.wp_oper status_access.wp_oper
  list_access.wp_oper get_access_class.wp_oper get_secret.wp_oper create_secret.wp_oper
  update_secret.wp_oper delete_secret.wp_oper rpc_generate.wp_oper rpc_create.wp_oper
  rpc_get.wp_oper rpc_delete.wp_oper rpc_grant.wp_oper rpc_revoke.wp_oper

text \<open>For evaluating a program in a concrete environment.\<close>

lemmas run_calls =
  get_claim.run_oper update_claim.run_oper status_claim.run_oper get_bucket.run_oper
  create_bucket.run_oper update_bucket.run_oper status_bucket.run_oper delete_bucket.run_oper
  get_class.run_oper get_access.run_oper update_access.run_oper status_access.run_oper
  list_access.run_oper get_access_class.run_oper get_secret.run_oper create_secret.run_oper
  update_secret.run_oper delete_secret.run_oper rpc_generate.run_oper rpc_create.run_oper
  rpc_get.run_oper rpc_delete.run_oper rpc_grant.run_oper rpc_revoke.run_oper

lemma wp_Now [wp_intro]: "(\<And>t. Q t tr) \<Longrightarrow> wp (Now E) Q tr"
  unfolding Now_def by (rule wp_peek)

lemma run_Now [simp]: "run_state (Now E) tr = (e_Now E tr, tr)"
  by (simp add: Now_def)

lemma wp_Range [wp_intro]:
  "(\<And>ks. mset ks = mset (map fst m) \<Longrightarrow> Q ks tr) \<Longrightarrow> wp (Range E m) Q tr"
  by (simp add: Range_def wp_def)

lemma run_Range_single [simp]: "run_state (Range E [(k, v)]) tr = ([k], tr)"
  by (simp add: Range_def)

lemma wp_history: "wp m (\<lambda>_ tr. P tr) [] \<Longrightarrow> P (history_of m)"
  by (auto simp: history_of_def dest: wp_snd)

lemma wp_result: "wp m Q [] \<Longrightarrow> Q (result_of m) (history_of m)"
  by (auto simp: history_of_def result_of_def dest: wp_run)

end
