(* ===== verification/Reconciler.thy ===== *)
theory Reconciler
  imports Client
begin

text \<open>
  The shape shared by the four reconcilers: read the object, stop if it is gone or not ours, run
  the reconcile proper, and record its outcome in the status. The locale states the contract of
  the parts; its lemmas say what every such reconciler guarantees to controller-runtime, and
  reduce a property of a whole run to a property of the reconcile proper.
\<close>

text \<open>The parts of the shape put together, in the order of the code.\<close>

definition reconcile_shape ::
  "('k \<Rightarrow> (api_error + 'o) prog) \<Rightarrow> ('o \<Rightarrow> bool) \<Rightarrow> ('o \<Rightarrow> (error option \<times> 'o) prog) \<Rightarrow>
   (error option \<Rightarrow> 'o \<Rightarrow> reconcile_result prog) \<Rightarrow> 'k \<Rightarrow> reconcile_result prog" where
  "reconcile_shape get skip core finish req = do {
     r \<leftarrow> get req;
     case r of
       Inl err \<Rightarrow> ret (if IsNotFound err then Done else Retry (ApiError err))
     | Inr x \<Rightarrow> if skip x then ret Done else do {
         (err, x) \<leftarrow> core x;
         finish err x
       }
   }"

locale reconciler = get: effect_call get answer log
  for get :: "'k \<Rightarrow> (api_error + 'o) prog" and answer log +
  fixes skip :: "'o \<Rightarrow> bool"
    and core :: "'o \<Rightarrow> (error option \<times> 'o) prog"
    and tag :: "error \<Rightarrow> error"
    and finish :: "error option \<Rightarrow> 'o \<Rightarrow> reconcile_result prog"
    and status_event :: "event \<Rightarrow> bool"
    and saved :: "event \<Rightarrow> bool"
    and Reconcile :: "'k \<Rightarrow> reconcile_result prog"
  assumes Reconcile_shape: "Reconcile req = reconcile_shape get skip core finish req"
    and tag_NonRetryable: "IsNonRetryable (tag e) = IsNonRetryable e"
    and finish_writes: "wp (finish err x)
      (\<lambda>_ tr'. tr' = tr \<or> (\<exists>ev. status_event ev \<and> tr' = tr @ [ev])) tr"
    and finish_verdict: "wp (finish err x)
      (\<lambda>r tr'. let stored = (tr' = tr \<or> saved (last tr')) in
        case err of None \<Rightarrow> if stored then r = Done else \<exists>a. r = Retry (ApiError a)
                  | Some e \<Rightarrow> r = (if stored then classify (tag e) else Retry (tag e))) tr"
begin

lemma wp_Reconcile:
  assumes "\<And>err. Q (if IsNotFound err then Done else Retry (ApiError err)) [log req (Inl err)]"
    and "\<And>x. skip x \<Longrightarrow> Q Done [log req (Inr x)]"
    and "\<And>x. \<not> skip x \<Longrightarrow> wp (core x) (\<lambda>(e, x'). wp (finish e x') Q) [log req (Inr x)]"
  shows "wp (Reconcile req) Q []"
  unfolding Reconcile_shape reconcile_shape_def
  by (intro wp_bind get.wp_oper wp_case_sum wp_if wp_return)
     (auto simp: assms(1,2) split_beta intro: wp_mono[OF assms(3)])

text \<open>A guard that allows the read and every status update holds of a run if it holds of the
  reconcile proper.\<close>

lemma history_guarded:
  assumes read: "\<And>r. G [] (log req r)" and status: "\<And>tr e. status_event e \<Longrightarrow> G tr e"
    and core: "\<And>x. \<not> skip x \<Longrightarrow> wp (core x) (\<lambda>_. guarded G) [log req (Inr x)]"
  shows "guarded G (history_of (Reconcile req))"
proof (rule wp_history, rule wp_Reconcile)
  show "guarded G [log req (Inl err)]" for err by (simp add: guarded_def read)
  show "guarded G [log req (Inr x)]" for x by (simp add: guarded_def read)
  have finish: "wp (finish e x) (\<lambda>_. guarded G) tr" if "guarded G tr" for e x tr
    by (rule wp_mono[OF finish_writes]) (use that status in auto)
  show "wp (core x) (\<lambda>(e, x'). wp (finish e x') (\<lambda>_. guarded G)) [log req (Inr x)]"
    if "\<not> skip x" for x
    by (rule wp_mono[OF core[OF that]]) (auto intro: finish)
qed

text \<open>The first event is the read of the object, and no other read answers for it.\<close>

lemma reads_first: "\<exists>r evs. history_of (Reconcile req) = log req r # evs" (is "?P (history_of _)")
  if core: "\<And>x tr. wp (core x) (\<lambda>_ tr'. \<exists>evs. tr' = tr @ evs) tr"
proof (rule wp_history, rule wp_Reconcile)
  have finish: "wp (finish e x) (\<lambda>_. ?P) tr" if "?P tr" for e x tr
    by (rule wp_mono[OF finish_writes]) (use that in auto)
  show "wp (core x) (\<lambda>(e, x'). wp (finish e x') (\<lambda>_. ?P)) [log req (Inr x)]" for x
    by (rule wp_mono[OF core]) (auto intro: finish)
qed auto

text \<open>An object that is gone is not an error; any other failed read is retried. Nothing is written.\<close>

lemma read_failed:
  assumes "answer [] req = Inl err"
  shows "result_of (Reconcile req) = (if IsNotFound err then Done else Retry (ApiError err))"
    and "history_of (Reconcile req) = [log req (Inl err)]"
  using assms
  by (simp_all add: Reconcile_shape reconcile_shape_def result_of_def history_of_def get.run_oper)

text \<open>Only errors marked as non-retryable stop the retries, and only once the status is saved (or
  needed no change).\<close>

lemma terminal_NonRetryable:
  assumes "result_of (Reconcile req) = Terminal e"
  shows "IsNonRetryable e"
proof -
  let ?Q = "\<lambda>r (_ :: history). \<forall>e. r = Terminal e \<longrightarrow> IsNonRetryable e"
  have finish: "wp (finish err x) ?Q tr" for err x tr
    by (rule wp_mono[OF finish_verdict]) (auto simp: classify_def Let_def split: option.splits if_splits)
  have "wp (Reconcile req) ?Q []"
    by (rule wp_Reconcile) (auto simp: wp_def finish[unfolded wp_def] split: prod.splits)
  then show ?thesis using assms by (auto dest: wp_result)
qed

lemma terminal_saved:
  assumes "result_of (Reconcile req) = Terminal e"
    and "answer [] req = Inr x" and "\<not> skip x"
  shows "history_of (Reconcile req) = snd (run_state (core x) [log req (Inr x)]) \<or>
    saved (last (history_of (Reconcile req)))"
proof -
  obtain err x' tr where run: "run_state (core x) [log req (Inr x)] = ((err, x'), tr)"
    by (metis surj_pair)
  show ?thesis using assms run finish_verdict[of err x' tr]
    by (auto simp: Reconcile_shape reconcile_shape_def result_of_def history_of_def get.run_oper
        wp_def Let_def split: prod.splits option.splits if_splits)
qed

text \<open>An error of the reconcile proper is never swallowed.\<close>

lemma error_reported:
  assumes "answer [] req = Inr x" and "\<not> skip x"
    and "fst (run_state (core x) [log req (Inr x)]) = (Some e, x')"
  shows "result_of (Reconcile req) \<in> {Retry (tag e), classify (tag e)}"
  using assms finish_verdict[of "Some e" x' "snd (run_state (core x) [log req (Inr x)])"]
  by (auto simp: Reconcile_shape reconcile_shape_def result_of_def get.run_oper wp_def Let_def split: prod.splits if_splits)

end

end
