(* ===== verification/Sidecar_Bucket.thy ===== *)
theory Sidecar_Bucket
  imports Reconciler
begin

text \<open>
  The Sidecar's Bucket reconciler (\<^verbatim>\<open>src/sidecar/pkg/reconciler/bucket.go\<close>): it provisions
  the backend bucket through the driver, records its ID and publishes its protocols and info, and
  deletes the backend bucket when the Bucket is deleted.

  A Go function that changes the \<open>bucket\<close> it is given returns the changed object next to its
  error. Lemmas state what every call of a run was preceded by, for every environment.
\<close>

section \<open>Pure helpers\<close>

text \<open>\<open>bucket.Status.ReadyToUse = ptr.To(false); bucket.Status.Error = nil\<close>.\<close>

definition bucket_not_ready :: "Bucket \<Rightarrow> Bucket" where
  "bucket_not_ready bucket = bucket\<lparr>b_Status := (b_Status bucket)\<lparr>
     bst_ReadyToUse := Some False, bst_Error := None\<rparr>\<rparr>"

definition getBucketIdIfSet :: "Bucket \<Rightarrow> error + string" where
  "getBucketIdIfSet bucket =
     (if bst_BucketID (b_Status bucket) = [] \<and> ptr_Deref (bst_ReadyToUse (b_Status bucket)) False then
        Inl (NonRetryableError (errf (BucketMsg ReadyWithoutBucketID) []))
      else if bst_BucketID (b_Status bucket) \<noteq> [] then Inr (bst_BucketID (b_Status bucket))
      else Inr (bs_ExistingBucketID (b_Spec bucket)))"

fun protocol_list_loop ::
  "ObjectProtocol list \<Rightarrow> error list \<Rightarrow> ObjectProtocol_Type list \<Rightarrow> error list \<times> ObjectProtocol_Type list" where
  "protocol_list_loop [] errs out = (errs, out)"
| "protocol_list_loop (apiProto # rest) errs out =
     (case ObjectProtocol_ApiToRpc apiProto of
        Inl err \<Rightarrow> protocol_list_loop rest (errs @ [err]) out
      | Inr rpcProto \<Rightarrow> protocol_list_loop rest errs (out @ [rpcProto]))"

definition objectProtocolListFromApiList :: "ObjectProtocol list \<Rightarrow> error + ObjectProtocol_Type list" where
  "objectProtocolListFromApiList apiList =
     (let (errs, out) = protocol_list_loop apiList [] [] in
      case join_errs (Text (BucketMsg ParseProtocolsFailed) [] []) errs of
        Some err \<Rightarrow> Inl err
      | None \<Rightarrow> Inr out)"

text \<open>The error lists one text per unsupported protocol (its printed name is not modelled).\<close>

definition validateDriverSupportsProtocols :: "DriverInfo \<Rightarrow> ObjectProtocol_Type list \<Rightarrow> error option" where
  "validateDriverSupportsProtocols driver required =
     (let unsupportedProtos = filter (\<lambda>proto. \<not> SupportsProtocol driver proto) required in
      if length unsupportedProtos > 0 then
        Some (Errorf (Text (BucketMsg DriverProtocolsUnsupported) [di_Name driver]
          (map (\<lambda>_. Text (BucketMsg UnsupportedProtocolName) [] []) unsupportedProtos)))
      else None)"

definition validateBucketSupportsProtocols ::
  "ObjectProtocol list \<Rightarrow> ObjectProtocol list \<Rightarrow> error option" where
  "validateBucketSupportsProtocols supported required =
     (let unsupported = filter (\<lambda>req. req \<notin> set supported) required in
      if length unsupported > 0 then Some (errf (BucketMsg RequiredProtocolsUnsupported) unsupported)
      else None)"

record provisionedBucketDetails =
  pb_supportedProtos :: "ObjectProtocol list"
  pb_allProtoBucketInfo :: "(string \<times> string) list"

section \<open>Steps of provisioning\<close>

text \<open>\<open>didAdd := ctrlutil.AddFinalizer(...); if didAdd { r.Update(...) }\<close>.\<close>

definition Bucket_addFinalizer :: "env \<Rightarrow> Bucket \<Rightarrow> (error option \<times> Bucket) prog" where
  "Bucket_addFinalizer E bucket =
     (let (didAdd, meta) = AddFinalizer (b_Meta bucket) ProtectionFinalizer;
          bucket = bucket\<lparr>b_Meta := meta\<rparr> in
      if didAdd then do {
        r \<leftarrow> Update_Bucket E bucket;
        case r of
          Inl err \<Rightarrow> ret (Some (wrapf AddFinalizerFailed [] (ApiError err)), bucket)
        | Inr bucket \<Rightarrow> ret (None, bucket)
      } else ret (None, bucket))"

definition recordBucketId :: "env \<Rightarrow> Bucket \<Rightarrow> string \<Rightarrow> (error option \<times> Bucket) prog" where
  "recordBucketId E bucket bucketID = do {
     let bucket = bucket\<lparr>b_Status := (b_Status bucket)\<lparr>
       bst_BucketID := bucketID, bst_ReadyToUse := Some False\<rparr>\<rparr>;
     r \<leftarrow> StatusUpdate_Bucket E bucket;
     case r of
       Inl err \<Rightarrow> ret (Some (wrapf (BucketMsg RecordBucketIDFailed) [] (ApiError err)), bucket)
     | Inr bucket \<Rightarrow> ret (None, bucket)
   }"

definition generateBucketID ::
  "env \<Rightarrow> string \<Rightarrow> ObjectProtocol_Type list \<Rightarrow> string gomap \<Rightarrow> (error + string) prog" where
  "generateBucketID E name requiredProtos parameters = do {
     resp \<leftarrow> DriverGenerateBucketId E
       \<lparr>gen_Name = name, gen_Protocols = requiredProtos, gen_Parameters = parameters\<rparr>;
     case resp of
       Inl err \<Rightarrow> ret (Inl (rpc_failure err))
     | Inr bucketId \<Rightarrow>
         if bucketId = [] then ret (Inl (NonRetryableError (errf (BucketMsg GeneratedIDMissing) [])))
         else (case validateBucketID bucketId of
                 Some err \<Rightarrow> ret (Inl (NonRetryableError err))
               | None \<Rightarrow> ret (Inr bucketId))
   }"

definition dynamicProvision ::
  "env \<Rightarrow> string \<Rightarrow> ObjectProtocol_Type list \<Rightarrow> string gomap \<Rightarrow> BucketClaimReference \<Rightarrow>
   (error + provisionedBucketDetails) prog" where
  "dynamicProvision E bucketID requiredProtos parameters cr =
     (if cr_Name cr = [] \<or> cr_Namespace cr = [] \<or> cr_UID cr = [] then
        ret (Inl (NonRetryableError (errf (BucketMsg DynamicClaimRefUnset)
          [cr_Name cr, cr_Namespace cr, cr_UID cr])))
      else do {
        resp \<leftarrow> DriverCreateBucket E
          \<lparr>cre_BucketId = bucketID, cre_Protocols = requiredProtos, cre_Parameters = parameters\<rparr>;
        case resp of
          Inl err \<Rightarrow> ret (Inl (rpc_failure err))
        | Inr protoResp \<Rightarrow>
            if protoResp = None then
              ret (Inl (NonRetryableError (errf (BucketMsg CreatedProtocolsResponseMissing) [])))
            else (case BucketInfoToApi protoResp None of
                    Inl err \<Rightarrow> ret (Inl (NonRetryableError err))
                  | Inr (supportedProtos, allBucketInfo) \<Rightarrow>
                      ret (Inr \<lparr>pb_supportedProtos = supportedProtos,
                                pb_allProtoBucketInfo = allBucketInfo\<rparr>))
      })"

definition staticProvision ::
  "env \<Rightarrow> string \<Rightarrow> ObjectProtocol_Type list \<Rightarrow> string gomap \<Rightarrow> BucketClaimReference \<Rightarrow>
   (error + provisionedBucketDetails) prog" where
  "staticProvision E existingBucketID requiredProtos parameters ref =
     (if cr_Name ref = [] \<or> cr_Namespace ref = [] then
        ret (Inl (NonRetryableError (errf (BucketMsg StaticClaimRefUnset)
          [cr_Name ref, cr_Namespace ref, cr_UID ref])))
      else do {
        resp \<leftarrow> DriverGetBucket E
          \<lparr>get_BucketId = existingBucketID, get_Protocols = requiredProtos, get_Parameters = parameters\<rparr>;
        case resp of
          Inl err \<Rightarrow>
            if fst err = NotFound then
              ret (Inl (wrapf (BucketMsg WaitingForBackendBucket) [] (RpcError err)))
            else ret (Inl (rpc_failure err))
        | Inr protoResp \<Rightarrow>
            if protoResp = None then
              ret (Inl (NonRetryableError (errf (BucketMsg ExistingProtocolsResponseMissing) [])))
            else (case BucketInfoToApi protoResp None of
                    Inl err \<Rightarrow> ret (Inl (NonRetryableError err))
                  | Inr (supportedProtos, allBucketInfo) \<Rightarrow>
                      ret (Inr \<lparr>pb_supportedProtos = supportedProtos,
                                pb_allProtoBucketInfo = allBucketInfo\<rparr>))
      })"

text \<open>The final validation and status update, the same for both provisioning strategies.\<close>

definition publishBucket ::
  "env \<Rightarrow> Bucket \<Rightarrow> string \<Rightarrow> provisionedBucketDetails \<Rightarrow> (error option \<times> Bucket) prog" where
  "publishBucket E bucket bucketID provisionedBucket =
     (if length (pb_supportedProtos provisionedBucket) = 0 then
        ret (Some (NonRetryableError (errf (BucketMsg CreatedNoProtocols) [])), bucket)
      else
        (case validateBucketSupportsProtocols (pb_supportedProtos provisionedBucket)
                (bs_Protocols (b_Spec bucket)) of
           Some err \<Rightarrow>
             ret (Some (NonRetryableError (wrapf (BucketMsg RequiredProtocolsMissing) [] err)), bucket)
         | None \<Rightarrow> do {
             let bucket = bucket\<lparr>b_Status :=
               \<lparr>bst_ReadyToUse = Some True,
                bst_BucketID = bucketID,
                bst_Protocols = pb_supportedProtos provisionedBucket,
                bst_BucketInfo = Some (pb_allProtoBucketInfo provisionedBucket),
                bst_Error = None\<rparr>\<rparr>;
             r \<leftarrow> StatusUpdate_Bucket E bucket;
             case r of
               Inl err \<Rightarrow> ret (Some (wrapf (BucketMsg StatusAfterCreationFailed) [] (ApiError err)), bucket)
             | Inr bucket \<Rightarrow> ret (None, bucket)
           }))"

text \<open>The call of the driver for the chosen strategy, and what follows it.\<close>

definition provisionBucket ::
  "env \<Rightarrow> Bucket \<Rightarrow> string \<Rightarrow> ObjectProtocol_Type list \<Rightarrow> bool \<Rightarrow> (error option \<times> Bucket) prog" where
  "provisionBucket E bucket bucketID requiredProtos isStaticProvisioning = do {
     res \<leftarrow> (if isStaticProvisioning then
         staticProvision E bucketID requiredProtos (bs_Parameters (b_Spec bucket))
           (bs_BucketClaimRef (b_Spec bucket))
       else
         dynamicProvision E bucketID requiredProtos (bs_Parameters (b_Spec bucket))
           (bs_BucketClaimRef (b_Spec bucket)));
     case res of
       Inl err \<Rightarrow> ret (Some err, bucket)
     | Inr provisionedBucket \<Rightarrow> publishBucket E bucket bucketID provisionedBucket
   }"

text \<open>Determining the bucket ID, minting it if Kubernetes holds none, and recording it.\<close>

definition assignBucketID ::
  "env \<Rightarrow> Bucket \<Rightarrow> ObjectProtocol_Type list \<Rightarrow> (error + string) prog" where
  "assignBucketID E bucket requiredProtos =
     (case getBucketIdIfSet bucket of
        Inl err \<Rightarrow> ret (Inl err)
      | Inr bucketID \<Rightarrow>
          if bucketID = [] then
            generateBucketID E (om_Name (b_Meta bucket)) requiredProtos (bs_Parameters (b_Spec bucket))
          else ret (Inr bucketID))"

definition recordAndProvision ::
  "env \<Rightarrow> Bucket \<Rightarrow> string \<Rightarrow> ObjectProtocol_Type list \<Rightarrow> bool \<Rightarrow> (error option \<times> Bucket) prog" where
  "recordAndProvision E bucket bucketID requiredProtos isStaticProvisioning =
     (if bucketID = [] then
        ret (Some (NonRetryableError (errf (BucketMsg InternalNoBucketID) [])), bucket)
      else if bst_BucketID (b_Status bucket) = [] then do {
        (err, bucket) \<leftarrow> recordBucketId E bucket bucketID;
        case err of
          Some e \<Rightarrow> ret (Some e, bucket)
        | None \<Rightarrow> provisionBucket E bucket bucketID requiredProtos isStaticProvisioning
      }
      else provisionBucket E bucket bucketID requiredProtos isStaticProvisioning)"

section \<open>Reconcile\<close>

definition Sidecar_Bucket_reconcileDelete :: "env \<Rightarrow> Bucket \<Rightarrow> (error option \<times> Bucket) prog" where
  "Sidecar_Bucket_reconcileDelete E bucket =
     (if bs_DeletionPolicy (b_Spec bucket) \<noteq> BucketDeletionPolicyDelete then
        ret (Some (NonRetryableError (errf (BucketMsg NonDeletePolicy)
          [bs_DeletionPolicy (b_Spec bucket)])), bucket)
      else if \<not> has_annotation (b_Meta bucket) BucketClaimBeingDeletedAnnotation \<and>
              cr_UID (bs_BucketClaimRef (b_Spec bucket)) \<noteq> [] then
        let ref = bs_BucketClaimRef (b_Spec bucket) in
        ret (Some (NonRetryableError (errf (BucketMsg BoundToNonDeletingClaim)
          [cr_Name ref, cr_Namespace ref, cr_UID ref])), bucket)
      else do {
        let bucket = bucket_not_ready bucket;
        r \<leftarrow> StatusUpdate_Bucket E bucket;
        case r of
          Inl err \<Rightarrow>
            ret (Some (wrapf (BucketMsg BucketStatusBeforeDeletionFailed) [] (ApiError err)), bucket)
        | Inr bucket \<Rightarrow> do {
            res \<leftarrow> (if bst_BucketID (b_Status bucket) \<noteq> [] then
                DriverDeleteBucket E
                  \<lparr>del_BucketId = bst_BucketID (b_Status bucket),
                   del_Parameters = bs_Parameters (b_Spec bucket)\<rparr>
              else ret None);
            case res of
              Some err \<Rightarrow> ret (Some (rpc_failure err), bucket)
            | None \<Rightarrow> do {
                let bucket = bucket\<lparr>b_Meta := RemoveFinalizer (b_Meta bucket) ProtectionFinalizer\<rparr>;
                r \<leftarrow> Update_Bucket E bucket;
                case r of
                  Inl err \<Rightarrow> ret (Some (wrapf RemoveFinalizerFailed [] (ApiError err)), bucket)
                | Inr bucket \<Rightarrow> ret (None, bucket)
              }
          }
      })"

definition Sidecar_Bucket_reconcile ::
  "env \<Rightarrow> DriverInfo \<Rightarrow> Bucket \<Rightarrow> (error option \<times> Bucket) prog" where
  "Sidecar_Bucket_reconcile E driver bucket =
     (if bs_DriverName (b_Spec bucket) \<noteq> di_Name driver then ret (None, bucket)
      else if \<not> IsZero (om_DeletionTimestamp (b_Meta bucket)) then
        Sidecar_Bucket_reconcileDelete E bucket
      else if has_annotation (b_Meta bucket) BucketClaimBeingDeletedAnnotation then do {
        let bucket = bucket_not_ready bucket;
        r \<leftarrow> StatusUpdate_Bucket E bucket;
        case r of
          Inl err \<Rightarrow>
            ret (Some (wrapf (BucketMsg BucketStatusBeforeDeletionFailed) [] (ApiError err)), bucket)
        | Inr bucket \<Rightarrow> ret (None, bucket)
      }
      else
        (case objectProtocolListFromApiList (bs_Protocols (b_Spec bucket)) of
           Inl err \<Rightarrow> ret (Some (NonRetryableError err), bucket)
         | Inr requiredProtos \<Rightarrow>
             (case validateDriverSupportsProtocols driver requiredProtos of
                Some err \<Rightarrow> ret (Some (NonRetryableError err), bucket)
              | None \<Rightarrow> do {
                  let isStaticProvisioning = (bs_ExistingBucketID (b_Spec bucket) \<noteq> []);
                  (err, bucket) \<leftarrow> Bucket_addFinalizer E bucket;
                  case err of
                    Some e \<Rightarrow> ret (Some e, bucket)
                  | None \<Rightarrow> do {
                      res \<leftarrow> assignBucketID E bucket requiredProtos;
                      case res of
                        Inl err \<Rightarrow> ret (Some err, bucket)
                      | Inr bucketID \<Rightarrow>
                          recordAndProvision E bucket bucketID requiredProtos isStaticProvisioning
                    }
                })))"

text \<open>\<open>if bucket.Status.ReadyToUse == nil { bucket.Status.ReadyToUse = ptr.To(false) }\<close>.\<close>

definition bucket_ready_set :: "Bucket \<Rightarrow> Bucket" where
  "bucket_ready_set bucket =
     (if bst_ReadyToUse (b_Status bucket) = None
      then bucket\<lparr>b_Status := (b_Status bucket)\<lparr>bst_ReadyToUse := Some False\<rparr>\<rparr> else bucket)"

text \<open>The part of \<open>Reconcile\<close> after the call of \<open>reconcile\<close>.\<close>

definition Sidecar_Bucket_finish :: "env \<Rightarrow> error option \<Rightarrow> Bucket \<Rightarrow> reconcile_result prog" where
  "Sidecar_Bucket_finish E err bucket =
     (case err of
        Some err \<Rightarrow> do {
          let bucket = bucket_ready_set bucket;
          now \<leftarrow> Now E;
          let bucket = bucket\<lparr>b_Status := (b_Status bucket)\<lparr>
            bst_Error := Some (NewTimestampedError now (e_ErrorText E err))\<rparr>\<rparr>;
          u \<leftarrow> StatusUpdate_Bucket E bucket;
          case u of
            Inl updErr \<Rightarrow> ret (Retry err)
          | Inr _ \<Rightarrow> ret (classify err)
        }
      | None \<Rightarrow>
          if bst_Error (b_Status bucket) \<noteq> None \<and> IsZero (om_DeletionTimestamp (b_Meta bucket)) then do {
            let bucket = bucket_ready_set bucket;
            let bucket = bucket\<lparr>b_Status := (b_Status bucket)\<lparr>bst_Error := None\<rparr>\<rparr>;
            u \<leftarrow> StatusUpdate_Bucket E bucket;
            case u of
              Inl err \<Rightarrow> ret (Retry (ApiError err))
            | Inr _ \<Rightarrow> ret Done
          } else ret Done)"

definition Sidecar_Bucket_Reconcile ::
  "env \<Rightarrow> DriverInfo \<Rightarrow> NamespacedName \<Rightarrow> reconcile_result prog" where
  "Sidecar_Bucket_Reconcile E driver req = do {
     r \<leftarrow> Get_Bucket E req;
     case r of
       Inl err \<Rightarrow> ret (if IsNotFound err then Done else Retry (ApiError err))
     | Inr bucket \<Rightarrow> do {
         (err, bucket) \<leftarrow> Sidecar_Bucket_reconcile E driver bucket;
         Sidecar_Bucket_finish E err bucket
       }
   }"

section \<open>Outcomes of the steps\<close>

text \<open>The driver call that provisions \<open>bucket\<close> under the chosen strategy.\<close>

definition provision_event ::
  "bool \<Rightarrow> Bucket \<Rightarrow> string \<Rightarrow> ObjectProtocol_Type list \<Rightarrow>
   rpc_error + ObjectProtocolAndBucketInfo option \<Rightarrow> event" where
  "provision_event isStatic bucket bucketID protos r =
     (if isStatic then EvDriverGetBucket
        \<lparr>get_BucketId = bucketID, get_Protocols = protos, get_Parameters = bs_Parameters (b_Spec bucket)\<rparr> r
      else EvDriverCreateBucket
        \<lparr>cre_BucketId = bucketID, cre_Protocols = protos, cre_Parameters = bs_Parameters (b_Spec bucket)\<rparr> r)"

text \<open>The status that \<open>publishBucket\<close> writes.\<close>

definition ready_bucket :: "Bucket \<Rightarrow> string \<Rightarrow> ObjectProtocol list \<Rightarrow> (string \<times> string) list \<Rightarrow> Bucket" where
  "ready_bucket bucket bucketID protos info = bucket\<lparr>b_Status :=
     \<lparr>bst_ReadyToUse = Some True, bst_BucketID = bucketID, bst_Protocols = protos,
      bst_BucketInfo = Some info, bst_Error = None\<rparr>\<rparr>"

definition with_id :: "Bucket \<Rightarrow> string \<Rightarrow> Bucket" where
  "with_id bucket bucketID = bucket\<lparr>b_Status := (b_Status bucket)\<lparr>
     bst_BucketID := bucketID, bst_ReadyToUse := Some False\<rparr>\<rparr>"

lemma validateBucketSupportsProtocols_None:
  "validateBucketSupportsProtocols supported required = None \<longleftrightarrow> set required \<subseteq> set supported"
  by (auto simp: validateBucketSupportsProtocols_def filter_empty_conv)

lemma Bucket_meta_same [simp]: "b\<lparr>b_Meta := b_Meta b\<rparr> = (b :: Bucket)"
  by (cases b) simp

lemma wp_Bucket_addFinalizer [wp_intro]:
  assumes "ContainsFinalizer (b_Meta b) ProtectionFinalizer \<Longrightarrow> Q (None, b) tr"
    and "\<And>e r m. ContainsFinalizer m ProtectionFinalizer \<Longrightarrow>
      Q (Some e, b\<lparr>b_Meta := m\<rparr>) (tr @ [EvUpdateBucket (b\<lparr>b_Meta := m\<rparr>) (Inl r)])"
    and "\<And>m b'. ContainsFinalizer m ProtectionFinalizer \<Longrightarrow>
      Q (None, b') (tr @ [EvUpdateBucket (b\<lparr>b_Meta := m\<rparr>) (Inr b')])"
  shows "wp (Bucket_addFinalizer E b) Q tr"
  unfolding Bucket_addFinalizer_def
  by (intro wp_intro) (auto dest!: AddFinalizer_unchanged AddFinalizer_changed simp: assms)

lemma wp_recordBucketId [wp_intro]:
  assumes "\<And>e r. Q (Some e, with_id b i) (tr @ [EvStatusUpdateBucket (with_id b i) (Inl r)])"
    and "\<And>b'. Q (None, b') (tr @ [EvStatusUpdateBucket (with_id b i) (Inr b')])"
  shows "wp (recordBucketId E b i) Q tr"
  unfolding recordBucketId_def Let_def with_id_def[symmetric] by (intro wp_intro) (auto intro: assms)

lemma wp_generateBucketID [wp_intro]:
  assumes "\<And>e r. Q (Inl e) (tr @ [EvDriverGenerateBucketId \<lparr>gen_Name = n, gen_Protocols = ps, gen_Parameters = pa\<rparr> r])"
    and "\<And>i. i \<noteq> [] \<Longrightarrow> validateBucketID i = None \<Longrightarrow>
      Q (Inr i) (tr @ [EvDriverGenerateBucketId \<lparr>gen_Name = n, gen_Protocols = ps, gen_Parameters = pa\<rparr> (Inr i)])"
  shows "wp (generateBucketID E n ps pa) Q tr"
  unfolding generateBucketID_def by (intro wp_intro; simp add: assms)

lemma wp_provision_call:
  assumes "\<And>e. Q (Inl e) tr"
    and "\<And>e r. Q (Inl e) (tr @ [provision_event st b i ps r])"
    and "\<And>resp protos info. BucketInfoToApi (Some resp) None = Inr (protos, info) \<Longrightarrow>
      Q (Inr \<lparr>pb_supportedProtos = protos, pb_allProtoBucketInfo = info\<rparr>)
        (tr @ [provision_event st b i ps (Inr (Some resp))])"
  shows "wp (if st then staticProvision E i ps (bs_Parameters (b_Spec b)) cr
             else dynamicProvision E i ps (bs_Parameters (b_Spec b)) cr) Q tr"
  using assms unfolding staticProvision_def dynamicProvision_def provision_event_def
  by (intro wp_intro; auto)

lemma wp_publishBucket:
  assumes "\<And>e. Q (Some e, b) tr"
    and "\<And>e r. protos \<noteq> [] \<Longrightarrow> set (bs_Protocols (b_Spec b)) \<subseteq> set protos \<Longrightarrow>
      Q (Some e, ready_bucket b i protos info)
        (tr @ [EvStatusUpdateBucket (ready_bucket b i protos info) (Inl r)])"
    and "\<And>b'. protos \<noteq> [] \<Longrightarrow> set (bs_Protocols (b_Spec b)) \<subseteq> set protos \<Longrightarrow>
      Q (None, b') (tr @ [EvStatusUpdateBucket (ready_bucket b i protos info) (Inr b')])"
  shows "wp (publishBucket E b i \<lparr>pb_supportedProtos = protos, pb_allProtoBucketInfo = info\<rparr>) Q tr"
  using assms unfolding publishBucket_def Let_def ready_bucket_def[symmetric]
  by (intro wp_intro; simp add: ready_bucket_def validateBucketSupportsProtocols_None)

lemma wp_provisionBucket [wp_intro]:
  assumes "\<And>e. Q (Some e, b) tr"
    and "\<And>e r. Q (Some e, b) (tr @ [provision_event st b i ps r])"
    and "\<And>resp protos info r u e. BucketInfoToApi (Some resp) None = Inr (protos, info) \<Longrightarrow> protos \<noteq> [] \<Longrightarrow>
      set (bs_Protocols (b_Spec b)) \<subseteq> set protos \<Longrightarrow>
      u = (Some e, ready_bucket b i protos info) \<and> isl r \<or> (\<exists>b'. u = (None, b') \<and> r = Inr b') \<Longrightarrow>
      Q u (tr @ [provision_event st b i ps (Inr (Some resp)),
                 EvStatusUpdateBucket (ready_bucket b i protos info) r])"
  shows "wp (provisionBucket E b i ps st) Q tr"
  unfolding provisionBucket_def
  by (intro wp_bind wp_provision_call wp_case_constructor wp_return wp_publishBucket)
     (simp_all add: assms(1,2), (rule assms(3); force)+)

lemma wp_assignBucketID [wp_intro]:
  assumes "\<And>e. Q (Inl e) tr"
    and "\<And>i. i \<noteq> [] \<Longrightarrow> i = bst_BucketID (b_Status b) \<or>
           bst_BucketID (b_Status b) = [] \<and> i = bs_ExistingBucketID (b_Spec b) \<Longrightarrow> Q (Inr i) tr"
    and "\<And>q e r. Q (Inl e) (tr @ [EvDriverGenerateBucketId q r])"
    and "\<And>q i. i \<noteq> [] \<Longrightarrow> validateBucketID i = None \<Longrightarrow> bst_BucketID (b_Status b) = [] \<Longrightarrow>
           bs_ExistingBucketID (b_Spec b) = [] \<Longrightarrow> Q (Inr i) (tr @ [EvDriverGenerateBucketId q (Inr i)])"
  shows "wp (assignBucketID E b ps) Q tr"
  unfolding assignBucketID_def getBucketIdIfSet_def
  by (intro wp_intro) (auto simp: assms split: if_splits)

section \<open>What every call was preceded by\<close>

definition status_bucket_event :: "event \<Rightarrow> bool" where
  "status_bucket_event e = (case e of EvStatusUpdateBucket _ _ \<Rightarrow> True | _ \<Rightarrow> False)"

definition status_bucket_saved :: "event \<Rightarrow> bool" where
  "status_bucket_saved e = (case e of EvStatusUpdateBucket _ (Inr _) \<Rightarrow> True | _ \<Rightarrow> False)"

interpretation sidecar_bucket: reconciler "Get_Bucket E" "e_GetBucket E" EvGetBucket "\<lambda>_. False"
  "Sidecar_Bucket_reconcile E driver" "\<lambda>e. e" "Sidecar_Bucket_finish E" status_bucket_event
  status_bucket_saved "Sidecar_Bucket_Reconcile E driver" for E driver
proof
  show "Sidecar_Bucket_Reconcile E driver req = reconcile_shape (Get_Bucket E) (\<lambda>_. False)
      (Sidecar_Bucket_reconcile E driver) (Sidecar_Bucket_finish E) req" for req
    unfolding Sidecar_Bucket_Reconcile_def reconcile_shape_def if_False ..
qed (auto simp: Sidecar_Bucket_finish_def wp_def run_calls Let_def status_bucket_event_def
  status_bucket_saved_def classify_def split: option.splits sum.splits)

text \<open>The Bucket the server answered with, if the event has one.\<close>

definition server_bucket :: "event \<Rightarrow> Bucket option" where
  "server_bucket e = (case e of
      EvGetBucket _ (Inr b) \<Rightarrow> Some b
    | EvUpdateBucket _ (Inr b) \<Rightarrow> Some b
    | EvStatusUpdateBucket _ (Inr b) \<Rightarrow> Some b
    | _ \<Rightarrow> None)"

subsection \<open>The bucket ID is recorded before it is used\<close>

definition holds_id :: "string \<Rightarrow> event \<Rightarrow> bool" where
  "holds_id i e = (case e of
      EvGetBucket _ (Inr b) \<Rightarrow> bst_BucketID (b_Status b) = i
    | EvUpdateBucket _ (Inr b) \<Rightarrow> bst_BucketID (b_Status b) = i
    | EvStatusUpdateBucket b (Inr _) \<Rightarrow> bst_BucketID (b_Status b) = i
    | _ \<Rightarrow> False)"

definition id_first :: "history \<Rightarrow> event \<Rightarrow> bool" where
  "id_first tr e = (case e of
      EvDriverCreateBucket q _ \<Rightarrow> cre_BucketId q \<noteq> [] \<and> list_ex (holds_id (cre_BucketId q)) tr
    | EvDriverGetBucket q _ \<Rightarrow> get_BucketId q \<noteq> [] \<and> list_ex (holds_id (get_BucketId q)) tr
    | _ \<Rightarrow> True)"

lemma wp_recordAndProvision_id_first:
  "guarded id_first tr \<Longrightarrow> list_ex (holds_id (bst_BucketID (b_Status b))) tr \<Longrightarrow> i = bst_BucketID (b_Status b) \<or> bst_BucketID (b_Status b) = [] \<Longrightarrow>
   wp (recordAndProvision E b i ps st) (\<lambda>_. guarded id_first) tr"
  unfolding recordAndProvision_def
  by (intro wp_intro) (auto simp: id_first_def holds_id_def provision_event_def with_id_def)

text \<open>
  C5. The bucket ID is recorded in Kubernetes before the driver is asked to create or look up the
  backend bucket: every such call names a non-empty ID that the server has shown, or has accepted
  in a status update, earlier in the same run.
\<close>

theorem bucket_id_recorded_first:
  "guarded id_first (history_of (Sidecar_Bucket_Reconcile E driver req))"
proof (rule sidecar_bucket.history_guarded)
  show "wp (Sidecar_Bucket_reconcile E driver b) (\<lambda>_. guarded id_first) [EvGetBucket req (Inr b)]" for b
    unfolding Sidecar_Bucket_reconcile_def Sidecar_Bucket_reconcileDelete_def
    by (intro wp_recordAndProvision_id_first wp_intro) (auto simp: id_first_def holds_id_def guarded_def)
qed (auto simp: id_first_def status_bucket_event_def split: event.splits)

subsection \<open>The finalizer comes first\<close>

definition protects :: "event \<Rightarrow> bool" where
  "protects e = (case e of
      EvGetBucket _ (Inr b) \<Rightarrow> ContainsFinalizer (b_Meta b) ProtectionFinalizer
    | EvUpdateBucket b (Inr _) \<Rightarrow> ContainsFinalizer (b_Meta b) ProtectionFinalizer
    | _ \<Rightarrow> False)"

definition finalizer_first :: "history \<Rightarrow> event \<Rightarrow> bool" where
  "finalizer_first tr e = (case e of
      EvDriverGenerateBucketId _ _ \<Rightarrow> list_ex protects tr
    | EvDriverCreateBucket _ _ \<Rightarrow> list_ex protects tr
    | EvDriverGetBucket _ _ \<Rightarrow> list_ex protects tr
    | _ \<Rightarrow> True)"

lemma wp_recordAndProvision_finalizer_first:
  "guarded finalizer_first tr \<Longrightarrow> list_ex protects tr \<Longrightarrow>
   wp (recordAndProvision E b i ps st) (\<lambda>_. guarded finalizer_first) tr"
  unfolding recordAndProvision_def
  by (intro wp_intro) (auto simp: finalizer_first_def provision_event_def)

text \<open>
  The protection finalizer is on the Bucket before any provisioning call: the driver is asked
  to generate an ID, create or look up a bucket only after the server has shown, or accepted, the
  Bucket with the finalizer.
\<close>

lemma finalizer_before_provisioning:
  "guarded finalizer_first (history_of (Sidecar_Bucket_Reconcile E driver req))"
proof (rule sidecar_bucket.history_guarded)
  show "wp (Sidecar_Bucket_reconcile E driver b) (\<lambda>_. guarded finalizer_first) [EvGetBucket req (Inr b)]" for b
    unfolding Sidecar_Bucket_reconcile_def Sidecar_Bucket_reconcileDelete_def
    by (intro wp_recordAndProvision_finalizer_first wp_intro)
       (auto simp: finalizer_first_def protects_def guarded_def)
qed (auto simp: finalizer_first_def status_bucket_event_def split: event.splits)

subsection \<open>Deletion\<close>

definition may_delete :: "string \<Rightarrow> event \<Rightarrow> bool" where
  "may_delete driverName e = (case e of
      EvGetBucket _ (Inr b) \<Rightarrow> bs_DriverName (b_Spec b) = driverName \<and>
        \<not> IsZero (om_DeletionTimestamp (b_Meta b)) \<and>
        bs_DeletionPolicy (b_Spec b) = BucketDeletionPolicyDelete \<and>
        (has_annotation (b_Meta b) BucketClaimBeingDeletedAnnotation \<or>
         cr_UID (bs_BucketClaimRef (b_Spec b)) = [])
    | _ \<Rightarrow> False)"

definition marked_not_ready :: "string \<Rightarrow> event \<Rightarrow> bool" where
  "marked_not_ready i e = (case e of
      EvStatusUpdateBucket b (Inr b') \<Rightarrow>
        bst_ReadyToUse (b_Status b) = Some False \<and> bst_BucketID (b_Status b') = i
    | _ \<Rightarrow> False)"

definition backend_deleted :: "string \<Rightarrow> event \<Rightarrow> bool" where
  "backend_deleted i e = (case e of EvDriverDeleteBucket q None \<Rightarrow> del_BucketId q = i | _ \<Rightarrow> False)"

definition deletion_guard :: "string \<Rightarrow> history \<Rightarrow> event \<Rightarrow> bool" where
  "deletion_guard driverName tr e = (case e of
      EvDriverDeleteBucket q _ \<Rightarrow> del_BucketId q \<noteq> [] \<and>
        list_ex (may_delete driverName) tr \<and> list_ex (marked_not_ready (del_BucketId q)) tr
    | EvUpdateBucket b _ \<Rightarrow> ContainsFinalizer (b_Meta b) ProtectionFinalizer \<or>
        list_ex (may_delete driverName) tr \<and>
        (bst_BucketID (b_Status b) = [] \<or> list_ex (backend_deleted (bst_BucketID (b_Status b))) tr)
    | _ \<Rightarrow> True)"

lemma wp_recordAndProvision_deletion_guard:
  "guarded (deletion_guard d) tr \<Longrightarrow> wp (recordAndProvision E b i ps st) (\<lambda>_. guarded (deletion_guard d)) tr"
  unfolding recordAndProvision_def
  by (intro wp_intro) (auto simp: deletion_guard_def provision_event_def)

lemma wp_reconcileDelete_deletion_guard:
  "guarded (deletion_guard d) tr \<Longrightarrow> bs_DriverName (b_Spec b) = d \<Longrightarrow> \<not> IsZero (om_DeletionTimestamp (b_Meta b)) \<Longrightarrow> 
   EvGetBucket req (Inr b) \<in> set tr \<Longrightarrow> wp (Sidecar_Bucket_reconcileDelete E b) (\<lambda>_. guarded (deletion_guard d)) tr"
  unfolding Sidecar_Bucket_reconcileDelete_def
  by (intro wp_intro) (auto simp: deletion_guard_def marked_not_ready_def backend_deleted_def bucket_not_ready_def may_delete_def list_ex_iff intro!: bexI[of _ "EvGetBucket req (Inr b)"])

text \<open>
  C6. Deletion is safe. The driver is asked to delete a bucket only if the Bucket belongs to this
  driver, is being deleted, has deletion policy Delete and is either unbound or bound to a claim
  that is being deleted, and only after the Bucket was marked as not ready. The finalizer is
  removed only under the same conditions and only when the recorded ID is empty or the driver
  has confirmed the deletion of exactly that ID.
\<close>

theorem backend_deletion_guarded:
  "guarded (deletion_guard (di_Name driver)) (history_of (Sidecar_Bucket_Reconcile E driver req))"
proof (rule sidecar_bucket.history_guarded)
  show "wp (Sidecar_Bucket_reconcile E driver b) (\<lambda>_. guarded (deletion_guard (di_Name driver))) [EvGetBucket req (Inr b)]" for b
    unfolding Sidecar_Bucket_reconcile_def
    by (intro wp_reconcileDelete_deletion_guard[of _ _ _ req] wp_recordAndProvision_deletion_guard wp_intro)
       (auto simp: deletion_guard_def guarded_def)
qed (auto simp: deletion_guard_def status_bucket_event_def split: event.splits)

subsection \<open>Ready means provisioned\<close>

text \<open>A bucket may be written as ready only if the driver has just answered for this very ID with
  protocols that cover the required ones, or if the server had already reported it ready with the
  same ID, protocols and info.\<close>

definition answer_covers :: "Bucket \<Rightarrow> string \<Rightarrow> ObjectProtocolAndBucketInfo option \<Rightarrow> bool" where
  "answer_covers b i resp \<longleftrightarrow> i = bst_BucketID (b_Status b) \<and> resp \<noteq> None \<and>
     bst_Protocols (b_Status b) \<noteq> [] \<and>
     set (bs_Protocols (b_Spec b)) \<subseteq> set (bst_Protocols (b_Status b)) \<and>
     (case BucketInfoToApi resp None of
        Inr (protos, info) \<Rightarrow> bst_Protocols (b_Status b) = protos \<and> bst_BucketInfo (b_Status b) = Some info
      | Inl _ \<Rightarrow> False)"

definition driver_answered :: "Bucket \<Rightarrow> event \<Rightarrow> bool" where
  "driver_answered b e = (case e of
        EvDriverCreateBucket q (Inr resp) \<Rightarrow> answer_covers b (cre_BucketId q) resp
      | EvDriverGetBucket q (Inr resp) \<Rightarrow> answer_covers b (get_BucketId q) resp
      | _ \<Rightarrow> False)"

definition reported_ready :: "Bucket \<Rightarrow> event \<Rightarrow> bool" where
  "reported_ready b e = (case server_bucket e of
      Some b' \<Rightarrow> b_Status b' = (b_Status b)\<lparr>bst_Error := bst_Error (b_Status b')\<rparr>
    | None \<Rightarrow> False)"

definition ready_justified :: "history \<Rightarrow> Bucket \<Rightarrow> bool" where
  "ready_justified tr b \<longleftrightarrow> bst_ReadyToUse (b_Status b) = Some True \<longrightarrow>
     list_ex (driver_answered b) tr \<or> list_ex (reported_ready b) tr"

definition ready_guard :: "history \<Rightarrow> event \<Rightarrow> bool" where
  "ready_guard tr e = (case e of EvStatusUpdateBucket b _ \<Rightarrow> ready_justified tr b | _ \<Rightarrow> True)"

lemma ready_justified_events [simp]:
  "ready_justified tr b \<Longrightarrow> ready_justified (tr @ es) b"
  by (auto simp: ready_justified_def)

lemma ready_justified_server:
  "\<exists>e \<in> set tr. server_bucket e = Some b \<Longrightarrow> ready_justified tr b"
  by (force simp: ready_justified_def reported_ready_def list_ex_iff)

lemma ready_justified_cong:
  assumes "\<And>x. (b_Status b')\<lparr>bst_Error := x\<rparr> = (b_Status b)\<lparr>bst_Error := x\<rparr>" "b_Spec b' = b_Spec b"
  shows "ready_justified tr b' = ready_justified tr b"
proof -
  have same: "bst_ReadyToUse (b_Status b') = bst_ReadyToUse (b_Status b)"
    "bst_BucketID (b_Status b') = bst_BucketID (b_Status b)"
    "bst_Protocols (b_Status b') = bst_Protocols (b_Status b)"
    "bst_BucketInfo (b_Status b') = bst_BucketInfo (b_Status b)"
    using assms(1)[of None] by (cases "b_Status b"; cases "b_Status b'"; simp)+
  have "answer_covers b' = answer_covers b"
    by (intro ext) (unfold answer_covers_def same assms(2), rule refl)
  then have "driver_answered b' = driver_answered b"
    by (intro ext) (unfold driver_answered_def, simp only:)
  moreover have "reported_ready b' = reported_ready b"
    by (intro ext) (unfold reported_ready_def assms(1), rule refl)
  ultimately show ?thesis by (simp add: ready_justified_def same)
qed

lemma ready_justified_error [simp]:
  "ready_justified tr (b\<lparr>b_Status := (b_Status b)\<lparr>bst_Error := x\<rparr>\<rparr>) = ready_justified tr b"
  by (rule ready_justified_cong) simp_all

lemma ready_justified_ready_set [simp]: "ready_justified tr (bucket_ready_set b) = ready_justified tr b"
  by (auto simp: ready_justified_def bucket_ready_set_def)
lemma ready_justified_meta [simp]: "ready_justified tr (b\<lparr>b_Meta := m\<rparr>) = ready_justified tr b"
  by (rule ready_justified_cong) simp_all

lemma ready_justified_False [simp]: "ready_justified tr (with_id b i)" "ready_justified tr (bucket_not_ready b)"
  by (auto simp: ready_justified_def with_id_def bucket_not_ready_def)

lemma ready_justified_ready_bucket [simp]:
  "BucketInfoToApi (Some resp) None = Inr (protos, info) \<Longrightarrow> protos \<noteq> [] \<Longrightarrow>
    set (bs_Protocols (b_Spec b)) \<subseteq> set protos \<Longrightarrow>
   ready_justified (tr @ provision_event st b i ps (Inr (Some resp)) # es) (ready_bucket b i protos info)"
  by (auto simp: ready_justified_def provision_event_def driver_answered_def answer_covers_def ready_bucket_def)

lemma server_bucket_simps [simp]:
  "server_bucket (EvGetBucket q (Inr b)) = Some b"
  "server_bucket (EvUpdateBucket x (Inr b)) = Some b"
  "server_bucket (EvStatusUpdateBucket x (Inr b)) = Some b"
  by (simp_all add: server_bucket_def)

lemma ready_guard_simps [simp]:
  "ready_guard tr (EvGetBucket k g)" "ready_guard tr (EvUpdateBucket x u)"
  "ready_guard tr (EvDriverGenerateBucketId q m)" "ready_guard tr (EvDriverDeleteBucket y d)"
  "ready_guard tr (provision_event st b i ps r)"
  "ready_guard tr (EvStatusUpdateBucket b s) = ready_justified tr b"
  by (simp_all add: ready_guard_def provision_event_def)

abbreviation ready_inv :: "error option \<times> Bucket \<Rightarrow> history \<Rightarrow> bool" where
  "ready_inv r tr \<equiv> guarded ready_guard tr \<and> ready_justified tr (snd r)"

lemma wp_provisionBucket_ready:
  "guarded ready_guard tr \<Longrightarrow> ready_justified tr b \<Longrightarrow> wp (provisionBucket E b i ps st) ready_inv tr"
  by (rule wp_provisionBucket) (auto intro: ready_justified_server)

lemma wp_recordAndProvision_ready:
  "guarded ready_guard tr \<Longrightarrow> ready_justified tr b \<Longrightarrow>
   wp (recordAndProvision E b i ps st) ready_inv tr"
  unfolding recordAndProvision_def
  by (intro wp_provisionBucket_ready wp_intro) (auto intro: ready_justified_server)

lemma wp_reconcileDelete_ready:
  "guarded ready_guard tr \<Longrightarrow> ready_justified tr b \<Longrightarrow> wp (Sidecar_Bucket_reconcileDelete E b) ready_inv tr"
  unfolding Sidecar_Bucket_reconcileDelete_def
  by (intro wp_intro) (auto intro: ready_justified_server)

lemma wp_reconcile_ready:
  "wp (Sidecar_Bucket_reconcile E driver b) ready_inv [EvGetBucket req (Inr b)]"
  unfolding Sidecar_Bucket_reconcile_def
  by (intro wp_reconcileDelete_ready wp_recordAndProvision_ready wp_intro)
     (auto simp: guarded_def intro: ready_justified_server)

text \<open>
  C8. A Bucket is published as ready to use only with what the driver answered: every status
  update that says so follows a driver answer for exactly the recorded ID, carries the protocols
  and the info translated from that answer, and the protocols are non-empty and include all
  required ones; or it repeats what the server had already reported, up to the error field.
\<close>

theorem ready_only_when_provisioned:
  "guarded ready_guard (history_of (Sidecar_Bucket_Reconcile E driver req))"
proof (rule wp_history, rule sidecar_bucket.wp_Reconcile)
  have finish: "wp (Sidecar_Bucket_finish E err b) (\<lambda>_. guarded ready_guard) tr" if "ready_inv (err, b) tr" for err b tr
    using that unfolding Sidecar_Bucket_finish_def by (intro wp_intro) auto
  show "wp (Sidecar_Bucket_reconcile E driver b)
      (\<lambda>(e, x'). wp (Sidecar_Bucket_finish E e x') (\<lambda>_. guarded ready_guard)) [EvGetBucket req (Inr b)]" for b
    by (rule wp_mono[OF wp_reconcile_ready]) (auto intro: finish)
qed (auto simp: guarded_def)

subsection \<open>Where bucket IDs come from\<close>

definition server_id :: "string \<Rightarrow> event \<Rightarrow> bool" where
  "server_id i e = (case server_bucket e of Some b \<Rightarrow> bst_BucketID (b_Status b) = i | None \<Rightarrow> False)"

definition adopted_id :: "string \<Rightarrow> event \<Rightarrow> bool" where
  "adopted_id i e = (case server_bucket e of
      Some b \<Rightarrow> bst_BucketID (b_Status b) = [] \<and> bs_ExistingBucketID (b_Spec b) = i | None \<Rightarrow> False)"

definition generated_id :: "string \<Rightarrow> event \<Rightarrow> bool" where
  "generated_id i e = (case e of
      EvDriverGenerateBucketId _ (Inr j) \<Rightarrow> i = j \<and> validateBucketID i = None | _ \<Rightarrow> False)"

definition id_justified :: "history \<Rightarrow> string \<Rightarrow> bool" where
  "id_justified tr i \<longleftrightarrow> list_ex (server_id i) tr \<or>
     i \<noteq> [] \<and> (list_ex (adopted_id i) tr \<or> list_ex (adopted_id []) tr \<and> list_ex (generated_id i) tr)"

definition id_guard :: "history \<Rightarrow> event \<Rightarrow> bool" where
  "id_guard tr e = (case e of
      EvStatusUpdateBucket b _ \<Rightarrow> id_justified tr (bst_BucketID (b_Status b)) | _ \<Rightarrow> True)"

lemma id_guard_simps [simp]:
  "id_guard tr (EvGetBucket k g)" "id_guard tr (EvUpdateBucket x u)"
  "id_guard tr (EvDriverGenerateBucketId q m)" "id_guard tr (EvDriverDeleteBucket y d)"
  "id_guard tr (provision_event st b i ps r)"
  "id_guard tr (EvStatusUpdateBucket b s) = id_justified tr (bst_BucketID (b_Status b))"
  by (simp_all add: id_guard_def provision_event_def)

lemma bucket_id_simps [simp]:
  "bst_BucketID (b_Status (bucket_ready_set b)) = bst_BucketID (b_Status b)"
  "bst_BucketID (b_Status (bucket_not_ready b)) = bst_BucketID (b_Status b)"
  "bst_BucketID (b_Status (ready_bucket b i p f)) = i"
  "bst_BucketID (b_Status (with_id b i)) = i"
  by (simp_all add: bucket_ready_set_def bucket_not_ready_def ready_bucket_def with_id_def)

lemma id_justified_events: "id_justified tr b \<Longrightarrow> id_justified (tr @ es) b"
  by (auto simp: id_justified_def Let_def)

lemma id_justified_server:
  assumes "\<exists>e \<in> set tr. server_bucket e = Some b"
  shows "id_justified tr (bst_BucketID (b_Status b))"
proof -
  from assms obtain e where "e \<in> set tr" "server_id (bst_BucketID (b_Status b)) e"
    by (auto simp: server_id_def)
  then show ?thesis by (auto simp: id_justified_def list_ex_iff)
qed

abbreviation id_inv :: "error option \<times> Bucket \<Rightarrow> history \<Rightarrow> bool" where
  "id_inv r tr \<equiv> guarded id_guard tr \<and> id_justified tr (bst_BucketID (b_Status (snd r)))"

lemma wp_provisionBucket_id:
  "guarded id_guard tr \<Longrightarrow> id_justified tr (bst_BucketID (b_Status b)) \<Longrightarrow> id_justified tr i \<Longrightarrow>
   wp (provisionBucket E b i ps st) id_inv tr"
  by (rule wp_provisionBucket) (auto intro: id_justified_server id_justified_events)

lemma wp_recordAndProvision_id:
  "guarded id_guard tr \<Longrightarrow> id_justified tr (bst_BucketID (b_Status b)) \<Longrightarrow> id_justified tr i \<Longrightarrow>
   wp (recordAndProvision E b i ps st) id_inv tr"
  unfolding recordAndProvision_def
  by (intro wp_provisionBucket_id wp_intro)
     (auto intro: id_justified_server id_justified_events)

lemma wp_reconcile_id:
  "wp (Sidecar_Bucket_reconcile E driver b) id_inv [EvGetBucket req (Inr b)]"
  unfolding Sidecar_Bucket_reconcile_def Sidecar_Bucket_reconcileDelete_def
  by (intro wp_recordAndProvision_id wp_intro)
     (auto simp: guarded_def id_justified_def server_id_def adopted_id_def generated_id_def server_bucket_def)

text \<open>
  C9. A bucket ID is never invented or replaced: the ID in every status update is one the server
  had already shown, or the ID of the pre-existing bucket the spec names, or a valid ID the
  driver generated; the last two only if the server had shown the Bucket without an ID.
\<close>

theorem bucket_id_provenance:
  "guarded id_guard (history_of (Sidecar_Bucket_Reconcile E driver req))"
proof (rule wp_history, rule sidecar_bucket.wp_Reconcile)
  have finish: "wp (Sidecar_Bucket_finish E err b) (\<lambda>_. guarded id_guard) tr" if "id_inv (err, b) tr" for err b tr
    using that unfolding Sidecar_Bucket_finish_def by (intro wp_intro) auto
  show "wp (Sidecar_Bucket_reconcile E driver b)
      (\<lambda>(e, x'). wp (Sidecar_Bucket_finish E e x') (\<lambda>_. guarded id_guard)) [EvGetBucket req (Inr b)]" for b
    by (rule wp_mono[OF wp_reconcile_id]) (auto intro: finish)
qed (auto simp: guarded_def)
section \<open>Complete runs\<close>

lemma Sidecar_Bucket_run:
  "e_GetBucket E [] req = Inr b \<Longrightarrow> run_state (Sidecar_Bucket_Reconcile E driver req) [] =
   (case run_state (Sidecar_Bucket_reconcile E driver b) [EvGetBucket req (Inr b)] of
      ((err, b'), tr) \<Rightarrow> run_state (Sidecar_Bucket_finish E err b') tr)"
  by (auto simp: Sidecar_Bucket_Reconcile_def run_calls split: prod.splits)

text \<open>
  C12. A Bucket of another driver is left alone: no call reaches the driver, and the only write
  that can happen is one status update that clears an error left in its status.
\<close>

theorem foreign_bucket_ignored:
  assumes "e_GetBucket E [] req = Inr b" and "bs_DriverName (b_Spec b) \<noteq> di_Name driver"
  shows "\<forall>e \<in> set (tl (history_of (Sidecar_Bucket_Reconcile E driver req))).
    \<exists>r. e = EvStatusUpdateBucket ((bucket_ready_set b)\<lparr>b_Status :=
      (b_Status (bucket_ready_set b))\<lparr>bst_Error := None\<rparr>\<rparr>) r \<and> bst_Error (b_Status b) \<noteq> None"
  using assms(2)
  by (auto simp: history_of_def Sidecar_Bucket_run[OF assms(1)] Sidecar_Bucket_reconcile_def
      Sidecar_Bucket_finish_def run_calls Let_def split: sum.splits)

lemmas sidecar_bucket_steps =
  Bucket_addFinalizer_def assignBucketID_def getBucketIdIfSet_def generateBucketID_def
  recordAndProvision_def recordBucketId_def provisionBucket_def dynamicProvision_def
  staticProvision_def publishBucket_def

lemma dynamic_provisioning_run:
  assumes stores: "\<And>tr x. e_UpdateBucket E tr x = Inr x" "\<And>tr x. e_StatusUpdateBucket E tr x = Inr x"
    and b: "e_GetBucket E [] req = Inr b" "bs_DriverName (b_Spec b) = di_Name driver"
      "IsZero (om_DeletionTimestamp (b_Meta b))"
      "\<not> has_annotation (b_Meta b) BucketClaimBeingDeletedAnnotation"
      "b_Status b = zero_BucketStatus" "bs_ExistingBucketID (b_Spec b) = []"
      "cr_Name (bs_BucketClaimRef (b_Spec b)) \<noteq> []" "cr_Namespace (bs_BucketClaimRef (b_Spec b)) \<noteq> []"
      "cr_UID (bs_BucketClaimRef (b_Spec b)) \<noteq> []"
    and protos: "objectProtocolListFromApiList (bs_Protocols (b_Spec b)) = Inr ps"
      "set ps \<subseteq> set (di_SupportedProtocols driver)"
    and driver: "\<And>tr q. e_DriverGenerateBucketId E tr q = Inr i" "validateBucketID i = None" "i \<noteq> []"
      "\<And>tr q. e_DriverCreateBucket E tr q = Inr (Some resp)"
      "BucketInfoToApi (Some resp) None = Inr (supported, info)" "supported \<noteq> []"
      "set (bs_Protocols (b_Spec b)) \<subseteq> set supported"
  shows "\<exists>m tr. ContainsFinalizer m ProtectionFinalizer \<and>
    run_state (Sidecar_Bucket_Reconcile E driver req) [] = (Done, tr @
      [EvStatusUpdateBucket (ready_bucket (b\<lparr>b_Meta := m\<rparr>) i supported info)
        (Inr (ready_bucket (b\<lparr>b_Meta := m\<rparr>) i supported info))])"
proof -
  obtain d m where add: "AddFinalizer (b_Meta b) ProtectionFinalizer = (d, m)" by force
  have m: "ContainsFinalizer m ProtectionFinalizer" using add by (rule AddFinalizer_frame)
  have sup: "validateDriverSupportsProtocols driver ps = None"
    "validateBucketSupportsProtocols supported (bs_Protocols (b_Spec b)) = None"
    using protos(2) driver(7)
    by (auto simp: validateDriverSupportsProtocols_def validateBucketSupportsProtocols_None filter_empty_conv)
  have "\<exists>tr. run_state (Sidecar_Bucket_Reconcile E driver req) [] = (Done, tr @
      [EvStatusUpdateBucket (ready_bucket (b\<lparr>b_Meta := m\<rparr>) i supported info)
        (Inr (ready_bucket (b\<lparr>b_Meta := m\<rparr>) i supported info))])"
    using assms sup add
    by (cases d; simp add: ready_bucket_def Sidecar_Bucket_run Sidecar_Bucket_reconcile_def
      sidecar_bucket_steps Sidecar_Bucket_finish_def run_calls Let_def zero_BucketStatus_def)
  with m show ?thesis by blast
qed

text \<open>
  C10. Provisioning makes progress: for a new Bucket of this driver with a complete claim
  reference and protocols the driver supports, when the server stores what it is sent and the
  driver answers with a valid ID and a bucket that covers the required protocols, a single run
  ends in success, and its last event publishes the Bucket (finalizer included) as ready with that
  ID, the supported protocols and the translated info.
\<close>

theorem dynamic_provisioning_succeeds:
  assumes stores: "\<And>tr x. e_UpdateBucket E tr x = Inr x" "\<And>tr x. e_StatusUpdateBucket E tr x = Inr x"
    and b: "e_GetBucket E [] req = Inr b" "bs_DriverName (b_Spec b) = di_Name driver"
      "IsZero (om_DeletionTimestamp (b_Meta b))"
      "\<not> has_annotation (b_Meta b) BucketClaimBeingDeletedAnnotation"
      "b_Status b = zero_BucketStatus" "bs_ExistingBucketID (b_Spec b) = []"
      "cr_Name (bs_BucketClaimRef (b_Spec b)) \<noteq> []" "cr_Namespace (bs_BucketClaimRef (b_Spec b)) \<noteq> []"
      "cr_UID (bs_BucketClaimRef (b_Spec b)) \<noteq> []"
    and protos: "objectProtocolListFromApiList (bs_Protocols (b_Spec b)) = Inr ps"
      "set ps \<subseteq> set (di_SupportedProtocols driver)"
    and driver: "\<And>tr q. e_DriverGenerateBucketId E tr q = Inr i" "validateBucketID i = None" "i \<noteq> []"
      "\<And>tr q. e_DriverCreateBucket E tr q = Inr (Some resp)"
      "BucketInfoToApi (Some resp) None = Inr (supported, info)" "supported \<noteq> []"
      "set (bs_Protocols (b_Spec b)) \<subseteq> set supported"
  shows "result_of (Sidecar_Bucket_Reconcile E driver req) = Done \<and>
    (\<exists>m. ContainsFinalizer m ProtectionFinalizer \<and>
      last (history_of (Sidecar_Bucket_Reconcile E driver req)) =
        EvStatusUpdateBucket (ready_bucket (b\<lparr>b_Meta := m\<rparr>) i supported info)
          (Inr (ready_bucket (b\<lparr>b_Meta := m\<rparr>) i supported info)))"
  using dynamic_provisioning_run[OF assms] by (auto simp: result_of_def history_of_def)

definition example_bucket :: Bucket where
  "example_bucket =
     \<lparr>b_Meta = zero_meta\<lparr>om_Name := ''bc-1''\<rparr>,
      b_Spec = \<lparr>bs_DriverName = ''drv'', bs_DeletionPolicy = BucketDeletionPolicyDelete,
        bs_Parameters = None, bs_Protocols = [ObjectProtocolS3],
        bs_BucketClaimRef = \<lparr>cr_Name = ''claim'', cr_Namespace = ''ns'', cr_UID = ''1''\<rparr>,
        bs_ExistingBucketID = []\<rparr>,
      b_Status = zero_BucketStatus\<rparr>"

definition example_driver :: DriverInfo where
  "example_driver = \<lparr>di_Name = ''drv'', di_SupportedProtocols = [ObjectProtocol_S3]\<rparr>"

definition example_response :: ObjectProtocolAndBucketInfo where
  "example_response =
     \<lparr>bi_S3 = Some \<lparr>s3b_BucketId = ''x'', s3b_Endpoint = ''e'', s3b_Region = ''r'',
        s3b_AddressingStyle = None\<rparr>, bi_Azure = None, bi_Gcs = None\<rparr>"

definition example_bucket_env :: env where
  "example_bucket_env = echo_env
     \<lparr>e_GetBucket := \<lambda>_ _. Inr example_bucket,
      e_DriverGenerateBucketId := \<lambda>_ _. Inr ''x'',
      e_DriverCreateBucket := \<lambda>_ _. Inr (Some example_response)\<rparr>"

theorem dynamic_provisioning_succeeds_witness:
  "result_of (Sidecar_Bucket_Reconcile example_bucket_env example_driver
     \<lparr>nn_Namespace = [], nn_Name = ''bc-1''\<rparr>) = Done"
proof -
  obtain info where r: "BucketInfoToApi (Some example_response) None = Inr ([ObjectProtocolS3], info)"
    by (simp add: BucketInfoToApi_unvalidated covered_protocols_def example_response_def)
  show ?thesis
    by (rule dynamic_provisioning_succeeds[of example_bucket_env _ example_bucket example_driver
          "[ObjectProtocol_S3]" "''x''" example_response "[ObjectProtocolS3]" info, THEN conjunct1])
       (simp_all add: example_bucket_env_def echo_env_def example_bucket_def example_driver_def r
         validateBucketID_ok bucketIDPattern_def is_alnum_def lower_chars_def
         has_annotation_def zero_meta_def objectProtocolListFromApiList_def ObjectProtocol_ApiToRpc_def
         objectProtocolProtoApiMapping_def join_errs_def Let_def)
qed

text \<open>
  C11. Deletion makes progress and does exactly this: mark the Bucket not ready, ask the driver to
  delete the recorded ID with the Bucket's parameters, remove the finalizer.
\<close>

theorem bucket_deletion_completes:
  assumes stores: "\<And>tr x. e_UpdateBucket E tr x = Inr x" "\<And>tr x. e_StatusUpdateBucket E tr x = Inr x"
    and b: "e_GetBucket E [] req = Inr b" "bs_DriverName (b_Spec b) = di_Name driver"
      "\<not> IsZero (om_DeletionTimestamp (b_Meta b))"
      "bs_DeletionPolicy (b_Spec b) = BucketDeletionPolicyDelete"
      "has_annotation (b_Meta b) BucketClaimBeingDeletedAnnotation \<or> cr_UID (bs_BucketClaimRef (b_Spec b)) = []"
      "bst_BucketID (b_Status b) \<noteq> []"
    and driver: "\<And>tr q. e_DriverDeleteBucket E tr q = None"
  shows "run_state (Sidecar_Bucket_Reconcile E driver req) [] = (Done,
    [EvGetBucket req (Inr b),
     EvStatusUpdateBucket (bucket_not_ready b) (Inr (bucket_not_ready b)),
     EvDriverDeleteBucket \<lparr>del_BucketId = bst_BucketID (b_Status b), del_Parameters = bs_Parameters (b_Spec b)\<rparr> None,
     EvUpdateBucket ((bucket_not_ready b)\<lparr>b_Meta := RemoveFinalizer (b_Meta b) ProtectionFinalizer\<rparr>)
       (Inr ((bucket_not_ready b)\<lparr>b_Meta := RemoveFinalizer (b_Meta b) ProtectionFinalizer\<rparr>))])"
  using assms
  by (auto simp: Sidecar_Bucket_run Sidecar_Bucket_reconcile_def Sidecar_Bucket_reconcileDelete_def
      bucket_not_ready_def Sidecar_Bucket_finish_def run_calls Let_def)

definition deleted_bucket :: Bucket where
  "deleted_bucket = example_bucket
     \<lparr>b_Meta := add_annotation BucketClaimBeingDeletedAnnotation
        (zero_meta\<lparr>om_DeletionTimestamp := Some 1, om_Finalizers := [ProtectionFinalizer]\<rparr>),
      b_Status := zero_BucketStatus\<lparr>bst_BucketID := ''x''\<rparr>\<rparr>"

theorem bucket_deletion_completes_witness:
  "result_of (Sidecar_Bucket_Reconcile (echo_env\<lparr>e_GetBucket := \<lambda>_ _. Inr deleted_bucket, e_DriverDeleteBucket := \<lambda>_ _. None\<rparr>)
     example_driver \<lparr>nn_Namespace = [], nn_Name = ''bc-1''\<rparr>) = Done"
  unfolding result_of_def
  by (subst bucket_deletion_completes[where b = deleted_bucket])
     (simp_all add: echo_env_def deleted_bucket_def example_bucket_def example_driver_def add_annotation_def has_annotation_def)

theorem foreign_bucket_ignored_witness:
  "tl (history_of (Sidecar_Bucket_Reconcile
      (echo_env\<lparr>e_GetBucket := \<lambda>_ _. Inr example_bucket\<rparr>)
      (example_driver\<lparr>di_Name := ''other''\<rparr>) \<lparr>nn_Namespace = [], nn_Name = ''bc-1''\<rparr>)) = []"
  using foreign_bucket_ignored[of "echo_env\<lparr>e_GetBucket := \<lambda>_ _. Inr example_bucket\<rparr>"
      "\<lparr>nn_Namespace = [], nn_Name = ''bc-1''\<rparr>" example_bucket "example_driver\<lparr>di_Name := ''other''\<rparr>"]
  by (simp add: echo_env_def example_bucket_def example_driver_def zero_BucketStatus_def)

end
