(* ===== verification/Object_Store.thy ===== *)
theory Object_Store
  imports Api_Types
begin

text \<open>
  Objects in the API server under optimistic concurrency. Every accepted write stores a version of
  an object, with a resource version that no other version has; a client that changes an object
  keeps its UID and resource version, so the server knows which version the change was made from.
  The definitions are generic in the events of a trace (\<open>stored\<close> picks the version an event
  stores) and in the kind of object (\<open>meta\<close> picks its metadata).
\<close>

section \<open>Versions\<close>

definition same_version :: "ObjectMeta \<Rightarrow> ObjectMeta \<Rightarrow> bool" where
  "same_version m m' \<longleftrightarrow> om_UID m = om_UID m' \<and> om_ResourceVersion m = om_ResourceVersion m'"

lemma same_version_refl [simp]: "same_version m m"
  by (simp add: same_version_def)

lemma same_version_trans: "same_version m1 m2 \<Longrightarrow> same_version m2 m3 \<Longrightarrow> same_version m1 m3"
  by (simp add: same_version_def)

text \<open>The changes the reconcilers make to metadata keep the version.\<close>

lemma same_version_frame [simp]:
  "same_version (RemoveFinalizer m f) m' = same_version m m'"
  "same_version (add_annotation k m) m' = same_version m m'"
  "same_version (snd (AddFinalizer m f)) m' = same_version m m'"
  by (auto simp: same_version_def RemoveFinalizer_def add_annotation_def AddFinalizer_def)

lemma AddFinalizer_same_version: "AddFinalizer m f = (d, m') \<Longrightarrow> same_version m' m"
  by (auto simp: same_version_def AddFinalizer_def split: if_splits)

section \<open>Histories of versions\<close>

definition stored_versions :: "('e \<Rightarrow> 'o option) \<Rightarrow> 'e list \<Rightarrow> 'o list" where
  "stored_versions stored T = List.map_filter stored T"

text \<open>The last version of the object with that UID.\<close>

definition current_version :: "('e \<Rightarrow> 'o option) \<Rightarrow> ('o \<Rightarrow> ObjectMeta) \<Rightarrow> 'e list \<Rightarrow> UID \<Rightarrow> 'o option" where
  "current_version stored meta T u = find (\<lambda>x. om_UID (meta x) = u) (rev (stored_versions stored T))"

definition fresh_version :: "('e \<Rightarrow> 'o option) \<Rightarrow> ('o \<Rightarrow> ObjectMeta) \<Rightarrow> 'e list \<Rightarrow> 'o \<Rightarrow> bool" where
  "fresh_version stored meta T y \<longleftrightarrow>
     list_all (\<lambda>v. om_ResourceVersion (meta v) \<noteq> om_ResourceVersion (meta y)) (stored_versions stored T)"

definition unique_versions :: "('e \<Rightarrow> 'o option) \<Rightarrow> ('o \<Rightarrow> ObjectMeta) \<Rightarrow> 'e list \<Rightarrow> bool" where
  "unique_versions stored meta T \<longleftrightarrow> (\<forall>v \<in> set (stored_versions stored T). \<forall>v' \<in> set (stored_versions stored T).
     om_ResourceVersion (meta v) = om_ResourceVersion (meta v') \<longrightarrow> v = v')"

lemma stored_versions_simps [simp]:
  "stored_versions stored [] = []"
  "stored_versions stored (T @ T') = stored_versions stored T @ stored_versions stored T'"
  "stored_versions stored (e # T) = (case stored e of None \<Rightarrow> [] | Some y \<Rightarrow> [y]) @ stored_versions stored T"
  by (simp_all add: stored_versions_def List.map_filter_def split: option.splits)

lemma find_in: "find P xs = Some x \<Longrightarrow> x \<in> set xs \<and> P x"
  by (induction xs) (auto split: if_splits)

lemma current_version_Some:
  "current_version stored meta T u = Some x \<Longrightarrow> x \<in> set (stored_versions stored T) \<and> om_UID (meta x) = u"
  by (auto simp: current_version_def dest: find_in)

lemma current_version_None:
  "current_version stored meta T u = None \<Longrightarrow> v \<in> set (stored_versions stored T) \<Longrightarrow> om_UID (meta v) \<noteq> u"
  by (auto simp: current_version_def find_None_iff)

lemma current_version_snoc:
  "current_version stored meta (T @ [e]) u = (case stored e of
     Some y \<Rightarrow> if om_UID (meta y) = u then Some y else current_version stored meta T u
   | None \<Rightarrow> current_version stored meta T u)"
  by (simp add: current_version_def split: option.splits)

lemma unique_versions_Nil [simp]: "unique_versions stored meta []"
  by (simp add: unique_versions_def)

lemma unique_versions_snoc:
  assumes "unique_versions stored meta T" "\<And>y. stored e = Some y \<Longrightarrow> fresh_version stored meta T y"
  shows "unique_versions stored meta (T @ [e])"
proof (cases "stored e")
  case (Some y)
  then show ?thesis using assms(1) assms(2)[OF Some]
    by (simp add: unique_versions_def fresh_version_def list_all_iff) metis
qed (use assms(1) in \<open>simp add: unique_versions_def\<close>)

text \<open>A change made from the current version was made from exactly that object.\<close>

lemma version_is_current:
  assumes "unique_versions stored meta T" "s \<in> set (stored_versions stored T)" "same_version m (meta s)"
    "current_version stored meta T u = Some cur" "same_version m (meta cur)"
  shows "s = cur"
  using assms current_version_Some[OF assms(4)] by (auto simp: unique_versions_def same_version_def)

section \<open>The contract of the server\<close>

text \<open>What the traces of both kinds of object rely on: whatever law a server obeys, it gives every
  version it stores a new resource version.\<close>

locale versioning_server =
  fixes stored :: "'e \<Rightarrow> 'o option" and meta :: "'o \<Rightarrow> ObjectMeta" and law :: "'e list \<Rightarrow> 'e \<Rightarrow> bool"
  assumes law_fresh: "law T e \<Longrightarrow> stored e = Some y \<Longrightarrow> fresh_version stored meta T y"
begin

lemma unique: "guarded law T \<Longrightarrow> unique_versions stored meta T"
proof (induction T rule: rev_induct)
  case (snoc e T)
  then show ?case by (intro unique_versions_snoc) (auto intro: law_fresh)
qed simp

text \<open>A write that names the current version was made from exactly the object the client was shown.\<close>

lemma shown_is_current:
  assumes "guarded law T" "s \<in> set (stored_versions stored T)" "same_version m (meta s)"
    "current_version stored meta T u = Some cur" "same_version m (meta cur)"
  shows "s = cur"
  by (rule version_is_current[OF unique[OF assms(1)] assms(2-5)])

end

end
