(* ===== verification/History_Views.thy ===== *)
theory History_Views
  imports Reconciler Object_Store
begin

text \<open>
  What a history shows: the objects that were read, the objects the server answered with and the
  updates it accepted. The contracts of the controllers are stated over these lists.
\<close>

section \<open>Views\<close>

text \<open>The claims that were read.\<close>

definition claims_read :: "history \<Rightarrow> BucketClaim list" where
  "claims_read = List.map_filter (\<lambda>e. case e of
      EvGetBucketClaim _ (Inr c) \<Rightarrow> Some c
    | _ \<Rightarrow> None)"

text \<open>The claims the server answered with, in whatever call.\<close>

definition claims_shown :: "history \<Rightarrow> BucketClaim list" where
  "claims_shown = List.map_filter (\<lambda>e. case e of
      EvGetBucketClaim _ (Inr c) \<Rightarrow> Some c
    | EvUpdateBucketClaim _ (Inr c) \<Rightarrow> Some c
    | EvStatusUpdateBucketClaim _ (Inr c) \<Rightarrow> Some c
    | _ \<Rightarrow> None)"

text \<open>The claims that were read, with the name they were asked for by.\<close>

definition claims_got :: "history \<Rightarrow> (string \<times> BucketClaim) list" where
  "claims_got = List.map_filter (\<lambda>e. case e of
      EvGetBucketClaim k (Inr c) \<Rightarrow> Some (nn_Name k, c)
    | _ \<Rightarrow> None)"

text \<open>The names of claims that were reported not to exist.\<close>

definition claims_missing :: "history \<Rightarrow> string list" where
  "claims_missing = List.map_filter (\<lambda>e. case e of
      EvGetBucketClaim k (Inl err) \<Rightarrow> if IsNotFound err then Some (nn_Name k) else None
    | _ \<Rightarrow> None)"

text \<open>The claim updates the server accepted: what was sent and what came back.\<close>

definition claims_updated :: "history \<Rightarrow> (BucketClaim \<times> BucketClaim) list" where
  "claims_updated = List.map_filter (\<lambda>e. case e of
      EvUpdateBucketClaim x (Inr c) \<Rightarrow> Some (x, c)
    | _ \<Rightarrow> None)"

text \<open>The claims the server showed or accepted with the protection finalizer.\<close>

definition claims_protected :: "history \<Rightarrow> BucketClaim list" where
  "claims_protected = List.map_filter (\<lambda>e. case e of
      EvGetBucketClaim _ (Inr c) \<Rightarrow> if ContainsFinalizer (c_Meta c) ProtectionFinalizer then Some c else None
    | EvUpdateBucketClaim c (Inr _) \<Rightarrow> if ContainsFinalizer (c_Meta c) ProtectionFinalizer then Some c else None
    | _ \<Rightarrow> None)"

text \<open>The claims accepted as not ready.\<close>

definition claims_unready :: "history \<Rightarrow> BucketClaim list" where
  "claims_unready = List.map_filter (\<lambda>e. case e of
      EvStatusUpdateBucketClaim c (Inr _) \<Rightarrow>
        if cst_ReadyToUse (c_Status c) = Some False then Some c else None
    | _ \<Rightarrow> None)"

text \<open>The Buckets the server answered with.\<close>

definition buckets_shown :: "history \<Rightarrow> Bucket list" where
  "buckets_shown = List.map_filter (\<lambda>e. case e of
      EvGetBucket _ (Inr b) \<Rightarrow> Some b
    | EvCreateBucket _ (Inr b) \<Rightarrow> Some b
    | EvUpdateBucket _ (Inr b) \<Rightarrow> Some b
    | _ \<Rightarrow> None)"

text \<open>The Buckets that were read, with the name they were asked for by.\<close>

definition buckets_got :: "history \<Rightarrow> (string \<times> Bucket) list" where
  "buckets_got = List.map_filter (\<lambda>e. case e of
      EvGetBucket k (Inr b) \<Rightarrow> Some (nn_Name k, b)
    | _ \<Rightarrow> None)"

text \<open>The Bucket updates the server accepted.\<close>

definition buckets_stored :: "history \<Rightarrow> Bucket list" where
  "buckets_stored = List.map_filter (\<lambda>e. case e of
      EvUpdateBucket b (Inr _) \<Rightarrow> Some b
    | _ \<Rightarrow> None)"

text \<open>The names of Buckets that were reported not to exist.\<close>

definition buckets_missing :: "history \<Rightarrow> string list" where
  "buckets_missing = List.map_filter (\<lambda>e. case e of
      EvGetBucket k (Inl err) \<Rightarrow> if IsNotFound err then Some (nn_Name k) else None
    | _ \<Rightarrow> None)"

text \<open>The bucket classes that were read, with the key they were asked for by.\<close>

definition classes_got :: "history \<Rightarrow> (NamespacedName \<times> BucketClass) list" where
  "classes_got = List.map_filter (\<lambda>e. case e of
      EvGetBucketClass k (Inr c) \<Rightarrow> Some (k, c)
    | _ \<Rightarrow> None)"

text \<open>The accesses that were read.\<close>

definition accesses_read :: "history \<Rightarrow> BucketAccess list" where
  "accesses_read = List.map_filter (\<lambda>e. case e of
      EvGetBucketAccess _ (Inr a) \<Rightarrow> Some a
    | _ \<Rightarrow> None)"

text \<open>The accesses the server answered with, in whatever call.\<close>

definition accesses_shown :: "history \<Rightarrow> BucketAccess list" where
  "accesses_shown = List.map_filter (\<lambda>e. case e of
      EvGetBucketAccess _ (Inr a) \<Rightarrow> Some a
    | EvUpdateBucketAccess _ (Inr a) \<Rightarrow> Some a
    | EvStatusUpdateBucketAccess _ (Inr a) \<Rightarrow> Some a
    | _ \<Rightarrow> None)"

text \<open>The lists of accesses that were read, with the namespace they were asked for.\<close>

definition accesses_listed :: "history \<Rightarrow> (string \<times> BucketAccess list) list" where
  "accesses_listed = List.map_filter (\<lambda>e. case e of
      EvListBucketAccess ns (Inr l) \<Rightarrow> Some (ns, l)
    | _ \<Rightarrow> None)"

text \<open>The access classes that were read, with the key they were asked for by.\<close>

definition access_classes_got :: "history \<Rightarrow> (NamespacedName \<times> BucketAccessClass) list" where
  "access_classes_got = List.map_filter (\<lambda>e. case e of
      EvGetBucketAccessClass k (Inr c) \<Rightarrow> Some (k, c)
    | _ \<Rightarrow> None)"

text \<open>The Secrets that were read, with the key they were asked for by.\<close>

definition secrets_got :: "history \<Rightarrow> (NamespacedName \<times> Secret) list" where
  "secrets_got = List.map_filter (\<lambda>e. case e of
      EvGetSecret k (Inr s) \<Rightarrow> Some (k, s)
    | _ \<Rightarrow> None)"

text \<open>The keys of Secrets that were reported not to exist.\<close>

definition secrets_missing :: "history \<Rightarrow> NamespacedName list" where
  "secrets_missing = List.map_filter (\<lambda>e. case e of
      EvGetSecret k (Inl err) \<Rightarrow> if IsNotFound err then Some k else None
    | _ \<Rightarrow> None)"

text \<open>The Secrets the server created: what was sent and what came back.\<close>

definition secrets_created :: "history \<Rightarrow> (Secret \<times> Secret) list" where
  "secrets_created = List.map_filter (\<lambda>e. case e of
      EvCreateSecret s (Inr s') \<Rightarrow> Some (s, s')
    | _ \<Rightarrow> None)"

text \<open>The Secret updates the server accepted: what was sent and what came back.\<close>

definition secrets_updated :: "history \<Rightarrow> (Secret \<times> Secret) list" where
  "secrets_updated = List.map_filter (\<lambda>e. case e of
      EvUpdateSecret s (Inr s') \<Rightarrow> Some (s, s')
    | _ \<Rightarrow> None)"

text \<open>The Secrets whose deletion the server accepted.\<close>

definition secrets_deleted :: "history \<Rightarrow> Secret list" where
  "secrets_deleted = List.map_filter (\<lambda>e. case e of
      EvDeleteSecret s None \<Rightarrow> Some s
    | _ \<Rightarrow> None)"

text \<open>The access updates the server accepted.\<close>

definition accesses_stored :: "history \<Rightarrow> BucketAccess list" where
  "accesses_stored = List.map_filter (\<lambda>e. case e of
      EvUpdateBucketAccess a (Inr _) \<Rightarrow> Some a
    | _ \<Rightarrow> None)"

text \<open>The accesses accepted as not ready.\<close>

definition accesses_unready :: "history \<Rightarrow> BucketAccess list" where
  "accesses_unready = List.map_filter (\<lambda>e. case e of
      EvStatusUpdateBucketAccess a (Inr _) \<Rightarrow>
        if ast_ReadyToUse (a_Status a) = Some False then Some a else None
    | _ \<Rightarrow> None)"

text \<open>The grants the driver confirmed, with its response.\<close>

definition accesses_granted :: "history \<Rightarrow> (DriverGrantBucketAccessRequest \<times> DriverGrantBucketAccessResponse) list" where
  "accesses_granted = List.map_filter (\<lambda>e. case e of
      EvDriverGrantBucketAccess q (Inr r) \<Rightarrow> Some (q, r)
    | _ \<Rightarrow> None)"

text \<open>The revocations the driver confirmed.\<close>

definition accesses_revoked :: "history \<Rightarrow> DriverRevokeBucketAccessRequest list" where
  "accesses_revoked = List.map_filter (\<lambda>e. case e of
      EvDriverRevokeBucketAccess q None \<Rightarrow> Some q
    | _ \<Rightarrow> None)"

text \<open>The accesses that were read with the protection finalizer, or came back when it was stored.\<close>

definition accesses_protected :: "history \<Rightarrow> BucketAccess list" where
  "accesses_protected = List.map_filter (\<lambda>e. case e of
      EvGetBucketAccess _ (Inr a) \<Rightarrow> if ContainsFinalizer (a_Meta a) ProtectionFinalizer then Some a else None
    | EvUpdateBucketAccess a (Inr a') \<Rightarrow> if ContainsFinalizer (a_Meta a) ProtectionFinalizer then Some a' else None
    | _ \<Rightarrow> None)"

section \<open>Lemmas\<close>

lemmas history_lists =
  claims_read_def claims_shown_def claims_got_def claims_missing_def claims_updated_def claims_protected_def claims_unready_def buckets_shown_def buckets_got_def buckets_stored_def buckets_missing_def classes_got_def accesses_read_def accesses_shown_def accesses_listed_def access_classes_got_def

lemma history_lists_append [simp]:
  "claims_read (xs @ ys) = claims_read xs @ claims_read ys"
  "claims_shown (xs @ ys) = claims_shown xs @ claims_shown ys"
  "claims_got (xs @ ys) = claims_got xs @ claims_got ys"
  "claims_missing (xs @ ys) = claims_missing xs @ claims_missing ys"
  "claims_updated (xs @ ys) = claims_updated xs @ claims_updated ys"
  "claims_protected (xs @ ys) = claims_protected xs @ claims_protected ys"
  "claims_unready (xs @ ys) = claims_unready xs @ claims_unready ys"
  "buckets_shown (xs @ ys) = buckets_shown xs @ buckets_shown ys"
  "buckets_got (xs @ ys) = buckets_got xs @ buckets_got ys"
  "buckets_stored (xs @ ys) = buckets_stored xs @ buckets_stored ys"
  "buckets_missing (xs @ ys) = buckets_missing xs @ buckets_missing ys"
  "classes_got (xs @ ys) = classes_got xs @ classes_got ys"
  "accesses_read (xs @ ys) = accesses_read xs @ accesses_read ys"
  "accesses_shown (xs @ ys) = accesses_shown xs @ accesses_shown ys"
  "accesses_listed (xs @ ys) = accesses_listed xs @ accesses_listed ys"
  "access_classes_got (xs @ ys) = access_classes_got xs @ access_classes_got ys"
  by (simp_all add: history_lists List.map_filter_def)

lemma history_lists_Nil [simp]:
  "claims_read [] = []"
  "claims_shown [] = []"
  "claims_got [] = []"
  "claims_missing [] = []"
  "claims_updated [] = []"
  "claims_protected [] = []"
  "claims_unready [] = []"
  "buckets_shown [] = []"
  "buckets_got [] = []"
  "buckets_stored [] = []"
  "buckets_missing [] = []"
  "classes_got [] = []"
  "accesses_read [] = []"
  "accesses_shown [] = []"
  "accesses_listed [] = []"
  "access_classes_got [] = []"
  by (simp_all add: history_lists List.map_filter_simps)

lemma history_lists_Cons [simp]:
  "claims_read (e # es) = (case (case e of
      EvGetBucketClaim _ (Inr c) \<Rightarrow> Some c
    | _ \<Rightarrow> None) of None \<Rightarrow> claims_read es | Some x \<Rightarrow> x # claims_read es)"
  "claims_shown (e # es) = (case (case e of
      EvGetBucketClaim _ (Inr c) \<Rightarrow> Some c
    | EvUpdateBucketClaim _ (Inr c) \<Rightarrow> Some c
    | EvStatusUpdateBucketClaim _ (Inr c) \<Rightarrow> Some c
    | _ \<Rightarrow> None) of None \<Rightarrow> claims_shown es | Some x \<Rightarrow> x # claims_shown es)"
  "claims_got (e # es) = (case (case e of
      EvGetBucketClaim k (Inr c) \<Rightarrow> Some (nn_Name k, c)
    | _ \<Rightarrow> None) of None \<Rightarrow> claims_got es | Some x \<Rightarrow> x # claims_got es)"
  "claims_missing (e # es) = (case (case e of
      EvGetBucketClaim k (Inl err) \<Rightarrow> if IsNotFound err then Some (nn_Name k) else None
    | _ \<Rightarrow> None) of None \<Rightarrow> claims_missing es | Some x \<Rightarrow> x # claims_missing es)"
  "claims_updated (e # es) = (case (case e of
      EvUpdateBucketClaim x (Inr c) \<Rightarrow> Some (x, c)
    | _ \<Rightarrow> None) of None \<Rightarrow> claims_updated es | Some x \<Rightarrow> x # claims_updated es)"
  "claims_protected (e # es) = (case (case e of
      EvGetBucketClaim _ (Inr c) \<Rightarrow> if ContainsFinalizer (c_Meta c) ProtectionFinalizer then Some c else None
    | EvUpdateBucketClaim c (Inr _) \<Rightarrow> if ContainsFinalizer (c_Meta c) ProtectionFinalizer then Some c else None
    | _ \<Rightarrow> None) of None \<Rightarrow> claims_protected es | Some x \<Rightarrow> x # claims_protected es)"
  "claims_unready (e # es) = (case (case e of
      EvStatusUpdateBucketClaim c (Inr _) \<Rightarrow>
        if cst_ReadyToUse (c_Status c) = Some False then Some c else None
    | _ \<Rightarrow> None) of None \<Rightarrow> claims_unready es | Some x \<Rightarrow> x # claims_unready es)"
  "buckets_shown (e # es) = (case (case e of
      EvGetBucket _ (Inr b) \<Rightarrow> Some b
    | EvCreateBucket _ (Inr b) \<Rightarrow> Some b
    | EvUpdateBucket _ (Inr b) \<Rightarrow> Some b
    | _ \<Rightarrow> None) of None \<Rightarrow> buckets_shown es | Some x \<Rightarrow> x # buckets_shown es)"
  "buckets_got (e # es) = (case (case e of
      EvGetBucket k (Inr b) \<Rightarrow> Some (nn_Name k, b)
    | _ \<Rightarrow> None) of None \<Rightarrow> buckets_got es | Some x \<Rightarrow> x # buckets_got es)"
  "buckets_stored (e # es) = (case (case e of
      EvUpdateBucket b (Inr _) \<Rightarrow> Some b
    | _ \<Rightarrow> None) of None \<Rightarrow> buckets_stored es | Some x \<Rightarrow> x # buckets_stored es)"
  "buckets_missing (e # es) = (case (case e of
      EvGetBucket k (Inl err) \<Rightarrow> if IsNotFound err then Some (nn_Name k) else None
    | _ \<Rightarrow> None) of None \<Rightarrow> buckets_missing es | Some x \<Rightarrow> x # buckets_missing es)"
  "classes_got (e # es) = (case (case e of
      EvGetBucketClass k (Inr c) \<Rightarrow> Some (k, c)
    | _ \<Rightarrow> None) of None \<Rightarrow> classes_got es | Some x \<Rightarrow> x # classes_got es)"
  "accesses_read (e # es) = (case (case e of
      EvGetBucketAccess _ (Inr a) \<Rightarrow> Some a
    | _ \<Rightarrow> None) of None \<Rightarrow> accesses_read es | Some x \<Rightarrow> x # accesses_read es)"
  "accesses_shown (e # es) = (case (case e of
      EvGetBucketAccess _ (Inr a) \<Rightarrow> Some a
    | EvUpdateBucketAccess _ (Inr a) \<Rightarrow> Some a
    | EvStatusUpdateBucketAccess _ (Inr a) \<Rightarrow> Some a
    | _ \<Rightarrow> None) of None \<Rightarrow> accesses_shown es | Some x \<Rightarrow> x # accesses_shown es)"
  "accesses_listed (e # es) = (case (case e of
      EvListBucketAccess ns (Inr l) \<Rightarrow> Some (ns, l)
    | _ \<Rightarrow> None) of None \<Rightarrow> accesses_listed es | Some x \<Rightarrow> x # accesses_listed es)"
  "access_classes_got (e # es) = (case (case e of
      EvGetBucketAccessClass k (Inr c) \<Rightarrow> Some (k, c)
    | _ \<Rightarrow> None) of None \<Rightarrow> access_classes_got es | Some x \<Rightarrow> x # access_classes_got es)"
  unfolding history_lists List.map_filter_simps by (rule refl)+

lemmas access_lists =
  accesses_protected_def secrets_got_def secrets_missing_def secrets_created_def secrets_updated_def secrets_deleted_def accesses_stored_def accesses_unready_def accesses_granted_def accesses_revoked_def

lemma access_lists_append [simp]:
  "accesses_protected (xs @ ys) = accesses_protected xs @ accesses_protected ys"
  "secrets_got (xs @ ys) = secrets_got xs @ secrets_got ys"
  "secrets_missing (xs @ ys) = secrets_missing xs @ secrets_missing ys"
  "secrets_created (xs @ ys) = secrets_created xs @ secrets_created ys"
  "secrets_updated (xs @ ys) = secrets_updated xs @ secrets_updated ys"
  "secrets_deleted (xs @ ys) = secrets_deleted xs @ secrets_deleted ys"
  "accesses_stored (xs @ ys) = accesses_stored xs @ accesses_stored ys"
  "accesses_unready (xs @ ys) = accesses_unready xs @ accesses_unready ys"
  "accesses_granted (xs @ ys) = accesses_granted xs @ accesses_granted ys"
  "accesses_revoked (xs @ ys) = accesses_revoked xs @ accesses_revoked ys"
  by (simp_all add: access_lists List.map_filter_def)

lemma access_lists_Nil [simp]:
  "accesses_protected [] = []"
  "secrets_got [] = []"
  "secrets_missing [] = []"
  "secrets_created [] = []"
  "secrets_updated [] = []"
  "secrets_deleted [] = []"
  "accesses_stored [] = []"
  "accesses_unready [] = []"
  "accesses_granted [] = []"
  "accesses_revoked [] = []"
  by (simp_all add: access_lists List.map_filter_simps)

lemma access_lists_Cons [simp]:
  "accesses_protected (e # es) = (case (case e of
      EvGetBucketAccess _ (Inr a) \<Rightarrow> if ContainsFinalizer (a_Meta a) ProtectionFinalizer then Some a else None
    | EvUpdateBucketAccess a (Inr a') \<Rightarrow> if ContainsFinalizer (a_Meta a) ProtectionFinalizer then Some a' else None
    | _ \<Rightarrow> None) of None \<Rightarrow> accesses_protected es | Some x \<Rightarrow> x # accesses_protected es)"
  "secrets_got (e # es) = (case (case e of
      EvGetSecret k (Inr s) \<Rightarrow> Some (k, s)
    | _ \<Rightarrow> None) of None \<Rightarrow> secrets_got es | Some x \<Rightarrow> x # secrets_got es)"
  "secrets_missing (e # es) = (case (case e of
      EvGetSecret k (Inl err) \<Rightarrow> if IsNotFound err then Some k else None
    | _ \<Rightarrow> None) of None \<Rightarrow> secrets_missing es | Some x \<Rightarrow> x # secrets_missing es)"
  "secrets_created (e # es) = (case (case e of
      EvCreateSecret s (Inr s') \<Rightarrow> Some (s, s')
    | _ \<Rightarrow> None) of None \<Rightarrow> secrets_created es | Some x \<Rightarrow> x # secrets_created es)"
  "secrets_updated (e # es) = (case (case e of
      EvUpdateSecret s (Inr s') \<Rightarrow> Some (s, s')
    | _ \<Rightarrow> None) of None \<Rightarrow> secrets_updated es | Some x \<Rightarrow> x # secrets_updated es)"
  "secrets_deleted (e # es) = (case (case e of
      EvDeleteSecret s None \<Rightarrow> Some s
    | _ \<Rightarrow> None) of None \<Rightarrow> secrets_deleted es | Some x \<Rightarrow> x # secrets_deleted es)"
  "accesses_stored (e # es) = (case (case e of
      EvUpdateBucketAccess a (Inr _) \<Rightarrow> Some a
    | _ \<Rightarrow> None) of None \<Rightarrow> accesses_stored es | Some x \<Rightarrow> x # accesses_stored es)"
  "accesses_unready (e # es) = (case (case e of
      EvStatusUpdateBucketAccess a (Inr _) \<Rightarrow>
        if ast_ReadyToUse (a_Status a) = Some False then Some a else None
    | _ \<Rightarrow> None) of None \<Rightarrow> accesses_unready es | Some x \<Rightarrow> x # accesses_unready es)"
  "accesses_granted (e # es) = (case (case e of
      EvDriverGrantBucketAccess q (Inr r) \<Rightarrow> Some (q, r)
    | _ \<Rightarrow> None) of None \<Rightarrow> accesses_granted es | Some x \<Rightarrow> x # accesses_granted es)"
  "accesses_revoked (e # es) = (case (case e of
      EvDriverRevokeBucketAccess q None \<Rightarrow> Some q
    | _ \<Rightarrow> None) of None \<Rightarrow> accesses_revoked es | Some x \<Rightarrow> x # accesses_revoked es)"
  unfolding access_lists List.map_filter_simps by (rule refl)+

section \<open>Status updates of an access\<close>

definition status_access_event :: "event \<Rightarrow> bool" where
  "status_access_event e = (case e of EvStatusUpdateBucketAccess _ _ \<Rightarrow> True | _ \<Rightarrow> False)"

definition status_access_saved :: "event \<Rightarrow> bool" where
  "status_access_saved e = (case e of EvStatusUpdateBucketAccess _ (Inr _) \<Rightarrow> True | _ \<Rightarrow> False)"

end
