(* ===== verification/Controller_BucketClaim.thy ===== *)
theory Controller_BucketClaim
  imports History_Views
begin

text \<open>
  The Controller's BucketClaim reconciler (\<^verbatim>\<open>src/controller/pkg/reconciler/bucketclaim.go\<close>): it
  finds or creates the Bucket of a claim, binds the two to each other, mirrors the Bucket's
  readiness into the claim, and takes the Bucket down when the claim is deleted.

  The lemmas say which Bucket may be created, bound, annotated and deleted for a claim, and when
  the claim may be released, for every environment.
\<close>

section \<open>Names and binding\<close>

definition determineBucketName :: "BucketClaim \<Rightarrow> error + string" where
  "determineBucketName claim =
     (let name = (if cs_ExistingBucketName (c_Spec claim) \<noteq> [] then cs_ExistingBucketName (c_Spec claim)
                  else ''bc-'' @ om_UID (c_Meta claim)) in
      if name = [] then Inl (errf (ClaimMsg DeterminedNameEmpty) [])
      else if cst_BoundBucketName (c_Status claim) \<noteq> [] \<and> cst_BoundBucketName (c_Status claim) \<noteq> name then
        Inl (errf (ClaimMsg BoundNameMismatch) [cst_BoundBucketName (c_Status claim), name])
      else Inr name)"

definition bucketIsBoundToClaim :: "Bucket \<Rightarrow> BucketClaim \<Rightarrow> error + bool" where
  "bucketIsBoundToClaim bucket claim =
     (let claimRef = bs_BucketClaimRef (b_Spec bucket);
          errs = [];
          errs = (if cr_Namespace claimRef \<noteq> om_Namespace (c_Meta claim) then
                    errs @ [errf (ClaimMsg ClaimRefNamespaceMismatch)
                              [cr_Namespace claimRef, om_Namespace (c_Meta claim)]]
                  else errs);
          errs = (if cr_Name claimRef \<noteq> om_Name (c_Meta claim) then
                    errs @ [errf (ClaimMsg ClaimRefNameMismatch) [cr_Name claimRef, om_Name (c_Meta claim)]]
                  else errs) in
      if cr_UID claimRef = [] then
        (case join_errs (Text (ClaimMsg UnboundBucketMismatch) [] []) errs of
           Some err \<Rightarrow> Inl err
         | None \<Rightarrow> Inr False)
      else
        (let errs = (if cr_UID claimRef \<noteq> om_UID (c_Meta claim) then
                       errs @ [errf (ClaimMsg ClaimRefUIDMismatch) [cr_UID claimRef, om_UID (c_Meta claim)]]
                     else errs) in
         case join_errs (Text (ClaimMsg BoundBucketMismatch) [] []) errs of
           Some err \<Rightarrow> Inl err
         | None \<Rightarrow> Inr True))"

definition ensureStaticBucketBound :: "env \<Rightarrow> Bucket \<Rightarrow> UID \<Rightarrow> (error option \<times> Bucket) prog" where
  "ensureStaticBucketBound E bucket claimUID =
     (let claimRef = bs_BucketClaimRef (b_Spec bucket) in
      if cr_UID claimRef = claimUID then ret (None, bucket)
      else if cr_UID claimRef \<noteq> [] \<and> cr_UID claimRef \<noteq> claimUID then
        ret (Some (NonRetryableError (errf (ClaimMsg ClaimRefUIDMismatch) [cr_UID claimRef, claimUID])), bucket)
      else do {
        let bucket = bucket\<lparr>b_Spec := (b_Spec bucket)\<lparr>bs_BucketClaimRef := claimRef\<lparr>cr_UID := claimUID\<rparr>\<rparr>\<rparr>;
        r \<leftarrow> Update_Bucket E bucket;
        case r of
          Inl err \<Rightarrow> ret (Some (wrapf (ClaimMsg SetUIDFailed) [] (ApiError err)), bucket)
        | Inr bucket \<Rightarrow> ret (None, bucket)
      })"

section \<open>The intermediate Bucket\<close>

definition generateIntermediateBucket :: "BucketClaim \<Rightarrow> BucketClass \<Rightarrow> string \<Rightarrow> Bucket" where
  "generateIntermediateBucket claim class bucketName =
     \<lparr>b_Meta = zero_meta\<lparr>om_Name := bucketName, om_Finalizers := []\<rparr>,
      b_Spec =
        \<lparr>bs_DriverName = bcs_DriverName (bc_Spec class),
         bs_DeletionPolicy = bcs_DeletionPolicy (bc_Spec class),
         bs_Parameters = bcs_Parameters (bc_Spec class),
         bs_Protocols = cs_Protocols (c_Spec claim),
         bs_BucketClaimRef =
           \<lparr>cr_Name = om_Name (c_Meta claim), cr_Namespace = om_Namespace (c_Meta claim),
            cr_UID = om_UID (c_Meta claim)\<rparr>,
         bs_ExistingBucketID = []\<rparr>,
      b_Status = zero_BucketStatus\<rparr>"

definition createIntermediateBucket :: "env \<Rightarrow> BucketClaim \<Rightarrow> string \<Rightarrow> (error + Bucket) prog" where
  "createIntermediateBucket E claim bucketName =
     (let className = cs_BucketClassName (c_Spec claim) in
      if className = [] then
        ret (Inl (NonRetryableError (errf (ClaimMsg EmptyBucketClassName) [])))
      else do {
        r \<leftarrow> Get_BucketClass E \<lparr>nn_Namespace = [], nn_Name = className\<rparr>;
        case r of
          Inl err \<Rightarrow> ret (Inl (ApiError err))
        | Inr class \<Rightarrow> do {
            r \<leftarrow> Create_Bucket E (generateIntermediateBucket claim class bucketName);
            case r of
              Inl err \<Rightarrow> ret (Inl (ApiError err))
            | Inr bucket \<Rightarrow> ret (Inr bucket)
          }
      })"

section \<open>Deletion\<close>

definition removeClaimFinalizer :: "env \<Rightarrow> BucketClaim \<Rightarrow> (error option \<times> BucketClaim) prog" where
  "removeClaimFinalizer E claim = do {
     let claim = claim\<lparr>c_Meta := RemoveFinalizer (c_Meta claim) ProtectionFinalizer\<rparr>;
     r \<leftarrow> Update_BucketClaim E claim;
     case r of
       Inl err \<Rightarrow> ret (Some (wrapf RemoveFinalizerFailed [] (ApiError err)), claim)
     | Inr claim \<Rightarrow> ret (None, claim)
   }"

definition applyBucketClaimIsDeletingAnnotation :: "env \<Rightarrow> Bucket \<Rightarrow> (error option \<times> Bucket) prog" where
  "applyBucketClaimIsDeletingAnnotation E bucket =
     (if has_annotation (b_Meta bucket) BucketClaimBeingDeletedAnnotation then ret (None, bucket)
      else do {
        let bucket = bucket\<lparr>b_Meta := add_annotation BucketClaimBeingDeletedAnnotation (b_Meta bucket)\<rparr>;
        r \<leftarrow> Update_Bucket E bucket;
        case r of
          Inl err \<Rightarrow> ret (Some (wrapf (ClaimMsg AnnotateBucketFailed) [] (ApiError err)), bucket)
        | Inr bucket \<Rightarrow> ret (None, bucket)
      })"

text \<open>The last part of \<open>reconcileDelete\<close>: the Bucket is bound to this claim.\<close>

definition releaseBoundBucket :: "env \<Rightarrow> BucketClaim \<Rightarrow> Bucket \<Rightarrow> (error option \<times> BucketClaim) prog" where
  "releaseBoundBucket E claim bucket =
     (if bs_DeletionPolicy (b_Spec bucket) = BucketDeletionPolicyRetain then do {
        (err, bucket) \<leftarrow> applyBucketClaimIsDeletingAnnotation E bucket;
        case err of
          Some err \<Rightarrow> ret (Some err, claim)
        | None \<Rightarrow> removeClaimFinalizer E claim
      }
      else if bs_DeletionPolicy (b_Spec bucket) = BucketDeletionPolicyDelete then do {
        (err, bucket) \<leftarrow> applyBucketClaimIsDeletingAnnotation E bucket;
        case err of
          Some err \<Rightarrow> ret (Some err, claim)
        | None \<Rightarrow>
            if \<not> IsZero (om_DeletionTimestamp (b_Meta bucket)) then ret (None, claim)
            else do {
              r \<leftarrow> Delete_Bucket E bucket;
              case r of
                Some err \<Rightarrow> ret (Some (wrapf (ClaimMsg DeleteBucketFailed) [] (ApiError err)), claim)
              | None \<Rightarrow> ret (None, claim)
            }
      }
      else ret (Some (NonRetryableError (errf (ClaimMsg UnknownDeletionPolicy)
             [bs_DeletionPolicy (b_Spec bucket)])), claim))"

definition BucketClaim_reconcileDelete ::
  "env \<Rightarrow> BucketClaim \<Rightarrow> string \<Rightarrow> bool \<Rightarrow> (error option \<times> BucketClaim) prog" where
  "BucketClaim_reconcileDelete E claim bucketName isStaticProvisioning = do {
     let claim = claim\<lparr>c_Status := (c_Status claim)\<lparr>cst_ReadyToUse := Some False, cst_Error := None\<rparr>\<rparr>;
     r \<leftarrow> StatusUpdate_BucketClaim E claim;
     case r of
       Inl err \<Rightarrow>
         ret (Some (wrapf (ClaimMsg ClaimStatusBeforeDeletionFailed) [] (ApiError err)), claim)
     | Inr claim \<Rightarrow> do {
         r \<leftarrow> Get_Bucket E \<lparr>nn_Namespace = [], nn_Name = bucketName\<rparr>;
         case r of
           Inl err \<Rightarrow>
             if IsNotFound err then removeClaimFinalizer E claim else ret (Some (ApiError err), claim)
         | Inr bucket \<Rightarrow>
             (case bucketIsBoundToClaim bucket claim of
                Inl err \<Rightarrow>
                  if isStaticProvisioning then removeClaimFinalizer E claim
                  else ret (Some (NonRetryableError
                         (wrapf (ClaimMsg DynamicBucketNotReferencing) [] err)), claim)
              | Inr isBound \<Rightarrow>
                  if \<not> isBound then removeClaimFinalizer E claim
                  else releaseBoundBucket E claim bucket)
       }
   }"

section \<open>Reconcile\<close>

definition BucketClaim_addFinalizer :: "env \<Rightarrow> BucketClaim \<Rightarrow> (error option \<times> BucketClaim) prog" where
  "BucketClaim_addFinalizer E claim =
     (let (didAdd, meta) = AddFinalizer (c_Meta claim) ProtectionFinalizer;
          claim = claim\<lparr>c_Meta := meta\<rparr> in
      if didAdd then do {
        r \<leftarrow> Update_BucketClaim E claim;
        case r of
          Inl err \<Rightarrow> ret (Some (wrapf AddFinalizerFailed [] (ApiError err)), claim)
        | Inr claim \<Rightarrow> ret (None, claim)
      } else ret (None, claim))"

text \<open>
  Finding the Bucket of the claim, or creating it. \<open>Inr None\<close> is the early return without
  error while a statically-provisioned Bucket does not exist yet.
\<close>

definition getOrCreateBucket :: "env \<Rightarrow> BucketClaim \<Rightarrow> string \<Rightarrow> bool \<Rightarrow> (error + Bucket option) prog" where
  "getOrCreateBucket E claim bucketName isStaticProvisioning = do {
     r \<leftarrow> Get_Bucket E \<lparr>nn_Namespace = [], nn_Name = bucketName\<rparr>;
     case r of
       Inr bucket \<Rightarrow> ret (Inr (Some bucket))
     | Inl err \<Rightarrow>
         if \<not> IsNotFound err then ret (Inl (ApiError err))
         else if cst_BoundBucketName (c_Status claim) \<noteq> [] then
           ret (Inl (NonRetryableError (errf (ClaimMsg BoundBucketGone)
             [cst_BoundBucketName (c_Status claim)])))
         else if isStaticProvisioning then ret (Inr None)
         else do {
           res \<leftarrow> createIntermediateBucket E claim bucketName;
           case res of
             Inl err \<Rightarrow> ret (Inl err)
           | Inr bucket \<Rightarrow> ret (Inr (Some bucket))
         }
   }"

text \<open>Making sure that the Bucket is bound to the claim.\<close>

definition bindBucket :: "env \<Rightarrow> BucketClaim \<Rightarrow> Bucket \<Rightarrow> bool \<Rightarrow> (error option \<times> Bucket) prog" where
  "bindBucket E claim bucket isStaticProvisioning =
     (case bucketIsBoundToClaim bucket claim of
        Inl err \<Rightarrow> ret (Some (NonRetryableError err), bucket)
      | Inr isBound \<Rightarrow>
          if \<not> isBound then
            if isStaticProvisioning then ensureStaticBucketBound E bucket (om_UID (c_Meta claim))
            else ret (Some (NonRetryableError (errf (ClaimMsg DynamicBucketMalformed) [])), bucket)
          else ret (None, bucket))"

text \<open>\<open>if claim.Status.ReadyToUse == nil { claim.Status.ReadyToUse = ptr.To(false) }\<close>.\<close>

definition claim_ready_set :: "BucketClaim \<Rightarrow> BucketClaim" where
  "claim_ready_set claim =
     (if cst_ReadyToUse (c_Status claim) = None
      then claim\<lparr>c_Status := (c_Status claim)\<lparr>cst_ReadyToUse := Some False\<rparr>\<rparr> else claim)"

text \<open>Binding the claim to the Bucket, if it is not already bound.\<close>

definition bindClaim :: "env \<Rightarrow> BucketClaim \<Rightarrow> string \<Rightarrow> (error option \<times> BucketClaim) prog" where
  "bindClaim E claim bucketName =
     (if cst_BoundBucketName (c_Status claim) = [] then do {
        let claim = claim_ready_set claim;
        let claim = claim\<lparr>c_Status := (c_Status claim)\<lparr>cst_BoundBucketName := bucketName\<rparr>\<rparr>;
        r \<leftarrow> StatusUpdate_BucketClaim E claim;
        case r of
          Inl err \<Rightarrow> ret (Some (wrapf (ClaimMsg BindFailed) [] (ApiError err)), claim)
        | Inr claim \<Rightarrow> ret (None, claim)
      } else ret (None, claim))"

text \<open>Mirroring a provisioned Bucket in the status of the claim.\<close>

definition publishClaim :: "env \<Rightarrow> BucketClaim \<Rightarrow> Bucket \<Rightarrow> (error option \<times> BucketClaim) prog" where
  "publishClaim E claim bucket =
     (if \<not> ptr_Deref (bst_ReadyToUse (b_Status bucket)) False then ret (None, claim)
      else if bst_BucketID (b_Status bucket) = [] then
        ret (Some (NonRetryableError (errf (ClaimMsg NoBucketID) [])), claim)
      else if length (bst_Protocols (b_Status bucket)) = 0 then
        ret (Some (NonRetryableError (errf (ClaimMsg NoProtocols) [])), claim)
      else do {
        let claim = claim\<lparr>c_Status := (c_Status claim)\<lparr>
          cst_ReadyToUse := bst_ReadyToUse (b_Status bucket),
          cst_Protocols := bst_Protocols (b_Status bucket),
          cst_Error := None\<rparr>\<rparr>;
        r \<leftarrow> StatusUpdate_BucketClaim E claim;
        case r of
          Inl err \<Rightarrow> ret (Some (ApiError err), claim)
        | Inr claim \<Rightarrow> ret (None, claim)
      })"

text \<open>What follows once the Bucket is there.\<close>

definition bindAndPublish ::
  "env \<Rightarrow> BucketClaim \<Rightarrow> string \<Rightarrow> Bucket \<Rightarrow> bool \<Rightarrow> (error option \<times> BucketClaim) prog" where
  "bindAndPublish E claim bucketName bucket isStaticProvisioning = do {
     (err, bucket) \<leftarrow> bindBucket E claim bucket isStaticProvisioning;
     case err of
       Some err \<Rightarrow> ret (Some err, claim)
     | None \<Rightarrow> do {
         (err, claim) \<leftarrow> bindClaim E claim bucketName;
         case err of
           Some err \<Rightarrow> ret (Some err, claim)
         | None \<Rightarrow> publishClaim E claim bucket
       }
   }"

text \<open>The part of \<open>reconcile\<close> for a claim that is not being deleted.\<close>

definition BucketClaim_reconcileLive ::
  "env \<Rightarrow> BucketClaim \<Rightarrow> string \<Rightarrow> bool \<Rightarrow> (error option \<times> BucketClaim) prog" where
  "BucketClaim_reconcileLive E claim bucketName isStaticProvisioning = do {
     (err, claim) \<leftarrow> BucketClaim_addFinalizer E claim;
     case err of
       Some err \<Rightarrow> ret (Some err, claim)
     | None \<Rightarrow> do {
         res \<leftarrow> getOrCreateBucket E claim bucketName isStaticProvisioning;
         case res of
           Inl err \<Rightarrow> ret (Some err, claim)
         | Inr found \<Rightarrow>
             (case found of
                None \<Rightarrow> ret (None, claim)
              | Some bucket \<Rightarrow> bindAndPublish E claim bucketName bucket isStaticProvisioning)
       }
   }"

definition BucketClaim_reconcile :: "env \<Rightarrow> BucketClaim \<Rightarrow> (error option \<times> BucketClaim) prog" where
  "BucketClaim_reconcile E claim =
     (case determineBucketName claim of
        Inl err \<Rightarrow> ret (Some (NonRetryableError err), claim)
      | Inr bucketName \<Rightarrow>
          let isStaticProvisioning = (cs_ExistingBucketName (c_Spec claim) \<noteq> []) in
          if \<not> IsZero (om_DeletionTimestamp (c_Meta claim)) then
            BucketClaim_reconcileDelete E claim bucketName isStaticProvisioning
          else BucketClaim_reconcileLive E claim bucketName isStaticProvisioning)"

text \<open>
  The condition under which the error in the status is replaced: the message differs, or the
  recorded error is incomplete.
\<close>

definition error_needs_update :: "TimestampedError option \<Rightarrow> string \<Rightarrow> bool" where
  "error_needs_update e message =
     (case e of
        None \<Rightarrow> True
      | Some te \<Rightarrow> te_Time te = None \<or> te_Message te = None \<or> te_Message te \<noteq> Some message)"

definition BucketClaim_finish :: "env \<Rightarrow> error option \<Rightarrow> BucketClaim \<Rightarrow> reconcile_result prog" where
  "BucketClaim_finish E err claim =
     (case err of
        Some err \<Rightarrow> do {
          let statusChanged = (cst_ReadyToUse (c_Status claim) = None);
          let claim = claim_ready_set claim;
          let message = e_ErrorText E err;
          now \<leftarrow> Now E;
          let (statusChanged, claim) =
            (if error_needs_update (cst_Error (c_Status claim)) message then
               (True, claim\<lparr>c_Status := (c_Status claim)\<lparr>
                  cst_Error := Some (NewTimestampedError now message)\<rparr>\<rparr>)
             else (statusChanged, claim));
          if statusChanged then do {
            u \<leftarrow> StatusUpdate_BucketClaim E claim;
            case u of
              Inl updErr \<Rightarrow> ret (Retry err)
            | Inr _ \<Rightarrow> ret (classify err)
          } else ret (classify err)
        }
      | None \<Rightarrow>
          if cst_Error (c_Status claim) \<noteq> None \<and> IsZero (om_DeletionTimestamp (c_Meta claim)) then do {
            let claim = claim_ready_set claim;
            let claim = claim\<lparr>c_Status := (c_Status claim)\<lparr>cst_Error := None\<rparr>\<rparr>;
            u \<leftarrow> StatusUpdate_BucketClaim E claim;
            case u of
              Inl err \<Rightarrow> ret (Retry (ApiError err))
            | Inr _ \<Rightarrow> ret Done
          } else ret Done)"

definition BucketClaim_Reconcile :: "env \<Rightarrow> NamespacedName \<Rightarrow> reconcile_result prog" where
  "BucketClaim_Reconcile E req = do {
     r \<leftarrow> Get_BucketClaim E req;
     case r of
       Inl err \<Rightarrow> ret (if IsNotFound err then Done else Retry (ApiError err))
     | Inr claim \<Rightarrow> do {
         (err, claim) \<leftarrow> BucketClaim_reconcile E claim;
         BucketClaim_finish E err claim
       }
   }"

section \<open>The contract of the reconciler\<close>

text \<open>
  The Bucket of a claim: the existing one it names, or the one named after its UID. What a new Bucket
  must hold: driver, policy and parameters of the class, the protocols of the claim, a complete
  reference to the claim, and nothing else.
\<close>

definition claim_bucket_name :: "BucketClaim \<Rightarrow> string" where
  "claim_bucket_name c =
     (if cs_ExistingBucketName (c_Spec c) \<noteq> [] then cs_ExistingBucketName (c_Spec c)
      else ''bc-'' @ om_UID (c_Meta c))"

definition prescribed_bucket :: "BucketClaim \<Rightarrow> BucketClass \<Rightarrow> Bucket \<Rightarrow> bool" where
  "prescribed_bucket c class b \<longleftrightarrow>
     bs_DriverName (b_Spec b) = bcs_DriverName (bc_Spec class) \<and>
     bs_DeletionPolicy (b_Spec b) = bcs_DeletionPolicy (bc_Spec class) \<and>
     bs_Parameters (b_Spec b) = bcs_Parameters (bc_Spec class) \<and>
     bs_Protocols (b_Spec b) = cs_Protocols (c_Spec c) \<and>
     cr_Name (bs_BucketClaimRef (b_Spec b)) = om_Name (c_Meta c) \<and>
     cr_Namespace (bs_BucketClaimRef (b_Spec b)) = om_Namespace (c_Meta c) \<and>
     cr_UID (bs_BucketClaimRef (b_Spec b)) = om_UID (c_Meta c) \<and>
     bs_ExistingBucketID (b_Spec b) = [] \<and>
     b_Status b = zero_BucketStatus \<and>
     b_Meta b = zero_meta\<lparr>om_Name := om_Name (b_Meta b)\<rparr>"

text \<open>Creation of an intermediate Bucket, with the class that the claim names.\<close>

definition create_ok :: "history \<Rightarrow> Bucket \<Rightarrow> bool" where
  "create_ok tr b \<longleftrightarrow>
     (\<exists>c \<in> set (claims_read tr). IsZero (om_DeletionTimestamp (c_Meta c)) \<and>
        cs_ExistingBucketName (c_Spec c) = [] \<and> om_Name (b_Meta b) = claim_bucket_name c) \<and>
     om_Name (b_Meta b) \<in> set (buckets_missing tr) \<and> claims_protected tr \<noteq> [] \<and>
     (\<exists>c \<in> set (claims_shown tr). \<exists>class.
        (\<lparr>nn_Namespace = [], nn_Name = cs_BucketClassName (c_Spec c)\<rparr>, class) \<in> set (classes_got tr) \<and>
        cs_BucketClassName (c_Spec c) \<noteq> [] \<and> cst_BoundBucketName (c_Status c) = [] \<and>
        prescribed_bucket c class b)"

text \<open>Updates of a Bucket: binding it to a live claim, or annotating it for a deleted one.\<close>

definition bucket_bound_to :: "Bucket \<Rightarrow> UID \<Rightarrow> Bucket" where
  "bucket_bound_to b uid = b\<lparr>b_Spec := (b_Spec b)\<lparr>bs_BucketClaimRef :=
     (bs_BucketClaimRef (b_Spec b))\<lparr>cr_UID := uid\<rparr>\<rparr>\<rparr>"

definition bucket_annotated :: "Bucket \<Rightarrow> Bucket" where
  "bucket_annotated b = b\<lparr>b_Meta := add_annotation BucketClaimBeingDeletedAnnotation (b_Meta b)\<rparr>"

definition claim_live :: "history \<Rightarrow> bool" where
  "claim_live tr \<longleftrightarrow> (\<exists>c \<in> set (claims_read tr). IsZero (om_DeletionTimestamp (c_Meta c)))"

definition claim_static :: "history \<Rightarrow> bool" where
  "claim_static tr \<longleftrightarrow> (\<exists>c \<in> set (claims_read tr). cs_ExistingBucketName (c_Spec c) \<noteq> [])"

definition claim_deleting :: "history \<Rightarrow> bool" where
  "claim_deleting tr \<longleftrightarrow> (\<exists>c \<in> set (claims_read tr). \<not> IsZero (om_DeletionTimestamp (c_Meta c)))"

definition update_ok :: "history \<Rightarrow> Bucket \<Rightarrow> bool" where
  "update_ok tr b \<longleftrightarrow> (\<exists>b0 \<in> set (buckets_shown tr). \<exists>c \<in> set (claims_shown tr).
     claim_live tr \<and> claim_static tr \<and> bucketIsBoundToClaim b0 c = Inr False \<and>
       b = bucket_bound_to b0 (om_UID (c_Meta c)) \<or>
     claim_deleting tr \<and> bucketIsBoundToClaim b0 c = Inr True \<and> b = bucket_annotated b0)"

text \<open>The Bucket of the claim that was read, as it was found under its name.\<close>

definition bucket_found :: "history \<Rightarrow> Bucket \<Rightarrow> bool" where
  "bucket_found tr b \<longleftrightarrow> (\<exists>c \<in> set (claims_read tr). (claim_bucket_name c, b) \<in> set (buckets_got tr))"

definition bucket_gone :: "history \<Rightarrow> bool" where
  "bucket_gone tr \<longleftrightarrow> (\<exists>c \<in> set (claims_read tr). claim_bucket_name c \<in> set (buckets_missing tr))"

definition released_bucket :: "history \<Rightarrow> BucketDeletionPolicy \<Rightarrow> bool" where
  "released_bucket tr policy \<longleftrightarrow> (\<exists>b. bucket_found tr b \<and> (\<exists>c \<in> set (claims_shown tr).
     bucketIsBoundToClaim b c = Inr True \<and> bs_DeletionPolicy (b_Spec b) = policy \<and>
     (has_annotation (b_Meta b) BucketClaimBeingDeletedAnnotation \<or>
      bucket_annotated b \<in> set (buckets_stored tr))))"

definition delete_ok :: "history \<Rightarrow> Bucket \<Rightarrow> bool" where
  "delete_ok tr b \<longleftrightarrow> claim_deleting tr \<and> claims_unready tr \<noteq> [] \<and>
     released_bucket tr BucketDeletionPolicyDelete \<and> b \<in> set (buckets_shown tr) \<and>
     IsZero (om_DeletionTimestamp (b_Meta b))"

definition release_ok :: "history \<Rightarrow> BucketClaim \<Rightarrow> bool" where
  "release_ok tr c \<longleftrightarrow>
     claim_live tr \<and> ContainsFinalizer (c_Meta c) ProtectionFinalizer \<or>
     claim_deleting tr \<and> claims_unready tr \<noteq> [] \<and>
       (bucket_gone tr \<or> released_bucket tr BucketDeletionPolicyRetain \<or>
        (\<exists>b. bucket_found tr b \<and> (\<exists>c' \<in> set (claims_shown tr).
           bucketIsBoundToClaim b c' = Inr False \<or>
           claim_static tr \<and> isl (bucketIsBoundToClaim b c'))))"

definition claim_status_ok :: "history \<Rightarrow> BucketClaim \<Rightarrow> bool" where
  "claim_status_ok tr c \<longleftrightarrow>
     (cst_ReadyToUse (c_Status c) = Some True \<longrightarrow>
        (\<exists>b \<in> set (buckets_shown tr). bst_ReadyToUse (b_Status b) = Some True \<and>
           bst_BucketID (b_Status b) \<noteq> [] \<and> bst_Protocols (b_Status b) \<noteq> [] \<and>
           cst_Protocols (c_Status c) = bst_Protocols (b_Status b)) \<or>
        (\<exists>c' \<in> set (claims_shown tr). cst_ReadyToUse (c_Status c') = Some True \<and>
           cst_Protocols (c_Status c') = cst_Protocols (c_Status c))) \<and>
     ((\<exists>c' \<in> set (claims_shown tr).
         cst_BoundBucketName (c_Status c') = cst_BoundBucketName (c_Status c)) \<or>
      claim_live tr \<and> buckets_shown tr \<noteq> [] \<and>
      (\<exists>c' \<in> set (claims_shown tr). cst_BoundBucketName (c_Status c') = []) \<and>
      (\<exists>c0 \<in> set (claims_read tr). determineBucketName c0 = Inr (cst_BoundBucketName (c_Status c))))"

definition claim_contract :: "history \<Rightarrow> event \<Rightarrow> bool" where
  "claim_contract tr e = (case e of
      EvGetBucketClaim _ _ \<Rightarrow> True
    | EvGetBucket _ _ \<Rightarrow> True
    | EvGetBucketClass _ _ \<Rightarrow> True
    | EvCreateBucket b _ \<Rightarrow> create_ok tr b
    | EvUpdateBucket b _ \<Rightarrow> update_ok tr b
    | EvDeleteBucket b _ \<Rightarrow> delete_ok tr b
    | EvUpdateBucketClaim c _ \<Rightarrow> release_ok tr c
    | EvStatusUpdateBucketClaim c _ \<Rightarrow> claim_status_ok tr c
    | _ \<Rightarrow> False)"

lemma bucketIsBoundToClaim_iff:
  "bucketIsBoundToClaim b c = Inr x \<longleftrightarrow>
     cr_Namespace (bs_BucketClaimRef (b_Spec b)) = om_Namespace (c_Meta c) \<and>
     cr_Name (bs_BucketClaimRef (b_Spec b)) = om_Name (c_Meta c) \<and>
     (if x then cr_UID (bs_BucketClaimRef (b_Spec b)) = om_UID (c_Meta c) \<and> om_UID (c_Meta c) \<noteq> []
      else cr_UID (bs_BucketClaimRef (b_Spec b)) = [])"
  by (auto simp: bucketIsBoundToClaim_def Let_def join_errs_def)

lemma determineBucketName_ok:
  "determineBucketName c = Inr n \<Longrightarrow> n = claim_bucket_name c"
  by (auto simp: determineBucketName_def claim_bucket_name_def Let_def split: if_splits)

lemma generated_bucket_prescribed:
  "prescribed_bucket c cl (generateIntermediateBucket c cl n)"
  "om_Name (b_Meta (generateIntermediateBucket c cl n)) = n"
  by (simp_all add: prescribed_bucket_def generateIntermediateBucket_def zero_meta_def)

lemma AddFinalizer_claim [simp]: "c\<lparr>c_Meta := c_Meta c\<rparr> = (c :: BucketClaim)"
  by (cases c) simp

lemma claim_status_shown: "c \<in> set (claims_shown tr) \<Longrightarrow> claim_status_ok tr c"
  unfolding claim_status_ok_def by blast

lemma claim_status_events: "claim_status_ok tr c \<Longrightarrow> claim_status_ok (tr @ es) c"
  unfolding claim_status_ok_def claim_live_def history_lists_append set_append by blast

lemma claim_status_cong:
  assumes "cst_ReadyToUse (c_Status c') = cst_ReadyToUse (c_Status c) \<or> cst_ReadyToUse (c_Status c') = Some False"
    and "cst_Protocols (c_Status c') = cst_Protocols (c_Status c)"
    and "cst_BoundBucketName (c_Status c') = cst_BoundBucketName (c_Status c)"
    and "claim_status_ok tr c"
  shows "claim_status_ok tr c'"
  using assms unfolding claim_status_ok_def by auto

text \<open>The facts a run carries along: what was read, what the server has shown, and that every
  event so far was allowed.\<close>

definition claim_known :: "BucketClaim \<Rightarrow> BucketClaim \<Rightarrow> history \<Rightarrow> bool" where
  "claim_known c0 c tr \<longleftrightarrow> guarded claim_contract tr \<and> c0 \<in> set (claims_read tr) \<and> c \<in> set (claims_shown tr)"

definition claim_done :: "error option \<times> BucketClaim \<Rightarrow> history \<Rightarrow> bool" where
  "claim_done r tr \<longleftrightarrow> guarded claim_contract tr \<and> claim_status_ok tr (snd r)"

lemma claim_doneI: "claim_known c0 c tr \<Longrightarrow> claim_done (e, c) tr"
  by (simp add: claim_done_def claim_known_def claim_status_shown)

lemma wp_publishClaim_contract:
  assumes "claim_known c0 c tr" and "b \<in> set (buckets_shown tr)"
  shows "wp (publishClaim E c b) claim_done tr"
proof -
  let ?c = "c\<lparr>c_Status := (c_Status c)\<lparr>cst_ReadyToUse := bst_ReadyToUse (b_Status b),
     cst_Protocols := bst_Protocols (b_Status b), cst_Error := None\<rparr>\<rparr>"
  have ok: "claim_status_ok tr ?c"
    if "ptr_Deref (bst_ReadyToUse (b_Status b)) False" "bst_BucketID (b_Status b) \<noteq> []"
      "bst_Protocols (b_Status b) \<noteq> []"
    using assms that unfolding claim_status_ok_def claim_known_def
    by (auto simp: ptr_Deref_def split: option.splits)
  show ?thesis using assms ok unfolding publishClaim_def
    by (intro wp_intro)
       (auto simp: claim_known_def claim_done_def claim_contract_def intro: claim_status_shown claim_status_events)
qed

lemma wp_bindClaim_contract:
  assumes "claim_known c0 c tr" "b \<in> set (buckets_shown tr)" "determineBucketName c0 = Inr n"
    "IsZero (om_DeletionTimestamp (c_Meta c0))"
  shows "wp (bindClaim E c n) (\<lambda>(e, c') tr'. claim_done (e, c') tr' \<and> (e = None \<longrightarrow> claim_known c0 c' tr' \<and> b \<in> set (buckets_shown tr'))) tr"
proof -
  let ?c = "(claim_ready_set c)\<lparr>c_Status := (c_Status (claim_ready_set c))\<lparr>cst_BoundBucketName := n\<rparr>\<rparr>"
  have ok: "claim_status_ok tr ?c" if "cst_BoundBucketName (c_Status c) = []"
    using assms that unfolding claim_status_ok_def claim_known_def claim_live_def claim_ready_set_def
    by auto
  show ?thesis using assms ok unfolding bindClaim_def
    by (intro wp_intro)
       (auto simp: claim_known_def claim_done_def claim_contract_def intro: claim_status_shown claim_status_events)
qed

lemma wp_bindBucket_contract:
  assumes "claim_known c0 c tr" "b \<in> set (buckets_shown tr)"
    "IsZero (om_DeletionTimestamp (c_Meta c0))" "static \<longrightarrow> cs_ExistingBucketName (c_Spec c0) \<noteq> []"
  shows "wp (bindBucket E c b static) (\<lambda>(e, b') tr'. claim_known c0 c tr' \<and> (e = None \<longrightarrow> b' \<in> set (buckets_shown tr'))) tr"
proof -
  have ok: "update_ok tr (bucket_bound_to b (om_UID (c_Meta c)))" if "bucketIsBoundToClaim b c = Inr False" static
    using assms that unfolding update_ok_def claim_known_def claim_live_def claim_static_def by blast
  show ?thesis using assms ok unfolding bindBucket_def ensureStaticBucketBound_def Let_def bucket_bound_to_def[symmetric]
    by (intro wp_intro)
       (auto simp: claim_known_def claim_done_def claim_contract_def intro: claim_status_shown claim_status_events)
qed

lemma wp_getOrCreateBucket_contract:
  assumes "claim_known c0 c tr" "IsZero (om_DeletionTimestamp (c_Meta c0))" "determineBucketName c0 = Inr n"
    "static \<longleftrightarrow> cs_ExistingBucketName (c_Spec c0) \<noteq> []" "claims_protected tr \<noteq> []"
  shows "wp (getOrCreateBucket E c n static)
    (\<lambda>r tr'. claim_known c0 c tr' \<and> (\<forall>b. r = Inr (Some b) \<longrightarrow> b \<in> set (buckets_shown tr'))) tr"
proof -
  have ok: "create_ok (tr @ [EvGetBucket \<lparr>nn_Namespace = [], nn_Name = n\<rparr> (Inl err),
      EvGetBucketClass \<lparr>nn_Namespace = [], nn_Name = cs_BucketClassName (c_Spec c)\<rparr> (Inr cl)])
     (generateIntermediateBucket c cl n)"
    if "cst_BoundBucketName (c_Status c) = []" "\<not> static" "IsNotFound err" "cs_BucketClassName (c_Spec c) \<noteq> []"
    for err cl
    using assms that determineBucketName_ok[OF assms(3)] generated_bucket_prescribed[of c cl n]
    unfolding create_ok_def claim_known_def by auto
  show ?thesis using assms ok unfolding getOrCreateBucket_def createIntermediateBucket_def Let_def
    by (intro wp_intro)
       (auto simp: claim_known_def claim_done_def claim_contract_def intro: claim_status_shown claim_status_events)
qed

lemma wp_BucketClaim_addFinalizer_contract:
  assumes "claim_known c c tr" "IsZero (om_DeletionTimestamp (c_Meta c))"
    "ContainsFinalizer (c_Meta c) ProtectionFinalizer \<longrightarrow> claims_protected tr \<noteq> []"
  shows "wp (BucketClaim_addFinalizer E c)
    (\<lambda>(e, c') tr'. claim_done (e, c') tr' \<and> (e = None \<longrightarrow> claim_known c c' tr' \<and> claims_protected tr' \<noteq> [])) tr"
proof -
  have ok: "release_ok tr (c\<lparr>c_Meta := m\<rparr>)" if "ContainsFinalizer m ProtectionFinalizer" for m
    using assms that unfolding release_ok_def claim_known_def claim_live_def by auto
  have status: "claim_status_ok (tr @ es) (c\<lparr>c_Meta := m\<rparr>)" for m es
    by (rule claim_status_cong[of _ c]) (use assms in \<open>auto simp: claim_known_def intro: claim_status_shown\<close>)
  show ?thesis using assms ok status unfolding BucketClaim_addFinalizer_def
    by (intro wp_intro)
       (auto dest!: AddFinalizer_unchanged AddFinalizer_changed simp: claim_known_def claim_done_def claim_contract_def intro: claim_status_shown claim_status_events)
qed

lemma bucket_found_shown: "bucket_found tr b \<Longrightarrow> b \<in> set (buckets_shown tr)"
proof -
  have "(n, b) \<in> set (buckets_got tr) \<Longrightarrow> b \<in> set (buckets_shown tr)" for n
    by (induction tr) (auto split: event.splits sum.splits if_splits)
  then show "bucket_found tr b \<Longrightarrow> b \<in> set (buckets_shown tr)" by (auto simp: bucket_found_def)
qed

lemma bucket_found_events: "bucket_found tr b \<Longrightarrow> bucket_found (tr @ es) b"
  by (auto simp: bucket_found_def)

lemma wp_removeClaimFinalizer_contract:
  assumes "claim_known c0 c tr"
    "\<not> IsZero (om_DeletionTimestamp (c_Meta c0))" "claims_unready tr \<noteq> []"
    "bucket_gone tr \<or> released_bucket tr BucketDeletionPolicyRetain \<or>
        (\<exists>b. bucket_found tr b \<and> (bucketIsBoundToClaim b c = Inr False \<or>
           claim_static tr \<and> isl (bucketIsBoundToClaim b c)))"
  shows "wp (removeClaimFinalizer E c) claim_done tr"
proof -
  let ?c = "c\<lparr>c_Meta := RemoveFinalizer (c_Meta c) ProtectionFinalizer\<rparr>"
  have ok: "release_ok tr ?c"
    using assms unfolding release_ok_def claim_known_def claim_deleting_def by blast
  have status: "claim_status_ok (tr @ es) ?c" for es
    by (rule claim_status_cong[of _ c]) (use assms in \<open>auto simp: claim_known_def intro: claim_status_shown\<close>)
  show ?thesis using assms ok status unfolding removeClaimFinalizer_def
    by (intro wp_intro)
       (auto simp: claim_known_def claim_done_def claim_contract_def intro: claim_status_shown claim_status_events)
qed

lemma wp_apply_annotation_contract:
  assumes "claim_known c0 c tr" "bucket_found tr b" "bucketIsBoundToClaim b c = Inr True"
    "\<not> IsZero (om_DeletionTimestamp (c_Meta c0))" "claims_unready tr \<noteq> []"
  shows "wp (applyBucketClaimIsDeletingAnnotation E b)
    (\<lambda>(e, b') tr'. claim_known c0 c tr' \<and> claims_unready tr' \<noteq> [] \<and>
       (e = None \<longrightarrow> b' \<in> set (buckets_shown tr') \<and> released_bucket tr' (bs_DeletionPolicy (b_Spec b)))) tr"
proof -
  have ok: "update_ok tr (bucket_annotated b)"
    using assms bucket_found_shown unfolding update_ok_def claim_known_def claim_deleting_def by blast
  have rel: "released_bucket tr (bs_DeletionPolicy (b_Spec b))"
    if "has_annotation (b_Meta b) BucketClaimBeingDeletedAnnotation"
    using assms that unfolding released_bucket_def claim_known_def by blast
  have rel': "released_bucket (tr @ [EvUpdateBucket (bucket_annotated b) (Inr b')]) (bs_DeletionPolicy (b_Spec b))" for b'
    using assms unfolding released_bucket_def claim_known_def
    by (auto simp: claim_contract_def intro!: exI[of _ b] bexI[of _ c] bucket_found_events)
  show ?thesis using assms ok rel rel' bucket_found_shown[OF assms(2)]
    unfolding applyBucketClaimIsDeletingAnnotation_def Let_def bucket_annotated_def[symmetric]
    by (intro wp_intro) (auto simp: claim_known_def claim_done_def claim_contract_def intro: claim_status_shown claim_status_events)
qed

lemma claim_known_delete:
  assumes "claim_known c0 c tr" "claims_unready tr \<noteq> []" "b \<in> set (buckets_shown tr)"
    "released_bucket tr BucketDeletionPolicyDelete" "IsZero (om_DeletionTimestamp (b_Meta b))"
    "\<not> IsZero (om_DeletionTimestamp (c_Meta c0))"
  shows "claim_known c0 c (tr @ [EvDeleteBucket b r])"
proof -
  have "delete_ok tr b" using assms unfolding claim_known_def delete_ok_def claim_deleting_def by blast
  then show ?thesis using assms by (simp add: claim_known_def claim_contract_def)
qed

lemma wp_releaseBoundBucket_contract:
  assumes "claim_known c0 c tr" "bucket_found tr b" "bucketIsBoundToClaim b c = Inr True"
    "\<not> IsZero (om_DeletionTimestamp (c_Meta c0))" "claims_unready tr \<noteq> []"
  shows "wp (releaseBoundBucket E c b) claim_done tr"
  unfolding releaseBoundBucket_def
  by (intro wp_if wp_bind wp_mono[OF wp_apply_annotation_contract[OF assms]] wp_return)
     (auto simp: assms(1,4) intro!: wp_intro claim_doneI[of c0] wp_removeClaimFinalizer_contract[of c0]
        claim_known_delete)

lemma wp_BucketClaim_reconcileDelete_contract:
  assumes "claim_known c c tr" "\<not> IsZero (om_DeletionTimestamp (c_Meta c))"
    "static \<longleftrightarrow> cs_ExistingBucketName (c_Spec c) \<noteq> []" "n = claim_bucket_name c"
  shows "wp (BucketClaim_reconcileDelete E c n static) claim_done tr"
proof -
  let ?c = "c\<lparr>c_Status := (c_Status c)\<lparr>cst_ReadyToUse := Some False, cst_Error := None\<rparr>\<rparr>"
  have status: "claim_status_ok (tr @ es) ?c" for es
    by (rule claim_status_cong[of _ c]) (use assms in \<open>auto simp: claim_known_def intro: claim_status_shown\<close>)
  show ?thesis unfolding BucketClaim_reconcileDelete_def Let_def
    using assms status status[of "[]"]
    by (intro wp_bind wp_calls wp_case_sum wp_if wp_return wp_removeClaimFinalizer_contract[of c]
          wp_releaseBoundBucket_contract[of c])
       (auto simp: claim_known_def claim_done_def claim_contract_def claim_static_def bucket_gone_def bucket_found_def
          intro!: claim_status_shown)
qed

lemma wp_bindAndPublish_contract:
  assumes "claim_known c0 c tr" "b \<in> set (buckets_shown tr)" "determineBucketName c0 = Inr n"
    "IsZero (om_DeletionTimestamp (c_Meta c0))" "static \<longrightarrow> cs_ExistingBucketName (c_Spec c0) \<noteq> []"
  shows "wp (bindAndPublish E c n b static) claim_done tr"
  unfolding bindAndPublish_def
  by (rule wp_bind_err[OF wp_bindBucket_contract[OF assms(1,2,4,5)]];
      intro wp_case_constructor wp_return wp_bind_err[OF wp_bindClaim_contract[of c0]])
     (auto simp: assms intro!: wp_intro claim_doneI[of c0] wp_publishClaim_contract[of c0])

lemma wp_BucketClaim_reconcileLive_contract:
  assumes "claim_known c c tr" "determineBucketName c = Inr n" "IsZero (om_DeletionTimestamp (c_Meta c))"
    "ContainsFinalizer (c_Meta c) ProtectionFinalizer \<longrightarrow> claims_protected tr \<noteq> []"
    "static \<longleftrightarrow> cs_ExistingBucketName (c_Spec c) \<noteq> []"
  shows "wp (BucketClaim_reconcileLive E c n static) claim_done tr"
  unfolding BucketClaim_reconcileLive_def
  by (rule wp_bind_err[OF wp_BucketClaim_addFinalizer_contract[OF assms(1,3,4)]];
      intro wp_case_constructor wp_return wp_bind_sum[OF wp_getOrCreateBucket_contract[of c]])
     (use assms in \<open>auto simp: claim_known_def[of c c] intro!: wp_intro claim_doneI[of c] wp_bindAndPublish_contract[of c]\<close>)

lemma wp_BucketClaim_reconcile_contract:
  "wp (BucketClaim_reconcile E c) claim_done [EvGetBucketClaim req (Inr c)]" (is "wp _ _ ?tr")
proof -
  have known: "claim_known c c ?tr" by (simp add: claim_known_def guarded_def claim_contract_def)
  show ?thesis unfolding BucketClaim_reconcile_def Let_def
    by (intro wp_case_sum wp_if wp_return wp_BucketClaim_reconcileDelete_contract[OF known]
          wp_BucketClaim_reconcileLive_contract[OF known] claim_doneI[OF known] determineBucketName_ok) simp_all
qed

section \<open>The shape of the reconciler\<close>

definition status_claim_event :: "event \<Rightarrow> bool" where
  "status_claim_event e = (case e of EvStatusUpdateBucketClaim _ _ \<Rightarrow> True | _ \<Rightarrow> False)"

definition status_claim_saved :: "event \<Rightarrow> bool" where
  "status_claim_saved e = (case e of EvStatusUpdateBucketClaim _ (Inr _) \<Rightarrow> True | _ \<Rightarrow> False)"

interpretation controller_claim: reconciler "Get_BucketClaim E" "e_GetBucketClaim E" EvGetBucketClaim "\<lambda>_. False"
  "BucketClaim_reconcile E" "\<lambda>e. e" "BucketClaim_finish E" status_claim_event
  status_claim_saved "BucketClaim_Reconcile E" for E
proof
  show "BucketClaim_Reconcile E req = reconcile_shape (Get_BucketClaim E) (\<lambda>_. False)
      (BucketClaim_reconcile E) (BucketClaim_finish E) req" for req
    unfolding BucketClaim_Reconcile_def reconcile_shape_def if_False ..
qed (auto simp: BucketClaim_finish_def wp_def run_calls Let_def status_claim_event_def
  status_claim_saved_def classify_def split: option.splits sum.splits)

lemma BucketClaim_Reconcile_contract: "guarded claim_contract (history_of (BucketClaim_Reconcile E req))"
proof (rule wp_history, rule controller_claim.wp_Reconcile)
  have finish: "wp (BucketClaim_finish E err c) (\<lambda>_. guarded claim_contract) tr"
    if "claim_done (err, c) tr" for err c tr
  proof -
    have ok: "claim_status_ok tr (c'\<lparr>c_Status := (c_Status c')\<lparr>cst_Error := x\<rparr>\<rparr>)" "claim_status_ok tr c'"
      if "c' = claim_ready_set c" for c' x
      by (rule claim_status_cong[of _ c], use that \<open>claim_done (err, c) tr\<close> in \<open>auto simp: claim_done_def claim_ready_set_def\<close>)+
    show ?thesis using that ok[OF refl] unfolding BucketClaim_finish_def
      by (intro wp_intro) (auto simp: claim_done_def claim_contract_def split: if_splits)
  qed
  show "wp (BucketClaim_reconcile E c) (\<lambda>(e, c'). wp (BucketClaim_finish E e c') (\<lambda>_. guarded claim_contract))
      [EvGetBucketClaim req (Inr c)]" for c
    by (rule wp_mono[OF wp_BucketClaim_reconcile_contract]) (auto intro: finish)
qed (auto simp: guarded_def claim_contract_def)

definition create_guard :: "history \<Rightarrow> event \<Rightarrow> bool" where
  "create_guard tr e = (case e of EvCreateBucket b _ \<Rightarrow> create_ok tr b | _ \<Rightarrow> True)"

definition update_guard :: "history \<Rightarrow> event \<Rightarrow> bool" where
  "update_guard tr e = (case e of EvUpdateBucket b _ \<Rightarrow> update_ok tr b | _ \<Rightarrow> True)"

definition delete_guard :: "history \<Rightarrow> event \<Rightarrow> bool" where
  "delete_guard tr e = (case e of EvDeleteBucket b _ \<Rightarrow> delete_ok tr b | _ \<Rightarrow> True)"

definition release_guard :: "history \<Rightarrow> event \<Rightarrow> bool" where
  "release_guard tr e = (case e of EvUpdateBucketClaim c _ \<Rightarrow> release_ok tr c | _ \<Rightarrow> True)"


text \<open>
  C13. A Bucket is created only for a live, dynamic claim that is not bound, under the name
  derived from the claim's UID, after the server reported that no such Bucket exists and after the
  claim carries the finalizer; it holds driver, deletion policy and parameters of the class that was
  read under the claim's class name, the protocols of the claim and a complete reference to the
  claim, with empty status and otherwise empty metadata.
\<close>

theorem intermediate_bucket_creation:
  "guarded create_guard (history_of (BucketClaim_Reconcile E req))"
  by (rule guarded_weaken[OF BucketClaim_Reconcile_contract])
     (auto simp: claim_contract_def create_guard_def split: event.splits)

text \<open>
  C14. The Controller writes a Bucket's metadata or spec in two ways only: it sets the claim UID of
  an unbound Bucket that names a live, static claim, changing nothing else; or it adds the
  claim-being-deleted annotation to a Bucket bound to a claim under deletion. A bound Bucket is
  never re-bound.
\<close>

theorem bucket_never_rebound:
  "guarded update_guard (history_of (BucketClaim_Reconcile E req))"
  by (rule guarded_weaken[OF BucketClaim_Reconcile_contract])
     (auto simp: claim_contract_def update_guard_def split: event.splits)

text \<open>
  C15. A Bucket is deleted only for a claim under deletion whose status was first marked as not
  ready, only if it is bound to that claim and has deletion policy Delete, and only after it
  carries the claim-being-deleted annotation the Sidecar waits for.
\<close>

theorem bucket_deletion_by_claim:
  "guarded delete_guard (history_of (BucketClaim_Reconcile E req))"
  by (rule guarded_weaken[OF BucketClaim_Reconcile_contract])
     (auto simp: claim_contract_def delete_guard_def split: event.splits)

text \<open>
  C16. A claim loses its finalizer only when it is being deleted, is marked as not ready, and the
  Bucket of its name (the existing one it asks for, or the one named after its UID) is reported
  missing, is retained and annotated, or is not its own (unbound, or, for a static claim, bound to
  another claim).
\<close>

theorem claim_released_only_when_safe:
  "guarded release_guard (history_of (BucketClaim_Reconcile E req))"
  by (rule guarded_weaken[OF BucketClaim_Reconcile_contract])
     (auto simp: claim_contract_def release_guard_def split: event.splits)


section \<open>Binding and complete runs\<close>

text \<open>
  C18. A repeated failure is not written again: if the recorded error already has the message of
  the error at hand (and a time), the run adds no event after the reconcile proper and still
  classifies the error.
\<close>

theorem repeated_error_not_rewritten:
  assumes "e_GetBucketClaim E [] req = Inr c"
    and "run_state (BucketClaim_reconcile E c) [EvGetBucketClaim req (Inr c)] = ((Some err, c'), tr)"
    and "cst_ReadyToUse (c_Status c') \<noteq> None"
    and "cst_Error (c_Status c') = Some \<lparr>te_Time = Some t, te_Message = Some (e_ErrorText E err)\<rparr>"
  shows "run_state (BucketClaim_Reconcile E req) [] = (classify err, tr)"
  using assms
  by (auto simp: BucketClaim_Reconcile_def BucketClaim_finish_def run_calls Let_def
      error_needs_update_def claim_ready_set_def)

definition example_claim :: BucketClaim where
  "example_claim =
     \<lparr>c_Meta = zero_meta\<lparr>om_Name := ''c'', om_Namespace := ''ns'', om_UID := ''1''\<rparr>,
      c_Spec = \<lparr>cs_BucketClassName = ''class'', cs_Protocols = [ObjectProtocolS3],
        cs_ExistingBucketName = []\<rparr>,
      c_Status = \<lparr>cst_BoundBucketName = [], cst_ReadyToUse = None, cst_Protocols = [],
        cst_Error = None\<rparr>\<rparr>"

text \<open>A claim whose bound name is lost track of: its name check fails on every run.\<close>

definition degraded_claim :: BucketClaim where
  "degraded_claim = example_claim\<lparr>c_Status :=
     \<lparr>cst_BoundBucketName = ''other'', cst_ReadyToUse = Some False, cst_Protocols = [],
      cst_Error = Some \<lparr>te_Time = Some 1, te_Message = Some []\<rparr>\<rparr>\<rparr>"

theorem repeated_error_not_rewritten_witness:
  "run_state (BucketClaim_Reconcile (echo_env\<lparr>e_GetBucketClaim := \<lambda>_ _. Inr degraded_claim\<rparr>)
     \<lparr>nn_Namespace = ''ns'', nn_Name = ''c''\<rparr>) [] =
   (Terminal (NonRetryableError (errf (ClaimMsg BoundNameMismatch) [''other'', ''bc-1''])),
    [EvGetBucketClaim \<lparr>nn_Namespace = ''ns'', nn_Name = ''c''\<rparr> (Inr degraded_claim)])"
  by (subst repeated_error_not_rewritten[where c = degraded_claim and c' = degraded_claim and t = 1 and
        err = "NonRetryableError (errf (ClaimMsg BoundNameMismatch) [''other'', ''bc-1''])"])
     (simp_all add: echo_env_def degraded_claim_def example_claim_def BucketClaim_reconcile_def
        determineBucketName_def zero_meta_def Let_def classify_def)

lemma BucketClaim_run:
  "e_GetBucketClaim E [] req = Inr c \<Longrightarrow> run_state (BucketClaim_Reconcile E req) [] =
   (case run_state (BucketClaim_reconcile E c) [EvGetBucketClaim req (Inr c)] of
      ((err, c'), tr) \<Rightarrow> run_state (BucketClaim_finish E err c') tr)"
  by (auto simp: BucketClaim_Reconcile_def run_calls split: prod.splits)

lemmas claim_steps = BucketClaim_reconcileLive_def BucketClaim_addFinalizer_def getOrCreateBucket_def
  createIntermediateBucket_def bindAndPublish_def bindBucket_def ensureStaticBucketBound_def
  bindClaim_def publishClaim_def BucketClaim_reconcileDelete_def releaseBoundBucket_def
  applyBucketClaimIsDeletingAnnotation_def removeClaimFinalizer_def

text \<open>
  A new dynamic claim gets its Bucket: when the server stores what it is sent, the Bucket does
  not exist yet and the class does, one run succeeds; it stores the finalizer, creates the
  intermediate Bucket and ends by binding the claim to it.
\<close>

lemma dynamic_claim_creates_bucket:
  assumes stores: "\<And>tr x. e_UpdateBucketClaim E tr x = Inr x"
      "\<And>tr x. e_StatusUpdateBucketClaim E tr x = Inr x" "\<And>tr x. e_CreateBucket E tr x = Inr x"
    and absent: "\<And>tr k. e_GetBucket E tr k = Inl (ApiNotFound s)"
    and claim: "e_GetBucketClaim E [] req = Inr c" "IsZero (om_DeletionTimestamp (c_Meta c))"
      "cs_ExistingBucketName (c_Spec c) = []" "cst_BoundBucketName (c_Status c) = []"
      "cst_Error (c_Status c) = None" "om_UID (c_Meta c) \<noteq> []" "cs_BucketClassName (c_Spec c) \<noteq> []"
    and cls: "\<And>tr k. e_GetBucketClass E tr k = Inr cl"
  shows "\<exists>m c'' pre. let n = ''bc-'' @ om_UID (c_Meta c); b = generateIntermediateBucket (c\<lparr>c_Meta := m\<rparr>) cl n in
     AddFinalizer (c_Meta c) ProtectionFinalizer = (m \<noteq> c_Meta c, m) \<and>
     c_Meta c'' = m \<and> c_Spec c'' = c_Spec c \<and> cst_BoundBucketName (c_Status c'') = n \<and>
     run_state (BucketClaim_Reconcile E req) [] =
       (Done, pre @ [EvCreateBucket b (Inr b), EvStatusUpdateBucketClaim c'' (Inr c'')])"
proof -
  obtain d m where add: "AddFinalizer (c_Meta c) ProtectionFinalizer = (d, m)" by force
  note frame = AddFinalizer_frame[OF add]
  have bound: "bucketIsBoundToClaim (generateIntermediateBucket c' cl n) c' = Inr True"
    if "om_UID (c_Meta c') \<noteq> []" for c' n
    using that by (simp add: bucketIsBoundToClaim_iff generateIntermediateBucket_def)
  have st: "b_Status (generateIntermediateBucket c' cl n) = zero_BucketStatus" for c' n
    by (simp add: generateIntermediateBucket_def)
  let ?n = "''bc-'' @ om_UID (c_Meta c)" and ?c = "c\<lparr>c_Meta := m\<rparr>"
  let ?c' = "(claim_ready_set ?c)\<lparr>c_Status := (c_Status (claim_ready_set ?c))\<lparr>cst_BoundBucketName := ?n\<rparr>\<rparr>"
  let ?pre = "[EvGetBucketClaim req (Inr c)] @ (if d then [EvUpdateBucketClaim ?c (Inr ?c)] else []) @
    [EvGetBucket \<lparr>nn_Namespace = [], nn_Name = ?n\<rparr> (Inl (ApiNotFound s)),
     EvGetBucketClass \<lparr>nn_Namespace = [], nn_Name = cs_BucketClassName (c_Spec c)\<rparr> (Inr cl)]"
  have "run_state (BucketClaim_Reconcile E req) [] = (Done, ?pre @
      [EvCreateBucket (generateIntermediateBucket ?c cl ?n) (Inr (generateIntermediateBucket ?c cl ?n)),
       EvStatusUpdateBucketClaim ?c' (Inr ?c')])"
    using assms add frame
    by (cases d; cases "cst_ReadyToUse (c_Status c)")
       (simp_all add: BucketClaim_run BucketClaim_reconcile_def determineBucketName_def claim_steps
      BucketClaim_finish_def run_calls Let_def claim_ready_set_def bound st zero_BucketStatus_def)
  moreover have "d \<longleftrightarrow> m \<noteq> c_Meta c"
    using add by (cases "c_Meta c") (auto simp: AddFinalizer_def split: if_splits)
  ultimately show ?thesis
    using add by (intro exI[of _ m] exI[of _ ?c'] exI[of _ ?pre]) (simp add: Let_def claim_ready_set_def)
qed

text \<open>
  C19. Deleting a claim takes its Bucket down: for a bound Bucket with policy Delete the run marks
  the claim as not ready, annotates the Bucket, asks for its deletion and waits; the claim keeps
  its finalizer. These are all the calls of the run, for every such claim: neither the mark that says
  that accesses reference the claim nor the accesses themselves are looked at, although the comment
  in the deletion path of the BucketAccess controller asks for both checks.
\<close>

theorem claim_deletion_deletes_bucket:
  assumes stores: "\<And>tr x. e_StatusUpdateBucketClaim E tr x = Inr x" "\<And>tr x. e_UpdateBucket E tr x = Inr x"
      "\<And>tr x. e_DeleteBucket E tr x = None"
    and claim: "e_GetBucketClaim E [] req = Inr c" "\<not> IsZero (om_DeletionTimestamp (c_Meta c))"
      "determineBucketName c = Inr n"
    and bucket: "\<And>tr. e_GetBucket E tr \<lparr>nn_Namespace = [], nn_Name = n\<rparr> = Inr b"
      "bucketIsBoundToClaim b c = Inr True" "bs_DeletionPolicy (b_Spec b) = BucketDeletionPolicyDelete"
      "\<not> has_annotation (b_Meta b) BucketClaimBeingDeletedAnnotation"
      "IsZero (om_DeletionTimestamp (b_Meta b))"
  shows "\<exists>c'. c_Meta c' = c_Meta c \<and> cst_ReadyToUse (c_Status c') = Some False \<and>
    run_state (BucketClaim_Reconcile E req) [] = (Done,
      [EvGetBucketClaim req (Inr c), EvStatusUpdateBucketClaim c' (Inr c'),
       EvGetBucket \<lparr>nn_Namespace = [], nn_Name = n\<rparr> (Inr b),
       EvUpdateBucket (bucket_annotated b) (Inr (bucket_annotated b)),
       EvDeleteBucket (bucket_annotated b) None])"
proof -
  have same: "bucketIsBoundToClaim b (c\<lparr>c_Status := x\<rparr>) = Inr True" for x
    using bucket(2) by (simp add: bucketIsBoundToClaim_iff)
  show ?thesis using assms
    by (simp add: BucketClaim_run BucketClaim_reconcile_def claim_steps same bucket_annotated_def
        BucketClaim_finish_def run_calls Let_def)
qed

text \<open>A claim under deletion that still carries the mark of accesses.\<close>

definition deleted_claim :: BucketClaim where
  "deleted_claim = example_claim\<lparr>c_Meta := (c_Meta example_claim)\<lparr>
     om_DeletionTimestamp := Some 1, om_Finalizers := [ProtectionFinalizer],
     om_Annotations := Some [(HasBucketAccessReferencesAnnotation, [])]\<rparr>\<rparr>"

definition bound_bucket :: Bucket where
  "bound_bucket = generateIntermediateBucket example_claim
     \<lparr>bc_Meta = zero_meta, bc_Spec = \<lparr>bcs_DriverName = ''drv'',
       bcs_DeletionPolicy = BucketDeletionPolicyDelete, bcs_Parameters = None\<rparr>\<rparr> ''bc-1''"

theorem claim_deletion_deletes_bucket_witness:
  "has_annotation (c_Meta deleted_claim) HasBucketAccessReferencesAnnotation \<and>
   EvDeleteBucket (bucket_annotated bound_bucket) None \<in> set (history_of (BucketClaim_Reconcile
     (echo_env\<lparr>e_GetBucketClaim := \<lambda>_ _. Inr deleted_claim, e_GetBucket := \<lambda>_ _. Inr bound_bucket\<rparr>)
     \<lparr>nn_Namespace = ''ns'', nn_Name = ''c''\<rparr>))"
  (is "_ \<and> _ \<in> set (history_of (BucketClaim_Reconcile ?E ?req))")
  using claim_deletion_deletes_bucket[of ?E ?req deleted_claim "''bc-1''" bound_bucket]
  by (simp add: echo_env_def deleted_claim_def bound_bucket_def example_claim_def zero_meta_def history_of_def
      determineBucketName_def bucketIsBoundToClaim_iff generateIntermediateBucket_def has_annotation_def Let_def
      gm_has_def gm_lookup_def gm_entries_def)
     auto

text \<open>
  A claim follows its Bucket: for a live claim whose Bucket exists, is bound to it and is
  ready with an ID and protocols, one run succeeds and ends with the claim bound, ready and
  offering exactly the Bucket's protocols, with no error.
\<close>

lemma claim_becomes_ready:
  assumes stores: "\<And>tr x. e_UpdateBucketClaim E tr x = Inr x" "\<And>tr x. e_StatusUpdateBucketClaim E tr x = Inr x"
    and claim: "e_GetBucketClaim E [] req = Inr c" "IsZero (om_DeletionTimestamp (c_Meta c))"
      "determineBucketName c = Inr n"
    and bucket: "\<And>tr. e_GetBucket E tr \<lparr>nn_Namespace = [], nn_Name = n\<rparr> = Inr b"
      "bucketIsBoundToClaim b c = Inr True" "bst_ReadyToUse (b_Status b) = Some True"
      "bst_BucketID (b_Status b) \<noteq> []" "bst_Protocols (b_Status b) \<noteq> []"
  shows "\<exists>c' pre. c_Status c' = \<lparr>cst_BoundBucketName = n, cst_ReadyToUse = Some True,
      cst_Protocols = bst_Protocols (b_Status b), cst_Error = None\<rparr> \<and>
    run_state (BucketClaim_Reconcile E req) [] = (Done, pre @ [EvStatusUpdateBucketClaim c' (Inr c')])"
proof -
  obtain d m where add: "AddFinalizer (c_Meta c) ProtectionFinalizer = (d, m)" by force
  note frame = AddFinalizer_frame[OF add]
  have bound: "bucketIsBoundToClaim b (c\<lparr>c_Meta := m\<rparr>) = Inr True"
    using bucket(2) frame by (simp add: bucketIsBoundToClaim_iff)
  have n: "cst_BoundBucketName (c_Status c) = [] \<or> cst_BoundBucketName (c_Status c) = n" "n \<noteq> []"
    using claim(3) by (auto simp: determineBucketName_def Let_def split: if_splits)
  let ?c = "c\<lparr>c_Meta := m, c_Status := \<lparr>cst_BoundBucketName = n, cst_ReadyToUse = Some True,
      cst_Protocols = bst_Protocols (b_Status b), cst_Error = None\<rparr>\<rparr>"
  have "\<exists>pre. run_state (BucketClaim_Reconcile E req) [] = (Done, pre @ [EvStatusUpdateBucketClaim ?c (Inr ?c)])"
    using assms add frame n bound
    by (cases d; cases "cst_ReadyToUse (c_Status c)"; cases "c_Status c")
       (auto simp: BucketClaim_run BucketClaim_reconcile_def claim_steps BucketClaim_finish_def run_calls Let_def claim_ready_set_def)
  then show ?thesis by (intro exI[of _ ?c]) simp
qed

end
