(* ===== verification/Access_Handoff.thy ===== *)
theory Access_Handoff
  imports Errors
begin

text \<open>
  Logic on BucketAccess resources shared by Controller and Sidecar
  (\<^verbatim>\<open>src/internal/bucketaccess/bucketaccess.go\<close>): which of the two manages a resource, whether
  the Controller's initialization is complete, and whether any access mode is requested.
\<close>

section \<open>Definitions\<close>

definition ManagedBySidecar :: "BucketAccess \<Rightarrow> bool" where
  "ManagedBySidecar ba =
     (if has_annotation (a_Meta ba) ControllerManagementOverrideAnnotation then False
      else if ast_DriverName (a_Status ba) = [] then False
      else if \<not> IsZero (om_DeletionTimestamp (a_Meta ba)) then
        \<not> has_annotation (a_Meta ba) SidecarCleanupFinishedAnnotation
      else True)"

definition HasAnyAccessMode :: "BucketAccessModes \<Rightarrow> bool" where
  "HasAnyAccessMode m \<longleftrightarrow>
     am_ObjectData m \<noteq> [] \<or> am_ObjectMetadata m \<noteq> [] \<or> am_BucketMetadata m \<noteq> []"

definition requiredFields :: "BucketAccessStatus \<Rightarrow> (string \<times> bool) list" where
  "requiredFields s =
     [(''status.accessedBuckets'', length (ast_AccessedBuckets s) > 0),
      (''status.driverName'', ast_DriverName s \<noteq> []),
      (''status.authenticationType'', ast_AuthenticationType s \<noteq> [])]"

text \<open>The error names the fields that are set; the code prints the whole map of fields.\<close>

definition SidecarRequirementsPresent :: "BucketAccessStatus \<Rightarrow> error + bool" where
  "SidecarRequirementsPresent s =
     (let set = filter snd (requiredFields s) in
      if length set = 0 then Inr False
      else if length set = length (requiredFields s) then Inr True
      else Inl (errf (AccessMsg PartiallyInitialized) (map fst set)))"

text \<open>\<open>if access.Status.ReadyToUse == nil { access.Status.ReadyToUse = ptr.To(false) }\<close>.\<close>

definition access_ready_set :: "BucketAccess \<Rightarrow> BucketAccess" where
  "access_ready_set access =
     (if ast_ReadyToUse (a_Status access) = None
      then access\<lparr>a_Status := (a_Status access)\<lparr>ast_ReadyToUse := Some False\<rparr>\<rparr> else access)"

section \<open>Lemmas\<close>

lemma SidecarRequirementsPresent_True:
  "SidecarRequirementsPresent s = Inr True \<longleftrightarrow>
     ast_AccessedBuckets s \<noteq> [] \<and> ast_DriverName s \<noteq> [] \<and> ast_AuthenticationType s \<noteq> []"
  by (auto simp: SidecarRequirementsPresent_def requiredFields_def Let_def)

lemma SidecarRequirementsPresent_False:
  "SidecarRequirementsPresent s = Inr False \<longleftrightarrow>
     ast_AccessedBuckets s = [] \<and> ast_DriverName s = [] \<and> ast_AuthenticationType s = []"
  by (auto simp: SidecarRequirementsPresent_def requiredFields_def Let_def)

lemma ManagedBySidecar_has_driver: "ManagedBySidecar ba \<Longrightarrow> ast_DriverName (a_Status ba) \<noteq> []"
  by (auto simp: ManagedBySidecar_def split: if_splits)

text \<open>Two versions of a resource that agree on what the decision reads have the same manager.\<close>

lemma ManagedBySidecar_cong:
  assumes "\<And>k. k \<in> {ControllerManagementOverrideAnnotation, SidecarCleanupFinishedAnnotation} \<Longrightarrow>
      has_annotation (a_Meta x) k = has_annotation (a_Meta y) k"
    and "ast_DriverName (a_Status x) = [] \<longleftrightarrow> ast_DriverName (a_Status y) = []"
    and "IsZero (om_DeletionTimestamp (a_Meta x)) = IsZero (om_DeletionTimestamp (a_Meta y))"
  shows "ManagedBySidecar x = ManagedBySidecar y"
  using assms by (simp add: ManagedBySidecar_def)

text \<open>Once handed back with the cleanup annotation, a deleting access stays with the Controller.\<close>

lemma handed_back:
  "\<not> IsZero (om_DeletionTimestamp (a_Meta ba)) \<Longrightarrow>
    has_annotation (a_Meta ba) SidecarCleanupFinishedAnnotation \<Longrightarrow> \<not> ManagedBySidecar ba"
  by (simp add: ManagedBySidecar_def)

lemma access_ready_set_frame [simp]:
  "a_Spec (access_ready_set a) = a_Spec a" "a_Meta (access_ready_set a) = a_Meta a"
  "ast_DriverName (a_Status (access_ready_set a)) = ast_DriverName (a_Status a)"
  "ast_AccessedBuckets (a_Status (access_ready_set a)) = ast_AccessedBuckets (a_Status a)"
  by (simp_all add: access_ready_set_def)

section \<open>Example accesses\<close>

text \<open>An access as a user writes it.\<close>

definition example_access :: BucketAccess where
  "example_access =
     \<lparr>a_Meta = zero_meta\<lparr>om_Name := ''a'', om_Namespace := ''ns'', om_UID := ''2''\<rparr>,
      a_Spec = \<lparr>as_BucketClaims = [\<lparr>bca_BucketClaimName = ''c'',
          bca_AccessModes = \<lparr>am_ObjectData = BucketAccessModeReadWrite, am_ObjectMetadata = [],
            am_BucketMetadata = []\<rparr>, bca_AccessSecretName = ''s''\<rparr>],
        as_BucketAccessClassName = ''class'', as_Protocol = ObjectProtocolS3, as_ServiceAccountName = []\<rparr>,
      a_Status = \<lparr>ast_ReadyToUse = None, ast_AccountID = [], ast_AccessedBuckets = [],
        ast_DriverName = [], ast_AuthenticationType = [], ast_Parameters = None, ast_Error = None\<rparr>\<rparr>"

text \<open>The same access after its initialization by the Controller.\<close>

definition handed_over_access :: BucketAccess where
  "handed_over_access = example_access\<lparr>a_Status := \<lparr>ast_ReadyToUse = Some False, ast_AccountID = [],
     ast_AccessedBuckets = [\<lparr>ab_BucketName = ''bc-1'', ab_BucketID = ''x'', ab_BucketClaimName = ''c''\<rparr>],
     ast_DriverName = ''drv'', ast_AuthenticationType = BucketAccessAuthenticationTypeKey,
     ast_Parameters = None, ast_Error = None\<rparr>\<rparr>"

lemma handed_over_access_managed: "ManagedBySidecar handed_over_access"
proof -
  have "om_Annotations (a_Meta handed_over_access) = None"
    "om_DeletionTimestamp (a_Meta handed_over_access) = None" "ast_DriverName (a_Status handed_over_access) = ''drv''"
    by (simp_all add: handed_over_access_def example_access_def zero_meta_def)
  then show ?thesis by (simp add: ManagedBySidecar_def has_annotation_def IsZero_def)
qed

end
