(* ===== verification/Controller_BucketAccess.thy ===== *)
theory Controller_BucketAccess
  imports History_Views Access_Handoff
begin

text \<open>
  The Controller's BucketAccess reconciler (\<^verbatim>\<open>src/controller/pkg/reconciler/bucketaccess.go\<close>): it
  marks the referenced BucketClaims, waits until they are provisioned, copies the access class
  and the bucket IDs into the status and thereby hands the access to the Sidecar; on deletion it
  removes the marks that no other access needs and releases the access.

  A Go map from claim names to pointers is an association list; the order in which the code
  ranges over it is chosen by the environment. Pointers in the map are shared, so a loop that
  updates the claims returns the changed map.
\<close>

type_synonym claims_map = "(string \<times> BucketClaim option) list"
type_synonym buckets_map = "(string \<times> Bucket option) list"

section \<open>Validation of the spec\<close>

text \<open>The loop that counts references: the counts so far and \<open>doErr\<close>.\<close>

fun count_references :: "BucketClaimAccess list \<Rightarrow> (string \<times> nat) list \<Rightarrow> bool \<Rightarrow> (string \<times> nat) list \<times> bool" where
  "count_references [] claimCounts doErr = (claimCounts, doErr)"
| "count_references (ref # refs) claimCounts doErr =
     (case map_of claimCounts (bca_BucketClaimName ref) of
        None \<Rightarrow> count_references refs (AList.update (bca_BucketClaimName ref) 1 claimCounts) doErr
      | Some n \<Rightarrow>
          count_references refs (AList.update (bca_BucketClaimName ref) (n + 1) claimCounts) True)"

definition validateAllBucketClaimReferencesUnique :: "BucketClaimAccess list \<Rightarrow> error option" where
  "validateAllBucketClaimReferencesUnique claimAccesses =
     (let (claimCounts, doErr) = count_references claimAccesses [] False in
      if doErr then
        Some (NonRetryableError (errf (AccessMsg ClaimsReferencedTwice)
          (concat (map (\<lambda>(name, n). [name, decimal n]) claimCounts))))
      else None)"

definition validateClaimAccessModesAgainstClass ::
  "DisallowedBucketAccessModes \<Rightarrow> BucketClaimAccess \<Rightarrow> error list" where
  "validateClaimAccessModesAgainstClass disallowed claimRef =
     (if \<not> HasAnyAccessMode (bca_AccessModes claimRef) then
        [errf (AccessMsg NoAccessModeRequested) [bca_BucketClaimName claimRef]] else []) @
     (if am_ObjectData (bca_AccessModes claimRef) \<in> set (dm_ObjectData disallowed) then
        [errf (AccessMsg ObjectDataDisallowed)
           [am_ObjectData (bca_AccessModes claimRef), bca_BucketClaimName claimRef]] else []) @
     (if am_ObjectMetadata (bca_AccessModes claimRef) \<in> set (dm_ObjectMetadata disallowed) then
        [errf (AccessMsg ObjectMetadataDisallowed)
           [am_ObjectMetadata (bca_AccessModes claimRef), bca_BucketClaimName claimRef]] else []) @
     (if am_BucketMetadata (bca_AccessModes claimRef) \<in> set (dm_BucketMetadata disallowed) then
        [errf (AccessMsg BucketMetadataDisallowed)
           [am_BucketMetadata (bca_AccessModes claimRef), bca_BucketClaimName claimRef]] else [])"

definition ValidateAccessAgainstClass :: "BucketAccessClassSpec \<Rightarrow> BucketAccessSpec \<Rightarrow> error option" where
  "ValidateAccessAgainstClass class access =
     (let needServiceAccount =
            (acs_AuthenticationType class = BucketAccessAuthenticationTypeServiceAccount);
          errs =
            (if needServiceAccount \<and> as_ServiceAccountName access = [] then
               [errf (AccessMsg ServiceAccountNameRequired) []] else []) @
            (if \<not> SupportsMultiBucketAccess class \<and> length (as_BucketClaims access) > 1 then
               [errf (AccessMsg MultiBucketDisallowed) []] else []) @
            concat (map (validateClaimAccessModesAgainstClass (acs_DisallowedBucketAccessModes class))
              (as_BucketClaims access)) in
      join_errs (Text (AccessMsg FeaturesDisallowed) [] []) errs)"

section \<open>The referenced claims\<close>

fun get_claims_loop ::
  "env \<Rightarrow> string \<Rightarrow> BucketClaimAccess list \<Rightarrow> claims_map \<Rightarrow> error list \<Rightarrow> (error list \<times> claims_map) prog" where
  "get_claims_loop E namespace [] claims errs = ret (errs, claims)"
| "get_claims_loop E namespace (ref # refs) claims errs = do {
     r \<leftarrow> Get_BucketClaim E \<lparr>nn_Namespace = namespace, nn_Name = bca_BucketClaimName ref\<rparr>;
     case r of
       Inl err \<Rightarrow>
         if IsNotFound err then
           get_claims_loop E namespace refs (AList.update (bca_BucketClaimName ref) None claims) errs
         else get_claims_loop E namespace refs claims (errs @ [ApiError err])
     | Inr c \<Rightarrow>
         get_claims_loop E namespace refs (AList.update (bca_BucketClaimName ref) (Some c) claims) errs
   }"

definition getAllBucketClaims ::
  "env \<Rightarrow> string \<Rightarrow> BucketClaimAccess list \<Rightarrow> (error + claims_map) prog" where
  "getAllBucketClaims E namespace claimAccesses = do {
     (errs, claims) \<leftarrow> get_claims_loop E namespace claimAccesses [] [];
     case join_errs (Text (AccessMsg GetClaimsFailed) [] []) errs of
       Some err \<Rightarrow> ret (Inl err)
     | None \<Rightarrow> ret (Inr claims)
   }"

text \<open>\<open>if claim.Annotations == nil { claim.Annotations = map[string]string{} }\<close>.\<close>

definition claim_annotations_made :: "BucketClaim \<Rightarrow> BucketClaim" where
  "claim_annotations_made claim = claim\<lparr>c_Meta := (c_Meta claim)\<lparr>
     om_Annotations := Some (gm_entries (om_Annotations (c_Meta claim)))\<rparr>\<rparr>"

fun mark_loop :: "env \<Rightarrow> string list \<Rightarrow> claims_map \<Rightarrow> error list \<Rightarrow> (error list \<times> claims_map) prog" where
  "mark_loop E [] claimsByName errs = ret (errs, claimsByName)"
| "mark_loop E (k # ks) claimsByName errs =
     (case map_of claimsByName k of
        Some (Some claim) \<Rightarrow> do {
          let claim = claim_annotations_made claim;
          if has_annotation (c_Meta claim) HasBucketAccessReferencesAnnotation then
            mark_loop E ks (AList.update k (Some claim) claimsByName) errs
          else do {
            let claim = claim\<lparr>c_Meta := add_annotation HasBucketAccessReferencesAnnotation (c_Meta claim)\<rparr>;
            r \<leftarrow> Update_BucketClaim E claim;
            case r of
              Inl err \<Rightarrow> mark_loop E ks (AList.update k (Some claim) claimsByName) (errs @ [ApiError err])
            | Inr claim \<Rightarrow> mark_loop E ks (AList.update k (Some claim) claimsByName) errs
          }
        }
      | _ \<Rightarrow> mark_loop E ks claimsByName errs)"

definition markAllBucketClaimsAsAccessed :: "env \<Rightarrow> claims_map \<Rightarrow> (error option \<times> claims_map) prog" where
  "markAllBucketClaimsAsAccessed E claimsByName = do {
     ks \<leftarrow> Range E claimsByName;
     (errs, claimsByName) \<leftarrow> mark_loop E ks claimsByName [];
     ret (join_errs (Text (AccessMsg MarkClaimsFailed) [] []) errs, claimsByName)
   }"

fun references_claim :: "string \<Rightarrow> BucketClaimAccess list \<Rightarrow> bool" where
  "references_claim claimName [] = False"
| "references_claim claimName (ref # refs) =
     (if bca_BucketClaimName ref = claimName then True else references_claim claimName refs)"

fun hasBucketAccessReferences :: "string \<Rightarrow> BucketAccess list \<Rightarrow> string \<Rightarrow> bool" where
  "hasBucketAccessReferences claimName [] ignoreName = False"
| "hasBucketAccessReferences claimName (access # accesses) ignoreName =
     (if om_Name (a_Meta access) = ignoreName then hasBucketAccessReferences claimName accesses ignoreName
      else if references_claim claimName (as_BucketClaims (a_Spec access)) then True
      else hasBucketAccessReferences claimName accesses ignoreName)"

fun unmark_loop ::
  "env \<Rightarrow> string list \<Rightarrow> claims_map \<Rightarrow> BucketAccess list \<Rightarrow> string \<Rightarrow> error list \<Rightarrow> string list \<Rightarrow>
   (error list \<times> string list) prog" where
  "unmark_loop E [] claimsByName accesses ignoreName errs unmarked = ret (errs, unmarked)"
| "unmark_loop E (k # ks) claimsByName accesses ignoreName errs unmarked =
     (case map_of claimsByName k of
        Some (Some claim) \<Rightarrow>
          if om_Annotations (c_Meta claim) = None then
            unmark_loop E ks claimsByName accesses ignoreName errs unmarked
          else if \<not> has_annotation (c_Meta claim) HasBucketAccessReferencesAnnotation then
            unmark_loop E ks claimsByName accesses ignoreName errs unmarked
          else if hasBucketAccessReferences (om_Name (c_Meta claim)) accesses ignoreName then
            unmark_loop E ks claimsByName accesses ignoreName errs unmarked
          else do {
            let unmarked = unmarked @ [om_Name (c_Meta claim)];
            let claim = claim\<lparr>c_Meta := (c_Meta claim)\<lparr>
              om_Annotations := gm_delete HasBucketAccessReferencesAnnotation (om_Annotations (c_Meta claim))\<rparr>\<rparr>;
            r \<leftarrow> Update_BucketClaim E claim;
            case r of
              Inl err \<Rightarrow> unmark_loop E ks claimsByName accesses ignoreName (errs @ [ApiError err]) unmarked
            | Inr _ \<Rightarrow> unmark_loop E ks claimsByName accesses ignoreName errs unmarked
          }
      | _ \<Rightarrow> unmark_loop E ks claimsByName accesses ignoreName errs unmarked)"

definition unmarkUnaccessedBucketClaims ::
  "env \<Rightarrow> claims_map \<Rightarrow> BucketAccess list \<Rightarrow> string \<Rightarrow> (error option \<times> string list) prog" where
  "unmarkUnaccessedBucketClaims E claimsByName accesses ignoreName = do {
     ks \<leftarrow> Range E claimsByName;
     (errs, unmarked) \<leftarrow> unmark_loop E ks claimsByName accesses ignoreName [] [];
     ret (join_errs (Text (AccessMsg UnmarkClaimsFailed) [] []) errs, unmarked)
   }"

section \<open>The Buckets of the claims\<close>

fun get_buckets_loop ::
  "env \<Rightarrow> string list \<Rightarrow> claims_map \<Rightarrow> buckets_map \<Rightarrow> error list \<Rightarrow> (error list \<times> buckets_map) prog" where
  "get_buckets_loop E [] claimsByName buckets errs = ret (errs, buckets)"
| "get_buckets_loop E (claimName # ks) claimsByName buckets errs =
     (case map_of claimsByName claimName of
        Some (Some claim) \<Rightarrow>
          if cst_BoundBucketName (c_Status claim) = [] then
            get_buckets_loop E ks claimsByName (AList.update claimName None buckets) errs
          else do {
            r \<leftarrow> Get_Bucket E \<lparr>nn_Namespace = [], nn_Name = cst_BoundBucketName (c_Status claim)\<rparr>;
            case r of
              Inl err \<Rightarrow>
                if IsNotFound err then
                  get_buckets_loop E ks claimsByName buckets (errs @ [NonRetryableError
                    (wrapf (AccessMsg BucketGoneMissing)
                      [cst_BoundBucketName (c_Status claim), claimName] (ApiError err))])
                else get_buckets_loop E ks claimsByName buckets (errs @ [ApiError err])
            | Inr bucket \<Rightarrow>
                get_buckets_loop E ks claimsByName (AList.update claimName (Some bucket) buckets) errs
          }
      | _ \<Rightarrow> get_buckets_loop E ks claimsByName (AList.update claimName None buckets) errs)"

definition getBucketsForClaims :: "env \<Rightarrow> claims_map \<Rightarrow> (error + buckets_map) prog" where
  "getBucketsForClaims E claimsByName = do {
     ks \<leftarrow> Range E claimsByName;
     (errs, bucketsByClaimName) \<leftarrow> get_buckets_loop E ks claimsByName [] [];
     case join_errs (Text (AccessMsg GetBucketsFailed) [] []) errs of
       Some err \<Rightarrow> ret (Inl err)
     | None \<Rightarrow>
         if length bucketsByClaimName \<noteq> length claimsByName then
           ret (Inl (errf (AccessMsg BucketsMissingNoErrors) []))
         else ret (Inr bucketsByClaimName)
   }"

text \<open>The messages for one claim, in the body of the loop over the claims.\<close>

definition claim_blockers :: "BucketAccessSpec \<Rightarrow> string \<Rightarrow> BucketClaim option \<Rightarrow> ftext list" where
  "claim_blockers spec name claim =
     (case claim of
        None \<Rightarrow> []
      | Some claim \<Rightarrow>
          (if \<not> IsZero (om_DeletionTimestamp (c_Meta claim)) then
             [Text (AccessMsg StuckDeletingClaim) [name] []] else []) @
          (if length (cst_Protocols (c_Status claim)) > 0 \<and> as_Protocol spec \<notin> set (cst_Protocols (c_Status claim))
           then [Text (AccessMsg ProtocolUnsupportedByClaim) [name, as_Protocol spec] []] else []))"

definition cannotAccessBucketClaims :: "env \<Rightarrow> claims_map \<Rightarrow> BucketAccessSpec \<Rightarrow> ftext list prog" where
  "cannotAccessBucketClaims E claimsByName spec = do {
     ks \<leftarrow> Range E claimsByName;
     ret (concat (map (\<lambda>name. case map_of claimsByName name of
       None \<Rightarrow> [] | Some claim \<Rightarrow> claim_blockers spec name claim) ks))
   }"

definition claim_waits :: "buckets_map \<Rightarrow> string \<Rightarrow> BucketClaim option \<Rightarrow> ftext list" where
  "claim_waits bucketsByClaimName claimName claim =
     (case claim of
        None \<Rightarrow> [Text (AccessMsg WaitClaimExists) [claimName] []]
      | Some claim \<Rightarrow>
          if cst_BoundBucketName (c_Status claim) = [] then
            [Text (AccessMsg WaitClaimBound) [claimName] []]
          else (case map_of bucketsByClaimName claimName of
              None \<Rightarrow> [Text (AccessMsg WaitInternalMissingBucket)
                         [cst_BoundBucketName (c_Status claim), claimName] []]
            | Some None \<Rightarrow> [Text (AccessMsg WaitBucketExists)
                         [cst_BoundBucketName (c_Status claim), claimName] []]
            | Some (Some bucket) \<Rightarrow>
                if bst_BucketID (b_Status bucket) = [] then
                  [Text (AccessMsg WaitBucketProvisioned)
                     [cst_BoundBucketName (c_Status claim), claimName] []]
                else if \<not> ptr_Deref (cst_ReadyToUse (c_Status claim)) False then
                  [Text (AccessMsg WaitClaimProvisioned)
                     [claimName, cst_BoundBucketName (c_Status claim)] []]
                else []))"

definition waitingOnBucketClaims :: "env \<Rightarrow> claims_map \<Rightarrow> buckets_map \<Rightarrow> ftext list prog" where
  "waitingOnBucketClaims E claimsByName bucketsByClaimName = do {
     ks \<leftarrow> Range E claimsByName;
     ret (concat (map (\<lambda>claimName. case map_of claimsByName claimName of
       None \<Rightarrow> [] | Some claim \<Rightarrow> claim_waits bucketsByClaimName claimName claim) ks))
   }"

text \<open>The loop over the references: the accessed buckets in spec order and the claims whose Bucket
  has no ID. A skipped index keeps its zero value in the code, but then the list is not used.\<close>

fun compile_loop ::
  "BucketClaimAccess list \<Rightarrow> buckets_map \<Rightarrow> AccessedBucket list \<Rightarrow> string list \<Rightarrow>
   error + AccessedBucket list \<times> string list" where
  "compile_loop [] buckets accessed missingIds = Inr (accessed, missingIds)"
| "compile_loop (ref # refs) buckets accessed missingIds =
     (case map_of buckets (bca_BucketClaimName ref) of
        Some (Some bucket) \<Rightarrow>
          if bst_BucketID (b_Status bucket) = [] then
            compile_loop refs buckets
              (accessed @ [\<lparr>ab_BucketName = [], ab_BucketID = [], ab_BucketClaimName = []\<rparr>])
              (missingIds @ [bca_BucketClaimName ref])
          else
            compile_loop refs buckets
              (accessed @ [\<lparr>ab_BucketName = om_Name (b_Meta bucket),
                            ab_BucketID = bst_BucketID (b_Status bucket),
                            ab_BucketClaimName = bca_BucketClaimName ref\<rparr>]) missingIds
      | _ \<Rightarrow> Inl (errf (AccessMsg MissingBucketForClaim) [bca_BucketClaimName ref]))"

definition compileAccessedBuckets ::
  "BucketClaimAccess list \<Rightarrow> buckets_map \<Rightarrow> error + AccessedBucket list" where
  "compileAccessedBuckets claimAccesses bucketsByClaimName =
     (case compile_loop claimAccesses bucketsByClaimName [] [] of
        Inl err \<Rightarrow> Inl err
      | Inr (accessedBuckets, missingIds) \<Rightarrow>
          if length missingIds > 0 then Inl (errf (AccessMsg MissingBucketIDs) missingIds)
          else Inr accessedBuckets)"

section \<open>Reconcile\<close>

definition Access_addFinalizer :: "env \<Rightarrow> BucketAccess \<Rightarrow> (error option \<times> BucketAccess) prog" where
  "Access_addFinalizer E access =
     (let (didAdd, meta) = AddFinalizer (a_Meta access) ProtectionFinalizer;
          access = access\<lparr>a_Meta := meta\<rparr> in
      if didAdd then do {
        r \<leftarrow> Update_BucketAccess E access;
        case r of
          Inl err \<Rightarrow> ret (Some (wrapf AddFinalizerFailed [] (ApiError err)), access)
        | Inr access \<Rightarrow> ret (None, access)
      } else ret (None, access))"

text \<open>The status update that hands the access to the Sidecar.\<close>

definition initialized_access ::
  "BucketAccess \<Rightarrow> BucketAccessClassSpec \<Rightarrow> AccessedBucket list \<Rightarrow> BucketAccess" where
  "initialized_access access class accessedBuckets =
     (access_ready_set access)\<lparr>a_Status := (a_Status (access_ready_set access))\<lparr>
        ast_AccessedBuckets := accessedBuckets,
        ast_DriverName := acs_DriverName class,
        ast_AuthenticationType := acs_AuthenticationType class,
        ast_Parameters := acs_Parameters class,
        ast_Error := None\<rparr>\<rparr>"

text \<open>The part of \<open>reconcile\<close> after the claims are known and marked and the class is read.\<close>

definition initializeAccess ::
  "env \<Rightarrow> BucketAccess \<Rightarrow> claims_map \<Rightarrow> BucketAccessClass \<Rightarrow> (error option \<times> BucketAccess) prog" where
  "initializeAccess E access claimsByName class =
     (case ValidateAccessAgainstClass (ac_Spec class) (a_Spec access) of
        Some err \<Rightarrow> ret (Some (NonRetryableError err), access)
      | None \<Rightarrow> do {
          res \<leftarrow> getBucketsForClaims E claimsByName;
          case res of
            Inl err \<Rightarrow> ret (Some err, access)
          | Inr bucketsByClaimName \<Rightarrow> do {
              blockers \<leftarrow> cannotAccessBucketClaims E claimsByName (a_Spec access);
              if length blockers > 0 then
                ret (Some (NonRetryableError (Errorf (Text (AccessMsg AccessBlocked) [] blockers))), access)
              else do {
                waitlist \<leftarrow> waitingOnBucketClaims E claimsByName bucketsByClaimName;
                if length waitlist > 0 then
                  ret (Some (Errorf (Text (AccessMsg WaitingForPrerequisites) [] waitlist)), access)
                else
                  (case compileAccessedBuckets (as_BucketClaims (a_Spec access)) bucketsByClaimName of
                     Inl err \<Rightarrow> ret (Some (wrapf (AccessMsg WaitingForClaims) [] err), access)
                   | Inr accessedBuckets \<Rightarrow> do {
                       let access = initialized_access access (ac_Spec class) accessedBuckets;
                       r \<leftarrow> StatusUpdate_BucketAccess E access;
                       case r of
                         Inl err \<Rightarrow> ret (Some (ApiError err), access)
                       | Inr access \<Rightarrow> ret (None, access)
                     })
              }
            }
        })"

definition Controller_Access_reconcileDelete :: "env \<Rightarrow> BucketAccess \<Rightarrow> (error option \<times> BucketAccess) prog" where
  "Controller_Access_reconcileDelete E access = do {
     res \<leftarrow> getAllBucketClaims E (om_Namespace (a_Meta access)) (as_BucketClaims (a_Spec access));
     case res of
       Inl err \<Rightarrow> ret (Some err, access)
     | Inr claimsByName \<Rightarrow> do {
         r \<leftarrow> List_BucketAccess E (om_Namespace (a_Meta access));
         case r of
           Inl err \<Rightarrow> ret (Some (ApiError err), access)
         | Inr accessList \<Rightarrow> do {
             (err, unmarked) \<leftarrow> unmarkUnaccessedBucketClaims E claimsByName accessList (om_Name (a_Meta access));
             case err of
               Some err \<Rightarrow> ret (Some err, access)
             | None \<Rightarrow> do {
                 let access = access\<lparr>a_Meta := RemoveFinalizer (a_Meta access) ProtectionFinalizer\<rparr>;
                 r \<leftarrow> Update_BucketAccess E access;
                 case r of
                   Inl err \<Rightarrow> ret (Some (wrapf RemoveFinalizerFailed [] (ApiError err)), access)
                 | Inr access \<Rightarrow> ret (None, access)
               }
           }
       }
   }"

text \<open>The part of \<open>reconcile\<close> after the marking: the hard stop, and reading the class.\<close>

definition readClassAndInitialize ::
  "env \<Rightarrow> BucketAccess \<Rightarrow> claims_map \<Rightarrow> (error option \<times> BucketAccess) prog" where
  "readClassAndInitialize E access claimsByName =
     (if length (ast_AccessedBuckets (a_Status access)) > 0 then ret (None, access)
      else do {
        r \<leftarrow> Get_BucketAccessClass E
          \<lparr>nn_Namespace = [], nn_Name = as_BucketAccessClassName (a_Spec access)\<rparr>;
        case r of
          Inl err \<Rightarrow> ret (Some (ApiError err), access)
        | Inr class \<Rightarrow> initializeAccess E access claimsByName class
      })"

text \<open>The part of \<open>reconcile\<close> after the finalizer is there.\<close>

definition markAndInitialize :: "env \<Rightarrow> BucketAccess \<Rightarrow> (error option \<times> BucketAccess) prog" where
  "markAndInitialize E access =
     (case validateAllBucketClaimReferencesUnique (as_BucketClaims (a_Spec access)) of
        Some err \<Rightarrow> ret (Some err, access)
      | None \<Rightarrow> do {
          res \<leftarrow> getAllBucketClaims E (om_Namespace (a_Meta access)) (as_BucketClaims (a_Spec access));
          case res of
            Inl err \<Rightarrow> ret (Some err, access)
          | Inr claimsByName \<Rightarrow> do {
              (err, claimsByName) \<leftarrow> markAllBucketClaimsAsAccessed E claimsByName;
              case err of
                Some err \<Rightarrow> ret (Some err, access)
              | None \<Rightarrow> readClassAndInitialize E access claimsByName
            }
        })"

text \<open>The part of \<open>reconcile\<close> for an access that is not being deleted and not initialized.\<close>

definition Controller_Access_reconcileLive :: "env \<Rightarrow> BucketAccess \<Rightarrow> (error option \<times> BucketAccess) prog" where
  "Controller_Access_reconcileLive E access = do {
     (err, access) \<leftarrow> Access_addFinalizer E access;
     case err of
       Some err \<Rightarrow> ret (Some err, access)
     | None \<Rightarrow> markAndInitialize E access
   }"

definition Controller_Access_reconcile :: "env \<Rightarrow> BucketAccess \<Rightarrow> (error option \<times> BucketAccess) prog" where
  "Controller_Access_reconcile E access =
     (if \<not> IsZero (om_DeletionTimestamp (a_Meta access)) then Controller_Access_reconcileDelete E access
      else
        (case SidecarRequirementsPresent (a_Status access) of
           Inl err \<Rightarrow> ret (Some (NonRetryableError (wrapf (AccessMsg DegradedAccess) [] err)), access)
         | Inr initialized \<Rightarrow>
             if initialized then
               ret (Some (NonRetryableError (errf (AccessMsg ManagedBySidecarError) [])), access)
             else Controller_Access_reconcileLive E access))"

text \<open>\<open>err = fmt.Errorf("COSI Controller error: %w", err)\<close>.\<close>

definition controller_error :: "error \<Rightarrow> error" where
  "controller_error err = wrapf (AccessMsg ControllerError) [] err"

definition Controller_Access_finish :: "env \<Rightarrow> error option \<Rightarrow> BucketAccess \<Rightarrow> reconcile_result prog" where
  "Controller_Access_finish E err access =
     (case err of
        Some err \<Rightarrow> do {
          let err = controller_error err;
          let access = access_ready_set access;
          now \<leftarrow> Now E;
          let access = access\<lparr>a_Status := (a_Status access)\<lparr>
            ast_Error := Some (NewTimestampedError now (e_ErrorText E err))\<rparr>\<rparr>;
          u \<leftarrow> StatusUpdate_BucketAccess E access;
          case u of
            Inl updErr \<Rightarrow> ret (Retry err)
          | Inr _ \<Rightarrow> ret (classify err)
        }
      | None \<Rightarrow> ret Done)"

definition Controller_Access_Reconcile :: "env \<Rightarrow> NamespacedName \<Rightarrow> reconcile_result prog" where
  "Controller_Access_Reconcile E req = do {
     r \<leftarrow> Get_BucketAccess E req;
     case r of
       Inl err \<Rightarrow> ret (if IsNotFound err then Done else Retry (ApiError err))
     | Inr access \<Rightarrow>
         if ManagedBySidecar access then ret Done
         else do {
           (err, access) \<leftarrow> Controller_Access_reconcile E access;
           Controller_Access_finish E err access
         }
   }"

section \<open>The Controller's Bucket reconciler\<close>

text \<open>\<^verbatim>\<open>src/controller/pkg/reconciler/bucket.go\<close> is a stub: it reads and writes nothing.\<close>

definition Controller_Bucket_Reconcile :: "env \<Rightarrow> NamespacedName \<Rightarrow> reconcile_result prog" where
  "Controller_Bucket_Reconcile E req = ret Done"

section \<open>The contract of the reconciler\<close>

definition mark_claim :: "BucketClaim \<Rightarrow> BucketClaim" where
  "mark_claim c = c\<lparr>c_Meta := add_annotation HasBucketAccessReferencesAnnotation (c_Meta c)\<rparr>"

definition unmark_claim :: "BucketClaim \<Rightarrow> BucketClaim" where
  "unmark_claim c = c\<lparr>c_Meta := (c_Meta c)\<lparr>
     om_Annotations := gm_delete HasBucketAccessReferencesAnnotation (om_Annotations (c_Meta c))\<rparr>\<rparr>"

definition claim_marked :: "BucketClaim \<Rightarrow> bool" where
  "claim_marked c = has_annotation (c_Meta c) HasBucketAccessReferencesAnnotation"

text \<open>The versions of the claim of that name which the server holds with the mark: read with the
  mark, or the answer to an update that added it.\<close>

definition marked_versions :: "history \<Rightarrow> string \<Rightarrow> BucketClaim list" where
  "marked_versions tr name =
     map snd (filter (\<lambda>(n, c). n = name \<and> claim_marked c) (claims_got tr)) @
     map snd (filter (\<lambda>(x, c). \<exists>c0 \<in> set (claims_got tr). fst c0 = name \<and> x = mark_claim (snd c0))
       (claims_updated tr))"

text \<open>The run is for an access that is neither deleted nor initialized.\<close>

definition access_live :: "history \<Rightarrow> bool" where
  "access_live tr \<longleftrightarrow> (\<exists>a \<in> set (accesses_read tr). IsZero (om_DeletionTimestamp (a_Meta a)) \<and>
     SidecarRequirementsPresent (a_Status a) = Inr False)"

text \<open>The claims that are read: those the access references, in its namespace.\<close>

definition claim_read_ok :: "history \<Rightarrow> NamespacedName \<Rightarrow> bool" where
  "claim_read_ok tr k \<longleftrightarrow> (\<exists>a \<in> set (accesses_shown tr). nn_Namespace k = om_Namespace (a_Meta a) \<and>
     nn_Name k \<in> bca_BucketClaimName ` set (as_BucketClaims (a_Spec a)))"

text \<open>Some access of the list other than this one, by name, references the claim.\<close>

definition referenced_by_another :: "BucketAccess list \<Rightarrow> BucketAccess \<Rightarrow> string \<Rightarrow> bool" where
  "referenced_by_another l a claimName \<longleftrightarrow> (\<exists>x \<in> set l. om_Name (a_Meta x) \<noteq> om_Name (a_Meta a) \<and>
     claimName \<in> bca_BucketClaimName ` set (as_BucketClaims (a_Spec x)))"

text \<open>Updates of claims: the mark and nothing else.\<close>

definition mark_ok :: "history \<Rightarrow> BucketClaim \<Rightarrow> bool" where
  "mark_ok tr c \<longleftrightarrow> (\<exists>c0 \<in> set (claims_got tr).
     access_live tr \<and> \<not> claim_marked (snd c0) \<and> c = mark_claim (snd c0) \<or>
     (\<exists>a \<in> set (accesses_read tr). \<exists>l. (om_Namespace (a_Meta a), l) \<in> set (accesses_listed tr) \<and>
        \<not> IsZero (om_DeletionTimestamp (a_Meta a)) \<and> claim_marked (snd c0) \<and> c = unmark_claim (snd c0) \<and>
        \<not> referenced_by_another l a (om_Name (c_Meta (snd c0)))))"

text \<open>One entry of the accessed buckets, against what the server showed.\<close>

definition accessed_ok :: "history \<Rightarrow> ObjectProtocol \<Rightarrow> BucketClaimAccess \<Rightarrow> AccessedBucket \<Rightarrow> bool" where
  "accessed_ok tr proto ref ab \<longleftrightarrow> (\<exists>c \<in> set (marked_versions tr (bca_BucketClaimName ref)).
     ptr_Deref (cst_ReadyToUse (c_Status c)) False \<and> IsZero (om_DeletionTimestamp (c_Meta c)) \<and>
     (cst_Protocols (c_Status c) = [] \<or> proto \<in> set (cst_Protocols (c_Status c))) \<and>
     (\<exists>b \<in> set (buckets_got tr). fst b = cst_BoundBucketName (c_Status c) \<and> fst b \<noteq> [] \<and>
        bst_BucketID (b_Status (snd b)) \<noteq> [] \<and>
        ab = \<lparr>ab_BucketName = om_Name (b_Meta (snd b)), ab_BucketID = bst_BucketID (b_Status (snd b)),
              ab_BucketClaimName = bca_BucketClaimName ref\<rparr>))"

text \<open>Readiness and account are as before; a missing readiness counts as not ready.\<close>

definition same_progress :: "BucketAccessStatus \<Rightarrow> BucketAccessStatus \<Rightarrow> bool" where
  "same_progress s s0 \<longleftrightarrow> ast_AccountID s = ast_AccountID s0 \<and>
     ptr_Deref (ast_ReadyToUse s) False = ptr_Deref (ast_ReadyToUse s0) False"

text \<open>A complete initialization of a version that has none.\<close>

definition initialized_ok :: "history \<Rightarrow> BucketAccess \<Rightarrow> bool" where
  "initialized_ok tr a \<longleftrightarrow> access_live tr \<and>
     (\<exists>class. (\<lparr>nn_Namespace = [], nn_Name = as_BucketAccessClassName (a_Spec a)\<rparr>, class) \<in> set (access_classes_got tr) \<and>
        ValidateAccessAgainstClass (ac_Spec class) (a_Spec a) = None \<and>
        ast_DriverName (a_Status a) = acs_DriverName (ac_Spec class) \<and>
        ast_AuthenticationType (a_Status a) = acs_AuthenticationType (ac_Spec class) \<and>
        ast_Parameters (a_Status a) = acs_Parameters (ac_Spec class)) \<and>
     (\<exists>a0 \<in> set (accesses_shown tr). ast_AccessedBuckets (a_Status a0) = [] \<and>
        a_Spec a = a_Spec a0 \<and> same_version (a_Meta a) (a_Meta a0) \<and> same_progress (a_Status a) (a_Status a0)) \<and>
     distinct (map bca_BucketClaimName (as_BucketClaims (a_Spec a))) \<and>
     list_all2 (accessed_ok tr (as_Protocol (a_Spec a)))
       (as_BucketClaims (a_Spec a)) (ast_AccessedBuckets (a_Status a))"

definition same_initialization :: "BucketAccess \<Rightarrow> BucketAccess \<Rightarrow> bool" where
  "same_initialization a a' \<longleftrightarrow> a_Spec a = a_Spec a' \<and> same_version (a_Meta a) (a_Meta a') \<and>
     same_progress (a_Status a) (a_Status a') \<and>
     (a_Status a)\<lparr>ast_ReadyToUse := None, ast_Error := None\<rparr> =
     (a_Status a')\<lparr>ast_ReadyToUse := None, ast_Error := None\<rparr>"

definition access_status_ok :: "history \<Rightarrow> BucketAccess \<Rightarrow> bool" where
  "access_status_ok tr a \<longleftrightarrow>
     initialized_ok tr a \<or> (\<exists>a0 \<in> set (accesses_shown tr). same_initialization a a0)"

text \<open>Releasing an access: no claim it references keeps a mark that only this access justified.\<close>

definition access_release_ok :: "history \<Rightarrow> BucketAccess \<Rightarrow> bool" where
  "access_release_ok tr a \<longleftrightarrow>
     access_live tr \<and> (\<exists>a0 \<in> set (accesses_read tr).
        a = a0\<lparr>a_Meta := snd (AddFinalizer (a_Meta a0) ProtectionFinalizer)\<rparr>) \<or>
     (\<exists>a0 \<in> set (accesses_read tr). \<exists>l. (om_Namespace (a_Meta a0), l) \<in> set (accesses_listed tr) \<and>
        \<not> IsZero (om_DeletionTimestamp (a_Meta a0)) \<and>
        a = a0\<lparr>a_Meta := RemoveFinalizer (a_Meta a0) ProtectionFinalizer\<rparr> \<and>
        (\<forall>ref \<in> set (as_BucketClaims (a_Spec a0)).
           bca_BucketClaimName ref \<in> set (claims_missing tr) \<or>
           (\<exists>c \<in> set (claims_got tr). fst c = bca_BucketClaimName ref \<and>
              (\<not> claim_marked (snd c) \<or> unmark_claim (snd c) \<in> fst ` set (claims_updated tr) \<or>
               referenced_by_another l a0 (om_Name (c_Meta (snd c)))))))"

definition access_contract :: "history \<Rightarrow> event \<Rightarrow> bool" where
  "access_contract tr e = (case e of
      EvGetBucketAccess _ _ \<Rightarrow> tr = []
    | EvGetBucketClaim k _ \<Rightarrow> claim_read_ok tr k
    | EvGetBucket _ _ \<Rightarrow> True
    | EvGetBucketAccessClass _ _ \<Rightarrow> True
    | EvListBucketAccess _ _ \<Rightarrow> True
    | EvUpdateBucketClaim c _ \<Rightarrow> mark_ok tr c
    | EvUpdateBucketAccess a _ \<Rightarrow> access_release_ok tr a
    | EvStatusUpdateBucketAccess a _ \<Rightarrow> access_status_ok tr a
    | _ \<Rightarrow> False)"

lemma access_contract_simps [simp]:
  "access_contract tr (EvGetBucketAccess k r1) = (tr = [])" "access_contract tr (EvGetBucketClaim k r2) = claim_read_ok tr k"
  "access_contract tr (EvGetBucket k r3)" "access_contract tr (EvGetBucketAccessClass k r4)"
  "access_contract tr (EvListBucketAccess n r5)"
  "access_contract tr (EvUpdateBucketClaim c r6) = mark_ok tr c"
  "access_contract tr (EvUpdateBucketAccess a r7) = access_release_ok tr a"
  "access_contract tr (EvStatusUpdateBucketAccess a r8) = access_status_ok tr a"
  by (simp_all add: access_contract_def)

lemma mark_claim_made [simp]: "mark_claim (claim_annotations_made c) = mark_claim c"
  by (simp add: mark_claim_def claim_annotations_made_def add_annotation_def gm_put_def)

lemma claim_annotations_made_marked [simp]:
  "claim_marked (claim_annotations_made c) = claim_marked c"
  by (simp add: claim_marked_def claim_annotations_made_def has_annotation_def gm_has_def gm_lookup_def)

lemma claim_annotations_made_same: "claim_marked c \<Longrightarrow> claim_annotations_made c = c"
  by (cases c; cases "c_Meta c"; cases "om_Annotations (c_Meta c)")
     (auto simp: claim_marked_def claim_annotations_made_def has_annotation_def)

section \<open>Loops over the claims\<close>

definition got_map :: "history \<Rightarrow> claims_map \<Rightarrow> bool" where
  "got_map tr m \<longleftrightarrow> distinct (map fst m) \<and>
     (\<forall>k c. map_of m k = Some (Some c) \<longrightarrow> (k, c) \<in> set (claims_got tr)) \<and>
     (\<forall>k. map_of m k = Some None \<longrightarrow> k \<in> set (claims_missing tr))"

abbreviation later :: "history \<Rightarrow> history \<Rightarrow> bool" where
  "later \<equiv> continues access_contract"

lemma got_map_update:
  "got_map tr m \<Longrightarrow> got_map (tr @ [EvGetBucketClaim \<lparr>nn_Namespace = ns, nn_Name = n\<rparr> (Inr c)]) (AList.update n (Some c) m)"
  "got_map tr m \<Longrightarrow> IsNotFound err \<Longrightarrow>
    got_map (tr @ [EvGetBucketClaim \<lparr>nn_Namespace = ns, nn_Name = n\<rparr> (Inl err)]) (AList.update n None m)"
  by (auto simp: got_map_def update_conv' distinct_update)

lemma got_map_events: "got_map tr m \<Longrightarrow> got_map (tr @ es) m"
  by (auto simp: got_map_def)

lemma hasBucketAccessReferences_iff:
  "hasBucketAccessReferences n l (om_Name (a_Meta a)) \<longleftrightarrow> referenced_by_another l a n"
proof -
  have "references_claim n refs \<longleftrightarrow> n \<in> bca_BucketClaimName ` set refs" for refs
    by (induction refs) auto
  then show ?thesis by (induction l) (auto simp: referenced_by_another_def)
qed

lemma wp_get_claims_loop:
  assumes "guarded access_contract tr" "got_map tr m" "a \<in> set (accesses_shown tr)" "ns = om_Namespace (a_Meta a)"
    "set refs \<subseteq> set (as_BucketClaims (a_Spec a))"
  shows "wp (get_claims_loop E ns refs m errs) (\<lambda>(errs', m') tr'. later tr tr' \<and> got_map tr' m' \<and>
    (errs' = [] \<longrightarrow> errs = [] \<and> fst ` set m' = fst ` set m \<union> bca_BucketClaimName ` set refs)) tr"
  using assms
proof (induction refs arbitrary: m errs tr)
  case Nil
  then show ?case by (auto simp: wp_def continues_def)
next
  case (Cons ref refs)
  show ?case unfolding get_claims_loop.simps
    by (intro wp_bind get_claim.wp_oper wp_case_sum wp_if; rule wp_mono[OF Cons.IH])
       (use Cons.prems in \<open>auto simp: got_map_update got_map_events claim_read_ok_def
          dom_update dest!: continues_append\<close>)
qed

lemma wp_getAllBucketClaims:
  assumes "guarded access_contract tr" "a \<in> set (accesses_shown tr)" "ns = om_Namespace (a_Meta a)"
    "refs = as_BucketClaims (a_Spec a)"
  shows "wp (getAllBucketClaims E ns refs) (\<lambda>r tr'. later tr tr' \<and>
    (\<forall>m. r = Inr m \<longrightarrow> got_map tr' m \<and> fst ` set m = bca_BucketClaimName ` set refs)) tr"
  unfolding getAllBucketClaims_def
  by (rule wp_bind, rule wp_mono[OF wp_get_claims_loop]) (use assms in \<open>auto intro!: wp_intro simp: got_map_def\<close>)

text \<open>Marking: the keys still to visit map to claims as they were read, the visited ones to marked
  versions.\<close>

definition marked_map :: "history \<Rightarrow> claims_map \<Rightarrow> string set \<Rightarrow> bool" where
  "marked_map tr m K \<longleftrightarrow> (\<forall>k \<in> K. \<forall>c. map_of m k = Some (Some c) \<longrightarrow> c \<in> set (marked_versions tr k))"

lemma marked_versions_events: "c \<in> set (marked_versions tr k) \<Longrightarrow> c \<in> set (marked_versions (tr @ es) k)"
  by (auto simp: marked_versions_def)

lemma marked_map_events: "marked_map tr m K \<Longrightarrow> marked_map (tr @ es) m K"
  by (simp add: marked_map_def marked_versions_events)

text \<open>The three ways through one iteration: no claim, a marked one, one to mark.\<close>

lemma mark_loop_steps:
  "\<nexists>c. map_of m k = Some (Some c) \<Longrightarrow> mark_loop E (k # ks) m errs = mark_loop E ks m errs"
  "map_of m k = Some (Some c) \<Longrightarrow> claim_marked c \<Longrightarrow>
    mark_loop E (k # ks) m errs = mark_loop E ks (AList.update k (Some c) m) errs"
  "map_of m k = Some (Some c) \<Longrightarrow> \<not> claim_marked c \<Longrightarrow> mark_loop E (k # ks) m errs = do {
     r \<leftarrow> Update_BucketClaim E (mark_claim c);
     case r of
       Inl err \<Rightarrow> mark_loop E ks (AList.update k (Some (mark_claim c)) m) (errs @ [ApiError err])
     | Inr c' \<Rightarrow> mark_loop E ks (AList.update k (Some c') m) errs }"
  subgoal by (auto split: option.split)
  subgoal by (simp add: Let_def claim_annotations_made_same claim_marked_def[symmetric])
  subgoal unfolding mark_claim_made[symmetric, of c]
    by (simp add: Let_def claim_marked_def[symmetric] mark_claim_def[symmetric] del: mark_claim_made)
  done

lemma wp_mark_loop:
  assumes "guarded access_contract tr" "access_live tr" "distinct ks"
    "\<And>k c. k \<in> set ks \<Longrightarrow> map_of m k = Some (Some c) \<Longrightarrow> (k, c) \<in> set (claims_got tr)"
    "errs = [] \<longrightarrow> marked_map tr m K"  "K \<inter> set ks = {}"
  shows "wp (mark_loop E ks m errs) (\<lambda>(errs', m') tr'. later tr tr' \<and>
    (errs' = [] \<longrightarrow> errs = [] \<and> map fst m' = map fst m \<and> marked_map tr' m' (K \<union> set ks))) tr"
  using assms
proof (induction ks arbitrary: m errs tr K)
  case Nil
  then show ?case by (auto simp: wp_def continues_def)
next
  case (Cons k ks)
  note IH = Cons.IH[where K = "insert k K"]
  show ?case
  proof (cases "\<exists>c. map_of m k = Some (Some c)")
    case False
    then have "errs = [] \<longrightarrow> marked_map tr m (insert k K)"
      using Cons.prems(5) by (auto simp: marked_map_def)
    then show ?thesis using IH[of tr m errs] Cons.prems unfolding mark_loop_steps(1)[OF False] by auto
  next
    case True
    then obtain c where c: "map_of m k = Some (Some c)" by blast
    then have got: "(k, c) \<in> set (claims_got tr)" using Cons.prems(4) by simp
    have key: "k \<in> fst ` set m" using c by (metis domI dom_map_of_conv_image_fst)
    have ok: "mark_ok tr (mark_claim c)" if "\<not> claim_marked c"
      using got that Cons.prems(2) by (auto simp: mark_ok_def intro!: bexI[of _ "(k, c)"])
    have rest: "wp (mark_loop E ks (AList.update k (Some c') m) errs')
       (\<lambda>(errs', m') tr'. later tr tr' \<and> (errs' = [] \<longrightarrow> errs = [] \<and> map fst m' = map fst m \<and> marked_map tr' m' (K \<union> set (k # ks)))) (tr @ es)"
      if "guarded access_contract (tr @ es)"
        "errs' = [] \<longrightarrow> errs = [] \<and> c' \<in> set (marked_versions (tr @ es) k)" for c' errs' es
    proof (rule wp_mono[OF IH])
      show "errs' = [] \<longrightarrow> marked_map (tr @ es) (AList.update k (Some c') m) (insert k K)"
        using that(2) Cons.prems(5) marked_map_events[of tr m K es] by (auto simp: marked_map_def update_conv')
    qed (use that(1) Cons.prems key in \<open>auto simp: access_live_def update_conv' update_keys that(2) dest!: continues_append split: if_splits\<close>)
    show ?thesis
    proof (cases "claim_marked c")
      case True
      then have "c \<in> set (marked_versions tr k)"
        using got by (auto simp: marked_versions_def image_iff)
      then show ?thesis using rest[of "[]" errs c] Cons.prems(1) unfolding mark_loop_steps(2)[OF c True] by simp
    next
      case False
      have version: "c' \<in> set (marked_versions (tr @ [EvUpdateBucketClaim (mark_claim c) (Inr c')]) k)" for c'
        using got by (auto simp: marked_versions_def image_iff)
      show ?thesis unfolding mark_loop_steps(3)[OF c False]
        by (intro wp_bind update_claim.wp_oper wp_case_sum rest)
           (use ok[OF False] Cons.prems(1,5) version in auto)
    qed
  qed
qed

lemma wp_markAllBucketClaimsAsAccessed:
  assumes "guarded access_contract tr" "access_live tr" "got_map tr m"
  shows "wp (markAllBucketClaimsAsAccessed E m) (\<lambda>(err, m') tr'. later tr tr' \<and>
    (err = None \<longrightarrow> map fst m' = map fst m \<and> marked_map tr' m' UNIV)) tr"
  unfolding markAllBucketClaimsAsAccessed_def
proof (intro wp_bind wp_Range)
  fix ks assume ks: "mset ks = mset (map fst m)"
  then have set_ks: "set ks = fst ` set m" and "distinct ks"
    using assms(3) by (metis set_mset_mset set_map, metis got_map_def mset_eq_imp_distinct_iff)
  have all: "marked_map tr' m' UNIV" if "map fst m' = map fst m" "marked_map tr' m' (set ks)" for tr' m'
  proof -
    have "fst ` set m' = fst ` set m" using that(1) by (metis set_map)
    then show ?thesis using that(2) set_ks unfolding marked_map_def
      by (metis domI dom_map_of_conv_image_fst)
  qed
  show "wp (mark_loop E ks m []) (\<lambda>x. wp (case x of (errs, claimsByName) \<Rightarrow>
      ret (join_errs (Text (AccessMsg MarkClaimsFailed) [] []) errs, claimsByName))
      (\<lambda>(err, m') tr'. later tr tr' \<and> (err = None \<longrightarrow> map fst m' = map fst m \<and> marked_map tr' m' UNIV))) tr"
    by (rule wp_mono[OF wp_mark_loop[where K = "{}"]])
       (use assms \<open>distinct ks\<close> all in \<open>auto simp: got_map_def marked_map_def[of _ _ "{}"] intro!: wp_return\<close>)
qed

text \<open>Unmarking.\<close>

definition unmarked_ok :: "history \<Rightarrow> BucketAccess list \<Rightarrow> string \<Rightarrow> BucketClaim \<Rightarrow> bool" where
  "unmarked_ok tr l n c \<longleftrightarrow> \<not> claim_marked c \<or> unmark_claim c \<in> fst ` set (claims_updated tr) \<or>
     hasBucketAccessReferences (om_Name (c_Meta c)) l n"

lemma unmarked_ok_later: "later tr tr' \<Longrightarrow> unmarked_ok tr l n c \<Longrightarrow> unmarked_ok tr' l n c"
  by (auto simp: unmarked_ok_def continues_def)

lemma wp_unmark_loop:
  assumes "guarded access_contract tr" "a \<in> set (accesses_read tr)" "\<not> IsZero (om_DeletionTimestamp (a_Meta a))"
    "(om_Namespace (a_Meta a), l) \<in> set (accesses_listed tr)" "got_map tr m" "n = om_Name (a_Meta a)"
  shows "wp (unmark_loop E ks m l n errs unmarked) (\<lambda>(errs', _) tr'. later tr tr' \<and>
    (errs' = [] \<longrightarrow> errs = [] \<and> (\<forall>k \<in> set ks. \<forall>c. map_of m k = Some (Some c) \<longrightarrow> unmarked_ok tr' l n c))) tr"
  using assms
proof (induction ks arbitrary: tr errs unmarked)
  case Nil
  then show ?case by (auto simp: wp_def continues_def)
next
  case (Cons k ks)
  let ?P = "\<lambda>(errs', _) tr'. later tr tr' \<and>
    (errs' = [] \<longrightarrow> errs = [] \<and> (\<forall>k \<in> set (k # ks). \<forall>c. map_of m k = Some (Some c) \<longrightarrow> unmarked_ok tr' l n c))"
  have rest: "wp (unmark_loop E ks m l n errs' u) ?P (tr @ es)"
    if "guarded access_contract (tr @ es)" "errs' = [] \<longrightarrow> errs = [] \<and> (\<forall>c. map_of m k = Some (Some c) \<longrightarrow> unmarked_ok (tr @ es) l n c)"
    for errs' u es
  proof (rule wp_mono[OF Cons.IH[of "tr @ es"]])
    show "got_map (tr @ es) m" using Cons.prems(5) by (rule got_map_events)
  qed (use that Cons.prems in \<open>auto dest: continues_append intro: unmarked_ok_later\<close>)
  show ?case
  proof (cases "\<exists>c. map_of m k = Some (Some c) \<and> claim_marked c \<and> \<not> hasBucketAccessReferences (om_Name (c_Meta c)) l n")
    case False
    then have "unmark_loop E (k # ks) m l n errs unmarked = unmark_loop E ks m l n errs unmarked"
      by (auto simp: claim_marked_def split: option.split)
    moreover have "unmarked_ok tr l n c" if "map_of m k = Some (Some c)" for c
      using False that by (auto simp: unmarked_ok_def)
    ultimately show ?thesis using rest[of "[]" errs unmarked] Cons.prems(1) by simp
  next
    case True
    then obtain c where c: "map_of m k = Some (Some c)" "claim_marked c"
      "\<not> hasBucketAccessReferences (om_Name (c_Meta c)) l n" by blast
    have eq: "unmark_loop E (k # ks) m l n errs unmarked = do {
        r \<leftarrow> Update_BucketClaim E (unmark_claim c);
        case r of
          Inl err \<Rightarrow> unmark_loop E ks m l n (errs @ [ApiError err]) (unmarked @ [om_Name (c_Meta c)])
        | Inr _ \<Rightarrow> unmark_loop E ks m l n errs (unmarked @ [om_Name (c_Meta c)]) }"
      using c by (auto simp: Let_def claim_marked_def unmark_claim_def has_annotation_def)
    have "(k, c) \<in> set (claims_got tr)" using c(1) Cons.prems(5) by (simp add: got_map_def)
    then have ok: "mark_ok tr (unmark_claim c)"
      using c Cons.prems unfolding mark_ok_def by (intro bexI[of _ "(k, c)"]) (auto simp: hasBucketAccessReferences_iff)
    show ?thesis unfolding eq
      by (intro wp_bind update_claim.wp_oper wp_case_sum rest)
         (use ok Cons.prems(1) c in \<open>auto simp: unmarked_ok_def\<close>)
  qed
qed

lemma wp_unmarkUnaccessedBucketClaims:
  assumes "guarded access_contract tr" "a \<in> set (accesses_read tr)" "\<not> IsZero (om_DeletionTimestamp (a_Meta a))"
    "(om_Namespace (a_Meta a), l) \<in> set (accesses_listed tr)" "got_map tr m" "n = om_Name (a_Meta a)"
  shows "wp (unmarkUnaccessedBucketClaims E m l n) (\<lambda>(err, _) tr'. later tr tr' \<and>
    (err = None \<longrightarrow> (\<forall>k c. map_of m k = Some (Some c) \<longrightarrow> unmarked_ok tr' l n c))) tr"
  unfolding unmarkUnaccessedBucketClaims_def
proof (intro wp_bind wp_Range)
  fix ks assume "mset ks = mset (map fst m)"
  then have ks: "set ks = fst ` set m" by (metis set_mset_mset set_map)
  have all: "k \<in> set ks" if "map_of m k = Some (Some c)" for k c
    using that ks by (metis domI dom_map_of_conv_image_fst)
  show "wp (unmark_loop E ks m l n [] []) (\<lambda>x. wp (case x of (errs, unmarked) \<Rightarrow>
      ret (join_errs (Text (AccessMsg UnmarkClaimsFailed) [] []) errs, unmarked))
      (\<lambda>(err, _) tr'. later tr tr' \<and> (err = None \<longrightarrow> (\<forall>k c. map_of m k = Some (Some c) \<longrightarrow> unmarked_ok tr' l n c)))) tr"
    by (rule wp_mono[OF wp_unmark_loop[OF assms]]) (use all in \<open>auto intro!: wp_return\<close>)
qed

text \<open>Reading the Buckets.\<close>

definition bucket_map :: "history \<Rightarrow> claims_map \<Rightarrow> buckets_map \<Rightarrow> bool" where
  "bucket_map tr m bm \<longleftrightarrow> (\<forall>k b. map_of bm k = Some (Some b) \<longrightarrow>
     (\<exists>c. map_of m k = Some (Some c) \<and> cst_BoundBucketName (c_Status c) \<noteq> [] \<and>
        (cst_BoundBucketName (c_Status c), b) \<in> set (buckets_got tr)))"

lemma bucket_map_events: "bucket_map tr m bm \<Longrightarrow> bucket_map (tr @ es) m bm"
  by (fastforce simp: bucket_map_def)

lemma wp_get_buckets_loop:
  assumes "guarded access_contract tr" "bucket_map tr m bm"
  shows "wp (get_buckets_loop E ks m bm errs) (\<lambda>(_, bm') tr'. later tr tr' \<and> bucket_map tr' m bm') tr"
  using assms
proof (induction ks arbitrary: bm errs tr)
  case Nil
  then show ?case by (auto simp: wp_def continues_def)
next
  case (Cons k ks)
  have none: "bucket_map tr m (AList.update k None bm)"
    using Cons.prems(2) by (auto simp: bucket_map_def update_conv')
  have some: "bucket_map (tr @ [EvGetBucket \<lparr>nn_Namespace = [], nn_Name = cst_BoundBucketName (c_Status c)\<rparr> (Inr b)]) m
      (AList.update k (Some b) bm)"
    if "map_of m k = Some (Some c)" "cst_BoundBucketName (c_Status c) \<noteq> []" for c b
    using Cons.prems(2) that by (fastforce simp: bucket_map_def update_conv' split: if_splits)
  show ?case unfolding get_buckets_loop.simps
    by (intro wp_case_option wp_if wp_bind get_bucket.wp_oper wp_case_sum; rule wp_mono[OF Cons.IH])
       (use Cons.prems none some in \<open>auto simp: bucket_map_events dest!: continues_append\<close>)
qed

lemma wp_getBucketsForClaims:
  assumes "guarded access_contract tr"
  shows "wp (getBucketsForClaims E m) (\<lambda>r tr'. later tr tr' \<and> (\<forall>bm. r = Inr bm \<longrightarrow> bucket_map tr' m bm)) tr"
  unfolding getBucketsForClaims_def
  by (intro wp_bind wp_Range, rule wp_mono[OF wp_get_buckets_loop])
     (use assms in \<open>auto intro!: wp_intro simp: bucket_map_def\<close>)

section \<open>What the checks decide\<close>

lemma count_references_error:
  "snd (count_references refs counts doErr) \<longleftrightarrow> doErr \<or> \<not> distinct (map bca_BucketClaimName refs) \<or>
     (\<exists>ref \<in> set refs. bca_BucketClaimName ref \<in> fst ` set counts)"
proof (induction refs arbitrary: counts doErr)
  case Nil
  then show ?case by simp
next
  case (Cons ref refs)
  have "map_of counts (bca_BucketClaimName ref) = None \<longleftrightarrow> bca_BucketClaimName ref \<notin> fst ` set counts"
    by (rule map_of_eq_None_iff)
  then show ?case by (auto simp: Cons dom_update split: option.split) (metis imageI)
qed

lemma references_unique_iff:
  "validateAllBucketClaimReferencesUnique refs = None \<longleftrightarrow> distinct (map bca_BucketClaimName refs)"
  using count_references_error[of refs "[]" False]
  by (auto simp: validateAllBucketClaimReferencesUnique_def split: prod.splits)

lemma claim_blockers_Nil:
  "claim_blockers spec k oc = [] \<longleftrightarrow> (\<forall>c. oc = Some c \<longrightarrow> IsZero (om_DeletionTimestamp (c_Meta c)) \<and>
     (cst_Protocols (c_Status c) = [] \<or> as_Protocol spec \<in> set (cst_Protocols (c_Status c))))"
  by (auto simp: claim_blockers_def split: option.split)

lemma claim_waits_Nil:
  "claim_waits bm k oc = [] \<longleftrightarrow> (\<exists>c b. oc = Some c \<and> cst_BoundBucketName (c_Status c) \<noteq> [] \<and>
     map_of bm k = Some (Some b) \<and> bst_BucketID (b_Status b) \<noteq> [] \<and>
     ptr_Deref (cst_ReadyToUse (c_Status c)) False)"
  by (auto simp: claim_waits_def split: option.split)

definition accessed_bucket :: "BucketClaimAccess \<Rightarrow> Bucket \<Rightarrow> AccessedBucket" where
  "accessed_bucket ref b = \<lparr>ab_BucketName = om_Name (b_Meta b), ab_BucketID = bst_BucketID (b_Status b),
     ab_BucketClaimName = bca_BucketClaimName ref\<rparr>"

lemma compile_loop_ok:
  "compile_loop refs bm acc miss = Inr (acc', []) \<longleftrightarrow> miss = [] \<and>
    (\<exists>bs. acc' = acc @ bs \<and> list_all2 (\<lambda>ref ab. \<exists>b. map_of bm (bca_BucketClaimName ref) = Some (Some b) \<and>
       bst_BucketID (b_Status b) \<noteq> [] \<and> ab = accessed_bucket ref b) refs bs)"
proof (induction refs arbitrary: acc miss)
  case Nil
  then show ?case by auto
next
  case (Cons ref refs)
  show ?case
    by (auto simp: Cons list_all2_Cons1 accessed_bucket_def split: option.split)
qed

lemma compileAccessedBuckets_ok:
  "compileAccessedBuckets refs bm = Inr bs \<longleftrightarrow>
    list_all2 (\<lambda>ref ab. \<exists>b. map_of bm (bca_BucketClaimName ref) = Some (Some b) \<and>
       bst_BucketID (b_Status b) \<noteq> [] \<and> ab = accessed_bucket ref b) refs bs"
  using compile_loop_ok[of refs bm "[]" "[]" bs]
  by (auto simp: compileAccessedBuckets_def split: sum.splits prod.splits if_splits)

lemma initialized_access_ok:
  assumes "access_live tr" "(\<lparr>nn_Namespace = [], nn_Name = as_BucketAccessClassName (a_Spec a)\<rparr>, class) \<in> set (access_classes_got tr)"
    "ValidateAccessAgainstClass (ac_Spec class) (a_Spec a) = None"
    "distinct (map bca_BucketClaimName (as_BucketClaims (a_Spec a)))"
    "fst ` set m = bca_BucketClaimName ` set (as_BucketClaims (a_Spec a))"
    "marked_map tr m UNIV" "bucket_map tr m bm"
    "\<And>k oc. map_of m k = Some oc \<Longrightarrow> claim_blockers (a_Spec a) k oc = []"
    "\<And>k oc. map_of m k = Some oc \<Longrightarrow> claim_waits bm k oc = []"
    "compileAccessedBuckets (as_BucketClaims (a_Spec a)) bm = Inr bs"
    and a: "a \<in> set (accesses_shown tr)" "ast_AccessedBuckets (a_Status a) = []"
  shows "initialized_ok tr (initialized_access a (ac_Spec class) bs)"
proof -
  have "accessed_ok tr (as_Protocol (a_Spec a)) ref (accessed_bucket ref b)"
    if "ref \<in> set (as_BucketClaims (a_Spec a))" "map_of bm (bca_BucketClaimName ref) = Some (Some b)"
      "bst_BucketID (b_Status b) \<noteq> []" for ref b
  proof -
    have "bca_BucketClaimName ref \<in> dom (map_of m)"
      using that(1) assms(5) by (auto simp: dom_map_of_conv_image_fst)
    then obtain oc where oc: "map_of m (bca_BucketClaimName ref) = Some oc" by blast
    obtain c where c: "oc = Some c" "ptr_Deref (cst_ReadyToUse (c_Status c)) False"
      using assms(9)[OF oc] by (auto simp: claim_waits_Nil)
    have blocks: "claim_blockers (a_Spec a) (bca_BucketClaimName ref) (Some c) = []"
      using assms(8)[OF oc] c(1) by simp
    have got: "(cst_BoundBucketName (c_Status c), b) \<in> set (buckets_got tr)" "cst_BoundBucketName (c_Status c) \<noteq> []"
      using assms(7) that(2) oc c(1) unfolding bucket_map_def by fastforce+
    have version: "c \<in> set (marked_versions tr (bca_BucketClaimName ref))"
      using assms(6) oc c(1) by (auto simp: marked_map_def)
    show ?thesis unfolding accessed_ok_def accessed_bucket_def
      by (intro bexI[OF _ version] conjI bexI[OF _ got(1)])
         (use c blocks that got in \<open>auto simp: claim_blockers_Nil\<close>)
  qed
  then have "list_all2 (accessed_ok tr (as_Protocol (a_Spec a))) (as_BucketClaims (a_Spec a)) bs"
    using assms(10) unfolding compileAccessedBuckets_ok by (auto simp: list_all2_conv_all_nth)
  moreover have "same_progress (a_Status (initialized_access a (ac_Spec class) bs)) (a_Status a)"
    by (simp add: initialized_access_def access_ready_set_def same_progress_def)
  ultimately show ?thesis using assms(1-4) a
    by (auto simp: initialized_ok_def initialized_access_def)
qed

lemma same_initialization_refl [simp]: "same_initialization a a"
  by (simp add: same_initialization_def same_progress_def)

definition access_done :: "error option \<times> BucketAccess \<Rightarrow> history \<Rightarrow> bool" where
  "access_done r tr \<longleftrightarrow> guarded access_contract tr \<and> access_status_ok tr (snd r)"

lemma access_status_shown: "a \<in> set (accesses_shown tr) \<Longrightarrow> access_status_ok tr a"
  unfolding access_status_ok_def using same_initialization_refl by blast

lemma accessed_ok_events: "accessed_ok tr p r b \<Longrightarrow> accessed_ok (tr @ es) p r b"
  unfolding accessed_ok_def by (auto dest: marked_versions_events)

lemma initialized_ok_events: "initialized_ok tr a \<Longrightarrow> initialized_ok (tr @ es) a"
  unfolding initialized_ok_def access_live_def
  by (auto elim!: list_all2_mono intro: accessed_ok_events)

lemma no_messages:
  assumes "mset ks = mset (map fst m)"
    "concat (map (\<lambda>k. case map_of m k of None \<Rightarrow> [] | Some oc \<Rightarrow> f k oc) ks) = []" "map_of m k = Some oc"
  shows "f k oc = []"
proof -
  have "k \<in> set ks"
    using assms(1,3) by (metis domI dom_map_of_conv_image_fst set_map set_mset_mset)
  then show ?thesis using assms(2,3) by fastforce
qed

lemma wp_initializeAccess:
  assumes "guarded access_contract tr" "access_live tr" "(\<lparr>nn_Namespace = [], nn_Name = as_BucketAccessClassName (a_Spec a)\<rparr>, class) \<in> set (access_classes_got tr)"
    "a \<in> set (accesses_shown tr)" "ast_AccessedBuckets (a_Status a) = []"
    "distinct (map bca_BucketClaimName (as_BucketClaims (a_Spec a)))"
    "fst ` set m = bca_BucketClaimName ` set (as_BucketClaims (a_Spec a))"
    "marked_map tr m UNIV"
  shows "wp (initializeAccess E a m class) access_done tr"
proof -
  have done_shown: "access_done (e, a) tr'" if "later tr tr'" for e tr'
    using that assms(4) by (auto simp: access_done_def continues_def intro: access_status_shown)
  have final: "wp (StatusUpdate_BucketAccess E (initialized_access a (ac_Spec class) bs) \<bind> (\<lambda>r. case r of
       Inl err \<Rightarrow> ret (Some (ApiError err), initialized_access a (ac_Spec class) bs)
     | Inr access \<Rightarrow> ret (None, access))) access_done tr'"
    if "later tr tr'" "initialized_ok tr' (initialized_access a (ac_Spec class) bs)" for bs tr'
    using that
    by (intro wp_bind status_access.wp_oper wp_case_sum wp_return)
       (auto simp: access_done_def continues_def access_status_ok_def intro: access_status_shown initialized_ok_events)
  have ok: "initialized_ok tr' (initialized_access a (ac_Spec class) bs)"
    if "later tr tr'" "bucket_map tr' m bm" "ValidateAccessAgainstClass (ac_Spec class) (a_Spec a) = None"
      "mset ks = mset (map fst m)" "mset ks' = mset (map fst m)"
      "concat (map (\<lambda>k. case map_of m k of None \<Rightarrow> [] | Some oc \<Rightarrow> claim_blockers (a_Spec a) k oc) ks) = []"
      "concat (map (\<lambda>k. case map_of m k of None \<Rightarrow> [] | Some oc \<Rightarrow> claim_waits bm k oc) ks') = []"
      "compileAccessedBuckets (as_BucketClaims (a_Spec a)) bm = Inr bs" for tr' bm ks ks' bs
    using that assms no_messages[OF that(4,6)] no_messages[OF that(5,7)]
    by (intro initialized_access_ok[where m = m and bm = bm])
       (auto simp: access_live_def continues_def intro: marked_map_events)
  show ?thesis unfolding initializeAccess_def cannotAccessBucketClaims_def waitingOnBucketClaims_def Let_def
    by (intro wp_case_option wp_return wp_bind_sum[OF wp_getBucketsForClaims] wp_case_constructor wp_bind wp_Range
          wp_if wp_case_sum final ok)
       (auto simp: assms(1) continues_refl intro: done_shown)
qed

lemma wp_Access_addFinalizer:
  assumes "guarded access_contract tr" "a \<in> set (accesses_read tr)" "a \<in> set (accesses_shown tr)"
    "IsZero (om_DeletionTimestamp (a_Meta a))" "SidecarRequirementsPresent (a_Status a) = Inr False"
  shows "wp (Access_addFinalizer E a) (\<lambda>(e, a') tr'. later tr tr' \<and> access_status_ok tr' a' \<and>
    (e = None \<longrightarrow> a' \<in> set (accesses_shown tr'))) tr"
proof -
  have same: "a\<lparr>a_Meta := a_Meta a\<rparr> = a" by (cases a) simp
  have ok: "access_release_ok tr (a\<lparr>a_Meta := m\<rparr>)"
    if "AddFinalizer (a_Meta a) ProtectionFinalizer = (d, m)" for d m
    using that assms by (auto simp: access_release_ok_def access_live_def intro!: bexI[of _ a])
  have status: "access_status_ok (tr @ es) (a\<lparr>a_Meta := m\<rparr>)"
    if "AddFinalizer (a_Meta a) ProtectionFinalizer = (d, m)" for d m es
    using assms(3) AddFinalizer_same_version[OF that] by (auto simp: access_status_ok_def same_initialization_def same_progress_def)
  show ?thesis using assms ok status unfolding Access_addFinalizer_def
    by (intro wp_intro) (auto dest: AddFinalizer_changed dest!: AddFinalizer_unchanged
      simp: continues_def same intro: access_status_shown)
qed

lemma access_done_later: "a \<in> set (accesses_shown tr) \<Longrightarrow> later tr tr' \<Longrightarrow> access_done (e, a) tr'"
  by (auto simp: access_done_def continues_def intro!: access_status_shown)

lemma access_live_later: "access_live tr \<Longrightarrow> later tr tr' \<Longrightarrow> access_live tr'"
  by (auto simp: access_live_def continues_def)

lemma later_list: "later tr tr' \<Longrightarrow> later tr (tr' @ [EvListBucketAccess n r])"
  by (auto simp: continues_def)

lemma got_map_later: "got_map tr m \<Longrightarrow> later tr tr' \<Longrightarrow> got_map tr' m"
  by (auto simp: continues_def got_map_events)

lemma listed_later: "x \<in> set (accesses_listed tr) \<Longrightarrow> later tr tr' \<Longrightarrow> x \<in> set (accesses_listed tr')"
  by (auto simp: continues_def)

lemma shown_later: "a \<in> set (accesses_shown tr) \<Longrightarrow> later tr tr' \<Longrightarrow> a \<in> set (accesses_shown tr')"
  by (auto simp: continues_def)

lemma wp_readClassAndInitialize:
  assumes "guarded access_contract tr" "access_live tr" "a \<in> set (accesses_shown tr)"
    "distinct (map bca_BucketClaimName (as_BucketClaims (a_Spec a)))"
    "fst ` set m = bca_BucketClaimName ` set (as_BucketClaims (a_Spec a))"
    "marked_map tr m UNIV"
  shows "wp (readClassAndInitialize E a m) access_done tr"
  unfolding readClassAndInitialize_def
  by (intro wp_if wp_return wp_bind get_access_class.wp_oper wp_case_sum wp_initializeAccess)
     (use assms in \<open>auto simp: access_done_def access_live_def intro: access_status_shown marked_map_events\<close>)

lemma wp_markAndInitialize:
  assumes "guarded access_contract tr" "access_live tr" "a \<in> set (accesses_shown tr)"
  shows "wp (markAndInitialize E a) access_done tr"
proof -
  have marked: "wp (markAllBucketClaimsAsAccessed E m \<bind> (\<lambda>(err, m). case err of
      Some err \<Rightarrow> ret (Some err, a) | None \<Rightarrow> readClassAndInitialize E a m)) access_done tr'"
    if tr': "guarded access_contract tr'" "access_live tr'" "a \<in> set (accesses_shown tr')" "got_map tr' m"
      "fst ` set m = bca_BucketClaimName ` set (as_BucketClaims (a_Spec a))"
      and dist: "distinct (map bca_BucketClaimName (as_BucketClaims (a_Spec a)))" for tr' m
  proof -
    have read: "wp (readClassAndInitialize E a m') access_done tr''"
      if "later tr' tr''" "map fst m' = map fst m" "marked_map tr'' m' UNIV" for m' tr''
    proof -
      have "fst ` set m' = fst ` set m" using that(2) by (metis set_map)
      then show ?thesis using that tr' dist
        by (intro wp_readClassAndInitialize)
           (auto intro: continues_guarded access_live_later shown_later)
    qed
    show ?thesis
      by (rule wp_bind_err[OF wp_markAllBucketClaimsAsAccessed[OF tr'(1,2,4)]];
          intro wp_case_constructor wp_return)
         (auto intro: access_done_later[OF tr'(3)] read)
  qed
  show ?thesis unfolding markAndInitialize_def
    by (intro wp_case_option wp_return wp_bind_sum[OF wp_getAllBucketClaims[OF assms(1,3) refl refl]] wp_case_constructor marked)
       (use assms in \<open>auto simp: references_unique_iff intro: access_done_later continues_refl continues_guarded access_live_later shown_later\<close>)
qed

lemma wp_Controller_Access_reconcileLive:
  assumes "guarded access_contract tr" "a \<in> set (accesses_read tr)" "a \<in> set (accesses_shown tr)"
    "IsZero (om_DeletionTimestamp (a_Meta a))" "SidecarRequirementsPresent (a_Status a) = Inr False"
  shows "wp (Controller_Access_reconcileLive E a) access_done tr"
proof -
  have live: "access_live tr" using assms by (auto simp: access_live_def)
  show ?thesis unfolding Controller_Access_reconcileLive_def
    by (intro wp_bind_err[OF wp_Access_addFinalizer[OF assms]] wp_case_constructor wp_return wp_markAndInitialize)
       (auto simp: access_done_def intro: continues_guarded access_live_later[OF live])
qed

lemma release_after_unmarking:
  assumes "a \<in> set (accesses_read tr)" "\<not> IsZero (om_DeletionTimestamp (a_Meta a))" "(om_Namespace (a_Meta a), l) \<in> set (accesses_listed tr)"
    "got_map tr m" "fst ` set m = bca_BucketClaimName ` set (as_BucketClaims (a_Spec a))"
    "\<forall>k c. map_of m k = Some (Some c) \<longrightarrow> unmarked_ok tr l (om_Name (a_Meta a)) c"
  shows "access_release_ok tr (a\<lparr>a_Meta := RemoveFinalizer (a_Meta a) ProtectionFinalizer\<rparr>)"
proof -
  have "bca_BucketClaimName ref \<in> set (claims_missing tr) \<or> (\<exists>c \<in> set (claims_got tr).
      fst c = bca_BucketClaimName ref \<and> unmarked_ok tr l (om_Name (a_Meta a)) (snd c))"
    if "ref \<in> set (as_BucketClaims (a_Spec a))" for ref
  proof -
    have "bca_BucketClaimName ref \<in> dom (map_of m)"
      using that assms(5) by (auto simp: dom_map_of_conv_image_fst)
    then obtain oc where oc: "map_of m (bca_BucketClaimName ref) = Some oc" by blast
    show ?thesis
    proof (cases oc)
      case None
      then show ?thesis using oc assms(4) by (simp add: got_map_def)
    next
      case (Some c)
      then have "(bca_BucketClaimName ref, c) \<in> set (claims_got tr)" "unmarked_ok tr l (om_Name (a_Meta a)) c"
        using oc assms(4,6) by (simp_all add: got_map_def)
      then show ?thesis by (intro disjI2 bexI[of _ "(bca_BucketClaimName ref, c)"]) simp_all
    qed
  qed
  then show ?thesis using assms(1-3)
    unfolding access_release_ok_def unmarked_ok_def hasBucketAccessReferences_iff by blast
qed

lemma wp_Controller_Access_reconcileDelete:
  assumes "guarded access_contract tr" "a \<in> set (accesses_read tr)" "a \<in> set (accesses_shown tr)"
    "\<not> IsZero (om_DeletionTimestamp (a_Meta a))"
  shows "wp (Controller_Access_reconcileDelete E a) access_done tr"
proof -
  let ?a = "a\<lparr>a_Meta := RemoveFinalizer (a_Meta a) ProtectionFinalizer\<rparr>"
  have release: "wp (Update_BucketAccess E ?a \<bind> (\<lambda>r. case r of
      Inl err \<Rightarrow> ret (Some (wrapf RemoveFinalizerFailed [] (ApiError err)), ?a)
    | Inr access \<Rightarrow> ret (None, access))) access_done tr'"
    if "later tr tr'" "access_release_ok tr' ?a" for tr'
    using that assms(3)
    by (intro wp_bind update_access.wp_oper wp_case_sum wp_return)
       (auto simp: access_done_def continues_def access_status_ok_def same_initialization_def same_progress_def)
  have ok: "access_release_ok tr' ?a"
    if "later tr tr'" "(om_Namespace (a_Meta a), l) \<in> set (accesses_listed tr')" "got_map tr' m"
      "fst ` set m = bca_BucketClaimName ` set (as_BucketClaims (a_Spec a))"
      "\<forall>k c. map_of m k = Some (Some c) \<longrightarrow> unmarked_ok tr' l (om_Name (a_Meta a)) c" for tr' l m
    by (rule release_after_unmarking[OF _ assms(4) that(2-5)]) (use assms(2) that(1) in \<open>auto simp: continues_def\<close>)
  have unmark: "wp (unmarkUnaccessedBucketClaims E m l (om_Name (a_Meta a)) \<bind> (\<lambda>(err, unmarked). case err of
      Some err \<Rightarrow> ret (Some err, a)
    | None \<Rightarrow> Update_BucketAccess E ?a \<bind> (\<lambda>r. case r of
        Inl err \<Rightarrow> ret (Some (wrapf RemoveFinalizerFailed [] (ApiError err)), ?a)
      | Inr access \<Rightarrow> ret (None, access)))) access_done tr'"
    if "later tr tr'" "(om_Namespace (a_Meta a), l) \<in> set (accesses_listed tr')" "got_map tr' m"
      "fst ` set m = bca_BucketClaimName ` set (as_BucketClaims (a_Spec a))" for tr' l m
  proof (rule wp_bind_err[OF wp_unmarkUnaccessedBucketClaims[where a = a]]; (intro wp_case_constructor wp_return)?)
    show "a \<in> set (accesses_read tr')" using assms(2) that(1) by (auto simp: continues_def)
  qed (use that assms in \<open>auto intro: continues_guarded access_done_later continues_trans listed_later got_map_later
         intro!: release ok\<close>)
  show ?thesis unfolding Controller_Access_reconcileDelete_def Let_def
    by (rule wp_bind_sum[OF wp_getAllBucketClaims[OF assms(1,3) refl refl]];
        intro unmark wp_case_constructor wp_return wp_bind list_access.wp_oper wp_case_sum)
       (auto intro: access_done_later[OF assms(3)] later_list got_map_events)
qed

section \<open>The shape of the reconciler\<close>

lemma IsNonRetryable_controller_error [simp]: "IsNonRetryable (controller_error e) = IsNonRetryable e"
  by (simp add: controller_error_def)

interpretation controller_access: reconciler "Get_BucketAccess E" "e_GetBucketAccess E" EvGetBucketAccess
  ManagedBySidecar "Controller_Access_reconcile E" controller_error "Controller_Access_finish E"
  status_access_event status_access_saved "Controller_Access_Reconcile E" for E
proof
  show "Controller_Access_Reconcile E req = reconcile_shape (Get_BucketAccess E) ManagedBySidecar
      (Controller_Access_reconcile E) (Controller_Access_finish E) req" for req
    unfolding Controller_Access_Reconcile_def reconcile_shape_def ..
qed (auto simp: Controller_Access_finish_def wp_def run_calls Let_def status_access_event_def
  status_access_saved_def classify_def split: option.splits sum.splits)

lemma access_status_ok_cong:
  assumes "access_status_ok tr a" "same_initialization a' a"
  shows "access_status_ok tr a'"
proof -
  have fields: "a_Spec a' = a_Spec a" "ast_DriverName (a_Status a') = ast_DriverName (a_Status a)"
    "ast_AuthenticationType (a_Status a') = ast_AuthenticationType (a_Status a)"
    "ast_Parameters (a_Status a') = ast_Parameters (a_Status a)"
    "ast_AccessedBuckets (a_Status a') = ast_AccessedBuckets (a_Status a)"
    using assms(2) unfolding same_initialization_def by (cases "a_Status a"; cases "a_Status a'"; simp)+
  have versions: "same_version (a_Meta a') m = same_version (a_Meta a) m"
    "same_progress (a_Status a') s = same_progress (a_Status a) s" for m s
    using assms(2) by (auto simp: same_initialization_def same_version_def same_progress_def)
  have "initialized_ok tr a' = initialized_ok tr a" by (simp add: initialized_ok_def fields versions)
  moreover have "same_initialization a' a0" if "same_initialization a a0" for a0
    using that assms(2) by (simp add: same_initialization_def versions)
  ultimately show ?thesis using assms(1) unfolding access_status_ok_def by blast
qed

lemma Controller_Access_Reconcile_contract:
  "guarded access_contract (history_of (Controller_Access_Reconcile E req))"
proof (rule wp_history, rule controller_access.wp_Reconcile)
  have finish: "wp (Controller_Access_finish E err a) (\<lambda>_. guarded access_contract) tr"
    if "access_done (err, a) tr" for err a tr
  proof -
    have ok: "access_status_ok tr ((access_ready_set a)\<lparr>a_Status :=
        (a_Status (access_ready_set a))\<lparr>ast_Error := x\<rparr>\<rparr>)" for x
      by (rule access_status_ok_cong[of _ a])
         (use that in \<open>auto simp: access_done_def same_initialization_def same_progress_def access_ready_set_def\<close>)
    show ?thesis using that ok unfolding Controller_Access_finish_def
      by (intro wp_intro) (auto simp: access_done_def)
  qed
  have core: "wp (Controller_Access_reconcile E a) access_done [EvGetBucketAccess req (Inr a)]" (is "wp _ _ ?tr") for a
  proof -
    have pre: "guarded access_contract ?tr" "a \<in> set (accesses_read ?tr)" "a \<in> set (accesses_shown ?tr)"
      by (simp_all add: guarded_def)
    then have "access_done (e, a) ?tr" for e
      by (simp add: access_done_def access_status_shown)
    with pre show ?thesis unfolding Controller_Access_reconcile_def
      by (intro wp_if wp_case_sum wp_return wp_Controller_Access_reconcileLive
            wp_Controller_Access_reconcileDelete) simp_all
  qed
  show "wp (Controller_Access_reconcile E a)
      (\<lambda>(e, a'). wp (Controller_Access_finish E e a') (\<lambda>_. guarded access_contract))
      [EvGetBucketAccess req (Inr a)]" for a
    by (rule wp_mono[OF core]) (auto intro: finish)
qed (auto simp: guarded_def)

section \<open>Properties\<close>

definition access_status_guard :: "history \<Rightarrow> event \<Rightarrow> bool" where
  "access_status_guard tr e = (case e of EvStatusUpdateBucketAccess a _ \<Rightarrow> access_status_ok tr a | _ \<Rightarrow> True)"

definition mark_guard :: "history \<Rightarrow> event \<Rightarrow> bool" where
  "mark_guard tr e = (case e of
      EvUpdateBucketClaim c _ \<Rightarrow> mark_ok tr c | EvGetBucketClaim k _ \<Rightarrow> claim_read_ok tr k | _ \<Rightarrow> True)"

definition access_release_guard :: "history \<Rightarrow> event \<Rightarrow> bool" where
  "access_release_guard tr e = (case e of
      EvUpdateBucketAccess a _ \<Rightarrow> access_release_ok tr a | EvGetBucketClaim k _ \<Rightarrow> claim_read_ok tr k | _ \<Rightarrow> True)"

text \<open>
  C20. An access is handed to the Sidecar only with complete and current information: a status
  update either keeps the initialization fields the server already had, or copies driver,
  authentication type and parameters from a class the server returned
  under the class name of the spec and the spec satisfies, with
  distinct references, and lists in spec order one entry per referenced claim. Each entry names a
  Bucket with an ID, read under the bound name of a claim that is ready, not being deleted,
  supports the protocol, and carries the has-references mark on the server.
\<close>

theorem access_initialization_backed:
  "guarded access_status_guard (history_of (Controller_Access_Reconcile E req))"
  by (rule guarded_weaken[OF Controller_Access_Reconcile_contract])
     (auto simp: access_contract_def access_status_guard_def split: event.splits)

text \<open>
  C21. The only change the BucketAccess controller makes to a claim is the has-references mark of a
  claim that the access references in its namespace: it adds the mark for a live access, and removes
  it for an access under deletion only if none of the accesses that the server lists for the
  namespace of the access has another name and references the claim.
\<close>

theorem claim_marks_justified:
  "guarded mark_guard (history_of (Controller_Access_Reconcile E req))"
  by (rule guarded_weaken[OF Controller_Access_Reconcile_contract])
     (auto simp: access_contract_def mark_guard_def split: event.splits)

text \<open>
  C22. An access loses its finalizer only when it is being deleted and every claim it references,
  looked up in its namespace, is gone, not marked, successfully unmarked, or referenced by an access
  of another name in the list of its namespace.
\<close>

theorem access_released_after_unmarking:
  "guarded access_release_guard (history_of (Controller_Access_Reconcile E req))"
  by (rule guarded_weaken[OF Controller_Access_Reconcile_contract])
     (auto simp: access_contract_def access_release_guard_def split: event.splits)

text \<open>What the controller may call at all.\<close>

definition controller_access_call :: "event \<Rightarrow> bool" where
  "controller_access_call e = (case e of
      EvGetBucketAccess _ _ \<Rightarrow> True | EvGetBucketClaim _ _ \<Rightarrow> True | EvGetBucket _ _ \<Rightarrow> True
    | EvGetBucketAccessClass _ _ \<Rightarrow> True | EvListBucketAccess _ _ \<Rightarrow> True
    | EvUpdateBucketClaim _ _ \<Rightarrow> True | EvUpdateBucketAccess _ _ \<Rightarrow> True
    | EvStatusUpdateBucketAccess _ _ \<Rightarrow> True | _ \<Rightarrow> False)"

text \<open>
  The BucketAccess controller never talks to the driver, never touches Secrets, never writes
  Buckets or claim statuses, and never deletes anything.
\<close>

lemma controller_access_confined:
  "list_all controller_access_call (history_of (Controller_Access_Reconcile E req))"
proof -
  have "guarded (\<lambda>_. controller_access_call) (history_of (Controller_Access_Reconcile E req))"
    by (rule guarded_weaken[OF Controller_Access_Reconcile_contract])
       (auto simp: access_contract_def controller_access_call_def split: event.splits)
  then show ?thesis
    by (metis guardedD in_set_conv_decomp list_all_iff)
qed

text \<open>
  C23. The check against the access class, which collects its complaints, accepts a spec exactly
  when a required service account is named, multi-bucket access is allowed or not used, and every
  reference asks for at least one access mode and for no disallowed one.
\<close>

theorem ValidateAccessAgainstClass_spec:
  "ValidateAccessAgainstClass class access = None \<longleftrightarrow>
     \<not> (acs_AuthenticationType class = BucketAccessAuthenticationTypeServiceAccount \<and>
        as_ServiceAccountName access = []) \<and>
     (SupportsMultiBucketAccess class \<or> length (as_BucketClaims access) \<le> 1) \<and>
     list_all (\<lambda>ref. HasAnyAccessMode (bca_AccessModes ref) \<and>
        am_ObjectData (bca_AccessModes ref) \<notin> set (dm_ObjectData (acs_DisallowedBucketAccessModes class)) \<and>
        am_ObjectMetadata (bca_AccessModes ref) \<notin> set (dm_ObjectMetadata (acs_DisallowedBucketAccessModes class)) \<and>
        am_BucketMetadata (bca_AccessModes ref) \<notin> set (dm_BucketMetadata (acs_DisallowedBucketAccessModes class)))
       (as_BucketClaims access)"
  by (auto simp: ValidateAccessAgainstClass_def validateClaimAccessModesAgainstClass_def Let_def list_all_iff
      linorder_not_less)

text \<open>
  Initialization happens once: an access that is not being deleted, is not the Sidecar's but
  already has all Sidecar requirements (it carries the override annotation) ends in a terminal error
  whose only trace is the error in its status.
\<close>

lemma initialized_access_not_reinitialized:
  assumes "e_GetBucketAccess E [] req = Inr a" "\<not> ManagedBySidecar a"
    "IsZero (om_DeletionTimestamp (a_Meta a))" "SidecarRequirementsPresent (a_Status a) = Inr True"
    "\<And>tr x. e_StatusUpdateBucketAccess E tr x = Inr x"
  shows "\<exists>e a'. same_initialization a' a \<and> IsNonRetryable e \<and>
    run_state (Controller_Access_Reconcile E req) [] = (Terminal e,
      [EvGetBucketAccess req (Inr a), EvStatusUpdateBucketAccess a' (Inr a')])"
  using assms
  by (auto simp: Controller_Access_Reconcile_def Controller_Access_reconcile_def Controller_Access_finish_def
      controller_error_def run_calls Let_def classify_def same_initialization_def same_progress_def access_ready_set_def)

text \<open>The Controller keeps its hands off an access that the Sidecar manages.\<close>

lemma sidecar_managed_access_left_alone:
  assumes "e_GetBucketAccess E [] req = Inr a" "ManagedBySidecar a"
  shows "run_state (Controller_Access_Reconcile E req) [] = (Done, [EvGetBucketAccess req (Inr a)])"
  using assms by (simp add: Controller_Access_Reconcile_def run_calls)

section \<open>Initializing an access\<close>

lemma claim_frame_mark [simp]:
  "om_Name (c_Meta (claim_annotations_made c)) = om_Name (c_Meta c)"
  "om_DeletionTimestamp (c_Meta (claim_annotations_made c)) = om_DeletionTimestamp (c_Meta c)"
  "c_Status (claim_annotations_made c) = c_Status c"
  by (simp_all add: claim_annotations_made_def)

lemma run_single_claim:
  assumes "\<And>tr. e_GetBucketClaim E tr \<lparr>nn_Namespace = ns, nn_Name = bca_BucketClaimName ref\<rparr> = Inr c"
  shows "run_state (getAllBucketClaims E ns [ref]) tr = (Inr [(bca_BucketClaimName ref, Some c)],
    tr @ [EvGetBucketClaim \<lparr>nn_Namespace = ns, nn_Name = bca_BucketClaimName ref\<rparr> (Inr c)])"
  using assms by (simp add: getAllBucketClaims_def run_calls join_errs_def)

lemma run_single_mark:
  assumes "\<And>tr x. e_UpdateBucketClaim E tr x = Inr x"
  shows "\<exists>c' es. c_Status c' = c_Status c \<and> om_DeletionTimestamp (c_Meta c') = om_DeletionTimestamp (c_Meta c) \<and>
    (\<forall>tr. run_state (markAllBucketClaimsAsAccessed E [(k, Some c)]) tr = ((None, [(k, Some c')]), tr @ es))"
proof (cases "has_annotation (c_Meta c) HasBucketAccessReferencesAnnotation")
  case True
  then show ?thesis
    by (intro exI[of _ "claim_annotations_made c"] exI[of _ "[]"])
       (simp add: markAllBucketClaimsAsAccessed_def join_errs_def has_annotation_def claim_annotations_made_def
         gm_has_def gm_lookup_def)
next
  case False
  let ?c = "(claim_annotations_made c)\<lparr>c_Meta := add_annotation HasBucketAccessReferencesAnnotation
     (c_Meta (claim_annotations_made c))\<rparr>"
  from False show ?thesis using assms
    by (intro exI[of _ ?c] exI[of _ "[EvUpdateBucketClaim ?c (Inr ?c)]"])
       (simp add: markAllBucketClaimsAsAccessed_def join_errs_def has_annotation_def claim_annotations_made_def
         gm_has_def gm_lookup_def run_calls add_annotation_def Let_def)
qed

text \<open>The last part of an initialization for one ready claim; the server may store another version
  than it was sent.\<close>

lemma run_initializeAccess:
  assumes refs: "as_BucketClaims (a_Spec a) = [ref]"
    and claim: "IsZero (om_DeletionTimestamp (c_Meta c))" "cst_BoundBucketName (c_Status c) \<noteq> []"
      "cst_ReadyToUse (c_Status c) = Some True" "as_Protocol (a_Spec a) \<in> set (cst_Protocols (c_Status c))"
    and cls: "ValidateAccessAgainstClass (ac_Spec cl) (a_Spec a) = None"
    and bucket: "\<And>tr. e_GetBucket E tr \<lparr>nn_Namespace = [], nn_Name = cst_BoundBucketName (c_Status c)\<rparr> = Inr b"
      "bst_BucketID (b_Status b) \<noteq> []"
    and store: "\<And>tr x. e_StatusUpdateBucketAccess E tr x = Inr (st x)"
    and a': "a' = initialized_access a (ac_Spec cl) [accessed_bucket ref b]"
  shows "run_state (initializeAccess E a [(bca_BucketClaimName ref, Some c)] cl) tr = ((None, st a'),
     tr @ [EvGetBucket \<lparr>nn_Namespace = [], nn_Name = cst_BoundBucketName (c_Status c)\<rparr> (Inr b),
       EvStatusUpdateBucketAccess a' (Inr (st a'))])"
proof -
  have compiled: "compileAccessedBuckets [ref] [(bca_BucketClaimName ref, Some b)] = Inr [accessed_bucket ref b]"
    using bucket(2) by (simp add: compileAccessedBuckets_ok)
  have blockers: "claim_blockers (a_Spec a) (bca_BucketClaimName ref) (Some c) = []"
    "claim_waits [(bca_BucketClaimName ref, Some b)] (bca_BucketClaimName ref) (Some c) = []"
    using claim bucket(2) by (auto simp: claim_blockers_Nil claim_waits_def ptr_Deref_def)
  show ?thesis
    using refs bucket(1) claim(2) store blockers compiled
    by (simp add: initializeAccess_def cls getBucketsForClaims_def cannotAccessBucketClaims_def
        waitingOnBucketClaims_def run_calls join_errs_def Let_def a')
qed

text \<open>With a cooperating server one run initializes an access for one ready claim.\<close>

lemma access_initialized_run:
  assumes a: "e_GetBucketAccess E [] req = Inr a" "\<not> ManagedBySidecar a" "IsZero (om_DeletionTimestamp (a_Meta a))"
      "SidecarRequirementsPresent (a_Status a) = Inr False" "as_BucketClaims (a_Spec a) = [ref]"
    and stores: "\<And>tr x. e_UpdateBucketAccess E tr x = Inr x" "\<And>tr x. e_StatusUpdateBucketAccess E tr x = Inr x"
      "\<And>tr x. e_UpdateBucketClaim E tr x = Inr x"
    and claim: "\<And>tr. e_GetBucketClaim E tr \<lparr>nn_Namespace = om_Namespace (a_Meta a), nn_Name = bca_BucketClaimName ref\<rparr> = Inr c"
      "IsZero (om_DeletionTimestamp (c_Meta c))" "cst_BoundBucketName (c_Status c) \<noteq> []"
      "cst_ReadyToUse (c_Status c) = Some True" "as_Protocol (a_Spec a) \<in> set (cst_Protocols (c_Status c))"
    and cls: "\<And>tr k. e_GetBucketAccessClass E tr k = Inr cl" "ValidateAccessAgainstClass (ac_Spec cl) (a_Spec a) = None"
    and bucket: "\<And>tr. e_GetBucket E tr \<lparr>nn_Namespace = [], nn_Name = cst_BoundBucketName (c_Status c)\<rparr> = Inr b"
      "bst_BucketID (b_Status b) \<noteq> []"
  shows "\<exists>m a' pre. AddFinalizer (a_Meta a) ProtectionFinalizer = (m \<noteq> a_Meta a, m) \<and>
    a' = initialized_access (a\<lparr>a_Meta := m\<rparr>) (ac_Spec cl) [accessed_bucket ref b] \<and>
    run_state (Controller_Access_Reconcile E req) [] = (Done, pre @ [EvStatusUpdateBucketAccess a' (Inr a')])"
proof -
  obtain d m where add: "AddFinalizer (a_Meta a) ProtectionFinalizer = (d, m)" by force
  note frame = AddFinalizer_frame[OF add]
  have d: "d \<longleftrightarrow> m \<noteq> a_Meta a"
    using add by (cases "a_Meta a") (auto simp: AddFinalizer_def split: if_splits)
  obtain c' es where c': "c_Status c' = c_Status c" "om_DeletionTimestamp (c_Meta c') = om_DeletionTimestamp (c_Meta c)"
    and mark: "\<And>tr. run_state (markAllBucketClaimsAsAccessed E [(bca_BucketClaimName ref, Some c)]) tr =
      ((None, [(bca_BucketClaimName ref, Some c')]), tr @ es)"
    using run_single_mark[of E c "bca_BucketClaimName ref", OF stores(3)] by metis
  have empty: "ast_AccessedBuckets (a_Status a) = []" using a(4) by (simp add: SidecarRequirementsPresent_False)
  have unique: "validateAllBucketClaimReferencesUnique [ref] = None" by (simp add: references_unique_iff)
  let ?a = "a\<lparr>a_Meta := m\<rparr>"
  let ?a' = "initialized_access ?a (ac_Spec cl) [accessed_bucket ref b]"
  have "run_state (initializeAccess E ?a [(bca_BucketClaimName ref, Some c')] cl) tr = ((None, ?a'),
     tr @ [EvGetBucket \<lparr>nn_Namespace = [], nn_Name = cst_BoundBucketName (c_Status c')\<rparr> (Inr b),
       EvStatusUpdateBucketAccess ?a' (Inr ?a')])" for tr
    by (rule run_initializeAccess[where st = "\<lambda>x. x"]) (use a(5) bucket claim c' cls stores(2) in simp_all)
  then have "\<exists>es'. run_state (markAndInitialize E ?a) tr = ((None, ?a'), tr @ es' @ [EvStatusUpdateBucketAccess ?a' (Inr ?a')])" for tr
    using a(5) empty
    by (simp add: markAndInitialize_def unique run_single_claim claim(1) frame mark readClassAndInitialize_def run_calls cls(1))
  then have live: "\<exists>es'. run_state (markAndInitialize E ?a) tr = ((None, ?a'), es' @ [EvStatusUpdateBucketAccess ?a' (Inr ?a')])" for tr
    by (metis append.assoc)
  have "\<exists>pre. run_state (Controller_Access_Reconcile E req) [] = (Done, pre @ [EvStatusUpdateBucketAccess ?a' (Inr ?a')])"
    using a(1-4) stores(1) live[of "[EvGetBucketAccess req (Inr a), EvUpdateBucketAccess ?a (Inr ?a)]"]
      live[of "[EvGetBucketAccess req (Inr a)]"]
    by (cases d) (auto simp: Controller_Access_Reconcile_def Controller_Access_reconcile_def Controller_Access_reconcileLive_def
        Access_addFinalizer_def add d Controller_Access_finish_def run_calls Let_def)
  then show ?thesis using add d by auto
qed

end
