(* ===== verification/Owner_Reference.thy ===== *)
theory Owner_Reference
  imports Errors
begin

text \<open>
  Ownership between Kubernetes objects as the Sidecar uses it for access Secrets:
  \<open>SetControllerReference\<close> of controller-runtime
  (\<^verbatim>\<open>src/vendor/sigs.k8s.io/controller-runtime/pkg/controller/controllerutil/controllerutil.go\<close>)
  for an owner of kind BucketAccess, whose group, version and kind the scheme knows from
  \<^verbatim>\<open>src/client/apis/objectstorage/v1alpha2/groupversion_info.go\<close>.
\<close>

section \<open>Definitions\<close>

text \<open>The group of \<open>schema.ParseGroupVersion\<close>, \<open>None\<close> for its error.\<close>

definition ParseGroupVersion_Group :: "string \<Rightarrow> string option" where
  "ParseGroupVersion_Group gv =
     (if gv = [] \<or> gv = ''/'' then Some []
      else
        (case length (filter (\<lambda>c. c = CHR ''/'') gv) of
           0 \<Rightarrow> Some []
         | Suc 0 \<Rightarrow> Some (takeWhile (\<lambda>c. c \<noteq> CHR ''/'') gv)
         | _ \<Rightarrow> None))"

definition referSameObject :: "OwnerReference \<Rightarrow> OwnerReference \<Rightarrow> bool" where
  "referSameObject a b =
     (case ParseGroupVersion_Group (or_APIVersion a) of
        None \<Rightarrow> False
      | Some aGroup \<Rightarrow>
          (case ParseGroupVersion_Group (or_APIVersion b) of
             None \<Rightarrow> False
           | Some bGroup \<Rightarrow> aGroup = bGroup \<and> or_Kind a = or_Kind b \<and> or_Name a = or_Name b))"

definition validateOwner :: "ObjectMeta \<Rightarrow> ObjectMeta \<Rightarrow> error option" where
  "validateOwner owner obj =
     (if om_Namespace owner \<noteq> [] then
        (if om_Namespace obj = [] then Some (errf (OwnerMsg NamespacedOwner) [om_Namespace owner])
         else if om_Namespace owner \<noteq> om_Namespace obj then
           Some (errf (OwnerMsg CrossNamespaceOwner) [om_Namespace owner, om_Namespace obj])
         else None)
      else None)"

text \<open>\<open>upsertOwnerRef\<close>: overwrite the first reference to the same object, or append.\<close>

fun upsertOwnerRef :: "OwnerReference \<Rightarrow> OwnerReference list \<Rightarrow> OwnerReference list" where
  "upsertOwnerRef ref [] = [ref]"
| "upsertOwnerRef ref (r # rs) =
     (if referSameObject r ref then ref # rs else r # upsertOwnerRef ref rs)"

definition access_owner_reference :: "bool \<Rightarrow> ObjectMeta \<Rightarrow> OwnerReference" where
  "access_owner_reference blockOwnerDeletion owner =
     \<lparr>or_APIVersion = ''objectstorage.k8s.io/v1alpha2'', or_Kind = ''BucketAccess'',
      or_Name = om_Name owner, or_UID = om_UID owner, or_Controller = Some True,
      or_BlockOwnerDeletion = Some blockOwnerDeletion\<rparr>"

text \<open>\<open>SetControllerReference(owner, controlled, scheme, WithBlockOwnerDeletion(block))\<close>.\<close>

definition SetControllerReference :: "ObjectMeta \<Rightarrow> ObjectMeta \<Rightarrow> bool \<Rightarrow> error + ObjectMeta" where
  "SetControllerReference owner controlled block =
     (case validateOwner owner controlled of
        Some err \<Rightarrow> Inl err
      | None \<Rightarrow>
          (let ref = access_owner_reference block owner;
               ok = Inr (controlled\<lparr>om_OwnerReferences := upsertOwnerRef ref (om_OwnerReferences controlled)\<rparr>) in
           case GetControllerOfNoCopy (om_OwnerReferences controlled) of
             Some existing \<Rightarrow>
               if \<not> referSameObject existing ref then
                 Inl (errf (OwnerMsg AlreadyOwned) [om_Namespace controlled, om_Name controlled,
                   or_Kind existing, or_Name existing])
               else ok
           | None \<Rightarrow> ok))"

section \<open>Lemmas\<close>

lemma GetControllerOf_Some: "GetControllerOfNoCopy rs = Some r \<Longrightarrow> r \<in> set rs \<and> or_Controller r = Some True"
  by (induction rs) (auto split: if_splits)

lemma GetControllerOf_None: "GetControllerOfNoCopy rs = None \<longleftrightarrow> (\<forall>r \<in> set rs. or_Controller r \<noteq> Some True)"
  by (induction rs) auto

lemma upsert_controller:
  assumes "or_Controller ref = Some True"
    and "\<And>r. GetControllerOfNoCopy rs = Some r \<Longrightarrow> referSameObject r ref"
  shows "GetControllerOfNoCopy (upsertOwnerRef ref rs) = Some ref"
  using assms(2)
proof (induction rs)
  case Nil
  then show ?case using assms(1) by simp
next
  case (Cons r rs)
  then show ?case using assms(1) by (cases "or_Controller r = Some True") auto
qed

text \<open>
  After a successful call the object is controlled by the owner, whatever references it had; an
  object without a controller in the owner's namespace is always taken.
\<close>

lemma SetControllerReference_controlled:
  assumes "SetControllerReference owner obj block = Inr obj'"
  shows "IsControlledBy obj' owner"
proof -
  let ?ref = "access_owner_reference block owner"
  have obj': "om_OwnerReferences obj' = upsertOwnerRef ?ref (om_OwnerReferences obj)"
    and same: "\<And>r. GetControllerOfNoCopy (om_OwnerReferences obj) = Some r \<Longrightarrow> referSameObject r ?ref"
    using assms by (auto simp: SetControllerReference_def Let_def split: option.splits if_splits)
  have "GetControllerOfNoCopy (om_OwnerReferences obj') = Some ?ref"
    unfolding obj' by (rule upsert_controller, simp add: access_owner_reference_def, rule same)
  then show ?thesis by (simp add: IsControlledBy_def access_owner_reference_def)
qed

lemma SetControllerReference_frame:
  assumes "SetControllerReference owner obj block = Inr obj'"
  shows "obj' = obj\<lparr>om_OwnerReferences := om_OwnerReferences obj'\<rparr>"
  using assms by (auto simp: SetControllerReference_def Let_def split: option.splits if_splits)

lemma SetControllerReference_fresh:
  assumes "om_Namespace obj = om_Namespace owner" "om_OwnerReferences obj = []"
  shows "SetControllerReference owner obj block =
    Inr (obj\<lparr>om_OwnerReferences := [access_owner_reference block owner]\<rparr>)"
  using assms by (simp add: SetControllerReference_def validateOwner_def)

end
