(* ===== verification/Sidecar_BucketAccess.thy ===== *)
theory Sidecar_BucketAccess
  imports History_Views Access_Handoff Owner_Reference
begin

text \<open>
  The Sidecar's BucketAccess reconciler (\<^verbatim>\<open>src/sidecar/pkg/reconciler/bucketaccess.go\<close>): it
  checks the accessed Buckets, reserves the Secrets that will hold the credentials, asks the driver
  to grant access, fills the Secrets and publishes the access; on deletion it deletes the Secrets,
  asks the driver to revoke the access and hands the resource back to the Controller.

  Go maps are association lists; the order in which the code ranges over them is chosen by the
  environment. The Secrets in a map are shared pointers, so the loop that fills them carries the
  changed map along.
\<close>

section \<open>Internal configuration\<close>

record internalAccessConfig =
  iac_Protocol :: ObjectProtocol_Type
  iac_AuthenticationType :: AuthenticationType_Type
  iac_ServiceAccountName :: string
  iac_Parameters :: "string gomap"

record bucketGrantAccessConfig =
  bg_ObjectDataMode :: AccessMode_Mode
  bg_ObjectMetadataMode :: AccessMode_Mode
  bg_BucketMetadataMode :: AccessMode_Mode
  bg_AccessSecretName :: string

record internalGrantAccessConfig = internalAccessConfig +
  igc_AccountName :: string
  igc_AccessConfigsByBucketId :: "(string \<times> bucketGrantAccessConfig) list"
  igc_SecretsByName :: "(string \<times> Secret) list"

record internalRevokeAccessConfig = internalAccessConfig +
  irc_AccountID :: string
  irc_RevokeBucketList :: "string list"

definition newInternalAccessConfig :: "BucketAccess \<Rightarrow> error + internalAccessConfig" where
  "newInternalAccessConfig access =
     (case ObjectProtocol_ApiToRpc (as_Protocol (a_Spec access)) of
        Inl err \<Rightarrow> Inl (NonRetryableError err)
      | Inr proto \<Rightarrow>
          (case AuthenticationTypeToRpc (ast_AuthenticationType (a_Status access)) of
             Inl err \<Rightarrow> Inl (NonRetryableError err)
           | Inr authType \<Rightarrow>
               Inr \<lparr>iac_Protocol = proto, iac_AuthenticationType = authType,
                    iac_ServiceAccountName =
                      (if authType = AuthenticationType_SERVICE_ACCOUNT
                       then as_ServiceAccountName (a_Spec access) else []),
                    iac_Parameters = ast_Parameters (a_Status access)\<rparr>))"

text \<open>\<open>bucketIdsByClaimName\<close>: a later entry for the same claim overwrites an earlier one.\<close>

definition bucket_ids_by_claim :: "AccessedBucket list \<Rightarrow> (string \<times> string) list" where
  "bucket_ids_by_claim buckets =
     fold (\<lambda>ab. AList.update (ab_BucketClaimName ab) (ab_BucketID ab)) buckets []"

definition error_of :: "error + 'a \<Rightarrow> error option" where
  "error_of r = (case r of Inl err \<Rightarrow> Some err | Inr _ \<Rightarrow> None)"

definition mode_of :: "error + AccessMode_Mode \<Rightarrow> AccessMode_Mode" where
  "mode_of r = (case r of Inl _ \<Rightarrow> AccessMode_UNKNOWN | Inr mode \<Rightarrow> mode)"

text \<open>The configuration for one reference, from the modes the spec asks for.\<close>

definition claim_access_config :: "BucketClaimAccess \<Rightarrow> error + bucketGrantAccessConfig" where
  "claim_access_config claimRef =
     (let modes = bca_AccessModes claimRef;
          objectData = AccessModeToRpc (am_ObjectData modes);
          objectMetadata = AccessModeToRpc (am_ObjectMetadata modes);
          bucketMetadata = AccessModeToRpc (am_BucketMetadata modes) in
      case errors_Join [error_of objectData, error_of objectMetadata, error_of bucketMetadata] of
        Some err \<Rightarrow> Inl (wrapf (GrantMsg AccessModeParseFailed) [bca_BucketClaimName claimRef] err)
      | None \<Rightarrow>
          Inr \<lparr>bg_ObjectDataMode = mode_of objectData, bg_ObjectMetadataMode = mode_of objectMetadata,
               bg_BucketMetadataMode = mode_of bucketMetadata,
               bg_AccessSecretName = bca_AccessSecretName claimRef\<rparr>)"

fun access_config_loop ::
  "(string \<times> string) list \<Rightarrow> BucketClaimAccess list \<Rightarrow> error list \<Rightarrow>
   (string \<times> bucketGrantAccessConfig) list \<Rightarrow> error list \<times> (string \<times> bucketGrantAccessConfig) list" where
  "access_config_loop bucketIds [] errs cfgs = (errs, cfgs)"
| "access_config_loop bucketIds (claimRef # refs) errs cfgs =
     (case map_of bucketIds (bca_BucketClaimName claimRef) of
        None \<Rightarrow> access_config_loop bucketIds refs
          (errs @ [errf (GrantMsg ClaimNotMapped) [bca_BucketClaimName claimRef]]) cfgs
      | Some bucketID \<Rightarrow>
          if \<not> HasAnyAccessMode (bca_AccessModes claimRef) then
            access_config_loop bucketIds refs
              (errs @ [errf (GrantMsg NoAccessModesSet) [bca_BucketClaimName claimRef]]) cfgs
          else
            (case claim_access_config claimRef of
               Inl err \<Rightarrow> access_config_loop bucketIds refs (errs @ [err]) cfgs
             | Inr cfg \<Rightarrow> access_config_loop bucketIds refs errs (AList.update bucketID cfg cfgs)))"

definition generateInternalAccessedBucketConfigs ::
  "BucketAccess \<Rightarrow> error + (string \<times> bucketGrantAccessConfig) list" where
  "generateInternalAccessedBucketConfigs access =
     (let (errs, cfgs) = access_config_loop (bucket_ids_by_claim (ast_AccessedBuckets (a_Status access)))
            (as_BucketClaims (a_Spec access)) [] [] in
      case join_errs (Text (GrantMsg AccessConfigFailed) [] []) errs of
        Some err \<Rightarrow> Inl (NonRetryableError err)
      | None \<Rightarrow> Inr cfgs)"

definition newInternalGrantAccessConfig ::
  "BucketAccess \<Rightarrow> (string \<times> Secret) list \<Rightarrow> error + internalGrantAccessConfig" where
  "newInternalGrantAccessConfig access secretsByName =
     (case newInternalAccessConfig access of
        Inl err \<Rightarrow> Inl err
      | Inr sharedCfg \<Rightarrow>
          (case generateInternalAccessedBucketConfigs access of
             Inl err \<Rightarrow> Inl err
           | Inr accessConfigsByBucketId \<Rightarrow>
               Inr \<lparr>iac_Protocol = iac_Protocol sharedCfg,
                    iac_AuthenticationType = iac_AuthenticationType sharedCfg,
                    iac_ServiceAccountName = iac_ServiceAccountName sharedCfg,
                    iac_Parameters = iac_Parameters sharedCfg,
                    igc_AccountName = ''ba-'' @ om_UID (a_Meta access),
                    igc_AccessConfigsByBucketId = accessConfigsByBucketId,
                    igc_SecretsByName = secretsByName\<rparr>))"

definition grant_bucket :: "string \<times> bucketGrantAccessConfig \<Rightarrow> GrantAccessedBucket" where
  "grant_bucket e =
     \<lparr>gab_BucketId = fst e, gab_ObjectDataAccessMode = bg_ObjectDataMode (snd e),
      gab_ObjectMetadataAccessMode = bg_ObjectMetadataMode (snd e),
      gab_BucketMetadataAccessMode = bg_BucketMetadataMode (snd e)\<rparr>"

definition RpcGrantBucketsList :: "env \<Rightarrow> internalGrantAccessConfig \<Rightarrow> GrantAccessedBucket list prog" where
  "RpcGrantBucketsList E d = do {
     ids \<leftarrow> Range E (igc_AccessConfigsByBucketId d);
     ret (map grant_bucket (range_entries (igc_AccessConfigsByBucketId d) ids))
   }"

fun revoke_list :: "AccessedBucket list \<Rightarrow> error + string list" where
  "revoke_list [] = Inr []"
| "revoke_list (ab # buckets) =
     (if ab_BucketID ab = [] then
        Inl (NonRetryableError (errf (GrantMsg AccessedBucketMissingID) [ab_BucketClaimName ab]))
      else
        (case revoke_list buckets of
           Inl err \<Rightarrow> Inl err
         | Inr ids \<Rightarrow> Inr (ab_BucketID ab # ids)))"

definition newInternalRevokeAccessConfig :: "BucketAccess \<Rightarrow> error + internalRevokeAccessConfig" where
  "newInternalRevokeAccessConfig access =
     (case newInternalAccessConfig access of
        Inl err \<Rightarrow> Inl err
      | Inr sharedCfg \<Rightarrow>
          if ast_AccountID (a_Status access) = [] then
            Inl (NonRetryableError (errf (GrantMsg NoAccountID) []))
          else
            (case revoke_list (ast_AccessedBuckets (a_Status access)) of
               Inl err \<Rightarrow> Inl err
             | Inr revokeList \<Rightarrow>
                 Inr \<lparr>iac_Protocol = iac_Protocol sharedCfg,
                      iac_AuthenticationType = iac_AuthenticationType sharedCfg,
                      iac_ServiceAccountName = iac_ServiceAccountName sharedCfg,
                      iac_Parameters = iac_Parameters sharedCfg,
                      irc_AccountID = ast_AccountID (a_Status access),
                      irc_RevokeBucketList = revokeList\<rparr>))"

section \<open>The driver's answer to a grant\<close>

record grantedAccessApiDetails =
  ga_AccountId :: string
  ga_SharedCredentialInfo :: "(string \<times> string) list"
  ga_BucketInfoByBucketId :: "(string \<times> (string \<times> string) list) list"

fun granted_buckets_loop ::
  "ValidationConfig \<Rightarrow> nat \<Rightarrow> GrantBucketInfo list \<Rightarrow> error list \<Rightarrow>
   (string \<times> (string \<times> string) list) list \<Rightarrow> error list \<times> (string \<times> (string \<times> string) list) list" where
  "granted_buckets_loop validation i [] errs infos = (errs, infos)"
| "granted_buckets_loop validation i (bkt # bkts) errs infos =
     (if gbi_BucketId bkt = [] then
        granted_buckets_loop validation (i + 1) bkts
          (errs @ [errf (GrantMsg MissingBucketIDAtIndex) [decimal i]]) infos
      else
        (case BucketInfoToApi (gbi_BucketInfo bkt) (Some validation) of
           Inl err \<Rightarrow> granted_buckets_loop validation (i + 1) bkts
             (errs @ [wrapf (GrantMsg InvalidBucketInfoAtIndex) [decimal i] err]) infos
         | Inr (_, info) \<Rightarrow> granted_buckets_loop validation (i + 1) bkts errs
             (AList.update (gbi_BucketId bkt) info infos)))"

definition translateDriverGrantBucketAccessResponseToApi ::
  "DriverGrantBucketAccessResponse \<Rightarrow> ValidationConfig \<Rightarrow> error + grantedAccessApiDetails" where
  "translateDriverGrantBucketAccessResponseToApi resp validation =
     (let errs = (if grr_AccountId resp = [] then [errf (GrantMsg MissingAccountID) []] else []);
          creds = CredentialsToApi (grr_Credentials resp) validation;
          errs = (case creds of
                    Inl err \<Rightarrow> errs @ [wrapf (GrantMsg InvalidCredentials) [] err]
                  | Inr _ \<Rightarrow> errs);
          credInfo = (case creds of Inl _ \<Rightarrow> [] | Inr info \<Rightarrow> info);
          (errs, infos) = granted_buckets_loop validation 0 (grr_Buckets resp) errs [] in
      case join_errs (Text (GrantMsg GrantResponseInvalid) [] []) errs of
        Some err \<Rightarrow> Inl err
      | None \<Rightarrow> Inr \<lparr>ga_AccountId = grr_AccountId resp, ga_SharedCredentialInfo = credInfo,
                      ga_BucketInfoByBucketId = infos\<rparr>)"

text \<open>The keys of one map that are missing in another, in the order they are visited.\<close>

definition missing_keys :: "(string \<times> 'v) list \<Rightarrow> string list \<Rightarrow> string list" where
  "missing_keys m ks = filter (\<lambda>k. map_of m k = None) ks"

definition validateGrantedAccess ::
  "env \<Rightarrow> internalGrantAccessConfig \<Rightarrow> grantedAccessApiDetails \<Rightarrow> error option prog" where
  "validateGrantedAccess E grantCfg granted = do {
     wanted \<leftarrow> Range E (igc_AccessConfigsByBucketId grantCfg);
     let errs = map (\<lambda>bucketId. errf (GrantMsg GrantMissingForBucket) [bucketId])
       (missing_keys (ga_BucketInfoByBucketId granted) wanted);
     given \<leftarrow> Range E (ga_BucketInfoByBucketId granted);
     let errs = errs @ map (\<lambda>bucketId. errf (GrantMsg GrantForUnknownBucket) [bucketId])
       (missing_keys (igc_AccessConfigsByBucketId grantCfg) given);
     ret (join_errs (Text (GrantMsg GrantInvalid) [] []) errs)
   }"

section \<open>Access Secrets\<close>

text \<open>The data of a Secret: the shared credentials, then the info of its bucket.\<close>

definition secret_data :: "(string \<times> string) list \<Rightarrow> (string \<times> string) list \<Rightarrow> (string \<times> string) list" where
  "secret_data credentials bucketInfo =
     MergeApiInfoIntoStringMap (Some bucketInfo) (MergeApiInfoIntoStringMap (Some credentials) [])"

fun update_secrets_loop ::
  "env \<Rightarrow> internalGrantAccessConfig \<Rightarrow> (string \<times> string) list \<Rightarrow> (string \<times> (string \<times> string) list) list \<Rightarrow>
   (string \<times> Secret) list \<Rightarrow> error list \<Rightarrow> (error list \<times> (string \<times> Secret) list) prog" where
  "update_secrets_loop E grantCfg credentials [] secrets errs = ret (errs, secrets)"
| "update_secrets_loop E grantCfg credentials ((bucketId, bucketInfo) # rest) secrets errs =
     (case map_of (igc_AccessConfigsByBucketId grantCfg) bucketId of
        None \<Rightarrow> update_secrets_loop E grantCfg credentials rest secrets
          (errs @ [NonRetryableError (errf (GrantMsg UnknownBucketID) [bucketId])])
      | Some cfg \<Rightarrow>
          (case map_of secrets (bg_AccessSecretName cfg) of
             None \<Rightarrow> update_secrets_loop E grantCfg credentials rest secrets
               (errs @ [NonRetryableError (errf (GrantMsg SecretLookupFailed) [bg_AccessSecretName cfg])])
           | Some sec \<Rightarrow> do {
               let sec = sec\<lparr>sec_StringData := Some (secret_data credentials bucketInfo)\<rparr>;
               r \<leftarrow> Update_Secret E sec;
               case r of
                 Inl _ \<Rightarrow> update_secrets_loop E grantCfg credentials rest
                   (AList.update (bg_AccessSecretName cfg) sec secrets)
                   (errs @ [errf (GrantMsg UpdateSecretFailed) [om_Name (sec_Meta sec)]])
               | Inr sec \<Rightarrow> update_secrets_loop E grantCfg credentials rest
                   (AList.update (bg_AccessSecretName cfg) sec secrets) errs
             }))"

definition updateSecretsWithGrantedInfo ::
  "env \<Rightarrow> internalGrantAccessConfig \<Rightarrow> grantedAccessApiDetails \<Rightarrow> error option prog" where
  "updateSecretsWithGrantedInfo E grantCfg granted = do {
     ids \<leftarrow> Range E (ga_BucketInfoByBucketId granted);
     (errs, _) \<leftarrow> update_secrets_loop E grantCfg (ga_SharedCredentialInfo granted)
       (range_entries (ga_BucketInfoByBucketId granted) ids) (igc_SecretsByName grantCfg) [];
     ret (join_errs (Text (GrantMsg UpdateSecretsFailed) [] []) errs)
   }"

definition setAccessSecretRequiredMetadata :: "Secret \<Rightarrow> Secret" where
  "setAccessSecretRequiredMetadata secret = secret\<lparr>
     sec_Meta := snd (AddFinalizer (sec_Meta secret) ProtectionFinalizer),
     sec_Type := SecretTypeOpaque\<rparr>"

definition createNewOwnedAccessSecret :: "env \<Rightarrow> string \<Rightarrow> BucketAccess \<Rightarrow> (error + Secret) prog" where
  "createNewOwnedAccessSecret E secretName owningAccess =
     (let s = zero_Secret\<lparr>sec_Meta := zero_meta\<lparr>om_Namespace := om_Namespace (a_Meta owningAccess),
        om_Name := secretName\<rparr>\<rparr> in
      case SetControllerReference (a_Meta owningAccess) (sec_Meta s) True of
        Inl err \<Rightarrow> ret (Inl err)
      | Inr meta \<Rightarrow> do {
          let s = setAccessSecretRequiredMetadata (s\<lparr>sec_Meta := meta\<rparr>);
          r \<leftarrow> Create_Secret E s;
          case r of
            Inl err \<Rightarrow> ret (Inl (ApiError err))
          | Inr s \<Rightarrow> ret (Inr s)
        })"

definition updateExistingAccessSecretMetadata ::
  "env \<Rightarrow> Secret \<Rightarrow> BucketAccess \<Rightarrow> (error + Secret) prog" where
  "updateExistingAccessSecretMetadata E secret owningAccess =
     (if \<not> IsControlledBy (sec_Meta secret) (a_Meta owningAccess) then
        ret (Inl (NonRetryableError (errf (GrantMsg SecretNotOwned) [om_Name (sec_Meta secret)])))
      else do {
        let secret = setAccessSecretRequiredMetadata secret;
        r \<leftarrow> Update_Secret E secret;
        case r of
          Inl err \<Rightarrow> ret (Inl (ApiError err))
        | Inr secret \<Rightarrow> ret (Inr secret)
      })"

abbreviation secret_key :: "BucketAccess \<Rightarrow> string \<Rightarrow> NamespacedName" where
  "secret_key access secretName \<equiv> \<lparr>nn_Namespace = om_Namespace (a_Meta access), nn_Name = secretName\<rparr>"

fun reserve_loop ::
  "env \<Rightarrow> BucketAccess \<Rightarrow> BucketClaimAccess list \<Rightarrow> (string \<times> Secret) list \<Rightarrow> error list \<Rightarrow>
   (error list \<times> (string \<times> Secret) list) prog" where
  "reserve_loop E access [] secrets errs = ret (errs, secrets)"
| "reserve_loop E access (claimRef # refs) secrets errs =
     (let secretName = bca_AccessSecretName claimRef in
      if map_of secrets secretName \<noteq> None then
        reserve_loop E access refs secrets
          (errs @ [NonRetryableError (errf (GrantMsg SecretNameReused) [secretName])])
      else do {
        r \<leftarrow> Get_Secret E (secret_key access secretName);
        res \<leftarrow> (case r of
            Inl err \<Rightarrow>
              if \<not> IsNotFound err then ret (Inl (ApiError err))
              else createNewOwnedAccessSecret E secretName access
          | Inr existingSecret \<Rightarrow> updateExistingAccessSecretMetadata E existingSecret access);
        case res of
          Inl err \<Rightarrow> reserve_loop E access refs secrets (errs @ [err])
        | Inr secret \<Rightarrow> reserve_loop E access refs (AList.update secretName secret secrets) errs
      })"

definition reserveAccessSecrets :: "env \<Rightarrow> BucketAccess \<Rightarrow> (error + (string \<times> Secret) list) prog" where
  "reserveAccessSecrets E access = do {
     (errs, secretsByName) \<leftarrow> reserve_loop E access (as_BucketClaims (a_Spec access)) [] [];
     case join_errs (Text (GrantMsg ReserveSecretsFailed) [] []) errs of
       Some err \<Rightarrow> ret (Inl err)
     | None \<Rightarrow>
         if length secretsByName \<noteq> length (as_BucketClaims (a_Spec access)) then
           ret (Inl (errf (GrantMsg SecretsNotReserved) []))
         else ret (Inr secretsByName)
   }"

fun delete_secrets_loop ::
  "env \<Rightarrow> BucketAccess \<Rightarrow> BucketClaimAccess list \<Rightarrow> error list \<Rightarrow> error list prog" where
  "delete_secrets_loop E access [] errs = ret errs"
| "delete_secrets_loop E access (claimRef # refs) errs = do {
     r \<leftarrow> Get_Secret E (secret_key access (bca_AccessSecretName claimRef));
     case r of
       Inl err \<Rightarrow>
         if IsNotFound err then delete_secrets_loop E access refs errs
         else delete_secrets_loop E access refs (errs @ [ApiError err])
     | Inr secret \<Rightarrow>
         if \<not> IsControlledBy (sec_Meta secret) (a_Meta access) then delete_secrets_loop E access refs errs
         else do {
           let secret = secret\<lparr>sec_Meta := RemoveFinalizer (sec_Meta secret) ProtectionFinalizer\<rparr>;
           u \<leftarrow> Update_Secret E secret;
           case u of
             Inl err \<Rightarrow> delete_secrets_loop E access refs
               (errs @ [wrapf (GrantMsg RemoveSecretFinalizerFailed) [] (ApiError err)])
           | Inr secret \<Rightarrow> do {
               d \<leftarrow> Delete_Secret E secret;
               case d of
                 Some err \<Rightarrow> delete_secrets_loop E access refs (errs @ [ApiError err])
               | None \<Rightarrow> delete_secrets_loop E access refs errs
             }
         }
   }"

definition deleteOwnedAccessSecrets :: "env \<Rightarrow> BucketAccess \<Rightarrow> error option prog" where
  "deleteOwnedAccessSecrets E access = do {
     errs \<leftarrow> delete_secrets_loop E access (as_BucketClaims (a_Spec access)) [];
     ret (join_errs (Text (GrantMsg DeleteSecretsFailed) [] []) errs)
   }"

section \<open>The accessed Buckets\<close>

definition bucket_access_problems :: "DriverInfo \<Rightarrow> Bucket \<Rightarrow> string \<Rightarrow> error list" where
  "bucket_access_problems driver b expectedBucketID =
     (if has_annotation (b_Meta b) BucketClaimBeingDeletedAnnotation
      then [errf (GrantMsg BucketClaimDeleting) [om_Name (b_Meta b)]] else []) @
     (if \<not> IsZero (om_DeletionTimestamp (b_Meta b))
      then [errf (GrantMsg BucketDeleting) [om_Name (b_Meta b)]] else []) @
     (if bst_BucketID (b_Status b) = []
      then [errf (GrantMsg BucketHasNoID) [om_Name (b_Meta b)]] else []) @
     (if bst_BucketID (b_Status b) \<noteq> expectedBucketID
      then [errf (GrantMsg BucketIDMismatch)
        [om_Name (b_Meta b), bst_BucketID (b_Status b), expectedBucketID]] else []) @
     (if bs_DriverName (b_Spec b) \<noteq> di_Name driver
      then [errf (GrantMsg BucketDriverMismatch)
        [om_Name (b_Meta b), bs_DriverName (b_Spec b), di_Name driver]] else [])"

definition validateBucketIsReadyForAccess :: "DriverInfo \<Rightarrow> Bucket \<Rightarrow> string \<Rightarrow> error option" where
  "validateBucketIsReadyForAccess driver b expectedBucketID =
     join_errs (Text (GrantMsg BucketsNotReady) [] []) (bucket_access_problems driver b expectedBucketID)"

fun validate_buckets_loop ::
  "env \<Rightarrow> DriverInfo \<Rightarrow> AccessedBucket list \<Rightarrow> error list \<Rightarrow> error list prog" where
  "validate_buckets_loop E driver [] errs = ret errs"
| "validate_buckets_loop E driver (ab # buckets) errs = do {
     r \<leftarrow> Get_Bucket E \<lparr>nn_Namespace = [], nn_Name = ab_BucketName ab\<rparr>;
     case r of
       Inl err \<Rightarrow>
         if IsNotFound err then
           validate_buckets_loop E driver buckets (errs @ [NonRetryableError (ApiError err)])
         else validate_buckets_loop E driver buckets (errs @ [ApiError err])
     | Inr bkt \<Rightarrow>
         (case validateBucketIsReadyForAccess driver bkt (ab_BucketID ab) of
            Some err \<Rightarrow> validate_buckets_loop E driver buckets (errs @ [NonRetryableError err])
          | None \<Rightarrow> validate_buckets_loop E driver buckets errs)
   }"

definition getAndValidateAllAccessedBuckets ::
  "env \<Rightarrow> DriverInfo \<Rightarrow> BucketAccess \<Rightarrow> error option prog" where
  "getAndValidateAllAccessedBuckets E driver access = do {
     errs \<leftarrow> validate_buckets_loop E driver (ast_AccessedBuckets (a_Status access)) [];
     ret (join_errs (Text (GrantMsg GetAccessedBucketsFailed) [] []) errs)
   }"

section \<open>Reconcile\<close>

definition grant_request ::
  "internalGrantAccessConfig \<Rightarrow> GrantAccessedBucket list \<Rightarrow> DriverGrantBucketAccessRequest" where
  "grant_request grantCfg buckets =
     \<lparr>gr_AccountName = igc_AccountName grantCfg, gr_Protocol = iac_Protocol grantCfg,
      gr_AuthenticationType = iac_AuthenticationType grantCfg,
      gr_ServiceAccountName = iac_ServiceAccountName grantCfg,
      gr_Parameters = iac_Parameters grantCfg, gr_Buckets = buckets\<rparr>"

definition revoke_request :: "BucketAccess \<Rightarrow> internalRevokeAccessConfig \<Rightarrow> DriverRevokeBucketAccessRequest" where
  "revoke_request access revokeCfg =
     \<lparr>rv_AccountId = ast_AccountID (a_Status access), rv_Protocol = iac_Protocol revokeCfg,
      rv_AuthenticationType = iac_AuthenticationType revokeCfg,
      rv_ServiceAccountName = iac_ServiceAccountName revokeCfg,
      rv_Parameters = iac_Parameters revokeCfg, rv_Buckets = irc_RevokeBucketList revokeCfg\<rparr>"

definition driverRevokeAccess :: "env \<Rightarrow> BucketAccess \<Rightarrow> error option prog" where
  "driverRevokeAccess E access =
     (case newInternalRevokeAccessConfig access of
        Inl err \<Rightarrow> ret (Some (wrapf (GrantMsg RevokeConfigFailed) [] err))
      | Inr revokeCfg \<Rightarrow> do {
          r \<leftarrow> DriverRevokeBucketAccess E (revoke_request access revokeCfg);
          case r of
            Some err \<Rightarrow> ret (Some (rpc_failure err))
          | None \<Rightarrow> ret None
        })"

definition access_not_ready :: "BucketAccess \<Rightarrow> BucketAccess" where
  "access_not_ready access = access\<lparr>a_Status := (a_Status access)\<lparr>
     ast_ReadyToUse := Some False, ast_Error := None\<rparr>\<rparr>"

text \<open>The last step of the deletion: the hand-back annotation.\<close>

definition handBack :: "env \<Rightarrow> BucketAccess \<Rightarrow> (error option \<times> BucketAccess) prog" where
  "handBack E access = do {
     let access = access\<lparr>a_Meta := add_annotation SidecarCleanupFinishedAnnotation (a_Meta access)\<rparr>;
     r \<leftarrow> Update_BucketAccess E access;
     case r of
       Inl err \<Rightarrow> ret (Some (wrapf (GrantMsg UpdateAfterRevokeFailed) [] (ApiError err)), access)
     | Inr access \<Rightarrow> ret (None, access)
   }"

definition Sidecar_Access_reconcileDelete :: "env \<Rightarrow> BucketAccess \<Rightarrow> (error option \<times> BucketAccess) prog" where
  "Sidecar_Access_reconcileDelete E access = do {
     let access = access_not_ready access;
     r \<leftarrow> StatusUpdate_BucketAccess E access;
     case r of
       Inl err \<Rightarrow> ret (Some (wrapf (GrantMsg AccessStatusBeforeDeletionFailed) [] (ApiError err)), access)
     | Inr access \<Rightarrow> do {
         err \<leftarrow> deleteOwnedAccessSecrets E access;
         case err of
           Some err \<Rightarrow> ret (Some err, access)
         | None \<Rightarrow> do {
             err \<leftarrow> (if ast_AccountID (a_Status access) \<noteq> [] then driverRevokeAccess E access
               else ret None);
             case err of
               Some err \<Rightarrow> ret (Some err, access)
             | None \<Rightarrow> handBack E access
           }
       }
   }"

definition Sidecar_Access_addFinalizer :: "env \<Rightarrow> BucketAccess \<Rightarrow> (error option \<times> BucketAccess) prog" where
  "Sidecar_Access_addFinalizer E access =
     (let (didAdd, meta) = AddFinalizer (a_Meta access) ProtectionFinalizer;
          access = access\<lparr>a_Meta := meta\<rparr> in
      if didAdd then do {
        r \<leftarrow> Update_BucketAccess E access;
        case r of
          Inl err \<Rightarrow> ret (Some (wrapf AddFinalizerFailed [] (ApiError err)), access)
        | Inr access \<Rightarrow> ret (None, access)
      } else ret (None, access))"

text \<open>The error returned for a failed grant RPC.\<close>

definition grant_failure :: "rpc_error \<Rightarrow> error" where
  "grant_failure err =
     (if fst err = OutOfRange then
        NonRetryableError (wrapf (GrantMsg MultiBucketUnsupported) [] (RpcError err))
      else rpc_failure err)"

definition granted_access :: "BucketAccess \<Rightarrow> string \<Rightarrow> BucketAccess" where
  "granted_access access accountId = access\<lparr>a_Status := (a_Status access)\<lparr>
     ast_AccountID := accountId, ast_ReadyToUse := Some True, ast_Error := None\<rparr>\<rparr>"

text \<open>The part of \<open>reconcile\<close> after a successful grant RPC.\<close>

definition publishAccess ::
  "env \<Rightarrow> BucketAccess \<Rightarrow> internalGrantAccessConfig \<Rightarrow> DriverGrantBucketAccessResponse \<Rightarrow>
   (error option \<times> BucketAccess) prog" where
  "publishAccess E access grantCfg resp =
     (case translateDriverGrantBucketAccessResponseToApi resp
             \<lparr>vc_ExpectedProtocol = as_Protocol (a_Spec access),
              vc_AuthenticationType = ast_AuthenticationType (a_Status access)\<rparr> of
        Inl err \<Rightarrow> ret (Some (NonRetryableError err), access)
      | Inr grantDetails \<Rightarrow> do {
          err \<leftarrow> validateGrantedAccess E grantCfg grantDetails;
          case err of
            Some err \<Rightarrow> ret (Some (NonRetryableError err), access)
          | None \<Rightarrow> do {
              err \<leftarrow> updateSecretsWithGrantedInfo E grantCfg grantDetails;
              case err of
                Some err \<Rightarrow> ret (Some err, access)
              | None \<Rightarrow> do {
                  let access = granted_access access (ga_AccountId grantDetails);
                  r \<leftarrow> StatusUpdate_BucketAccess E access;
                  case r of
                    Inl err \<Rightarrow> ret (Some (wrapf (GrantMsg StatusAfterGrantFailed) [] (ApiError err)), access)
                  | Inr access \<Rightarrow> ret (None, access)
                }
            }
        })"

text \<open>The grant RPC, with the reserved Secrets.\<close>

definition grantAccess ::
  "env \<Rightarrow> BucketAccess \<Rightarrow> (string \<times> Secret) list \<Rightarrow> (error option \<times> BucketAccess) prog" where
  "grantAccess E access secretsByName =
     (case newInternalGrantAccessConfig access secretsByName of
        Inl err \<Rightarrow> ret (Some (wrapf (GrantMsg GrantConfigFailed) [] err), access)
      | Inr grantCfg \<Rightarrow> do {
          buckets \<leftarrow> RpcGrantBucketsList E grantCfg;
          r \<leftarrow> DriverGrantBucketAccess E (grant_request grantCfg buckets);
          case r of
            Inl err \<Rightarrow> ret (Some (grant_failure err), access)
          | Inr resp \<Rightarrow> publishAccess E access grantCfg resp
        })"

text \<open>The part of \<open>reconcile\<close> for an initialized access that is not being deleted.\<close>

definition Sidecar_Access_reconcileLive ::
  "env \<Rightarrow> DriverInfo \<Rightarrow> BucketAccess \<Rightarrow> (error option \<times> BucketAccess) prog" where
  "Sidecar_Access_reconcileLive E driver access = do {
     (err, access) \<leftarrow> Sidecar_Access_addFinalizer E access;
     case err of
       Some err \<Rightarrow> ret (Some err, access)
     | None \<Rightarrow> do {
         err \<leftarrow> getAndValidateAllAccessedBuckets E driver access;
         case err of
           Some err \<Rightarrow> ret (Some err, access)
         | None \<Rightarrow> do {
             res \<leftarrow> reserveAccessSecrets E access;
             case res of
               Inl err \<Rightarrow> ret (Some err, access)
             | Inr secretsByName \<Rightarrow> grantAccess E access secretsByName
           }
       }
   }"

definition Sidecar_Access_reconcile ::
  "env \<Rightarrow> DriverInfo \<Rightarrow> BucketAccess \<Rightarrow> (error option \<times> BucketAccess) prog" where
  "Sidecar_Access_reconcile E driver access =
     (if ast_DriverName (a_Status access) \<noteq> di_Name driver then ret (None, access)
      else if \<not> IsZero (om_DeletionTimestamp (a_Meta access)) then Sidecar_Access_reconcileDelete E access
      else
        (case SidecarRequirementsPresent (a_Status access) of
           Inl err \<Rightarrow> ret (Some (NonRetryableError (wrapf (AccessMsg DegradedAccess) [] err)), access)
         | Inr initialized \<Rightarrow>
             if \<not> initialized then
               ret (Some (NonRetryableError (errf (GrantMsg ManagedByControllerError) [])), access)
             else Sidecar_Access_reconcileLive E driver access))"

text \<open>\<open>err = fmt.Errorf("COSI Sidecar error: %w", err)\<close>.\<close>

definition sidecar_error :: "error \<Rightarrow> error" where
  "sidecar_error err = wrapf (GrantMsg SidecarError) [] err"

definition Sidecar_Access_finish :: "env \<Rightarrow> error option \<Rightarrow> BucketAccess \<Rightarrow> reconcile_result prog" where
  "Sidecar_Access_finish E err access =
     (case err of
        Some err \<Rightarrow> do {
          let err = sidecar_error err;
          let access = access_ready_set access;
          now \<leftarrow> Now E;
          let access = access\<lparr>a_Status := (a_Status access)\<lparr>
            ast_Error := Some (NewTimestampedError now (e_ErrorText E err))\<rparr>\<rparr>;
          u \<leftarrow> StatusUpdate_BucketAccess E access;
          case u of
            Inl updErr \<Rightarrow> ret (Retry err)
          | Inr _ \<Rightarrow> ret (classify err)
        }
      | None \<Rightarrow> ret Done)"

definition Sidecar_Access_Reconcile ::
  "env \<Rightarrow> DriverInfo \<Rightarrow> NamespacedName \<Rightarrow> reconcile_result prog" where
  "Sidecar_Access_Reconcile E driver req = do {
     r \<leftarrow> Get_BucketAccess E req;
     case r of
       Inl err \<Rightarrow> ret (if IsNotFound err then Done else Retry (ApiError err))
     | Inr access \<Rightarrow>
         if \<not> ManagedBySidecar access then ret Done
         else do {
           (err, access) \<leftarrow> Sidecar_Access_reconcile E driver access;
           Sidecar_Access_finish E err access
         }
   }"

end
