(* ===== verification/Sidecar_BucketAccess_Contract.thy ===== *)
theory Sidecar_BucketAccess_Contract
  imports Sidecar_BucketAccess
begin

text \<open>
  The contract of the Sidecar's BucketAccess reconciler: for every kind of call, what the history
  before it must show, and the proof that every run keeps it in every environment. The steps of the
  run are treated in the order of the code: validating the Buckets, reserving the Secrets,
  granting, filling the Secrets, publishing, and the deletion.
\<close>

section \<open>The contract of the reconciler\<close>

text \<open>The Secret the Sidecar creates for an access: controlled by it, protected and empty.\<close>

definition new_access_secret :: "BucketAccess \<Rightarrow> string \<Rightarrow> Secret" where
  "new_access_secret a name = setAccessSecretRequiredMetadata (zero_Secret\<lparr>sec_Meta := zero_meta\<lparr>
     om_Namespace := om_Namespace (a_Meta a), om_Name := name,
     om_OwnerReferences := [access_owner_reference True (a_Meta a)]\<rparr>\<rparr>)"

definition access_secret_names :: "BucketAccess \<Rightarrow> string list" where
  "access_secret_names a = map bca_AccessSecretName (as_BucketClaims (a_Spec a))"

text \<open>A Secret of the access as the server showed it, controlled by the access.\<close>

definition own_secret :: "history \<Rightarrow> BucketAccess \<Rightarrow> string \<Rightarrow> Secret \<Rightarrow> bool" where
  "own_secret tr a name s \<longleftrightarrow> name \<in> set (access_secret_names a) \<and>
     (secret_key a name, s) \<in> set (secrets_got tr) \<and> IsControlledBy (sec_Meta s) (a_Meta a)"

text \<open>The server's answer to a successful reservation: a creation, or an update of an owned Secret.\<close>

definition secret_reserved :: "history \<Rightarrow> BucketAccess \<Rightarrow> string \<Rightarrow> Secret \<Rightarrow> bool" where
  "secret_reserved tr a name s \<longleftrightarrow>
     secret_key a name \<in> set (secrets_missing tr) \<and> (new_access_secret a name, s) \<in> set (secrets_created tr) \<or>
     (\<exists>s0. own_secret tr a name s0 \<and> (setAccessSecretRequiredMetadata s0, s) \<in> set (secrets_updated tr))"

definition unprotected :: "Secret \<Rightarrow> Secret" where
  "unprotected s = s\<lparr>sec_Meta := RemoveFinalizer (sec_Meta s) ProtectionFinalizer\<rparr>"

text \<open>A Secret of the access is gone, not owned, or deleted.\<close>

definition secret_cleaned :: "history \<Rightarrow> BucketAccess \<Rightarrow> string \<Rightarrow> bool" where
  "secret_cleaned tr a name \<longleftrightarrow>
     secret_key a name \<in> set (secrets_missing tr) \<or>
     (\<exists>s. (secret_key a name, s) \<in> set (secrets_got tr) \<and> \<not> IsControlledBy (sec_Meta s) (a_Meta a)) \<or>
     (\<exists>s s'. own_secret tr a name s \<and> (unprotected s, s') \<in> set (secrets_updated tr) \<and>
        s' \<in> set (secrets_deleted tr))"

definition secrets_cleaned :: "history \<Rightarrow> BucketAccess \<Rightarrow> bool" where
  "secrets_cleaned tr a \<longleftrightarrow> (\<forall>name \<in> set (access_secret_names a). secret_cleaned tr a name)"

definition bucket_accessible :: "DriverInfo \<Rightarrow> Bucket \<Rightarrow> string \<Rightarrow> bool" where
  "bucket_accessible driver b bucketID \<longleftrightarrow>
     \<not> has_annotation (b_Meta b) BucketClaimBeingDeletedAnnotation \<and>
     IsZero (om_DeletionTimestamp (b_Meta b)) \<and> bst_BucketID (b_Status b) = bucketID \<and> bucketID \<noteq> [] \<and>
     bs_DriverName (b_Spec b) = di_Name driver"

definition buckets_accessible :: "history \<Rightarrow> DriverInfo \<Rightarrow> BucketAccess \<Rightarrow> bool" where
  "buckets_accessible tr driver a \<longleftrightarrow> (\<forall>ab \<in> set (ast_AccessedBuckets (a_Status a)).
     \<exists>b. (ab_BucketName ab, b) \<in> set (buckets_got tr) \<and> bucket_accessible driver b (ab_BucketID ab))"

text \<open>The resource a run was started for.\<close>

definition ours :: "DriverInfo \<Rightarrow> BucketAccess \<Rightarrow> bool" where
  "ours driver a \<longleftrightarrow> ManagedBySidecar a \<and> ast_DriverName (a_Status a) = di_Name driver"

definition run_live :: "DriverInfo \<Rightarrow> history \<Rightarrow> bool" where
  "run_live driver tr \<longleftrightarrow> (\<exists>a \<in> set (accesses_read tr). ours driver a \<and>
     IsZero (om_DeletionTimestamp (a_Meta a)) \<and> SidecarRequirementsPresent (a_Status a) = Inr True)"

definition run_deleting :: "DriverInfo \<Rightarrow> history \<Rightarrow> bool" where
  "run_deleting driver tr \<longleftrightarrow> (\<exists>a \<in> set (accesses_read tr). ours driver a \<and>
     \<not> IsZero (om_DeletionTimestamp (a_Meta a))) \<and> accesses_unready tr \<noteq> []"

abbreviation access_validation :: "BucketAccess \<Rightarrow> ValidationConfig" where
  "access_validation a \<equiv> \<lparr>vc_ExpectedProtocol = as_Protocol (a_Spec a),
     vc_AuthenticationType = ast_AuthenticationType (a_Status a)\<rparr>"

text \<open>The Secret for one granted bucket was filled with the credentials and the info of that bucket.\<close>

definition secret_filled ::
  "history \<Rightarrow> BucketAccess \<Rightarrow> (string \<times> bucketGrantAccessConfig) list \<Rightarrow> (string \<times> string) list \<Rightarrow>
   string \<times> (string \<times> string) list \<Rightarrow> bool" where
  "secret_filled tr a cfgs creds = (\<lambda>(bucketId, info). \<exists>cfg s s'. map_of cfgs bucketId = Some cfg \<and>
     secret_reserved tr a (bg_AccessSecretName cfg) s \<and>
     (s\<lparr>sec_StringData := Some (secret_data creds info)\<rparr>, s') \<in> set (secrets_updated tr))"

text \<open>The driver confirmed a grant for exactly the configured buckets.\<close>

definition grant_confirmed ::
  "history \<Rightarrow> BucketAccess \<Rightarrow> (string \<times> bucketGrantAccessConfig) list \<Rightarrow> grantedAccessApiDetails \<Rightarrow> bool" where
  "grant_confirmed tr a cfgs d \<longleftrightarrow> generateInternalAccessedBucketConfigs a = Inr cfgs \<and>
     (\<exists>(q, resp) \<in> set (accesses_granted tr).
        mset (gr_Buckets q) = mset (map grant_bucket cfgs) \<and>
        translateDriverGrantBucketAccessResponseToApi resp (access_validation a) = Inr d) \<and>
     fst ` set (ga_BucketInfoByBucketId d) = fst ` set cfgs"

definition same_grant :: "BucketAccess \<Rightarrow> BucketAccess \<Rightarrow> bool" where
  "same_grant a a' \<longleftrightarrow> a_Spec a = a_Spec a' \<and> same_version (a_Meta a) (a_Meta a') \<and>
     (a_Status a)\<lparr>ast_ReadyToUse := None, ast_Error := None\<rparr> =
     (a_Status a')\<lparr>ast_ReadyToUse := None, ast_Error := None\<rparr> \<and>
     (ptr_Deref (ast_ReadyToUse (a_Status a)) False \<longrightarrow> ptr_Deref (ast_ReadyToUse (a_Status a')) False)"

definition grant_status_ok :: "history \<Rightarrow> BucketAccess \<Rightarrow> bool" where
  "grant_status_ok tr a \<longleftrightarrow> (\<exists>a0 \<in> set (accesses_shown tr). same_grant a a0 \<or>
     (\<exists>cfgs d. same_grant a (a0\<lparr>a_Status := (a_Status a0)\<lparr>ast_AccountID := ga_AccountId d,
          ast_ReadyToUse := Some True, ast_Error := None\<rparr>\<rparr>) \<and> grant_confirmed tr a0 cfgs d \<and>
        (\<forall>e \<in> set (ga_BucketInfoByBucketId d). secret_filled tr a0 cfgs (ga_SharedCredentialInfo d) e)))"

definition grant_ok :: "DriverInfo \<Rightarrow> history \<Rightarrow> DriverGrantBucketAccessRequest \<Rightarrow> bool" where
  "grant_ok driver tr q \<longleftrightarrow> run_live driver tr \<and>
     (\<exists>a \<in> set (accesses_protected tr). \<exists>secrets cfg bs.
        newInternalGrantAccessConfig a secrets = Inr cfg \<and>
        q = grant_request cfg bs \<and> mset bs = mset (map grant_bucket (igc_AccessConfigsByBucketId cfg)) \<and>
        buckets_accessible tr driver a \<and> distinct (access_secret_names a) \<and>
        (\<forall>name \<in> set (access_secret_names a). \<exists>s. secret_reserved tr a name s))"

definition revoke_ok :: "DriverInfo \<Rightarrow> history \<Rightarrow> DriverRevokeBucketAccessRequest \<Rightarrow> bool" where
  "revoke_ok driver tr q \<longleftrightarrow> run_deleting driver tr \<and>
     (\<exists>a \<in> set (accesses_shown tr). \<exists>cfg. newInternalRevokeAccessConfig a = Inr cfg \<and>
        q = revoke_request a cfg \<and> rv_AccountId q \<noteq> [] \<and> secrets_cleaned tr a)"

text \<open>Updates of the access itself: adding the finalizer, and the hand-back after the cleanup.\<close>

definition access_update_ok :: "DriverInfo \<Rightarrow> history \<Rightarrow> BucketAccess \<Rightarrow> bool" where
  "access_update_ok driver tr a' \<longleftrightarrow> (\<exists>a \<in> set (accesses_shown tr).
     run_live driver tr \<and> a' = a\<lparr>a_Meta := snd (AddFinalizer (a_Meta a) ProtectionFinalizer)\<rparr> \<or>
     run_deleting driver tr \<and> secrets_cleaned tr a \<and>
       a' = a\<lparr>a_Meta := add_annotation SidecarCleanupFinishedAnnotation (a_Meta a)\<rparr> \<and>
       (ast_AccountID (a_Status a) = [] \<or>
        (\<exists>q \<in> set (accesses_revoked tr). rv_AccountId q = ast_AccountID (a_Status a))))"

text \<open>Updates of Secrets: reserving, filling, and releasing before the deletion.\<close>

definition secret_update_ok :: "DriverInfo \<Rightarrow> history \<Rightarrow> Secret \<Rightarrow> bool" where
  "secret_update_ok driver tr s \<longleftrightarrow> (\<exists>a \<in> set (accesses_shown tr).
     (\<exists>name s0. run_live driver tr \<and> own_secret tr a name s0 \<and> s = setAccessSecretRequiredMetadata s0) \<or>
     (\<exists>cfgs d bucketId info cfg s0. run_live driver tr \<and> grant_confirmed tr a cfgs d \<and>
        (bucketId, info) \<in> set (ga_BucketInfoByBucketId d) \<and> map_of cfgs bucketId = Some cfg \<and>
        secret_reserved tr a (bg_AccessSecretName cfg) s0 \<and>
        s = s0\<lparr>sec_StringData := Some (secret_data (ga_SharedCredentialInfo d) info)\<rparr>) \<or>
     (\<exists>name s0. run_deleting driver tr \<and> own_secret tr a name s0 \<and> s = unprotected s0))"

definition grant_contract :: "DriverInfo \<Rightarrow> history \<Rightarrow> event \<Rightarrow> bool" where
  "grant_contract driver tr e = (case e of
      EvGetBucketAccess _ _ \<Rightarrow> tr = []
    | EvGetBucket _ _ \<Rightarrow> True
    | EvGetSecret _ _ \<Rightarrow> True
    | EvCreateSecret s _ \<Rightarrow> run_live driver tr \<and> (\<exists>a \<in> set (accesses_shown tr). \<exists>name.
        name \<in> set (access_secret_names a) \<and> secret_key a name \<in> set (secrets_missing tr) \<and>
        s = new_access_secret a name)
    | EvUpdateSecret s _ \<Rightarrow> secret_update_ok driver tr s
    | EvDeleteSecret s _ \<Rightarrow> run_deleting driver tr \<and> (\<exists>a \<in> set (accesses_shown tr). \<exists>name s0.
        own_secret tr a name s0 \<and> (unprotected s0, s) \<in> set (secrets_updated tr))
    | EvUpdateBucketAccess a _ \<Rightarrow> access_update_ok driver tr a
    | EvStatusUpdateBucketAccess a _ \<Rightarrow> grant_status_ok tr a
    | EvDriverGrantBucketAccess q _ \<Rightarrow> grant_ok driver tr q
    | EvDriverRevokeBucketAccess q _ \<Rightarrow> revoke_ok driver tr q
    | _ \<Rightarrow> False)"

lemma grant_contract_simps [simp]:
  "grant_contract D tr (EvGetBucketAccess k r1) = (tr = [])" "grant_contract D tr (EvGetBucket k r2)"
  "grant_contract D tr (EvGetSecret k r3)"
  "grant_contract D tr (EvCreateSecret s r4) \<longleftrightarrow> run_live D tr \<and> (\<exists>a \<in> set (accesses_shown tr). \<exists>name.
     name \<in> set (access_secret_names a) \<and> secret_key a name \<in> set (secrets_missing tr) \<and>
     s = new_access_secret a name)"
  "grant_contract D tr (EvUpdateSecret s r4) = secret_update_ok D tr s"
  "grant_contract D tr (EvDeleteSecret s r5) \<longleftrightarrow> run_deleting D tr \<and> (\<exists>a \<in> set (accesses_shown tr).
     \<exists>name s0. own_secret tr a name s0 \<and> (unprotected s0, s) \<in> set (secrets_updated tr))"
  "grant_contract D tr (EvUpdateBucketAccess a r6) = access_update_ok D tr a"
  "grant_contract D tr (EvStatusUpdateBucketAccess a r6) = grant_status_ok tr a"
  "grant_contract D tr (EvDriverGrantBucketAccess q r7) = grant_ok D tr q"
  "grant_contract D tr (EvDriverRevokeBucketAccess rq r8) = revoke_ok D tr rq"
  by (simp_all add: grant_contract_def)

abbreviation onward :: "DriverInfo \<Rightarrow> history \<Rightarrow> history \<Rightarrow> bool" where
  "onward D \<equiv> continues (grant_contract D)"

text \<open>What a history established, a longer history still shows.\<close>

lemma grant_events:
  "own_secret tr a n s \<Longrightarrow> own_secret (tr @ es) a n s"
  "secret_reserved tr a n s \<Longrightarrow> secret_reserved (tr @ es) a n s"
  "run_live D tr \<Longrightarrow> run_live D (tr @ es)" "run_deleting D tr \<Longrightarrow> run_deleting D (tr @ es)"
  "secret_filled tr a cfgs creds e \<Longrightarrow> secret_filled (tr @ es) a cfgs creds e"
  "grant_confirmed tr a cfgs d \<Longrightarrow> grant_confirmed (tr @ es) a cfgs d"
  "buckets_accessible tr D a \<Longrightarrow> buckets_accessible (tr @ es) D a"
proof -
  show own: "own_secret (tr @ es) a n s" if "own_secret tr a n s" for s using that by (simp add: own_secret_def)
  show res: "secret_reserved (tr @ es) a n s" if "secret_reserved tr a n s" for n s
    using that by (auto simp: secret_reserved_def own_secret_def)
  show "run_live D tr \<Longrightarrow> run_live D (tr @ es)" by (auto simp: run_live_def)
  show "run_deleting D tr \<Longrightarrow> run_deleting D (tr @ es)" by (auto simp: run_deleting_def)
  show "secret_filled tr a cfgs creds e \<Longrightarrow> secret_filled (tr @ es) a cfgs creds e"
    using res by (fastforce simp: secret_filled_def split: prod.splits)
  show "grant_confirmed tr a cfgs d \<Longrightarrow> grant_confirmed (tr @ es) a cfgs d"
    by (auto simp: grant_confirmed_def)
  show "buckets_accessible tr D a \<Longrightarrow> buckets_accessible (tr @ es) D a"
    by (auto simp: buckets_accessible_def)
qed

lemma grant_onward:
  assumes "onward D' tr tr'"
  shows "own_secret tr a n s \<Longrightarrow> own_secret tr' a n s"
    "secret_reserved tr a n s \<Longrightarrow> secret_reserved tr' a n s"
    "run_live D tr \<Longrightarrow> run_live D tr'" "run_deleting D tr \<Longrightarrow> run_deleting D tr'"
    "secret_filled tr a cfgs creds e \<Longrightarrow> secret_filled tr' a cfgs creds e"
    "grant_confirmed tr a cfgs d \<Longrightarrow> grant_confirmed tr' a cfgs d"
    "buckets_accessible tr D a \<Longrightarrow> buckets_accessible tr' D a"
    "x \<in> set (accesses_shown tr) \<Longrightarrow> x \<in> set (accesses_shown tr')"
    "x \<in> set (accesses_protected tr) \<Longrightarrow> x \<in> set (accesses_protected tr')"
  using assms by (auto elim!: continuesE intro: grant_events)

lemma secret_cleaned_onward: "onward D tr tr' \<Longrightarrow> secret_cleaned tr a n \<Longrightarrow> secret_cleaned tr' a n"
  unfolding secret_cleaned_def own_secret_def by (erule continuesE) (simp, blast)

lemma secrets_cleaned_onward: "onward D tr tr' \<Longrightarrow> secrets_cleaned tr a \<Longrightarrow> secrets_cleaned tr' a"
  by (auto simp: secrets_cleaned_def intro: secret_cleaned_onward)

text \<open>The three reasons to update a Secret.\<close>

lemma secret_update_reserve:
  "a \<in> set (accesses_shown tr) \<Longrightarrow> run_live D tr \<Longrightarrow> own_secret tr a name s0 \<Longrightarrow>
    secret_update_ok D tr (setAccessSecretRequiredMetadata s0)"
  unfolding secret_update_ok_def by blast

lemma secret_update_fill:
  "a \<in> set (accesses_shown tr) \<Longrightarrow> run_live D tr \<Longrightarrow> grant_confirmed tr a cfgs d \<Longrightarrow>
    (bucketId, info) \<in> set (ga_BucketInfoByBucketId d) \<Longrightarrow> map_of cfgs bucketId = Some cfg \<Longrightarrow>
    secret_reserved tr a (bg_AccessSecretName cfg) s0 \<Longrightarrow>
    secret_update_ok D tr (s0\<lparr>sec_StringData := Some (secret_data (ga_SharedCredentialInfo d) info)\<rparr>)"
  unfolding secret_update_ok_def by blast

lemma secret_update_release:
  "a \<in> set (accesses_shown tr) \<Longrightarrow> run_deleting D tr \<Longrightarrow> own_secret tr a name s0 \<Longrightarrow>
    secret_update_ok D tr (unprotected s0)"
  unfolding secret_update_ok_def by blast

section \<open>Validating the Buckets\<close>

lemma validateBucketIsReadyForAccess_iff:
  "validateBucketIsReadyForAccess driver b bucketID = None \<longleftrightarrow> bucket_accessible driver b bucketID"
  by (auto simp: validateBucketIsReadyForAccess_def bucket_access_problems_def bucket_accessible_def)

lemma wp_validate_buckets_loop:
  assumes "guarded (grant_contract D) tr"
  shows "wp (validate_buckets_loop E D buckets errs) (\<lambda>errs' tr'. onward D tr tr' \<and> (errs' = [] \<longrightarrow> errs = [] \<and>
    (\<forall>ab \<in> set buckets. \<exists>b. (ab_BucketName ab, b) \<in> set (buckets_got tr') \<and> bucket_accessible D b (ab_BucketID ab)))) tr"
  using assms
proof (induction buckets arbitrary: errs tr)
  case Nil
  then show ?case by (auto simp: wp_def continues_def)
next
  case (Cons ab buckets)
  show ?case unfolding validate_buckets_loop.simps
    by (intro wp_bind get_bucket.wp_oper wp_case_sum wp_if wp_case_option; rule wp_mono[OF Cons.IH])
       (use Cons.prems in \<open>auto simp: validateBucketIsReadyForAccess_iff continues_def\<close>)
qed

lemma wp_getAndValidateAllAccessedBuckets:
  assumes "guarded (grant_contract D) tr"
  shows "wp (getAndValidateAllAccessedBuckets E D a) (\<lambda>err tr'. onward D tr tr' \<and>
    (err = None \<longrightarrow> buckets_accessible tr' D a)) tr"
  unfolding getAndValidateAllAccessedBuckets_def
  by (rule wp_bind, rule wp_mono[OF wp_validate_buckets_loop[OF assms]])
     (auto intro!: wp_return simp: buckets_accessible_def)

section \<open>Reserving the Secrets\<close>

lemma createNewOwnedAccessSecret_eq:
  "createNewOwnedAccessSecret E name a = do {
     r \<leftarrow> Create_Secret E (new_access_secret a name);
     case r of Inl err \<Rightarrow> ret (Inl (ApiError err)) | Inr s \<Rightarrow> ret (Inr s) }"
  by (simp add: createNewOwnedAccessSecret_def new_access_secret_def SetControllerReference_fresh
      zero_meta_def zero_Secret_def Let_def)

lemma wp_reserve_step:
  assumes "guarded (grant_contract D) tr" "run_live D tr" "a \<in> set (accesses_shown tr)"
    "name \<in> set (access_secret_names a)"
  shows "wp (do {
      r \<leftarrow> Get_Secret E (secret_key a name);
      case r of
        Inl err \<Rightarrow> if \<not> IsNotFound err then ret (Inl (ApiError err)) else createNewOwnedAccessSecret E name a
      | Inr existingSecret \<Rightarrow> updateExistingAccessSecretMetadata E existingSecret a })
    (\<lambda>res tr'. onward D tr tr' \<and> (\<forall>s. res = Inr s \<longrightarrow> secret_reserved tr' a name s)) tr"
proof -
  have own: "own_secret (tr @ EvGetSecret (secret_key a name) (Inr s) # es) a name s"
    if "IsControlledBy (sec_Meta s) (a_Meta a)" for s es
    using that assms(4) by (simp add: own_secret_def)
  have upd: "secret_update_ok D (tr @ [EvGetSecret (secret_key a name) (Inr s)]) (setAccessSecretRequiredMetadata s)"
    if "IsControlledBy (sec_Meta s) (a_Meta a)" for s
    by (rule secret_update_reserve[OF _ _ own[OF that]]) (use assms in \<open>simp_all add: grant_events\<close>)
  show ?thesis unfolding createNewOwnedAccessSecret_eq updateExistingAccessSecretMetadata_def
    by (intro wp_intro)
       (use assms own upd in \<open>auto simp: continues_def grant_events secret_reserved_def\<close>)
qed

definition reserved_map :: "history \<Rightarrow> BucketAccess \<Rightarrow> (string \<times> Secret) list \<Rightarrow> bool" where
  "reserved_map tr a m \<longleftrightarrow> (\<forall>name s. map_of m name = Some s \<longrightarrow> secret_reserved tr a name s)"

lemma reserved_map_onward: "onward D tr tr' \<Longrightarrow> reserved_map tr a m \<Longrightarrow> reserved_map tr' a m"
  by (auto simp: reserved_map_def intro: grant_onward(2))

text \<open>Visiting pairwise different names that are not among the keys yet makes all of them keys.\<close>

definition keys_extended :: "string set \<Rightarrow> string list \<Rightarrow> string set \<Rightarrow> bool" where
  "keys_extended K names K' \<longleftrightarrow> distinct names \<and> K \<inter> set names = {} \<and> K' = K \<union> set names"

lemma keys_extended_step:
  "n \<notin> K \<Longrightarrow> keys_extended (insert n K) names K' \<Longrightarrow> keys_extended K (n # names) K'"
  by (auto simp: keys_extended_def)

lemma wp_reserve_loop:
  assumes "guarded (grant_contract D) tr" "run_live D tr" "a \<in> set (accesses_shown tr)"
    "set (map bca_AccessSecretName refs) \<subseteq> set (access_secret_names a)" "reserved_map tr a m"
  shows "wp (reserve_loop E a refs m errs) (\<lambda>(errs', m') tr'. onward D tr tr' \<and> reserved_map tr' a m' \<and>
    (errs' = [] \<longrightarrow> errs = [] \<and> keys_extended (fst ` set m) (map bca_AccessSecretName refs) (fst ` set m'))) tr"
  using assms
proof (induction refs arbitrary: m errs tr)
  case Nil
  then show ?case by (auto simp: wp_def continues_def keys_extended_def)
next
  case (Cons ref refs)
  let ?n = "bca_AccessSecretName ref"
  let ?Q = "\<lambda>(errs', m') tr'. onward D tr tr' \<and> reserved_map tr' a m' \<and>
    (errs' = [] \<longrightarrow> errs = [] \<and>
      keys_extended (fst ` set m) (map bca_AccessSecretName (ref # refs)) (fst ` set m'))"
  have rest: "wp (reserve_loop E a refs m' errs') ?Q tr'"
    if "onward D tr tr'" "reserved_map tr' a m'"
      "errs' = [] \<longrightarrow> errs = [] \<and> ?n \<notin> fst ` set m \<and> fst ` set m' = insert ?n (fst ` set m)" for m' errs' tr'
    by (rule wp_mono[OF Cons.IH])
       (use that Cons.prems in \<open>auto intro: continues_trans continues_guarded grant_onward keys_extended_step\<close>)
  show ?case
  proof (cases "map_of m ?n")
    case (Some s)
    then show ?thesis using rest[OF continues_refl[OF Cons.prems(1)] Cons.prems(5), of "errs @ [_]"]
      by (simp add: Let_def)
  next
    case None
    then have fresh: "?n \<notin> fst ` set m" by (simp add: map_of_eq_None_iff)
    have step: "reserve_loop E a (ref # refs) m errs = do {
        res \<leftarrow> do {
          r \<leftarrow> Get_Secret E (secret_key a ?n);
          case r of
            Inl err \<Rightarrow> if \<not> IsNotFound err then ret (Inl (ApiError err)) else createNewOwnedAccessSecret E ?n a
          | Inr existingSecret \<Rightarrow> updateExistingAccessSecretMetadata E existingSecret a };
        case res of
          Inl err \<Rightarrow> reserve_loop E a refs m (errs @ [err])
        | Inr secret \<Rightarrow> reserve_loop E a refs (AList.update ?n secret m) errs }"
      using None by (simp add: Let_def)
    have put: "reserved_map tr' a (AList.update ?n s m)"
      if "onward D tr tr'" "secret_reserved tr' a ?n s" for tr' s
      using that reserved_map_onward[OF that(1) Cons.prems(5)] by (auto simp: reserved_map_def update_conv')
    show ?thesis unfolding step
      by (rule wp_bind_sum[OF wp_reserve_step[OF Cons.prems(1-3)]]; (intro wp_case_constructor rest)?)
         (use Cons.prems(4,5) fresh put in \<open>auto simp: dom_update intro: reserved_map_onward\<close>)
  qed
qed

lemma wp_reserveAccessSecrets:
  assumes "guarded (grant_contract D) tr" "run_live D tr" "a \<in> set (accesses_shown tr)"
  shows "wp (reserveAccessSecrets E a) (\<lambda>r tr'. onward D tr tr' \<and> (\<forall>m. r = Inr m \<longrightarrow> reserved_map tr' a m \<and>
    distinct (access_secret_names a) \<and> fst ` set m = set (access_secret_names a))) tr"
  unfolding reserveAccessSecrets_def
  by (rule wp_bind, rule wp_mono[OF wp_reserve_loop[OF assms]])
     (auto simp: access_secret_names_def reserved_map_def keys_extended_def intro!: wp_intro)

section \<open>The grant configuration\<close>

lemma claim_access_config_secret:
  "claim_access_config ref = Inr cfg \<Longrightarrow> bg_AccessSecretName cfg = bca_AccessSecretName ref"
  by (auto simp: claim_access_config_def Let_def split: option.splits)

lemma access_config_loop_ok:
  assumes "access_config_loop ids refs errs cfgs = ([], cfgs')" "distinct (map fst cfgs)"
  shows "errs = [] \<and> distinct (map fst cfgs') \<and>
    (\<forall>ref \<in> set refs. HasAnyAccessMode (bca_AccessModes ref) \<and>
       (\<exists>bucketId. map_of ids (bca_BucketClaimName ref) = Some bucketId \<and> bucketId \<in> fst ` set cfgs')) \<and>
    fst ` set cfgs \<subseteq> fst ` set cfgs' \<and>
    (\<forall>bucketId cfg. map_of cfgs' bucketId = Some cfg \<longrightarrow> map_of cfgs bucketId = Some cfg \<or>
       (\<exists>ref \<in> set refs. map_of ids (bca_BucketClaimName ref) = Some bucketId \<and>
          claim_access_config ref = Inr cfg))"
  using assms
proof (induction refs arbitrary: errs cfgs)
  case Nil
  then show ?case by simp
next
  case (Cons ref refs)
  have failed: False if "access_config_loop ids refs (errs @ [x]) cfgs = ([], cfgs')" for x
    using Cons.IH[OF that Cons.prems(2)] by simp
  obtain bucketId cfg where step: "map_of ids (bca_BucketClaimName ref) = Some bucketId"
      "HasAnyAccessMode (bca_AccessModes ref)" "claim_access_config ref = Inr cfg"
      "access_config_loop ids refs errs (AList.update bucketId cfg cfgs) = ([], cfgs')"
  proof (cases "map_of ids (bca_BucketClaimName ref)")
    case None
    then show ?thesis using Cons.prems failed by auto
  next
    case (Some bucketId)
    then show ?thesis using Cons.prems failed that
      by (cases "claim_access_config ref") (auto split: if_splits)
  qed
  have IH: "errs = [] \<and> distinct (map fst cfgs') \<and>
    (\<forall>ref \<in> set refs. HasAnyAccessMode (bca_AccessModes ref) \<and>
       (\<exists>bucketId. map_of ids (bca_BucketClaimName ref) = Some bucketId \<and> bucketId \<in> fst ` set cfgs')) \<and>
    fst ` set (AList.update bucketId cfg cfgs) \<subseteq> fst ` set cfgs' \<and>
    (\<forall>b c. map_of cfgs' b = Some c \<longrightarrow> map_of (AList.update bucketId cfg cfgs) b = Some c \<or>
       (\<exists>ref \<in> set refs. map_of ids (bca_BucketClaimName ref) = Some b \<and> claim_access_config ref = Inr c))"
    by (rule Cons.IH[OF step(4)]) (use Cons.prems(2) in \<open>simp add: distinct_update\<close>)
  have keys: "insert bucketId (fst ` set cfgs) \<subseteq> fst ` set cfgs'" using IH by (simp add: dom_update)
  have old: "map_of cfgs b = Some c \<or> b = bucketId \<and> c = cfg"
    if "map_of (AList.update bucketId cfg cfgs) b = Some c" for b c
    using that by (auto simp: update_conv' split: if_splits)
  have new: "map_of cfgs b = Some c \<or> (\<exists>r \<in> set (ref # refs). map_of ids (bca_BucketClaimName r) = Some b \<and>
      claim_access_config r = Inr c)" if "map_of cfgs' b = Some c" for b c
  proof -
    have "map_of (AList.update bucketId cfg cfgs) b = Some c \<or> (\<exists>r \<in> set refs.
        map_of ids (bca_BucketClaimName r) = Some b \<and> claim_access_config r = Inr c)"
      using IH that by blast
    then show ?thesis using old[of b c] step(1,3) by auto
  qed
  have here: "bucketId \<in> fst ` set cfgs'" "fst ` set cfgs \<subseteq> fst ` set cfgs'" using keys by simp_all
  have all: "HasAnyAccessMode (bca_AccessModes r) \<and> (\<exists>b. map_of ids (bca_BucketClaimName r) = Some b \<and>
      b \<in> fst ` set cfgs')" if "r \<in> set (ref # refs)" for r
    using IH step(1,2) here(1) that by (cases "r = ref") auto
  show ?case using IH all new here(2) by blast
qed

definition accessed_id :: "BucketAccess \<Rightarrow> BucketClaimAccess \<Rightarrow> string option" where
  "accessed_id a ref = map_of (bucket_ids_by_claim (ast_AccessedBuckets (a_Status a))) (bca_BucketClaimName ref)"

lemma generateInternalAccessedBucketConfigs_ok:
  assumes "generateInternalAccessedBucketConfigs a = Inr cfgs"
  shows "distinct (map fst cfgs)"
    "ref \<in> set (as_BucketClaims (a_Spec a)) \<Longrightarrow> HasAnyAccessMode (bca_AccessModes ref) \<and>
       (\<exists>bucketId. accessed_id a ref = Some bucketId \<and> bucketId \<in> fst ` set cfgs)"
    "map_of cfgs bucketId = Some cfg \<Longrightarrow> \<exists>ref \<in> set (as_BucketClaims (a_Spec a)).
       accessed_id a ref = Some bucketId \<and> claim_access_config ref = Inr cfg"
  using assms access_config_loop_ok[of _ "as_BucketClaims (a_Spec a)" "[]" "[]" cfgs]
  by (auto simp: generateInternalAccessedBucketConfigs_def accessed_id_def split: prod.splits option.splits)

text \<open>With distinct Secret names a Secret belongs to one bucket.\<close>

lemma secret_of_one_bucket:
  assumes "generateInternalAccessedBucketConfigs a = Inr cfgs" "distinct (access_secret_names a)"
    "map_of cfgs b = Some cfg" "map_of cfgs b' = Some cfg'" "bg_AccessSecretName cfg = bg_AccessSecretName cfg'"
  shows "b = b'"
proof -
  obtain ref ref' where refs: "ref \<in> set (as_BucketClaims (a_Spec a))" "ref' \<in> set (as_BucketClaims (a_Spec a))"
    "accessed_id a ref = Some b" "accessed_id a ref' = Some b'"
    "bca_AccessSecretName ref = bca_AccessSecretName ref'"
    using generateInternalAccessedBucketConfigs_ok(3)[OF assms(1)] assms(3-5)
    by (metis claim_access_config_secret)
  then have "ref = ref'" using assms(2)
    by (auto simp: access_secret_names_def distinct_map dest: inj_onD)
  then show ?thesis using refs by simp
qed

section \<open>Filling the Secrets\<close>

text \<open>One iteration: the bucket has no Secret to fill, or its Secret is updated.\<close>

lemma update_secrets_steps:
  "\<nexists>cfg s. map_of (igc_AccessConfigsByBucketId g) b = Some cfg \<and> map_of secrets (bg_AccessSecretName cfg) = Some s \<Longrightarrow>
    \<exists>err. update_secrets_loop E g creds ((b, info) # infos) secrets errs =
      update_secrets_loop E g creds infos secrets (errs @ [err])"
  "map_of (igc_AccessConfigsByBucketId g) b = Some cfg \<Longrightarrow> map_of secrets (bg_AccessSecretName cfg) = Some s \<Longrightarrow>
    update_secrets_loop E g creds ((b, info) # infos) secrets errs = do {
      r \<leftarrow> Update_Secret E (s\<lparr>sec_StringData := Some (secret_data creds info)\<rparr>);
      case r of
        Inl _ \<Rightarrow> update_secrets_loop E g creds infos
          (AList.update (bg_AccessSecretName cfg) (s\<lparr>sec_StringData := Some (secret_data creds info)\<rparr>) secrets)
          (errs @ [errf (GrantMsg UpdateSecretFailed) [om_Name (sec_Meta s)]])
      | Inr s' \<Rightarrow> update_secrets_loop E g creds infos (AList.update (bg_AccessSecretName cfg) s' secrets) errs }"
  subgoal by (cases "map_of (igc_AccessConfigsByBucketId g) b") (auto split: option.splits)
  subgoal by (simp add: Let_def)
  done

lemma secret_fill_effect:
  assumes "guarded (grant_contract D) tr" "run_live D tr" "a \<in> set (accesses_shown tr)" "grant_confirmed tr a cfgs d"
    and creds: "creds = ga_SharedCredentialInfo d"
    and granted: "(b, info) \<in> set (ga_BucketInfoByBucketId d)" "map_of cfgs b = Some cfg"
      "secret_reserved tr a (bg_AccessSecretName cfg) s"
  shows "onward D tr (tr @ [EvUpdateSecret (s\<lparr>sec_StringData := Some (secret_data creds info)\<rparr>) r])"
    and "secret_filled (tr @ [EvUpdateSecret (s\<lparr>sec_StringData := Some (secret_data creds info)\<rparr>) (Inr s')]) a cfgs creds (b, info)"
proof -
  have "secret_update_ok D tr (s\<lparr>sec_StringData := Some (secret_data creds info)\<rparr>)"
    unfolding creds by (rule secret_update_fill[OF assms(3,2,4) granted])
  then show "onward D tr (tr @ [EvUpdateSecret (s\<lparr>sec_StringData := Some (secret_data creds info)\<rparr>) r])"
    using assms(1) by (simp add: continues_def)
  show "secret_filled (tr @ [EvUpdateSecret (s\<lparr>sec_StringData := Some (secret_data creds info)\<rparr>) (Inr s')]) a cfgs creds (b, info)"
    unfolding secret_filled_def using granted(2) grant_events(2)[OF granted(3)] by fastforce
qed

lemma wp_update_secrets_loop:
  assumes "guarded (grant_contract D) tr" "run_live D tr" "a \<in> set (accesses_shown tr)"
    "grant_confirmed tr a cfgs d" "igc_AccessConfigsByBucketId g = cfgs" "creds = ga_SharedCredentialInfo d"
    "distinct (access_secret_names a)"
    "set infos \<subseteq> set (ga_BucketInfoByBucketId d)" "distinct (map fst infos)"
    "\<And>b cfg s. b \<in> fst ` set infos \<Longrightarrow> map_of cfgs b = Some cfg \<Longrightarrow>
       map_of secrets (bg_AccessSecretName cfg) = Some s \<Longrightarrow> secret_reserved tr a (bg_AccessSecretName cfg) s"
  shows "wp (update_secrets_loop E g creds infos secrets errs) (\<lambda>(errs', _) tr'. onward D tr tr' \<and>
    (errs' = [] \<longrightarrow> errs = [] \<and> (\<forall>e \<in> set infos. secret_filled tr' a cfgs creds e))) tr"
  using assms
proof (induction infos arbitrary: secrets errs tr)
  case Nil
  then show ?case by (auto simp: wp_def continues_def)
next
  case (Cons e infos)
  obtain b info where e: "e = (b, info)" by (cases e)
  let ?Q = "\<lambda>(errs', _ :: (string \<times> Secret) list) tr'. onward D tr tr' \<and>
    (errs' = [] \<longrightarrow> errs = [] \<and> (\<forall>e' \<in> set (e # infos). secret_filled tr' a cfgs creds e'))"
  have rest: "wp (update_secrets_loop E g creds infos secrets' errs') ?Q tr'"
    if "onward D tr tr'" "errs' = [] \<longrightarrow> errs = [] \<and> secret_filled tr' a cfgs creds e"
      "\<And>b' cfg. b' \<in> fst ` set infos \<Longrightarrow> map_of cfgs b' = Some cfg \<Longrightarrow>
         map_of secrets' (bg_AccessSecretName cfg) = map_of secrets (bg_AccessSecretName cfg)" for secrets' errs' tr'
  proof (rule wp_mono[OF Cons.IH])
    note same = that(3)
    show "secret_reserved tr' a (bg_AccessSecretName cfg) s" if "b' \<in> fst ` set infos" "map_of cfgs b' = Some cfg"
      "map_of secrets' (bg_AccessSecretName cfg) = Some s" for b' cfg s
      by (rule grant_onward(2)[OF \<open>onward D tr tr'\<close>], rule Cons.prems(10)[of b'])
         (use that same[OF that(1,2)] in simp_all)
  qed (use that(1,2) Cons.prems in \<open>auto intro: continues_trans continues_guarded grant_onward\<close>)
  show ?case
  proof (cases "\<exists>cfg s. map_of cfgs b = Some cfg \<and> map_of secrets (bg_AccessSecretName cfg) = Some s")
    case False
    then obtain err where "update_secrets_loop E g creds (e # infos) secrets errs = update_secrets_loop E g creds infos secrets (errs @ [err])"
      using update_secrets_steps(1)[of g b secrets E creds info infos errs] Cons.prems(5) e by auto
    then show ?thesis using rest[OF continues_refl[OF Cons.prems(1)], of "errs @ [err]" secrets] by simp
  next
    case True
    then obtain cfg s where cfg: "map_of cfgs b = Some cfg" and s: "map_of secrets (bg_AccessSecretName cfg) = Some s" by blast
    let ?s = "s\<lparr>sec_StringData := Some (secret_data creds info)\<rparr>"
    have res: "secret_reserved tr a (bg_AccessSecretName cfg) s" using Cons.prems(10)[of b] cfg s e by simp
    have "(b, info) \<in> set (ga_BucketInfoByBucketId d)" using Cons.prems(8) e by simp
    note effect = secret_fill_effect[OF Cons.prems(1-4,6) this cfg res]
    have other: "map_of (AList.update (bg_AccessSecretName cfg) x secrets) (bg_AccessSecretName cfg') = map_of secrets (bg_AccessSecretName cfg')"
      if "b' \<in> fst ` set infos" "map_of cfgs b' = Some cfg'" for b' cfg' x
    proof -
      have "b' \<noteq> b" using that(1) Cons.prems(9) e by auto
      then have "bg_AccessSecretName cfg \<noteq> bg_AccessSecretName cfg'"
        using secret_of_one_bucket[OF _ Cons.prems(7) cfg that(2)] Cons.prems(4) by (auto simp: grant_confirmed_def)
      then show ?thesis by (simp add: update_conv')
    qed
    show ?thesis unfolding e update_secrets_steps(2)[OF cfg[folded Cons.prems(5)] s]
      by (intro wp_bind update_secret.wp_oper wp_case_sum rest[unfolded e] other effect(1)) (simp_all add: effect(2))
  qed
qed

section \<open>Granting\<close>

lemma granted_buckets_loop_distinct:
  "granted_buckets_loop v i bkts errs infos = (errs', infos') \<Longrightarrow> distinct (map fst infos) \<Longrightarrow>
    distinct (map fst infos')"
  by (induction v i bkts errs infos rule: granted_buckets_loop.induct)
     (auto simp: distinct_update split: if_splits sum.splits)

lemma granted_infos_distinct:
  "translateDriverGrantBucketAccessResponseToApi resp v = Inr d \<Longrightarrow>
    distinct (map fst (ga_BucketInfoByBucketId d))"
  by (auto simp: translateDriverGrantBucketAccessResponseToApi_def Let_def
      dest: granted_buckets_loop_distinct split: prod.splits option.splits)

lemma missing_keys_Nil:
  "mset ks = mset (map fst m) \<Longrightarrow> missing_keys m' ks = [] \<longleftrightarrow> fst ` set m \<subseteq> fst ` set m'"
  by (drule visited_keys) (auto simp: missing_keys_def filter_empty_conv map_of_eq_None_iff)

lemma wp_validateGrantedAccess:
  assumes "\<And>err. (err = None \<longleftrightarrow>
      fst ` set (ga_BucketInfoByBucketId d) = fst ` set (igc_AccessConfigsByBucketId g)) \<Longrightarrow> Q err tr"
  shows "wp (validateGrantedAccess E g d) Q tr"
  unfolding validateGrantedAccess_def Let_def
  by (intro wp_bind wp_Range wp_return assms)
     (auto simp: missing_keys_Nil[of _ "igc_AccessConfigsByBucketId g"]
       missing_keys_Nil[of _ "ga_BucketInfoByBucketId d"])

lemma wp_updateSecretsWithGrantedInfo:
  assumes "guarded (grant_contract D) tr" "run_live D tr" "a \<in> set (accesses_shown tr)"
    "grant_confirmed tr a cfgs d" "igc_AccessConfigsByBucketId g = cfgs"
    "distinct (access_secret_names a)" "reserved_map tr a (igc_SecretsByName g)"
    "distinct (map fst (ga_BucketInfoByBucketId d))"
  shows "wp (updateSecretsWithGrantedInfo E g d) (\<lambda>err tr'. onward D tr tr' \<and>
    (err = None \<longrightarrow> (\<forall>e \<in> set (ga_BucketInfoByBucketId d).
       secret_filled tr' a cfgs (ga_SharedCredentialInfo d) e))) tr"
  unfolding updateSecretsWithGrantedInfo_def
proof (intro wp_bind wp_Range)
  let ?m = "ga_BucketInfoByBucketId d"
  fix ks assume ks: "mset ks = mset (map fst ?m)"
  have set_ks: "set ks = fst ` set ?m" by (rule visited_keys[OF ks])
  have "distinct ks" using ks assms(8) by (metis mset_eq_imp_distinct_iff)
  then have dist: "distinct (map fst (range_entries ?m ks))"
    using set_ks by (simp add: map_fst_range_entries)
  have all: "set (range_entries ?m ks) = set ?m"
    using set_ks assms(8) by (force simp: in_range_entries)
  show "wp (update_secrets_loop E g (ga_SharedCredentialInfo d) (range_entries ?m ks) (igc_SecretsByName g) [])
    (\<lambda>x. wp (case x of (errs, uu) \<Rightarrow> ret (join_errs (Text (GrantMsg UpdateSecretsFailed) [] []) errs))
      (\<lambda>err tr'. onward D tr tr' \<and> (err = None \<longrightarrow> (\<forall>e \<in> set ?m. secret_filled tr' a cfgs (ga_SharedCredentialInfo d) e)))) tr"
    by (rule wp_mono[OF wp_update_secrets_loop[OF assms(1-5) refl assms(6) _ dist]])
       (use assms(7) all in \<open>auto simp: reserved_map_def intro!: wp_return\<close>)
qed

definition grant_done :: "DriverInfo \<Rightarrow> error option \<times> BucketAccess \<Rightarrow> history \<Rightarrow> bool" where
  "grant_done D r tr \<longleftrightarrow> guarded (grant_contract D) tr \<and> grant_status_ok tr (snd r)"

lemma same_grant_refl [simp]: "same_grant a a"
  by (simp add: same_grant_def)

lemma grant_status_shown: "a \<in> set (accesses_shown tr) \<Longrightarrow> grant_status_ok tr a"
  unfolding grant_status_ok_def using same_grant_refl by blast

lemma grant_done_shown: "a \<in> set (accesses_shown tr) \<Longrightarrow> onward D tr tr' \<Longrightarrow> grant_done D (e, a) tr'"
  by (simp add: grant_done_def grant_status_shown grant_onward continues_guarded)

lemma grant_status_events: "grant_status_ok tr a \<Longrightarrow> grant_status_ok (tr @ es) a"
  unfolding grant_status_ok_def
  by (elim bexE disjE) (auto intro!: bexI[of _ _ "set (accesses_shown (tr @ es))"] grant_events)

lemma wp_publishAccess:
  assumes "guarded (grant_contract D) tr" "run_live D tr" "a \<in> set (accesses_shown tr)"
    "(q, resp) \<in> set (accesses_granted tr)" "newInternalGrantAccessConfig a secrets = Inr g"
    "mset (gr_Buckets q) = mset (map grant_bucket (igc_AccessConfigsByBucketId g))"
    "distinct (access_secret_names a)" "reserved_map tr a secrets"
  shows "wp (publishAccess E a g resp) (grant_done D) tr"
proof (cases "translateDriverGrantBucketAccessResponseToApi resp (access_validation a)")
  case (Inl err)
  then show ?thesis unfolding publishAccess_def
    by (simp add: wp_return grant_done_shown[OF assms(3) continues_refl[OF assms(1)]])
next
  case (Inr d)
  let ?cfgs = "igc_AccessConfigsByBucketId g"
  have g: "generateInternalAccessedBucketConfigs a = Inr ?cfgs" "igc_SecretsByName g = secrets"
    using assms(5) by (auto simp: newInternalGrantAccessConfig_def split: sum.splits)
  have confirmed: "grant_confirmed tr a ?cfgs d"
    if "fst ` set (ga_BucketInfoByBucketId d) = fst ` set ?cfgs"
    using that g(1) assms(4,6) Inr by (auto simp: grant_confirmed_def)
  have ok: "grant_status_ok tr' (granted_access a (ga_AccountId d))"
    if "onward D tr tr'" "fst ` set (ga_BucketInfoByBucketId d) = fst ` set ?cfgs"
      "\<forall>e \<in> set (ga_BucketInfoByBucketId d). secret_filled tr' a ?cfgs (ga_SharedCredentialInfo d) e" for tr'
    unfolding grant_status_ok_def granted_access_def
    using grant_onward(8)[OF that(1) assms(3)] grant_onward(6)[OF that(1) confirmed[OF that(2)]] that(3)
      same_grant_refl by blast
  show ?thesis unfolding publishAccess_def Inr sum.case Let_def
  proof (intro wp_bind wp_validateGrantedAccess wp_case_option wp_return)
    show "grant_done D (Some (NonRetryableError err), a) tr" for err
      by (rule grant_done_shown[OF assms(3) continues_refl[OF assms(1)]])
  next
    fix err assume "(err = None) = (fst ` set (ga_BucketInfoByBucketId d) = fst ` set ?cfgs)" "err = None"
    then have keys: "fst ` set (ga_BucketInfoByBucketId d) = fst ` set ?cfgs" by simp
    show "wp (updateSecretsWithGrantedInfo E g d) (\<lambda>x. wp (case x of
          None \<Rightarrow> StatusUpdate_BucketAccess E (granted_access a (ga_AccountId d)) \<bind> (\<lambda>r. case r of
              Inl err \<Rightarrow> ret (Some (wrapf (GrantMsg StatusAfterGrantFailed) [] (ApiError err)),
                granted_access a (ga_AccountId d))
            | Inr access \<Rightarrow> ret (None, access))
        | Some err \<Rightarrow> ret (Some err, a)) (grant_done D)) tr"
    proof (rule wp_mono[OF wp_updateSecretsWithGrantedInfo[OF assms(1-3) confirmed[OF keys] refl assms(7)]])
      show "reserved_map tr a (igc_SecretsByName g)" using assms(8) g(2) by simp
      show "distinct (map fst (ga_BucketInfoByBucketId d))" by (rule granted_infos_distinct[OF Inr])
    qed (intro wp_intro; auto intro!: grant_status_shown[OF grant_onward(8)] assms(3) simp: grant_done_def
          grant_status_shown grant_status_events ok keys continues_guarded)
  qed
qed


lemma wp_RpcGrantBucketsList:
  assumes "distinct (map fst (igc_AccessConfigsByBucketId g))"
    "\<And>bs. mset bs = mset (map grant_bucket (igc_AccessConfigsByBucketId g)) \<Longrightarrow> Q bs tr"
  shows "wp (RpcGrantBucketsList E g) Q tr"
  unfolding RpcGrantBucketsList_def
proof (intro wp_bind wp_Range wp_return assms(2))
  let ?m = "igc_AccessConfigsByBucketId g"
  fix ks assume ks: "mset ks = mset (map fst ?m)"
  have keys: "map fst (range_entries ?m ks) = ks"
    using visited_keys[OF ks] by (simp add: map_fst_range_entries)
  have "distinct ks" using ks assms(1) by (metis mset_eq_imp_distinct_iff)
  then have "distinct (range_entries ?m ks)" using keys by (metis distinct_map)
  moreover have "distinct ?m" using assms(1) by (metis distinct_map)
  moreover have "set (range_entries ?m ks) = set ?m"
    using visited_keys[OF ks] assms(1) by (force simp: in_range_entries)
  ultimately have "mset (range_entries ?m ks) = mset ?m" by (simp add: set_eq_iff_mset_eq_distinct)
  then show "mset (map grant_bucket (range_entries ?m ks)) = mset (map grant_bucket ?m)" by simp
qed

lemma grant_request_buckets: "gr_Buckets (grant_request g bs) = bs"
  by (simp add: grant_request_def)

lemma wp_grantAccess:
  assumes "guarded (grant_contract D) tr" "run_live D tr" "a \<in> set (accesses_shown tr)"
    "a \<in> set (accesses_protected tr)" "buckets_accessible tr D a" "distinct (access_secret_names a)"
    "reserved_map tr a secrets" "fst ` set secrets = set (access_secret_names a)"
  shows "wp (grantAccess E a secrets) (grant_done D) tr"
proof (cases "newInternalGrantAccessConfig a secrets")
  case (Inl err)
  then show ?thesis unfolding grantAccess_def
    by (simp add: wp_return grant_done_shown[OF assms(3) continues_refl[OF assms(1)]])
next
  case (Inr g)
  have cfgs: "distinct (map fst (igc_AccessConfigsByBucketId g))"
    using Inr generateInternalAccessedBucketConfigs_ok(1)
    by (auto simp: newInternalGrantAccessConfig_def split: sum.splits)
  have reserved: "\<exists>s. secret_reserved tr a name s" if "name \<in> set (access_secret_names a)" for name
  proof -
    have "name \<in> dom (map_of secrets)" using that assms(8) by (simp add: dom_map_of_conv_image_fst)
    then show ?thesis using assms(7) by (auto simp: reserved_map_def)
  qed
  have ok: "grant_ok D tr (grant_request g bs)"
    if "mset bs = mset (map grant_bucket (igc_AccessConfigsByBucketId g))" for bs
    unfolding grant_ok_def using that assms(2,4,5,6) Inr reserved by blast
  have on: "onward D tr (tr @ [EvDriverGrantBucketAccess (grant_request g bs) r])"
    if "mset bs = mset (map grant_bucket (igc_AccessConfigsByBucketId g))" for bs r
    using ok[OF that] assms(1) by (simp add: continues_def)
  show ?thesis unfolding grantAccess_def Inr sum.case
    by (intro wp_bind wp_RpcGrantBucketsList[OF cfgs] rpc_grant.wp_oper wp_case_sum wp_return
          wp_publishAccess[OF _ _ _ _ Inr])
       (use assms ok in \<open>auto simp: grant_events reserved_map_def grant_request_buckets
          intro!: grant_done_shown[OF assms(3) on]\<close>)
qed

lemma wp_Sidecar_Access_addFinalizer:
  assumes "guarded (grant_contract D) tr" "run_live D tr" "a \<in> set (accesses_read tr)" "a \<in> set (accesses_shown tr)"
    "ContainsFinalizer (a_Meta a) ProtectionFinalizer \<longrightarrow> a \<in> set (accesses_protected tr)"
  shows "wp (Sidecar_Access_addFinalizer E a) (\<lambda>(e, a') tr'. onward D tr tr' \<and> grant_status_ok tr' a' \<and>
    (e = None \<longrightarrow> a' \<in> set (accesses_shown tr') \<and> a' \<in> set (accesses_protected tr'))) tr"
proof -
  have same: "a\<lparr>a_Meta := a_Meta a\<rparr> = a" by (cases a) simp
  have ok: "access_update_ok D tr (a\<lparr>a_Meta := m\<rparr>)" if "AddFinalizer (a_Meta a) ProtectionFinalizer = (b, m)" for b m
    using that assms(2,4) by (auto simp: access_update_ok_def intro!: bexI[of _ a])
  have status: "grant_status_ok (tr @ es) (a\<lparr>a_Meta := m\<rparr>)"
    if "AddFinalizer (a_Meta a) ProtectionFinalizer = (d, m)" for d m es
    using assms(4) AddFinalizer_same_version[OF that] by (auto simp: grant_status_ok_def same_grant_def)
  show ?thesis using assms ok status unfolding Sidecar_Access_addFinalizer_def
    by (intro wp_intro) (auto dest!: AddFinalizer_unchanged dest: AddFinalizer_changed
      simp: continues_def same intro: grant_status_shown)
qed

lemma wp_Sidecar_Access_reconcileLive:
  assumes "guarded (grant_contract D) tr" "run_live D tr" "a \<in> set (accesses_read tr)" "a \<in> set (accesses_shown tr)"
    "ContainsFinalizer (a_Meta a) ProtectionFinalizer \<longrightarrow> a \<in> set (accesses_protected tr)"
  shows "wp (Sidecar_Access_reconcileLive E D a) (grant_done D) tr"
proof -
  have grant: "wp (grantAccess E a' m) (grant_done D) tr3"
    if "onward D tr tr1" "a' \<in> set (accesses_shown tr1)" "a' \<in> set (accesses_protected tr1)"
      "onward D tr1 tr2" "buckets_accessible tr2 D a'" "onward D tr2 tr3" "reserved_map tr3 a' m"
      "distinct (access_secret_names a')" "fst ` set m = set (access_secret_names a')" for a' m tr1 tr2 tr3
  proof -
    have on: "onward D tr1 tr3" using that(4,6) by (rule continues_trans)
    have on0: "onward D tr tr3" using that(1) on by (rule continues_trans)
    show ?thesis
      by (rule wp_grantAccess[OF continues_guarded[OF on] grant_onward(3)[OF on0 assms(2)] grant_onward(8)[OF on that(2)]
            grant_onward(9)[OF on that(3)] grant_onward(7)[OF that(6,5)] that(8,7,9)])
  qed
  have reserve: "wp (reserveAccessSecrets E a' \<bind> (\<lambda>res. case res of
       Inl err \<Rightarrow> ret (Some err, a') | Inr m \<Rightarrow> grantAccess E a' m)) (grant_done D) tr2"
    if "onward D tr tr1" "a' \<in> set (accesses_shown tr1)" "a' \<in> set (accesses_protected tr1)"
      "onward D tr1 tr2" "buckets_accessible tr2 D a'" for a' tr1 tr2
  proof -
    have on: "onward D tr tr2" using that(1,4) by (rule continues_trans)
    show ?thesis
      by (rule wp_bind_sum[OF wp_reserveAccessSecrets[OF continues_guarded[OF on] grant_onward(3)[OF on assms(2)]
              grant_onward(8)[OF that(4,2)]]]; (intro wp_case_constructor wp_return)?)
         (use that in \<open>auto intro: grant_done_shown[OF grant_onward(8)[OF that(4,2)]] intro!: grant[OF that]\<close>)
  qed
  have validate: "wp (getAndValidateAllAccessedBuckets E D a' \<bind> (\<lambda>err. case err of
       None \<Rightarrow> reserveAccessSecrets E a' \<bind> (\<lambda>res. case res of
         Inl err \<Rightarrow> ret (Some err, a') | Inr m \<Rightarrow> grantAccess E a' m)
     | Some err \<Rightarrow> ret (Some err, a'))) (grant_done D) tr1"
    if "onward D tr tr1" "a' \<in> set (accesses_shown tr1)" "a' \<in> set (accesses_protected tr1)" for a' tr1
  proof (rule wp_bind, rule wp_mono[OF wp_getAndValidateAllAccessedBuckets[OF continues_guarded[OF that(1)]]])
    fix err :: "error option" and tr2 assume "onward D tr1 tr2 \<and> (err = None \<longrightarrow> buckets_accessible tr2 D a')"
    then show "wp (case err of
         None \<Rightarrow> reserveAccessSecrets E a' \<bind> (\<lambda>res. case res of
           Inl err \<Rightarrow> ret (Some err, a') | Inr m \<Rightarrow> grantAccess E a' m)
       | Some err \<Rightarrow> ret (Some err, a')) (grant_done D) tr2"
      by (cases err) (auto intro!: wp_return reserve[OF that] grant_done_shown[OF that(2)])
  qed
  show ?thesis unfolding Sidecar_Access_reconcileLive_def
    by (rule wp_bind_err[OF wp_Sidecar_Access_addFinalizer[OF assms]]; intro wp_case_constructor wp_return validate)
       (auto simp: grant_done_def continues_guarded)
qed

section \<open>Revoking\<close>

lemma wp_delete_secrets_loop:
  assumes "guarded (grant_contract D) tr" "run_deleting D tr" "a \<in> set (accesses_shown tr)"
    "set (map bca_AccessSecretName refs) \<subseteq> set (access_secret_names a)"
  shows "wp (delete_secrets_loop E a refs errs) (\<lambda>errs' tr'. onward D tr tr' \<and> (errs' = [] \<longrightarrow> errs = [] \<and>
    (\<forall>name \<in> bca_AccessSecretName ` set refs. secret_cleaned tr' a name))) tr"
  using assms
proof (induction refs arbitrary: errs tr)
  case Nil
  then show ?case by (auto simp: wp_def continues_def)
next
  case (Cons ref refs)
  let ?n = "bca_AccessSecretName ref"
  let ?Q = "\<lambda>errs' tr'. onward D tr tr' \<and> (errs' = [] \<longrightarrow> errs = [] \<and>
    (\<forall>name \<in> bca_AccessSecretName ` set (ref # refs). secret_cleaned tr' a name))"
  have rest: "wp (delete_secrets_loop E a refs errs') ?Q tr'"
    if "onward D tr tr'" "errs' = [] \<longrightarrow> errs = [] \<and> secret_cleaned tr' a ?n" for errs' tr'
    by (rule wp_mono[OF Cons.IH])
       (use that Cons.prems in \<open>auto intro: continues_trans continues_guarded grant_onward secret_cleaned_onward\<close>)
  have own: "own_secret (tr @ EvGetSecret (secret_key a ?n) (Inr s) # es) a ?n s"
    if "IsControlledBy (sec_Meta s) (a_Meta a)" for s es
    using that Cons.prems(4) by (simp add: own_secret_def)
  have upd: "secret_update_ok D (tr @ [EvGetSecret (secret_key a ?n) (Inr s)]) (unprotected s)"
    if "IsControlledBy (sec_Meta s) (a_Meta a)" for s
    by (rule secret_update_release[OF _ _ own[OF that]]) (use Cons.prems in \<open>simp_all add: grant_events\<close>)
  have get: "onward D tr (tr @ [EvGetSecret (secret_key a ?n) r])" for r
    using Cons.prems(1) by (simp add: continues_def)
  have released: "onward D tr (tr @ [EvGetSecret (secret_key a ?n) (Inr s), EvUpdateSecret (unprotected s) r])"
    if "IsControlledBy (sec_Meta s) (a_Meta a)" for s r
    using upd[OF that] Cons.prems(1) by (simp add: continues_def)
  have deleted: "onward D tr (tr @ [EvGetSecret (secret_key a ?n) (Inr s), EvUpdateSecret (unprotected s) (Inr s'),
      EvDeleteSecret s' r])"
    if "IsControlledBy (sec_Meta s) (a_Meta a)" for s s' r
    using upd[OF that] own[OF that, of "[EvUpdateSecret (unprotected s) (Inr s')]"] Cons.prems(1-3)
    by (auto simp: continues_def grant_events)
  have gone: "secret_cleaned (tr @ [EvGetSecret (secret_key a ?n) (Inr s), EvUpdateSecret (unprotected s) (Inr s'),
      EvDeleteSecret s' None]) a ?n" (is "secret_cleaned ?tr' _ _")
    if "IsControlledBy (sec_Meta s) (a_Meta a)" for s s'
  proof -
    have "(unprotected s, s') \<in> set (secrets_updated ?tr')" "s' \<in> set (secrets_deleted ?tr')" by simp_all
    then show ?thesis unfolding secret_cleaned_def using own[OF that] by blast
  qed
  have absent: "secret_cleaned (tr @ [EvGetSecret (secret_key a ?n) r]) a ?n"
    if "case r of Inl err \<Rightarrow> IsNotFound err | Inr s \<Rightarrow> \<not> IsControlledBy (sec_Meta s) (a_Meta a)" for r
    using that by (auto simp: secret_cleaned_def split: sum.splits)
  show ?case unfolding delete_secrets_loop.simps Let_def unprotected_def[symmetric]
    by (intro wp_bind get_secret.wp_oper update_secret.wp_oper delete_secret.wp_oper wp_case_sum wp_case_option
          wp_if rest)
       (simp_all add: get released deleted gone absent)
qed

lemma wp_deleteOwnedAccessSecrets:
  assumes "guarded (grant_contract D) tr" "run_deleting D tr" "a \<in> set (accesses_shown tr)"
  shows "wp (deleteOwnedAccessSecrets E a) (\<lambda>err tr'. onward D tr tr' \<and>
    (err = None \<longrightarrow> secrets_cleaned tr' a)) tr"
  unfolding deleteOwnedAccessSecrets_def
  by (rule wp_bind, rule wp_mono[OF wp_delete_secrets_loop[OF assms]])
     (auto simp: access_secret_names_def secrets_cleaned_def intro!: wp_return)

text \<open>What a successful revocation leaves behind.\<close>

definition revoke_confirmed :: "history \<Rightarrow> BucketAccess \<Rightarrow> bool" where
  "revoke_confirmed tr a \<longleftrightarrow> ast_AccountID (a_Status a) = [] \<or>
     (\<exists>q \<in> set (accesses_revoked tr). rv_AccountId q = ast_AccountID (a_Status a))"

lemma wp_driverRevokeAccess:
  assumes "guarded (grant_contract D) tr" "run_deleting D tr" "a \<in> set (accesses_shown tr)" "secrets_cleaned tr a"
    "ast_AccountID (a_Status a) \<noteq> []"
  shows "wp (driverRevokeAccess E a) (\<lambda>err tr'. onward D tr tr' \<and> (err = None \<longrightarrow> revoke_confirmed tr' a)) tr"
proof -
  have ok: "revoke_ok D tr (revoke_request a cfg)" if "newInternalRevokeAccessConfig a = Inr cfg" for cfg
    using that assms(2-5) by (auto simp: revoke_ok_def revoke_request_def intro!: bexI[of _ a])
  show ?thesis unfolding driverRevokeAccess_def
    by (intro wp_intro)
       (use assms ok in \<open>auto simp: continues_def revoke_confirmed_def revoke_request_def\<close>)
qed

lemma wp_handBack:
  assumes "guarded (grant_contract D) tr" "run_deleting D tr" "a \<in> set (accesses_shown tr)" "secrets_cleaned tr a"
    "revoke_confirmed tr a"
  shows "wp (handBack E a) (grant_done D) tr"
proof -
  have ok: "access_update_ok D tr (a\<lparr>a_Meta := add_annotation SidecarCleanupFinishedAnnotation (a_Meta a)\<rparr>)"
    using assms(2-5) unfolding access_update_ok_def revoke_confirmed_def by blast
  have status: "grant_status_ok (tr @ es) (a\<lparr>a_Meta := add_annotation k (a_Meta a)\<rparr>)" for k es
    using assms(3) by (auto simp: grant_status_ok_def same_grant_def)
  show ?thesis unfolding handBack_def
    by (intro wp_intro) (use assms(1) ok status in \<open>auto simp: grant_done_def grant_status_shown\<close>)
qed

lemma wp_Sidecar_Access_reconcileDelete:
  assumes "guarded (grant_contract D) tr" "a \<in> set (accesses_read tr)" "a \<in> set (accesses_shown tr)"
    "ours D a" "\<not> IsZero (om_DeletionTimestamp (a_Meta a))"
  shows "wp (Sidecar_Access_reconcileDelete E a) (grant_done D) tr"
proof -
  let ?a = "access_not_ready a"
  have status: "grant_status_ok (tr @ es) ?a" for es
    using assms(3) by (auto simp: grant_status_ok_def same_grant_def access_not_ready_def)
  have deleting: "run_deleting D (tr @ [EvStatusUpdateBucketAccess ?a (Inr a')])" for a'
    using assms(2,4,5) by (auto simp: run_deleting_def access_not_ready_def)
  have step: "wp (deleteOwnedAccessSecrets E a' \<bind> (\<lambda>err. case err of
      None \<Rightarrow> (if ast_AccountID (a_Status a') \<noteq> [] then driverRevokeAccess E a' else ret None) \<bind>
        (\<lambda>err. case err of None \<Rightarrow> handBack E a' | Some err \<Rightarrow> ret (Some err, a'))
    | Some err \<Rightarrow> ret (Some err, a'))) (grant_done D) (tr @ [EvStatusUpdateBucketAccess ?a (Inr a')])"
    (is "wp _ _ ?tr") for a' :: BucketAccess
  proof (rule wp_bind, rule wp_mono[OF wp_deleteOwnedAccessSecrets])
    show "guarded (grant_contract D) ?tr" using assms(1) status[of "[]"] by simp
    show "run_deleting D ?tr" by (rule deleting)
    show shown: "a' \<in> set (accesses_shown ?tr)" by simp
    fix err :: "error option" and tr1
    assume del: "onward D ?tr tr1 \<and> (err = None \<longrightarrow> secrets_cleaned tr1 a')"
    then have pre: "guarded (grant_contract D) tr1" "run_deleting D tr1" "a' \<in> set (accesses_shown tr1)"
      using deleting shown by (auto intro: continues_guarded grant_onward)
    have revoke: "wp (if ast_AccountID (a_Status a') \<noteq> [] then driverRevokeAccess E a' else ret None)
       (\<lambda>err tr2. onward D tr1 tr2 \<and> (err = None \<longrightarrow> revoke_confirmed tr2 a')) tr1"
      if "secrets_cleaned tr1 a'"
      by (intro wp_if wp_driverRevokeAccess[OF pre that] wp_return)
         (auto simp: revoke_confirmed_def continues_refl pre(1))
    have hand: "wp (case err2 of None \<Rightarrow> handBack E a' | Some err \<Rightarrow> ret (Some err, a')) (grant_done D) tr2"
      if "onward D tr1 tr2 \<and> (err2 = None \<longrightarrow> revoke_confirmed tr2 a')" "secrets_cleaned tr1 a'"
      for err2 :: "error option" and tr2
      using that pre
      by (cases err2) (auto intro!: wp_handBack wp_return intro: grant_done_shown continues_guarded grant_onward
          secrets_cleaned_onward)
    show "wp (case err of
      None \<Rightarrow> (if ast_AccountID (a_Status a') \<noteq> [] then driverRevokeAccess E a' else ret None) \<bind>
        (\<lambda>err. case err of None \<Rightarrow> handBack E a' | Some err \<Rightarrow> ret (Some err, a'))
    | Some err \<Rightarrow> ret (Some err, a')) (grant_done D) tr1"
      using del by (intro wp_case_option wp_bind wp_return wp_mono[OF revoke] hand
          grant_done_shown[OF pre(3) continues_refl[OF pre(1)]]) simp_all
  qed
  show ?thesis unfolding Sidecar_Access_reconcileDelete_def Let_def
    by (rule wp_bind, rule status_access.wp_oper, rule wp_case_sum)
       (use assms(1) status status[of "[]"] in \<open>simp add: grant_done_def wp_return\<close>, hypsubst, rule step)
qed

section \<open>The shape of the reconciler\<close>

lemma IsNonRetryable_sidecar_error [simp]: "IsNonRetryable (sidecar_error e) = IsNonRetryable e"
  by (simp add: sidecar_error_def)

interpretation sidecar_access: reconciler "Get_BucketAccess E" "e_GetBucketAccess E" EvGetBucketAccess
  "\<lambda>a. \<not> ManagedBySidecar a" "Sidecar_Access_reconcile E D" sidecar_error "Sidecar_Access_finish E"
  status_access_event status_access_saved "Sidecar_Access_Reconcile E D" for E D
proof
  show "Sidecar_Access_Reconcile E D req = reconcile_shape (Get_BucketAccess E) (\<lambda>a. \<not> ManagedBySidecar a)
      (Sidecar_Access_reconcile E D) (Sidecar_Access_finish E) req" for req
    unfolding Sidecar_Access_Reconcile_def reconcile_shape_def ..
qed (auto simp: Sidecar_Access_finish_def wp_def run_calls Let_def status_access_event_def
  status_access_saved_def classify_def split: option.splits sum.splits)

lemma same_grant_trans: "same_grant a b \<Longrightarrow> same_grant b c \<Longrightarrow> same_grant a c"
  by (auto simp: same_grant_def intro: same_version_trans)

lemma grant_status_cong: "grant_status_ok tr a \<Longrightarrow> same_grant a' a \<Longrightarrow> grant_status_ok tr a'"
  unfolding grant_status_ok_def by (blast intro: same_grant_trans)

lemma Sidecar_Access_Reconcile_contract:
  "guarded (grant_contract D) (history_of (Sidecar_Access_Reconcile E D req))"
proof (rule wp_history, rule sidecar_access.wp_Reconcile)
  have finish: "wp (Sidecar_Access_finish E err a) (\<lambda>_. guarded (grant_contract D)) tr"
    if "grant_done D (err, a) tr" for err a tr
  proof -
    have ok: "grant_status_ok tr ((access_ready_set a)\<lparr>a_Status :=
        (a_Status (access_ready_set a))\<lparr>ast_Error := x\<rparr>\<rparr>)" for x
      by (rule grant_status_cong[of _ a])
         (use that in \<open>auto simp: grant_done_def same_grant_def access_ready_set_def\<close>)
    show ?thesis using that ok unfolding Sidecar_Access_finish_def
      by (intro wp_intro) (auto simp: grant_done_def)
  qed
  have core: "wp (Sidecar_Access_reconcile E D a) (grant_done D) [EvGetBucketAccess req (Inr a)]" (is "wp _ _ ?tr")
    if "ManagedBySidecar a" for a
  proof -
    have pre: "guarded (grant_contract D) ?tr" "a \<in> set (accesses_read ?tr)" "a \<in> set (accesses_shown ?tr)"
      "ContainsFinalizer (a_Meta a) ProtectionFinalizer \<longrightarrow> a \<in> set (accesses_protected ?tr)"
      by (simp_all add: guarded_def)
    then have "grant_done D (e, a) ?tr" for e
      by (simp add: grant_done_def grant_status_shown)
    moreover have "run_live D ?tr" if "SidecarRequirementsPresent (a_Status a) = Inr True"
      "IsZero (om_DeletionTimestamp (a_Meta a))" "ast_DriverName (a_Status a) = di_Name D"
      using that \<open>ManagedBySidecar a\<close> by (simp add: run_live_def ours_def)
    ultimately show ?thesis using pre \<open>ManagedBySidecar a\<close> unfolding Sidecar_Access_reconcile_def
      by (intro wp_if wp_case_sum wp_return wp_Sidecar_Access_reconcileLive wp_Sidecar_Access_reconcileDelete)
         (simp_all add: ours_def)
  qed
  show "wp (Sidecar_Access_reconcile E D a)
      (\<lambda>(e, a'). wp (Sidecar_Access_finish E e a') (\<lambda>_. guarded (grant_contract D)))
      [EvGetBucketAccess req (Inr a)]" if "\<not> \<not> ManagedBySidecar a" for a
    by (rule wp_mono[OF core]) (use that in \<open>auto intro: finish\<close>)
qed (auto simp: guarded_def)

end
