(* ===== verification/Call_Bounds.thy ===== *)
theory Call_Bounds
  imports Sidecar_Bucket Controller_BucketClaim Controller_BucketAccess Sidecar_BucketAccess_Contract
begin

text \<open>
  Every reconcile ends after a bounded number of calls to the API server and the driver: a constant for
  Buckets and claims, whatever these answer, and for accesses a linear function of the largest number of
  references and accessed buckets in an access that the server shows. The rules below add up the calls of a program along its text.
\<close>

section \<open>Counting calls\<close>

definition calls_within :: "nat \<Rightarrow> 'a prog \<Rightarrow> bool" where
  "calls_within n m \<longleftrightarrow> (\<forall>tr. length (snd (run_state m tr)) \<le> length tr + n)"

named_theorems within "rules that add up the calls of a program"

lemma within_mono: "calls_within k m \<Longrightarrow> k \<le> n \<Longrightarrow> calls_within n m"
  unfolding calls_within_def by (meson add_left_mono order_trans)

lemma within_max:
  "calls_within k m \<Longrightarrow> calls_within (max k n) m" "calls_within n m \<Longrightarrow> calls_within (max k n) m"
  by (auto intro: within_mono)

lemma within_return [within]: "calls_within 0 (State_Monad.return x)"
  by (simp add: calls_within_def)

lemma within_bind [within]:
  assumes "calls_within k m" "\<And>x. calls_within n (f x)"
  shows "calls_within (k + n) (State_Monad.bind m f)"
  unfolding calls_within_def
proof
  fix tr
  obtain x tr' where run: "run_state m tr = (x, tr')" by force
  have "length tr' \<le> length tr + k" using assms(1) run by (auto simp: calls_within_def dest: spec[of _ tr])
  moreover have "length (snd (run_state (f x) tr')) \<le> length tr' + n"
    using assms(2)[of x] by (simp add: calls_within_def)
  ultimately show "length (snd (run_state (State_Monad.bind m f) tr)) \<le> length tr + (k + n)"
    using run by simp
qed

lemma within_if [within]:
  "calls_within k a \<Longrightarrow> calls_within n b \<Longrightarrow> calls_within (max k n) (if c then a else b)"
  by (simp add: within_max)

lemma within_sum [within]:
  "(\<And>a. calls_within k (f a)) \<Longrightarrow> (\<And>b. calls_within n (g b)) \<Longrightarrow>
    calls_within (max k n) (case x of Inl a \<Rightarrow> f a | Inr b \<Rightarrow> g b)"
  by (cases x) (simp_all add: within_max)

lemma within_option [within]:
  "calls_within k m \<Longrightarrow> (\<And>a. calls_within n (f a)) \<Longrightarrow>
    calls_within (max k n) (case x of None \<Rightarrow> m | Some a \<Rightarrow> f a)"
  by (cases x) (simp_all add: within_max)

lemma within_prod [within]: "(\<And>a b. calls_within n (f a b)) \<Longrightarrow> calls_within n (case x of (a, b) \<Rightarrow> f a b)"
  by (cases x) simp

lemma within_Let [within]: "calls_within n (f x) \<Longrightarrow> calls_within n (let y = x in f y)" by simp

lemma within_Now [within]: "calls_within 0 (Now E)" by (simp add: calls_within_def)

lemma within_Range [within]: "calls_within 0 (Range E m)" by (simp add: calls_within_def Range_def)

lemma within_calls [within]:
  "calls_within 1 (Get_Bucket E k)" "calls_within 1 (Create_Bucket E b)" "calls_within 1 (Update_Bucket E b)"
  "calls_within 1 (StatusUpdate_Bucket E b)" "calls_within 1 (Delete_Bucket E b)"
  "calls_within 1 (Get_BucketClass E k)" "calls_within 1 (Get_BucketClaim E k)"
  "calls_within 1 (Update_BucketClaim E c)" "calls_within 1 (StatusUpdate_BucketClaim E c)"
  "calls_within 1 (Get_BucketAccess E k)" "calls_within 1 (Update_BucketAccess E a)"
  "calls_within 1 (StatusUpdate_BucketAccess E a)" "calls_within 1 (List_BucketAccess E ns)"
  "calls_within 1 (Get_BucketAccessClass E k)" "calls_within 1 (Get_Secret E k)"
  "calls_within 1 (Create_Secret E s)" "calls_within 1 (Update_Secret E s)" "calls_within 1 (Delete_Secret E s)"
  "calls_within 1 (DriverGenerateBucketId E q1)" "calls_within 1 (DriverCreateBucket E q2)"
  "calls_within 1 (DriverGetBucket E q3)" "calls_within 1 (DriverDeleteBucket E q4)"
  "calls_within 1 (DriverGrantBucketAccess E q5)" "calls_within 1 (DriverRevokeBucketAccess E q6)"
  by (simp_all add: calls_within_def run_calls)

section \<open>Buckets\<close>

lemma within_bucket_parts [within]:
  "calls_within 1 (Bucket_addFinalizer E b)" "calls_within 1 (recordBucketId E b i)"
  "calls_within 1 (generateBucketID E n ps p)" "calls_within 1 (dynamicProvision E i ps p r)"
  "calls_within 1 (staticProvision E i ps p r)" "calls_within 1 (publishBucket E b i d)"
  "calls_within 1 (Sidecar_Bucket_finish E e b)" "calls_within 3 (Sidecar_Bucket_reconcileDelete E b)"
  unfolding Bucket_addFinalizer_def recordBucketId_def generateBucketID_def dynamicProvision_def
    staticProvision_def publishBucket_def Sidecar_Bucket_finish_def Sidecar_Bucket_reconcileDelete_def
  by - (rule within_mono, (rule within)+, simp)+

lemma within_assignBucketID [within]: "calls_within 1 (assignBucketID E b ps)"
  unfolding assignBucketID_def by (rule within_mono, (rule within)+) simp

lemma within_provisionBucket [within]: "calls_within 2 (provisionBucket E b i ps st)"
  unfolding provisionBucket_def by (rule within_mono, (rule within)+) simp

lemma within_recordAndProvision [within]: "calls_within 3 (recordAndProvision E b i ps st)"
  unfolding recordAndProvision_def by (rule within_mono, (rule within)+) simp

lemma within_Sidecar_Bucket_reconcile [within]: "calls_within 5 (Sidecar_Bucket_reconcile E D b)"
  unfolding Sidecar_Bucket_reconcile_def by (rule within_mono, (rule within)+) simp

lemma within_Sidecar_Bucket: "calls_within 7 (Sidecar_Bucket_Reconcile E D req)"
  unfolding Sidecar_Bucket_Reconcile_def by (rule within_mono, (rule within)+) simp

section \<open>Claims\<close>

lemma within_claim_parts [within]:
  "calls_within 1 (ensureStaticBucketBound E b u)" "calls_within 2 (createIntermediateBucket E c n)"
  "calls_within 1 (removeClaimFinalizer E c)" "calls_within 1 (applyBucketClaimIsDeletingAnnotation E b)"
  "calls_within 1 (BucketClaim_addFinalizer E c)" "calls_within 1 (bindClaim E c n)"
  "calls_within 1 (publishClaim E c b)" "calls_within 1 (BucketClaim_finish E e c)"
  unfolding ensureStaticBucketBound_def createIntermediateBucket_def removeClaimFinalizer_def
    applyBucketClaimIsDeletingAnnotation_def BucketClaim_addFinalizer_def bindClaim_def publishClaim_def
    BucketClaim_finish_def
  by - (rule within_mono, (rule within)+, simp)+

lemma within_releaseBoundBucket [within]: "calls_within 2 (releaseBoundBucket E c b)"
  unfolding releaseBoundBucket_def by (rule within_mono, (rule within)+) simp

lemma within_getOrCreateBucket [within]: "calls_within (if st then 1 else 3) (getOrCreateBucket E c n st)"
  unfolding getOrCreateBucket_def by (cases st; (simp only: if_True if_False, rule within_mono, (rule within)+, simp))

lemma within_bindBucket [within]: "calls_within (if st then 1 else 0) (bindBucket E c b st)"
  unfolding bindBucket_def by (cases st; (simp only: if_True if_False, rule within_mono, (rule within)+, simp))

lemma within_claim_paths [within]:
  "calls_within 4 (BucketClaim_reconcileDelete E c n st)"
  "calls_within (if st then 3 else 2) (bindAndPublish E c n b st)"
  unfolding BucketClaim_reconcileDelete_def bindAndPublish_def
  by - (rule within_mono, (rule within)+, simp)+

lemma within_BucketClaim_reconcileLive [within]: "calls_within 6 (BucketClaim_reconcileLive E c n st)"
  unfolding BucketClaim_reconcileLive_def by (rule within_mono, (rule within)+) simp

lemma within_BucketClaim_reconcile [within]: "calls_within 6 (BucketClaim_reconcile E c)"
  unfolding BucketClaim_reconcile_def by (rule within_mono, (rule within)+) simp

lemma within_BucketClaim: "calls_within 8 (BucketClaim_Reconcile E req)"
  unfolding BucketClaim_Reconcile_def by (rule within_mono, (rule within)+) simp

section \<open>Results that bound later calls\<close>

definition returns :: "'a prog \<Rightarrow> ('a \<Rightarrow> bool) \<Rightarrow> bool" where
  "returns m P \<longleftrightarrow> (\<forall>tr. P (fst (run_state m tr)))"

lemma within_bind_returns:
  assumes "calls_within k m" "returns m P" "\<And>x. P x \<Longrightarrow> calls_within n (f x)"
  shows "calls_within (k + n) (State_Monad.bind m f)"
  unfolding calls_within_def
proof
  fix tr
  obtain x tr' where run: "run_state m tr = (x, tr')" by force
  have "length tr' \<le> length tr + k" using assms(1) run by (auto simp: calls_within_def dest: spec[of _ tr])
  moreover have "P x" using assms(2) run by (metis returns_def fst_conv)
  then have "length (snd (run_state (f x) tr')) \<le> length tr' + n"
    using assms(3)[of x] by (simp add: calls_within_def)
  ultimately show "length (snd (run_state (State_Monad.bind m f) tr)) \<le> length tr + (k + n)"
    using run by simp
qed

lemma returns_wp: "(\<And>tr. wp m (\<lambda>x _. P x) tr) \<Longrightarrow> returns m P"
  by (auto simp: returns_def dest: wp_run)

lemma wp_returns: "returns m P \<Longrightarrow> (\<And>x tr'. P x \<Longrightarrow> Q x tr') \<Longrightarrow> wp m Q tr"
  by (auto simp: returns_def wp_def split: prod.splits) (metis fst_conv)

lemma length_update:
  "length (AList.update k v m) \<le> Suc (length m)"
  "map_of m k = Some x \<Longrightarrow> length (AList.update k v m) = length m"
  by (induction m) auto

lemma returns_Range: "returns (Range E m) (\<lambda>ks. length ks = length m)"
  by (rule returns_wp, rule wp_Range) (metis length_map size_mset)

lemma within_Range_bind:
  "(\<And>ks. length ks = length m \<Longrightarrow> calls_within n (f ks)) \<Longrightarrow> calls_within n (State_Monad.bind (Range E m) f)"
  using within_bind_returns[OF within_Range returns_Range, of m n f] by simp

section \<open>The Controller's accesses\<close>

lemma within_get_claims_loop: "calls_within (length refs) (get_claims_loop E ns refs m errs)"
proof (induction refs arbitrary: m errs)
  case (Cons ref refs)
  show ?case unfolding get_claims_loop.simps
    by (rule within_mono, (rule within Cons.IH)+) simp
qed (simp add: calls_within_def)

lemma returns_get_claims_loop:
  "returns (get_claims_loop E ns refs m errs) (\<lambda>r. length (snd r) \<le> length m + length refs)"
proof (induction refs arbitrary: m errs)
  case (Cons ref refs)
  have step: "wp (get_claims_loop E ns refs m' errs') (\<lambda>r _. length (snd r) \<le> length m + length (ref # refs)) tr"
    if "length m' \<le> Suc (length m)" for m' errs' tr
    by (rule wp_returns[OF Cons.IH]) (use that in simp)
  show ?case unfolding get_claims_loop.simps
    by (rule returns_wp, intro wp_intro step) (simp_all add: length_update)
qed (simp add: returns_def)

lemma within_getAllBucketClaims: "calls_within (length refs) (getAllBucketClaims E ns refs)"
  unfolding getAllBucketClaims_def
  by (rule within_mono, (rule within within_get_claims_loop)+) simp

lemma returns_getAllBucketClaims:
  "returns (getAllBucketClaims E ns refs) (\<lambda>r. \<forall>m. r = Inr m \<longrightarrow> length m \<le> length refs)"
  unfolding getAllBucketClaims_def
  by (rule returns_wp, rule wp_bind, rule wp_returns[OF returns_get_claims_loop])
     (auto simp: wp_def split: prod.splits option.splits)

lemma within_mark_loop: "calls_within (length ks) (mark_loop E ks m errs)"
proof (induction ks arbitrary: m errs)
  case (Cons k ks)
  show ?case unfolding mark_loop.simps
    by (rule within_mono, (rule within Cons.IH)+) simp
qed (simp add: calls_within_def)

lemma returns_mark_loop: "returns (mark_loop E ks m errs) (\<lambda>r. length (snd r) = length m)"
proof (induction ks arbitrary: m errs)
  case (Cons k ks)
  have step: "wp (mark_loop E ks m' errs') (\<lambda>r _. length (snd r) = length m) tr"
    if "length m' = length m" for m' errs' tr
    by (rule wp_returns[OF Cons.IH]) (use that in simp)
  show ?case unfolding mark_loop.simps
    by (rule returns_wp, intro wp_intro step) (simp_all add: length_update)
qed (simp add: returns_def)

lemma within_unmark_loop: "calls_within (length ks) (unmark_loop E ks m as n errs us)"
proof (induction ks arbitrary: errs us)
  case (Cons k ks)
  show ?case unfolding unmark_loop.simps
    by (rule within_mono, (rule within Cons.IH)+) simp
qed (simp add: calls_within_def)

lemma within_get_buckets_loop: "calls_within (length ks) (get_buckets_loop E ks m bs errs)"
proof (induction ks arbitrary: bs errs)
  case (Cons k ks)
  show ?case unfolding get_buckets_loop.simps
    by (rule within_mono, (rule within Cons.IH)+) simp
qed (simp add: calls_within_def)

lemma within_markAllBucketClaimsAsAccessed: "calls_within (length m) (markAllBucketClaimsAsAccessed E m)"
  unfolding markAllBucketClaimsAsAccessed_def
  by (rule within_Range_bind, rule within_mono, (rule within within_mark_loop)+) simp

lemma returns_markAllBucketClaimsAsAccessed:
  "returns (markAllBucketClaimsAsAccessed E m) (\<lambda>r. length (snd r) = length m)"
  unfolding markAllBucketClaimsAsAccessed_def
  by (rule returns_wp, intro wp_bind wp_Range wp_returns[OF returns_mark_loop])
     (auto simp: wp_def split: prod.splits)

lemma within_unmarkUnaccessedBucketClaims: "calls_within (length m) (unmarkUnaccessedBucketClaims E m as n)"
  unfolding unmarkUnaccessedBucketClaims_def
  by (rule within_Range_bind, rule within_mono, (rule within within_unmark_loop)+) simp

lemma within_getBucketsForClaims: "calls_within (length m) (getBucketsForClaims E m)"
  unfolding getBucketsForClaims_def
  by (rule within_Range_bind, rule within_mono, (rule within within_get_buckets_loop)+) simp

lemma within_claim_checks [within]:
  "calls_within 0 (cannotAccessBucketClaims E m spec)" "calls_within 0 (waitingOnBucketClaims E m bs)"
  unfolding cannotAccessBucketClaims_def waitingOnBucketClaims_def
  by - (rule within_mono, (rule within)+, simp)+

lemma within_initializeAccess [within]: "calls_within (length m + 1) (initializeAccess E a m cl)"
  unfolding initializeAccess_def
  by (rule within_mono, (rule within within_getBucketsForClaims)+) simp

lemma within_readClassAndInitialize: "calls_within (length m + 2) (readClassAndInitialize E a m)"
  unfolding readClassAndInitialize_def by (rule within_mono, (rule within)+) simp

lemma within_markAndInitialize:
  "calls_within (3 * length (as_BucketClaims (a_Spec a)) + 2) (markAndInitialize E a)"
proof -
  let ?n = "length (as_BucketClaims (a_Spec a))"
  have rest: "calls_within (2 * ?n + 2) (do {
      (err, m) \<leftarrow> markAllBucketClaimsAsAccessed E m;
      case err of Some err \<Rightarrow> ret (Some err, a) | None \<Rightarrow> readClassAndInitialize E a m })"
    if "length m \<le> ?n" for m
  proof (rule within_mono,
      rule within_bind_returns[OF within_markAllBucketClaimsAsAccessed returns_markAllBucketClaimsAsAccessed])
    show "calls_within (?n + 2) (case r of (err, m) \<Rightarrow> case err of Some err \<Rightarrow> ret (Some err, a)
        | None \<Rightarrow> readClassAndInitialize E a m)" if "length (snd r) = length m" for r
      using that \<open>length m \<le> ?n\<close>
      by (cases r; cases "fst r")
         (auto intro: within_mono[OF within_return] within_mono[OF within_readClassAndInitialize])
  qed (use that in simp)
  show ?thesis unfolding markAndInitialize_def
  proof (rule within_mono, rule within_option, rule within_bind_returns[OF within_getAllBucketClaims
        returns_getAllBucketClaims])
    show "calls_within (2 * ?n + 2) (case r of Inl err \<Rightarrow> ret (Some err, a) | Inr m \<Rightarrow> do {
      (err, m) \<leftarrow> markAllBucketClaimsAsAccessed E m;
      case err of Some err \<Rightarrow> ret (Some err, a) | None \<Rightarrow> readClassAndInitialize E a m })"
      if "\<forall>m. r = Inr m \<longrightarrow> length m \<le> ?n" for r
      using that rest by (cases r) (simp_all add: within_mono[OF within_return])
  qed (rule within_return, simp)
qed

lemma within_Controller_Access_reconcileDelete:
  "calls_within (2 * length (as_BucketClaims (a_Spec a)) + 2) (Controller_Access_reconcileDelete E a)"
proof -
  let ?n = "length (as_BucketClaims (a_Spec a))"
  have rest: "calls_within (length m + 1) (do {
      (err, unmarked) \<leftarrow> unmarkUnaccessedBucketClaims E m l n;
      case err of Some err \<Rightarrow> ret (Some err, a) | None \<Rightarrow> do {
        let access = a\<lparr>a_Meta := RemoveFinalizer (a_Meta a) ProtectionFinalizer\<rparr>;
        r \<leftarrow> Update_BucketAccess E access;
        case r of Inl err \<Rightarrow> ret (Some (wrapf RemoveFinalizerFailed [] (ApiError err)), access)
        | Inr access \<Rightarrow> ret (None, access) } })" for m l n
    by (rule within_mono, (rule within within_unmarkUnaccessedBucketClaims)+) simp
  show ?thesis unfolding Controller_Access_reconcileDelete_def
  proof (rule within_mono, rule within_bind_returns[OF within_getAllBucketClaims returns_getAllBucketClaims])
    fix r :: "error + claims_map" assume r: "\<forall>m. r = Inr m \<longrightarrow> length m \<le> ?n"
    show "calls_within (?n + 2) (case r of Inl err \<Rightarrow> ret (Some err, a) | Inr claimsByName \<Rightarrow> do {
         r \<leftarrow> List_BucketAccess E (om_Namespace (a_Meta a));
         case r of
           Inl err \<Rightarrow> ret (Some (ApiError err), a)
         | Inr accessList \<Rightarrow> do {
             (err, unmarked) \<leftarrow> unmarkUnaccessedBucketClaims E claimsByName accessList (om_Name (a_Meta a));
             case err of Some err \<Rightarrow> ret (Some err, a) | None \<Rightarrow> do {
               let access = a\<lparr>a_Meta := RemoveFinalizer (a_Meta a) ProtectionFinalizer\<rparr>;
               r \<leftarrow> Update_BucketAccess E access;
               case r of Inl err \<Rightarrow> ret (Some (wrapf RemoveFinalizerFailed [] (ApiError err)), access)
               | Inr access \<Rightarrow> ret (None, access) } } })"
    proof (cases r)
      case (Inr m)
      show ?thesis unfolding Inr sum.case
        by (rule within_mono, (rule within_bind within_calls within_sum within_return rest)+) (use r Inr in simp)
    qed (simp add: within_mono[OF within_return])
  qed simp
qed

text \<open>The server never shows an access with more than \<open>n\<close> references or accessed buckets; the
  API types limit both to 128.\<close>

definition small_access :: "nat \<Rightarrow> BucketAccess \<Rightarrow> bool" where
  "small_access n a \<longleftrightarrow> length (as_BucketClaims (a_Spec a)) \<le> n \<and> length (ast_AccessedBuckets (a_Status a)) \<le> n"

definition accesses_limited :: "nat \<Rightarrow> env \<Rightarrow> bool" where
  "accesses_limited n E \<longleftrightarrow>
     (\<forall>tr k a. e_GetBucketAccess E tr k = Inr a \<longrightarrow> small_access n a) \<and>
     (\<forall>tr x a. e_UpdateBucketAccess E tr x = Inr a \<longrightarrow> small_access n a) \<and>
     (\<forall>tr x a. e_StatusUpdateBucketAccess E tr x = Inr a \<longrightarrow> small_access n a)"

lemma returns_access_calls:
  assumes "accesses_limited n E"
  shows "returns (Get_BucketAccess E k) (\<lambda>r. \<forall>a. r = Inr a \<longrightarrow> small_access n a)"
    and "returns (Update_BucketAccess E x) (\<lambda>r. \<forall>a. r = Inr a \<longrightarrow> small_access n a)"
    and "returns (StatusUpdate_BucketAccess E x) (\<lambda>r. \<forall>a. r = Inr a \<longrightarrow> small_access n a)"
  using assms by (auto simp: returns_def run_calls accesses_limited_def)

lemma returns_addFinalizer:
  assumes "accesses_limited n E" "small_access n a"
  shows "returns (Access_addFinalizer E a) (\<lambda>r. small_access n (snd r))"
    and "returns (Sidecar_Access_addFinalizer E a) (\<lambda>r. small_access n (snd r))"
  using assms returns_access_calls(2)[OF assms(1)]
  by (auto simp: returns_def Access_addFinalizer_def Sidecar_Access_addFinalizer_def Let_def small_access_def
      run_calls split: prod.splits sum.splits)

lemma within_addFinalizer:
  "calls_within 1 (Access_addFinalizer E a)" "calls_within 1 (Sidecar_Access_addFinalizer E a)"
  "calls_within 1 (Controller_Access_finish E e a)" "calls_within 1 (Sidecar_Access_finish E e a)"
  unfolding Access_addFinalizer_def Sidecar_Access_addFinalizer_def Controller_Access_finish_def
    Sidecar_Access_finish_def
  by - (rule within_mono, (rule within)+, simp)+

lemma within_Controller_Access_reconcile:
  assumes "accesses_limited n E" "small_access n a"
  shows "calls_within (3 * n + 3) (Controller_Access_reconcile E a)"
proof -
  have rest: "calls_within (3 * n + 2) (case r of (err, a) \<Rightarrow> case err of Some err \<Rightarrow> ret (Some err, a)
      | None \<Rightarrow> markAndInitialize E a)" if "small_access n (snd r)" for r
    using that by (cases r; cases "fst r")
      (auto simp: small_access_def intro: within_mono[OF within_return] within_mono[OF within_markAndInitialize])
  have live: "calls_within (3 * n + 3) (Controller_Access_reconcileLive E a)"
    unfolding Controller_Access_reconcileLive_def
    by (rule within_mono, rule within_bind_returns[OF within_addFinalizer(1) returns_addFinalizer(1)[OF assms]], rule rest)
       simp_all
  have delete: "calls_within (3 * n + 3) (Controller_Access_reconcileDelete E a)"
    by (rule within_mono[OF within_Controller_Access_reconcileDelete]) (use assms(2) in \<open>simp add: small_access_def\<close>)
  show ?thesis unfolding Controller_Access_reconcile_def
    by (rule within_mono, (rule within live delete)+) simp
qed

lemma within_Controller_Access:
  assumes "accesses_limited n E"
  shows "calls_within (3 * n + 5) (Controller_Access_Reconcile E req)"
  unfolding Controller_Access_Reconcile_def
proof (rule within_mono, rule within_bind_returns[OF within_calls(10) returns_access_calls(1)[OF assms]])
  fix r :: "api_error + BucketAccess" assume r: "\<forall>a. r = Inr a \<longrightarrow> small_access n a"
  show "calls_within (3 * n + 4) (case r of
       Inl err \<Rightarrow> ret (if IsNotFound err then Done else Retry (ApiError err))
     | Inr access \<Rightarrow> if ManagedBySidecar access then ret Done else do {
         (err, access) \<leftarrow> Controller_Access_reconcile E access;
         Controller_Access_finish E err access })"
  proof (cases r)
    case (Inr a)
    then have "small_access n a" using r by simp
    then show ?thesis unfolding Inr sum.case
      by (rule within_mono[OF within_if[OF within_return within_bind[OF
            within_Controller_Access_reconcile[OF assms] within_prod[OF within_addFinalizer(3)]]]]) simp
  qed (simp add: within_mono[OF within_return])
qed simp

section \<open>The Sidecar's accesses\<close>

lemma within_validate_buckets_loop: "calls_within (length bs) (validate_buckets_loop E D bs errs)"
proof (induction bs arbitrary: errs)
  case (Cons b bs)
  show ?case unfolding validate_buckets_loop.simps by (rule within_mono, (rule within Cons.IH)+) simp
qed (simp add: calls_within_def)

lemma within_reserve_loop: "calls_within (2 * length refs) (reserve_loop E a refs m errs)"
proof (induction refs arbitrary: m errs)
  case (Cons ref refs)
  have parts: "calls_within 1 (createNewOwnedAccessSecret E x a)"
    "calls_within 1 (updateExistingAccessSecretMetadata E y a)" for x y
    unfolding createNewOwnedAccessSecret_def updateExistingAccessSecretMetadata_def
    by - (rule within_mono, (rule within)+, simp)+
  show ?case unfolding reserve_loop.simps by (rule within_mono, (rule within parts Cons.IH)+) simp
qed (simp add: calls_within_def)

lemma within_delete_secrets_loop: "calls_within (3 * length refs) (delete_secrets_loop E a refs errs)"
proof (induction refs arbitrary: errs)
  case (Cons ref refs)
  show ?case unfolding delete_secrets_loop.simps by (rule within_mono, (rule within Cons.IH)+) simp
qed (simp add: calls_within_def)

lemma within_update_secrets_loop: "calls_within (length infos) (update_secrets_loop E g creds infos m errs)"
proof (induction infos arbitrary: m errs)
  case (Cons info infos)
  obtain b i where [simp]: "info = (b, i)" by force
  show ?case unfolding \<open>info = (b, i)\<close> update_secrets_loop.simps
    by (rule within_mono, (rule within Cons.IH)+) simp
qed (simp add: calls_within_def)

lemma within_access_parts [within]:
  "calls_within (length (ast_AccessedBuckets (a_Status a))) (getAndValidateAllAccessedBuckets E D a)"
  "calls_within (2 * length (as_BucketClaims (a_Spec a))) (reserveAccessSecrets E a)"
  "calls_within (3 * length (as_BucketClaims (a_Spec a))) (deleteOwnedAccessSecrets E a)"
  "calls_within 1 (driverRevokeAccess E a)" "calls_within 1 (handBack E a)"
  "calls_within 0 (RpcGrantBucketsList E g)" "calls_within 0 (validateGrantedAccess E g d)"
  unfolding getAndValidateAllAccessedBuckets_def reserveAccessSecrets_def deleteOwnedAccessSecrets_def
    driverRevokeAccess_def handBack_def RpcGrantBucketsList_def validateGrantedAccess_def
  by - (rule within_mono, (rule within within_validate_buckets_loop within_reserve_loop
      within_delete_secrets_loop)+, simp)+

lemma length_range_entries: "length (range_entries m ks) \<le> length ks"
  by (induction ks) (auto simp: range_entries_def List.map_filter_simps split: option.splits)

lemma within_updateSecretsWithGrantedInfo:
  "calls_within (length (ga_BucketInfoByBucketId d)) (updateSecretsWithGrantedInfo E g d)"
  unfolding updateSecretsWithGrantedInfo_def
  by (rule within_Range_bind, rule within_mono, (rule within within_update_secrets_loop)+)
     (simp, metis length_range_entries)

lemma length_access_config_loop:
  "length (snd (access_config_loop ids refs errs cfgs)) \<le> length cfgs + length refs"
proof (induction refs arbitrary: errs cfgs)
  case (Cons ref refs)
  have "length (snd (access_config_loop ids refs errs (AList.update b cfg cfgs))) \<le> length cfgs + length (ref # refs)"
    for b cfg
    using Cons.IH[of errs "AList.update b cfg cfgs"] length_update(1)[of b cfg cfgs] by simp
  then show ?case using Cons.IH by (auto simp: le_SucI split: option.splits sum.splits)
qed simp

lemma grant_config_size:
  assumes "newInternalGrantAccessConfig a secrets = Inr g"
  shows "length (igc_AccessConfigsByBucketId g) \<le> length (as_BucketClaims (a_Spec a))"
  using assms length_access_config_loop[of "bucket_ids_by_claim (ast_AccessedBuckets (a_Status a))"
      "as_BucketClaims (a_Spec a)" "[]" "[]"]
  by (auto simp: newInternalGrantAccessConfig_def generateInternalAccessedBucketConfigs_def
      split: sum.splits prod.splits option.splits)

lemma distinct_granted_buckets_loop:
  "distinct (map fst infos) \<Longrightarrow> distinct (map fst (snd (granted_buckets_loop v i bkts errs infos)))"
  by (induction v i bkts errs infos rule: granted_buckets_loop.induct)
     (auto simp: distinct_update split: sum.splits)

lemma distinct_granted:
  assumes "translateDriverGrantBucketAccessResponseToApi resp v = Inr d"
  shows "distinct (map fst (ga_BucketInfoByBucketId d))"
  using assms distinct_granted_buckets_loop[of "[]"]
  by (auto simp: translateDriverGrantBucketAccessResponseToApi_def Let_def split: prod.splits option.splits sum.splits)
     (metis list.simps(8) snd_conv)+

lemma returns_validateGrantedAccess:
  assumes "distinct (map fst (ga_BucketInfoByBucketId d))"
  shows "returns (validateGrantedAccess E g d)
    (\<lambda>r. r = None \<longrightarrow> length (ga_BucketInfoByBucketId d) \<le> length (igc_AccessConfigsByBucketId g))"
proof (rule returns_wp, rule wp_validateGrantedAccess)
  fix err :: "error option"
  assume "err = None \<longleftrightarrow> fst ` set (ga_BucketInfoByBucketId d) = fst ` set (igc_AccessConfigsByBucketId g)"
  then show "err = None \<longrightarrow> length (ga_BucketInfoByBucketId d) \<le> length (igc_AccessConfigsByBucketId g)"
    using assms by (metis card_length distinct_card length_map list.set_map)
qed

lemma within_publishAccess:
  "calls_within (length (igc_AccessConfigsByBucketId g) + 1) (publishAccess E a g resp)"
proof (cases "translateDriverGrantBucketAccessResponseToApi resp
    \<lparr>vc_ExpectedProtocol = as_Protocol (a_Spec a), vc_AuthenticationType = ast_AuthenticationType (a_Status a)\<rparr>")
  case (Inl err)
  then show ?thesis by (simp add: publishAccess_def within_mono[OF within_return])
next
  case (Inr d)
  have store: "calls_within (length (igc_AccessConfigsByBucketId g) + 1) (do {
      err \<leftarrow> updateSecretsWithGrantedInfo E g d;
      case err of Some err \<Rightarrow> ret (Some err, a) | None \<Rightarrow> do {
        let access = granted_access a (ga_AccountId d);
        r \<leftarrow> StatusUpdate_BucketAccess E access;
        case r of Inl err \<Rightarrow> ret (Some (wrapf (GrantMsg StatusAfterGrantFailed) [] (ApiError err)), access)
        | Inr access \<Rightarrow> ret (None, access) } })"
    if "length (ga_BucketInfoByBucketId d) \<le> length (igc_AccessConfigsByBucketId g)"
    by (rule within_mono, (rule within within_updateSecretsWithGrantedInfo)+) (use that in simp)
  show ?thesis unfolding publishAccess_def Inr sum.case
  proof (rule within_mono, rule within_bind_returns[OF within_access_parts(7)
        returns_validateGrantedAccess[OF distinct_granted[OF Inr]]])
    fix r :: "error option"
    assume "r = None \<longrightarrow> length (ga_BucketInfoByBucketId d) \<le> length (igc_AccessConfigsByBucketId g)"
    then show "calls_within (length (igc_AccessConfigsByBucketId g) + 1)
       (case r of Some err \<Rightarrow> ret (Some (NonRetryableError err), a) | None \<Rightarrow> do {
          err \<leftarrow> updateSecretsWithGrantedInfo E g d;
          case err of Some err \<Rightarrow> ret (Some err, a) | None \<Rightarrow> do {
            let access = granted_access a (ga_AccountId d);
            r \<leftarrow> StatusUpdate_BucketAccess E access;
            case r of Inl err \<Rightarrow> ret (Some (wrapf (GrantMsg StatusAfterGrantFailed) [] (ApiError err)), access)
            | Inr access \<Rightarrow> ret (None, access) } })"
      using store by (cases r) (simp_all add: within_mono[OF within_return])
  qed simp
qed

lemma within_grantAccess [within]: "calls_within (length (as_BucketClaims (a_Spec a)) + 2) (grantAccess E a secrets)"
proof (cases "newInternalGrantAccessConfig a secrets")
  case (Inr g)
  show ?thesis unfolding grantAccess_def Inr sum.case
    by (rule within_mono, (rule within within_publishAccess)+) (use grant_config_size[OF Inr] in simp)
qed (simp add: grantAccess_def within_mono[OF within_return])

lemma within_Sidecar_Access_reconcileDelete:
  assumes "accesses_limited n E"
  shows "calls_within (3 * n + 3) (Sidecar_Access_reconcileDelete E a)"
  unfolding Sidecar_Access_reconcileDelete_def Let_def
proof (rule within_mono, rule within_bind_returns[OF within_calls(12) returns_access_calls(3)[OF assms]])
  fix r :: "api_error + BucketAccess" assume r: "\<forall>a. r = Inr a \<longrightarrow> small_access n a"
  show "calls_within (3 * n + 2) (case r of
      Inl err \<Rightarrow> ret (Some (wrapf (GrantMsg AccessStatusBeforeDeletionFailed) [] (ApiError err)), access_not_ready a)
    | Inr access \<Rightarrow> do {
        err \<leftarrow> deleteOwnedAccessSecrets E access;
        case err of Some err \<Rightarrow> ret (Some err, access) | None \<Rightarrow> do {
          err \<leftarrow> (if ast_AccountID (a_Status access) \<noteq> [] then driverRevokeAccess E access else ret None);
          case err of Some err \<Rightarrow> ret (Some err, access) | None \<Rightarrow> handBack E access } })"
  proof (cases r)
    case (Inr a')
    then have "length (as_BucketClaims (a_Spec a')) \<le> n" using r by (simp add: small_access_def)
    then show ?thesis unfolding Inr sum.case by - (rule within_mono, (rule within)+, simp)
  qed (simp add: within_mono[OF within_return])
qed simp

lemma within_Sidecar_Access_reconcile:
  assumes "accesses_limited n E" "small_access n a"
  shows "calls_within (4 * n + 3) (Sidecar_Access_reconcile E D a)"
proof -
  have rest: "calls_within (4 * n + 2) (case r of (err, a) \<Rightarrow> case err of Some err \<Rightarrow> ret (Some err, a)
      | None \<Rightarrow> do {
         err \<leftarrow> getAndValidateAllAccessedBuckets E D a;
         case err of Some err \<Rightarrow> ret (Some err, a) | None \<Rightarrow> do {
             res \<leftarrow> reserveAccessSecrets E a;
             case res of Inl err \<Rightarrow> ret (Some err, a) | Inr secretsByName \<Rightarrow> grantAccess E a secretsByName } })"
    if "small_access n (snd r)" for r
  proof -
    obtain err a' where [simp]: "r = (err, a')" by force
    have "length (as_BucketClaims (a_Spec a')) \<le> n" "length (ast_AccessedBuckets (a_Status a')) \<le> n"
      using that by (simp_all add: small_access_def)
    then show ?thesis unfolding \<open>r = (err, a')\<close> prod.case by - (rule within_mono, (rule within)+, simp)
  qed
  have live: "calls_within (4 * n + 3) (Sidecar_Access_reconcileLive E D a)"
    unfolding Sidecar_Access_reconcileLive_def
    by (rule within_mono, rule within_bind_returns[OF within_addFinalizer(2) returns_addFinalizer(2)[OF assms]], rule rest)
       simp_all
  have delete: "calls_within (4 * n + 3) (Sidecar_Access_reconcileDelete E a)"
    by (rule within_mono[OF within_Sidecar_Access_reconcileDelete[OF assms(1)]]) simp
  show ?thesis unfolding Sidecar_Access_reconcile_def
    by (rule within_mono, (rule within live delete)+) simp
qed

lemma within_Sidecar_Access:
  assumes "accesses_limited n E"
  shows "calls_within (4 * n + 5) (Sidecar_Access_Reconcile E D req)"
  unfolding Sidecar_Access_Reconcile_def
proof (rule within_mono, rule within_bind_returns[OF within_calls(10) returns_access_calls(1)[OF assms]])
  fix r :: "api_error + BucketAccess" assume r: "\<forall>a. r = Inr a \<longrightarrow> small_access n a"
  show "calls_within (4 * n + 4) (case r of
       Inl err \<Rightarrow> ret (if IsNotFound err then Done else Retry (ApiError err))
     | Inr access \<Rightarrow> if \<not> ManagedBySidecar access then ret Done else do {
         (err, access) \<leftarrow> Sidecar_Access_reconcile E D access;
         Sidecar_Access_finish E err access })"
  proof (cases r)
    case (Inr a)
    then have "small_access n a" using r by simp
    then show ?thesis unfolding Inr sum.case
      by (rule within_mono[OF within_if[OF within_return within_bind[OF
            within_Sidecar_Access_reconcile[OF assms] within_prod[OF within_addFinalizer(4)]]]]) simp
  qed (simp add: within_mono[OF within_return])
qed simp

section \<open>The bounds\<close>

lemma history_within: "calls_within n m \<Longrightarrow> length (history_of m) \<le> n"
  by (auto simp: calls_within_def history_of_def dest: spec[of _ "[]"])

text \<open>
  C32. Every reconcile ends after a bounded number of calls to the API server and the driver. A run for
  a Bucket makes at most seven and a run for a claim at most eight, whatever these answer. A run for an
  access makes at most \<open>3 * n + 5\<close> calls in the Controller and \<open>4 * n + 5\<close> in a Sidecar if no access that the
  server shows has more than \<open>n\<close> references or accessed buckets; the API types allow 128.
\<close>

theorem reconcile_runs_bounded:
  assumes "accesses_limited n E"
  shows "length (history_of (Sidecar_Bucket_Reconcile E' D' k)) \<le> 7 \<and>
    length (history_of (BucketClaim_Reconcile E' k)) \<le> 8 \<and>
    length (history_of (Controller_Access_Reconcile E req)) \<le> 3 * n + 5 \<and>
    length (history_of (Sidecar_Access_Reconcile E D req)) \<le> 4 * n + 5"
  using assms
  by (simp add: history_within within_Sidecar_Bucket within_BucketClaim within_Controller_Access within_Sidecar_Access)

theorem reconcile_runs_bounded_witness:
  "length (history_of (Sidecar_Access_Reconcile (echo_env\<lparr>e_GetBucketAccess := \<lambda>_ _. Inr handed_over_access,
       e_UpdateBucketAccess := \<lambda>_ _. Inr handed_over_access, e_StatusUpdateBucketAccess := \<lambda>_ _. Inr handed_over_access\<rparr>)
     \<lparr>di_Name = ''drv'', di_SupportedProtocols = []\<rparr> \<lparr>nn_Namespace = ''ns'', nn_Name = ''a''\<rparr>)) \<le> 9"
proof -
  have "small_access 1 handed_over_access"
    by (simp add: small_access_def handed_over_access_def example_access_def)
  then show ?thesis
    using reconcile_runs_bounded[of 1 "echo_env\<lparr>e_GetBucketAccess := \<lambda>_ _. Inr handed_over_access,
       e_UpdateBucketAccess := \<lambda>_ _. Inr handed_over_access, e_StatusUpdateBucketAccess := \<lambda>_ _. Inr handed_over_access\<rparr>"]
    by (simp add: accesses_limited_def)
qed

end
