(* ===== verification/Concurrent_Runs.thy ===== *)
theory Concurrent_Runs
  imports Sidecar_Bucket Controller_BucketClaim Controller_BucketAccess Sidecar_BucketAccess_Contract
begin

text \<open>
  Many runs at once. The runs of all reconcilers, of the Controller and of any number of Sidecars,
  interleave call by call against one API server whose reads may be stale. What is assumed of the
  server is its optimistic concurrency: a write is accepted only if it was made from the version
  that is current, and every accepted version gets a new resource version. Under this assumption
  the ID of a backend bucket, once stored in the status of a Bucket, never changes.
\<close>

section \<open>What a write is based on\<close>

abbreviation bucket_id :: "Bucket \<Rightarrow> string" where
  "bucket_id b \<equiv> bst_BucketID (b_Status b)"

text \<open>The Buckets the server has answered with.\<close>

definition bucket_answers :: "history \<Rightarrow> Bucket list" where
  "bucket_answers = List.map_filter server_bucket"

text \<open>\<open>x\<close> was made from a version the server answered with, and \<open>i\<close> is the ID of that version or
  the version has none.\<close>

definition based_on :: "history \<Rightarrow> Bucket \<Rightarrow> string \<Rightarrow> bool" where
  "based_on tr x i \<longleftrightarrow> (\<exists>s \<in> set (bucket_answers tr). same_version (b_Meta x) (b_Meta s) \<and> (i = bucket_id s \<or> bucket_id s = []))"

text \<open>The server stored the ID it was sent.\<close>

definition id_kept :: "event \<Rightarrow> bool" where
  "id_kept e = (case e of
      EvUpdateBucket x (Inr y) \<Rightarrow> bucket_id y = bucket_id x
    | EvStatusUpdateBucket x (Inr y) \<Rightarrow> bucket_id y = bucket_id x
    | _ \<Rightarrow> True)"

definition base_guard :: "history \<Rightarrow> event \<Rightarrow> bool" where
  "base_guard tr e = (list_all id_kept tr \<longrightarrow> (case e of
      EvUpdateBucket x _ \<Rightarrow> (\<exists>s \<in> set (bucket_answers tr). same_version (b_Meta x) (b_Meta s) \<and> bucket_id x = bucket_id s)
    | EvStatusUpdateBucket x _ \<Rightarrow> based_on tr x (bucket_id x)
    | _ \<Rightarrow> True))"

lemma bucket_answers_simps [simp]:
  "bucket_answers [] = []" "bucket_answers (tr @ tr') = bucket_answers tr @ bucket_answers tr'"
  "bucket_answers (e # tr) = (case server_bucket e of None \<Rightarrow> [] | Some b \<Rightarrow> [b]) @ bucket_answers tr"
  by (simp_all add: bucket_answers_def List.map_filter_def split: option.splits)

lemma server_bucket_none [simp]:
  "server_bucket (EvUpdateBucket x (Inl r)) = None" "server_bucket (EvStatusUpdateBucket x (Inl r)) = None"
  "server_bucket (EvDriverGenerateBucketId q g) = None" "server_bucket (EvDriverDeleteBucket d r') = None"
  "server_bucket (provision_event st b i ps a) = None"
  by (simp_all add: server_bucket_def provision_event_def)

lemma id_kept_simps [simp]:
  "id_kept (EvGetBucket k g)" "id_kept (EvDriverGenerateBucketId q m)" "id_kept (EvDriverDeleteBucket d r')"
  "id_kept (provision_event st b i ps a)" "id_kept (EvUpdateBucket x (Inl r))" "id_kept (EvStatusUpdateBucket x (Inl r))"
  "id_kept (EvUpdateBucket x (Inr y)) = (bucket_id y = bucket_id x)"
  "id_kept (EvStatusUpdateBucket x (Inr y)) = (bucket_id y = bucket_id x)"
  by (simp_all add: id_kept_def provision_event_def)

lemma base_guard_simps [simp]:
  "base_guard tr (EvGetBucket k g)" "base_guard tr (EvDriverGenerateBucketId q m)"
  "base_guard tr (EvDriverDeleteBucket d r')" "base_guard tr (provision_event st b i ps a)"
  "base_guard tr (EvUpdateBucket x u) \<longleftrightarrow> (list_all id_kept tr \<longrightarrow>
     (\<exists>s \<in> set (bucket_answers tr). same_version (b_Meta x) (b_Meta s) \<and> bucket_id x = bucket_id s))"
  "base_guard tr (EvStatusUpdateBucket x u) \<longleftrightarrow> (list_all id_kept tr \<longrightarrow> based_on tr x (bucket_id x))"
  by (simp_all add: base_guard_def provision_event_def)

lemma bucket_meta_frame [simp]:
  "b_Meta (bucket_ready_set b) = b_Meta b" "b_Meta (bucket_not_ready b) = b_Meta b"
  "b_Meta (ready_bucket b i ps f) = b_Meta b" "b_Meta (with_id b i) = b_Meta b"
  by (simp_all add: bucket_ready_set_def bucket_not_ready_def ready_bucket_def with_id_def)

lemma based_on_frame [simp]:
  "based_on tr (bucket_ready_set b) i = based_on tr b i" "based_on tr (bucket_not_ready b) i = based_on tr b i"
  "based_on tr (ready_bucket b j ps f) i = based_on tr b i" "based_on tr (with_id b j) i = based_on tr b i"
  "based_on tr (b\<lparr>b_Status := st\<rparr>) i = based_on tr b i"
  by (simp_all add: based_on_def)

lemma based_on_append: "based_on tr x i \<Longrightarrow> based_on (tr @ es) x i"
  by (auto simp: based_on_def)

lemma based_on_answer: "b \<in> set (bucket_answers tr) \<Longrightarrow> i = bucket_id b \<or> bucket_id b = [] \<Longrightarrow> based_on tr b i"
  unfolding based_on_def by (rule bexI[of _ b]) auto

lemma based_on_finalizer [simp]:
  "based_on tr (b\<lparr>b_Meta := RemoveFinalizer (b_Meta b) f\<rparr>) i = based_on tr b i"
  by (simp add: based_on_def)

abbreviation base_inv :: "error option \<times> Bucket \<Rightarrow> history \<Rightarrow> bool" where
  "base_inv r tr \<equiv> guarded base_guard tr \<and> (list_all id_kept tr \<longrightarrow> based_on tr (snd r) (bucket_id (snd r)))"

lemma wp_provisionBucket_base:
  assumes "guarded base_guard tr" "list_all id_kept tr \<longrightarrow> based_on tr b (bucket_id b) \<and> based_on tr b i"
  shows "wp (provisionBucket E b i ps st) base_inv tr"
  by (rule wp_provisionBucket) (use assms in \<open>auto intro: based_on_append based_on_answer\<close>)

lemma wp_recordAndProvision_base:
  assumes "guarded base_guard tr" "list_all id_kept tr \<longrightarrow> based_on tr b (bucket_id b) \<and> based_on tr b i"
  shows "wp (recordAndProvision E b i ps st) base_inv tr"
  unfolding recordAndProvision_def
  by (intro wp_provisionBucket_base wp_intro) (use assms in \<open>auto intro: based_on_append based_on_answer\<close>)

lemma wp_reconcileDelete_base:
  assumes "guarded base_guard tr" "list_all id_kept tr \<longrightarrow> based_on tr b (bucket_id b)"
  shows "wp (Sidecar_Bucket_reconcileDelete E b) base_inv tr"
  unfolding Sidecar_Bucket_reconcileDelete_def
  by (intro wp_intro) (use assms in \<open>auto intro!: bexI[of _ b] intro: based_on_append based_on_answer\<close>)

lemma wp_addFinalizer_base:
  assumes "guarded base_guard tr" "b \<in> set (bucket_answers tr)"
  shows "wp (Bucket_addFinalizer E b) (\<lambda>r tr'. base_inv r tr' \<and> (fst r = None \<longrightarrow> snd r \<in> set (bucket_answers tr'))) tr"
proof -
  obtain d m where add: "AddFinalizer (b_Meta b) ProtectionFinalizer = (d, m)" by force
  note version = AddFinalizer_same_version[OF add]
  have based: "based_on tr (b\<lparr>b_Meta := m\<rparr>) (bucket_id b)"
    unfolding based_on_def by (rule bexI[OF _ assms(2)]) (simp add: version)
  have "b\<lparr>b_Meta := m\<rparr> = b" if "\<not> d" using add that AddFinalizer_unchanged by fastforce
  then show ?thesis unfolding Bucket_addFinalizer_def add Let_def prod.case
    using assms version based
    by (cases d) (auto intro!: wp_intro bexI[of _ b] intro: based_on_append based_on_answer)
qed

lemma wp_reconcile_base:
  assumes start: "guarded base_guard tr" "b \<in> set (bucket_answers tr)"
  shows "wp (Sidecar_Bucket_reconcile E driver b) base_inv tr"
proof -
  have assign: "wp (assignBucketID E b' ps) (\<lambda>res. wp (case res of Inl err \<Rightarrow> ret (Some err, b')
      | Inr bucketID \<Rightarrow> recordAndProvision E b' bucketID ps st) base_inv) tr"
    if "guarded base_guard tr" "b' \<in> set (bucket_answers tr)" for b' ps st tr
    using that by (intro wp_intro wp_recordAndProvision_base) (auto intro: based_on_answer based_on_append)
  show ?thesis
    unfolding Sidecar_Bucket_reconcile_def
    by (intro wp_if wp_reconcileDelete_base wp_return wp_Let wp_case_sum wp_case_option wp_bind
        wp_mono[OF wp_addFinalizer_base[OF start]] based_on_append)
       (use start based_on_answer[OF start(2)] in \<open>auto intro!: wp_intro assign intro: based_on_append based_on_answer\<close>)
qed

lemma Sidecar_Bucket_base: "guarded base_guard (history_of (Sidecar_Bucket_Reconcile E driver req))"
proof (rule wp_history, rule sidecar_bucket.wp_Reconcile)
  have finish: "wp (Sidecar_Bucket_finish E err b) (\<lambda>_. guarded base_guard) tr" if "base_inv (err, b) tr" for err b tr
    using that unfolding Sidecar_Bucket_finish_def by (intro wp_intro) auto
  show "wp (Sidecar_Bucket_reconcile E driver b)
      (\<lambda>(e, x'). wp (Sidecar_Bucket_finish E e x') (\<lambda>_. guarded base_guard)) [EvGetBucket req (Inr b)]" for b
    by (rule wp_mono[OF wp_reconcile_base]) (auto simp: guarded_def intro: finish)
qed (auto simp: guarded_def)

section \<open>Interleaved runs\<close>

text \<open>A run of any reconciler, in any environment, or anybody else.\<close>

datatype actor = Run nat | Outside

type_synonym cluster_trace = "(actor \<times> event) list"

definition run_history :: "history \<Rightarrow> bool" where
  "run_history h \<longleftrightarrow> (\<exists>E D k. h \<in> {history_of (Sidecar_Bucket_Reconcile E D k), history_of (BucketClaim_Reconcile E k),
     history_of (Controller_Access_Reconcile E k), history_of (Sidecar_Access_Reconcile E D k)})"

definition events_of :: "actor \<Rightarrow> cluster_trace \<Rightarrow> history" where
  "events_of a T = map snd (filter (\<lambda>x. fst x = a) T)"

text \<open>What each run has done so far is the beginning of a run; others do not write Bucket statuses.\<close>

definition interleaved :: "cluster_trace \<Rightarrow> bool" where
  "interleaved T \<longleftrightarrow> (\<forall>i. \<exists>rest. run_history (events_of (Run i) T @ rest)) \<and>
     list_all (\<lambda>e. \<not> status_bucket_event e) (events_of Outside T)"

text \<open>The versions of Buckets the server has stored, and the last one of an object.\<close>

definition stored_version :: "event \<Rightarrow> Bucket option" where
  "stored_version e = (case e of
      EvCreateBucket _ (Inr y) \<Rightarrow> Some y
    | EvUpdateBucket _ (Inr y) \<Rightarrow> Some y
    | EvStatusUpdateBucket _ (Inr y) \<Rightarrow> Some y
    | _ \<Rightarrow> None)"

abbreviation versions :: "cluster_trace \<Rightarrow> Bucket list" where
  "versions \<equiv> stored_versions (\<lambda>ae. stored_version (snd ae))"

abbreviation current :: "cluster_trace \<Rightarrow> UID \<Rightarrow> Bucket option" where
  "current \<equiv> current_version (\<lambda>ae. stored_version (snd ae)) b_Meta"

abbreviation new_version :: "cluster_trace \<Rightarrow> Bucket \<Rightarrow> bool" where
  "new_version \<equiv> fresh_version (\<lambda>ae. stored_version (snd ae)) b_Meta"

text \<open>
  Optimistic concurrency, as the API server documents it: reads return a version that was stored
  (not necessarily the current one), a write is accepted only if it was made from the current version,
  and gives a new one; an update leaves the status as it is, a status update stores the status it is
  sent, and a created object has a new UID.
\<close>

definition optimistic :: "cluster_trace \<Rightarrow> actor \<times> event \<Rightarrow> bool" where
  "optimistic T ae = (case snd ae of
      EvGetBucket _ (Inr b) \<Rightarrow> b \<in> set (versions T)
    | EvCreateBucket x (Inr y) \<Rightarrow> new_version T y \<and> current T (om_UID (b_Meta y)) = None
    | EvUpdateBucket x (Inr y) \<Rightarrow> new_version T y \<and> om_UID (b_Meta y) = om_UID (b_Meta x) \<and>
        (\<exists>cur. current T (om_UID (b_Meta x)) = Some cur \<and> same_version (b_Meta x) (b_Meta cur) \<and> b_Status y = b_Status cur)
    | EvStatusUpdateBucket x (Inr y) \<Rightarrow> new_version T y \<and> om_UID (b_Meta y) = om_UID (b_Meta x) \<and>
        (\<exists>cur. current T (om_UID (b_Meta x)) = Some cur \<and> same_version (b_Meta x) (b_Meta cur)) \<and> b_Status y = b_Status x
    | _ \<Rightarrow> True)"

text \<open>A version that is stored has the ID of every earlier version of the object that has one.\<close>

definition id_stable :: "cluster_trace \<Rightarrow> actor \<times> event \<Rightarrow> bool" where
  "id_stable T ae = (case stored_version (snd ae) of
      None \<Rightarrow> True
    | Some y \<Rightarrow> list_all (\<lambda>v. om_UID (b_Meta v) = om_UID (b_Meta y) \<and> bucket_id v \<noteq> [] \<longrightarrow>
        bucket_id y = bucket_id v) (versions T))"

lemma events_of_snoc:
  "events_of a (T @ [(a', e)]) = events_of a T @ (if a' = a then [e] else [])"
  by (simp add: events_of_def)

text \<open>A Bucket status update can only come from a Sidecar's Bucket reconcile, and it is based on a
  version the run has seen.\<close>

lemma run_status_update:
  assumes "run_history (h @ e # rest)" "status_bucket_event e"
  shows "guarded base_guard (h @ [e])"
proof -
  from assms(1) obtain E D k where run: "h @ e # rest \<in> {history_of (Sidecar_Bucket_Reconcile E D k),
      history_of (BucketClaim_Reconcile E k), history_of (Controller_Access_Reconcile E k),
      history_of (Sidecar_Access_Reconcile E D k)}" by (auto simp: run_history_def)
  have "\<not> claim_contract h e" "\<not> access_contract h e" "\<not> grant_contract D h e"
    using assms(2) by (auto simp: status_bucket_event_def claim_contract_def access_contract_def grant_contract_def
        split: event.splits)
  then have "h @ e # rest \<noteq> history_of (BucketClaim_Reconcile E k)"
    "h @ e # rest \<noteq> history_of (Controller_Access_Reconcile E k)"
    "h @ e # rest \<noteq> history_of (Sidecar_Access_Reconcile E D k)"
    using BucketClaim_Reconcile_contract Controller_Access_Reconcile_contract Sidecar_Access_Reconcile_contract
    by (metis guardedD)+
  then have "h @ e # rest = history_of (Sidecar_Bucket_Reconcile E D k)" using run by blast
  then have "guarded base_guard (h @ e # rest)" using Sidecar_Bucket_base[of E D k] by simp
  then show ?thesis by simp
qed

section \<open>The invariant\<close>

text \<open>The current version of an object has the ID of every earlier version that has one.\<close>

definition ids_current :: "cluster_trace \<Rightarrow> bool" where
  "ids_current T \<longleftrightarrow> (\<forall>v \<in> set (versions T). \<forall>cur. bucket_id v \<noteq> [] \<longrightarrow>
     current T (om_UID (b_Meta v)) = Some cur \<longrightarrow> bucket_id cur = bucket_id v)"

text \<open>A run was only ever answered with versions that were stored, and its writes kept their ID.\<close>

definition answers_stored :: "cluster_trace \<Rightarrow> bool" where
  "answers_stored T \<longleftrightarrow> (\<forall>i. set (bucket_answers (events_of (Run i) T)) \<subseteq> set (versions T))"

lemma server_bucket_stored:
  "server_bucket e = Some b \<Longrightarrow> stored_version e = Some b \<or> (\<exists>k. e = EvGetBucket k (Inr b))"
  by (auto simp: server_bucket_def stored_version_def split: event.splits sum.splits)

lemma answers_stored_snoc:
  assumes "answers_stored T" "optimistic T (a, e)"
  shows "answers_stored (T @ [(a, e)])"
proof -
  have answer: "b \<in> set (versions (T @ [(a, e)]))" if "server_bucket e = Some b" for b
    using server_bucket_stored[OF that] assms(2) by (auto simp: optimistic_def)
  have "set (bucket_answers (events_of (Run i) (T @ [(a, e)]))) \<subseteq> set (versions (T @ [(a, e)]))" for i
    using assms(1) answer by (cases "server_bucket e") (auto simp: answers_stored_def events_of_snoc)
  then show ?thesis by (simp add: answers_stored_def)
qed

lemma ids_current_snoc:
  assumes T: "ids_current T"
    and id: "\<And>y cur. stored_version e = Some y \<Longrightarrow> current T (om_UID (b_Meta y)) = Some cur \<Longrightarrow>
      bucket_id cur \<noteq> [] \<Longrightarrow> bucket_id y = bucket_id cur"
  shows "ids_current (T @ [(a, e)]) \<and> id_stable T (a, e)"
proof (cases "stored_version e")
  case None
  then show ?thesis using T by (simp add: ids_current_def id_stable_def current_version_snoc)
next
  case (Some y)
  have stable: "bucket_id y = bucket_id v"
    if v: "v \<in> set (versions T)" "om_UID (b_Meta v) = om_UID (b_Meta y)" "bucket_id v \<noteq> []" for v
  proof (cases "current T (om_UID (b_Meta y))")
    case None
    then show ?thesis using current_version_None[OF None v(1)] v(2) by simp
  next
    case cur: (Some cur)
    then have "bucket_id cur = bucket_id v" using T v by (simp add: ids_current_def)
    then show ?thesis using id[OF Some cur] v(3) by simp
  qed
  then show ?thesis using T Some by (simp add: ids_current_def id_stable_def current_version_snoc list_all_iff)
qed

lemma optimistic_new: "optimistic T (a, e) \<Longrightarrow> stored_version e = Some y \<Longrightarrow> new_version T y"
  by (auto simp: optimistic_def stored_version_def split: event.splits sum.splits)

interpretation bucket_store: versioning_server "\<lambda>ae. stored_version (snd ae)" b_Meta optimistic
  by unfold_locales (metis optimistic_new prod.collapse)

definition writes_kept :: "cluster_trace \<Rightarrow> bool" where
  "writes_kept T \<longleftrightarrow> (\<forall>i. guarded base_guard (events_of (Run i) T) \<longrightarrow> list_all id_kept (events_of (Run i) T))"

text \<open>What one accepted write of a run does to the ID.\<close>

lemma run_write:
  assumes "guarded optimistic T" "answers_stored T" "writes_kept T" "optimistic T (Run i, e)"
    and "guarded base_guard (events_of (Run i) T @ [e])"
  shows "id_kept e \<and> (\<forall>y cur. stored_version e = Some y \<longrightarrow> status_bucket_event e \<longrightarrow>
    current T (om_UID (b_Meta y)) = Some cur \<longrightarrow> bucket_id cur \<noteq> [] \<longrightarrow> bucket_id y = bucket_id cur)"
proof -
  let ?h = "events_of (Run i) T"
  have guard: "base_guard ?h e" and kept: "list_all id_kept ?h"
    using assms(3,5) by (auto simp: writes_kept_def)
  have base: "s = cur" if "s \<in> set (bucket_answers ?h)" "same_version (b_Meta x) (b_Meta s)" "same_version (b_Meta x) (b_Meta cur)"
      "current T u = Some cur" for s x cur u
  proof (rule bucket_store.shown_is_current[OF assms(1) _ that(2,4,3)])
    show "s \<in> set (versions T)" using assms(2) that(1) by (auto simp: answers_stored_def)
  qed
  show ?thesis
  proof (cases e)
    case (EvUpdateBucket x r)
    then show ?thesis
      using guard kept assms(4) base
      by (cases r) (force simp: optimistic_def status_bucket_event_def)+
  next
    case (EvStatusUpdateBucket x r)
    then show ?thesis
      using guard kept assms(4) base
      by (cases r) (force simp: optimistic_def based_on_def stored_version_def)+
  qed (simp_all add: id_kept_def status_bucket_event_def stored_version_def)
qed

lemma interleaved_snoc:
  assumes "interleaved (T @ [(a, e)])"
  shows "interleaved T" and "a = Run i \<Longrightarrow> \<exists>rest. run_history (events_of a T @ e # rest)"
    and "a = Outside \<Longrightarrow> \<not> status_bucket_event e"
proof -
  show "interleaved T" unfolding interleaved_def
  proof (intro conjI allI)
    fix i
    obtain rest where "run_history (events_of (Run i) (T @ [(a, e)]) @ rest)"
      using assms by (auto simp: interleaved_def)
    then have "run_history (events_of (Run i) T @ ((if a = Run i then [e] else []) @ rest))"
      by (simp add: events_of_snoc)
    then show "\<exists>rest. run_history (events_of (Run i) T @ rest)" ..
  qed (use assms in \<open>auto simp: interleaved_def events_of_snoc\<close>)
  show "\<exists>rest. run_history (events_of a T @ e # rest)" if "a = Run i"
  proof -
    obtain rest where "run_history (events_of (Run i) (T @ [(a, e)]) @ rest)"
      using assms by (auto simp: interleaved_def)
    then show ?thesis using that by (auto simp: events_of_snoc)
  qed
  show "\<not> status_bucket_event e" if "a = Outside"
    using assms that by (simp add: interleaved_def events_of_snoc)
qed

text \<open>Writes other than status updates do not touch the ID.\<close>

lemma other_write:
  assumes "optimistic T (a, e)" "\<not> status_bucket_event e" "stored_version e = Some y"
    "current T (om_UID (b_Meta y)) = Some cur"
  shows "bucket_id y = bucket_id cur"
  using assms
  by (auto simp: optimistic_def stored_version_def status_bucket_event_def split: event.splits sum.splits)

lemma concurrent_invariant:
  assumes "guarded optimistic T" "interleaved T"
  shows "answers_stored T \<and> writes_kept T \<and> ids_current T \<and> guarded id_stable T"
  using assms
proof (induction T rule: rev_induct)
  case Nil
  then show ?case
    by (simp add: answers_stored_def writes_kept_def ids_current_def events_of_def)
next
  case (snoc ae T)
  obtain a e where [simp]: "ae = (a, e)" by force
  have law: "optimistic T (a, e)" and IH: "guarded optimistic T" "answers_stored T" "writes_kept T" "ids_current T"
      "guarded id_stable T"
    using snoc interleaved_snoc(1)[of T a e] by auto
  have id: "bucket_id y = bucket_id cur" if "stored_version e = Some y" "current T (om_UID (b_Meta y)) = Some cur"
      "bucket_id cur \<noteq> []" for y cur
  proof (cases "status_bucket_event e")
    case True
    have il: "interleaved (T @ [(a, e)])" using snoc.prems(2) by simp
    obtain i where a: "a = Run i" using interleaved_snoc(3)[OF il] True by (cases a) auto
    moreover obtain rest where "run_history (events_of a T @ e # rest)" using interleaved_snoc(2)[OF il a] ..
    ultimately show ?thesis using run_write[OF IH(1-3), of i e] law run_status_update[OF _ True] True that by auto
  qed (use other_write[OF law] that in blast)
  have "writes_kept (T @ [(a, e)])"
    using IH(3) run_write[OF IH(1-3), of _ e] law by (auto simp: writes_kept_def events_of_snoc)
  then show ?case
    using answers_stored_snoc[OF IH(2) law] ids_current_snoc[OF IH(4), of e a] id IH(5) by auto
qed

text \<open>
  C2. The ID of a backend bucket never changes: however the runs of all reconcilers interleave, and
  however stale their reads are, under the server's optimistic concurrency every version of a Bucket
  that is stored carries the ID of every earlier version that had one.
\<close>

theorem bucket_id_never_changes:
  assumes "guarded optimistic T" "interleaved T"
  shows "guarded id_stable T"
  using concurrent_invariant[OF assms] by simp

text \<open>A Bucket whose claim is being deleted is created, read by a Sidecar and marked as not ready.\<close>

definition retiring_bucket :: Bucket where
  "retiring_bucket = example_bucket
     \<lparr>b_Meta := add_annotation BucketClaimBeingDeletedAnnotation (zero_meta\<lparr>om_UID := ''7'', om_ResourceVersion := ''1''\<rparr>),
      b_Status := zero_BucketStatus\<lparr>bst_BucketID := ''x''\<rparr>\<rparr>"

definition retired_bucket :: Bucket where
  "retired_bucket = (bucket_not_ready retiring_bucket)\<lparr>b_Meta := (b_Meta retiring_bucket)\<lparr>om_ResourceVersion := ''2''\<rparr>\<rparr>"

definition retiring_trace :: cluster_trace where
  "retiring_trace = [(Outside, EvCreateBucket retiring_bucket (Inr retiring_bucket)),
     (Run 0, EvGetBucket \<lparr>nn_Namespace = [], nn_Name = ''bc-1''\<rparr> (Inr retiring_bucket)),
     (Run 0, EvStatusUpdateBucket (bucket_not_ready retiring_bucket) (Inr retired_bucket))]"

lemma retiring_run:
  "history_of (Sidecar_Bucket_Reconcile (echo_env\<lparr>e_GetBucket := \<lambda>_ _. Inr retiring_bucket,
      e_StatusUpdateBucket := \<lambda>_ _. Inr retired_bucket\<rparr>) example_driver \<lparr>nn_Namespace = [], nn_Name = ''bc-1''\<rparr>) =
   events_of (Run 0) retiring_trace"
proof -
  have b: "bs_DriverName (b_Spec retiring_bucket) = di_Name example_driver"
    "IsZero (om_DeletionTimestamp (b_Meta retiring_bucket))"
    "has_annotation (b_Meta retiring_bucket) BucketClaimBeingDeletedAnnotation"
    "bst_Error (b_Status retired_bucket) = None"
    by (simp_all add: retiring_bucket_def retired_bucket_def example_bucket_def example_driver_def bucket_not_ready_def
        add_annotation_def zero_meta_def zero_BucketStatus_def has_annotation_def)
  show ?thesis
    by (simp add: history_of_def Sidecar_Bucket_run[where b = retiring_bucket] Sidecar_Bucket_reconcile_def b
        Sidecar_Bucket_finish_def run_calls Let_def events_of_def retiring_trace_def)
qed

theorem bucket_id_never_changes_witness: "guarded id_stable retiring_trace"
proof (rule bucket_id_never_changes)
  have "new_version [] retiring_bucket" "new_version [(Outside, EvCreateBucket retiring_bucket (Inr retiring_bucket)),
     (Run 0, EvGetBucket \<lparr>nn_Namespace = [], nn_Name = ''bc-1''\<rparr> (Inr retiring_bucket))] retired_bucket"
    by (simp_all add: fresh_version_def stored_version_def retiring_bucket_def
        retired_bucket_def add_annotation_def)
  then show "guarded optimistic retiring_trace"
    by (simp add: guarded_def retiring_trace_def optimistic_def stored_version_def
        current_version_def retired_bucket_def bucket_not_ready_def same_version_def)
  show "interleaved retiring_trace"
    unfolding interleaved_def
  proof (intro conjI allI)
    fix i
    have run: "run_history (events_of (Run 0) retiring_trace)"
      unfolding run_history_def retiring_run[symmetric] by blast
    have "events_of (Run i) retiring_trace = [] \<or> i = 0" by (simp add: events_of_def retiring_trace_def)
    then show "\<exists>rest. run_history (events_of (Run i) retiring_trace @ rest)"
    proof
      assume "events_of (Run i) retiring_trace = []"
      then show ?thesis using run by (intro exI[of _ "events_of (Run 0) retiring_trace"]) simp
    qed (use run in \<open>auto intro: exI[of _ "[]"]\<close>)
  qed (simp add: events_of_def retiring_trace_def status_bucket_event_def)
qed

end
