(* ===== verification/Sidecar_BucketAccess_Results.thy ===== *)
theory Sidecar_BucketAccess_Results
  imports Sidecar_BucketAccess_Contract
begin

text \<open>
  What the Sidecar's BucketAccess reconciler guarantees: its safety in every environment, read off
  its contract, the exact meaning of its checks, and complete successful runs.
\<close>

section \<open>Properties\<close>

definition grant_guard :: "DriverInfo \<Rightarrow> history \<Rightarrow> event \<Rightarrow> bool" where
  "grant_guard D tr e = (case e of EvDriverGrantBucketAccess q _ \<Rightarrow> grant_ok D tr q | _ \<Rightarrow> True)"

definition secret_guard :: "DriverInfo \<Rightarrow> history \<Rightarrow> event \<Rightarrow> bool" where
  "secret_guard D tr e = (case e of
      EvCreateSecret s _ \<Rightarrow> run_live D tr \<and> (\<exists>a \<in> set (accesses_shown tr). \<exists>name.
        name \<in> set (access_secret_names a) \<and> secret_key a name \<in> set (secrets_missing tr) \<and>
        s = new_access_secret a name)
    | EvUpdateSecret s _ \<Rightarrow> secret_update_ok D tr s
    | EvDeleteSecret s _ \<Rightarrow> run_deleting D tr \<and> (\<exists>a \<in> set (accesses_shown tr). \<exists>name s0.
        own_secret tr a name s0 \<and> (unprotected s0, s) \<in> set (secrets_updated tr))
    | _ \<Rightarrow> True)"

definition grant_status_guard :: "history \<Rightarrow> event \<Rightarrow> bool" where
  "grant_status_guard tr e = (case e of EvStatusUpdateBucketAccess a _ \<Rightarrow> grant_status_ok tr a | _ \<Rightarrow> True)"

definition revoke_guard :: "DriverInfo \<Rightarrow> history \<Rightarrow> event \<Rightarrow> bool" where
  "revoke_guard D tr e = (case e of
      EvDriverRevokeBucketAccess q _ \<Rightarrow> revoke_ok D tr q
    | EvUpdateBucketAccess a _ \<Rightarrow> access_update_ok D tr a
    | _ \<Rightarrow> True)"

text \<open>
  C24. The Sidecar asks the driver to grant access only for an access it manages, that is not being
  deleted, fully initialized and protected by the stored finalizer; only after it has read every
  accessed Bucket and found it usable (not being deleted, of this driver, with the recorded ID), and
  only after every Secret named in the spec, all different, is reserved. The request is the one
  compiled from the access, with the accessed buckets in any order.
\<close>

theorem grant_only_when_prepared:
  "guarded (grant_guard D) (history_of (Sidecar_Access_Reconcile E D req))"
  by (rule guarded_weaken[OF Sidecar_Access_Reconcile_contract])
     (auto simp: grant_contract_def grant_guard_def split: event.splits)

text \<open>
  C25. The Sidecar touches only Secrets of the access: it creates one only under a name of the spec
  that the server reported missing, empty and controlled by the access; it updates one only to
  reserve an owned Secret, to fill a reserved Secret with the credentials and the info of its own
  bucket from a confirmed grant, or to release an owned Secret; and it deletes only an owned Secret
  that it has just released.
\<close>

theorem access_secrets_confined:
  "guarded (secret_guard D) (history_of (Sidecar_Access_Reconcile E D req))"
  by (rule guarded_weaken[OF Sidecar_Access_Reconcile_contract])
     (auto simp: grant_contract_def secret_guard_def split: event.splits)

text \<open>
  C26. An access is published as ready, and gets an account ID, only after the driver confirmed a
  grant for exactly the configured buckets and every corresponding Secret was stored with its data;
  any other status update keeps account ID and initialization as the server showed them and does
  not turn readiness on.
\<close>

theorem access_ready_only_when_granted:
  "guarded grant_status_guard (history_of (Sidecar_Access_Reconcile E D req))"
  by (rule guarded_weaken[OF Sidecar_Access_Reconcile_contract])
     (auto simp: grant_contract_def grant_status_guard_def split: event.splits)

text \<open>
  C27. Deletion goes in order: access is revoked, under the recorded account ID, only after the
  access was stored as not ready and all its Secrets are gone; the access is handed back to the
  Controller only after that revocation succeeded or if there was no account, and its finalizer is
  never removed here.
\<close>

theorem revocation_in_order:
  "guarded (revoke_guard D) (history_of (Sidecar_Access_Reconcile E D req))"
  by (rule guarded_weaken[OF Sidecar_Access_Reconcile_contract])
     (auto simp: grant_contract_def revoke_guard_def split: event.splits)

text \<open>An access that is the Controller's or another driver's is read and left alone.\<close>

lemma foreign_access_left_alone:
  assumes "e_GetBucketAccess E [] req = Inr a" "\<not> ours D a"
  shows "run_state (Sidecar_Access_Reconcile E D req) [] = (Done, [EvGetBucketAccess req (Inr a)])"
  using assms
  by (auto simp: Sidecar_Access_Reconcile_def Sidecar_Access_reconcile_def Sidecar_Access_finish_def
      ours_def run_calls)

lemma AccessModeToRpc_ok:
  "(\<exists>m. AccessModeToRpc x = Inr m) \<longleftrightarrow>
    x \<in> {[], BucketAccessModeReadOnly, BucketAccessModeReadWrite, BucketAccessModeWriteOnly}"
  by (auto simp: AccessModeToRpc_def)

lemma claim_access_config_ok:
  "(\<exists>cfg. claim_access_config ref = Inr cfg) \<longleftrightarrow>
    (\<exists>m. AccessModeToRpc (am_ObjectData (bca_AccessModes ref)) = Inr m) \<and>
    (\<exists>m. AccessModeToRpc (am_ObjectMetadata (bca_AccessModes ref)) = Inr m) \<and>
    (\<exists>m. AccessModeToRpc (am_BucketMetadata (bca_AccessModes ref)) = Inr m)"
proof -
  have "error_of r = None \<longleftrightarrow> (\<exists>m. r = Inr m)" for r :: "error + AccessMode_Mode"
    by (cases r) (auto simp: error_of_def)
  then show ?thesis
    by (auto simp: claim_access_config_def Let_def errors_Join_def error_of_def List.map_filter_simps
        split: option.splits)
qed

definition reference_mappable :: "(string \<times> string) list \<Rightarrow> BucketClaimAccess \<Rightarrow> bool" where
  "reference_mappable ids ref \<longleftrightarrow> map_of ids (bca_BucketClaimName ref) \<noteq> None \<and>
     HasAnyAccessMode (bca_AccessModes ref) \<and> (\<exists>cfg. claim_access_config ref = Inr cfg)"

lemma access_config_loop_succeeds:
  "fst (access_config_loop ids refs errs cfgs) = [] \<longleftrightarrow> errs = [] \<and> list_all (reference_mappable ids) refs"
  by (induction refs arbitrary: errs cfgs)
     (auto simp: reference_mappable_def split: option.splits sum.splits)

lemma generateInternalAccessedBucketConfigs_iff:
  "(\<exists>cfgs. generateInternalAccessedBucketConfigs a = Inr cfgs) \<longleftrightarrow>
     list_all (reference_mappable (bucket_ids_by_claim (ast_AccessedBuckets (a_Status a)))) (as_BucketClaims (a_Spec a))"
  using access_config_loop_succeeds[of "bucket_ids_by_claim (ast_AccessedBuckets (a_Status a))"
      "as_BucketClaims (a_Spec a)" "[]" "[]"]
  by (auto simp: generateInternalAccessedBucketConfigs_def split: prod.splits option.splits)

lemma reference_mappable_iff:
  "reference_mappable (bucket_ids_by_claim (ast_AccessedBuckets (a_Status a))) ref \<longleftrightarrow>
     accessed_id a ref \<noteq> None \<and> HasAnyAccessMode (bca_AccessModes ref) \<and>
     {am_ObjectData (bca_AccessModes ref), am_ObjectMetadata (bca_AccessModes ref),
      am_BucketMetadata (bca_AccessModes ref)} \<subseteq>
       {[], BucketAccessModeReadOnly, BucketAccessModeReadWrite, BucketAccessModeWriteOnly}"
  by (simp add: reference_mappable_def claim_access_config_ok AccessModeToRpc_ok accessed_id_def)

text \<open>
  C29. A grant is accepted exactly when the driver names the buckets that were asked for, no fewer
  and no others, in whatever order the maps are visited.
\<close>

theorem validateGrantedAccess_spec:
  "fst (run_state (validateGrantedAccess E g d) tr) = None \<longleftrightarrow>
     fst ` set (ga_BucketInfoByBucketId d) = fst ` set (igc_AccessConfigsByBucketId g)"
  by (rule wp_run[OF wp_validateGrantedAccess[where Q = "\<lambda>err _. err = None \<longleftrightarrow>
        fst ` set (ga_BucketInfoByBucketId d) = fst ` set (igc_AccessConfigsByBucketId g)"]])

lemma granted_buckets_loop_ok:
  "granted_buckets_loop v i bkts errs infos = ([], infos') \<longleftrightarrow> errs = [] \<and>
    list_all (\<lambda>bkt. gbi_BucketId bkt \<noteq> [] \<and> (\<exists>r. BucketInfoToApi (gbi_BucketInfo bkt) (Some v) = Inr r)) bkts \<and>
    infos' = fold (\<lambda>bkt. case BucketInfoToApi (gbi_BucketInfo bkt) (Some v) of
        Inl _ \<Rightarrow> (\<lambda>m. m) | Inr (_, info) \<Rightarrow> AList.update (gbi_BucketId bkt) info) bkts infos"
  by (induction v i bkts errs infos rule: granted_buckets_loop.induct) (auto split: sum.splits)

text \<open>
  C30. A grant response is accepted exactly when it carries an account ID, credentials that pass the
  translation for the expected protocol and authentication type, and for each bucket an ID and
  valid info; then the account ID is taken over unchanged and each bucket ID maps to the last info
  given for it.
\<close>

theorem grant_response_spec:
  "translateDriverGrantBucketAccessResponseToApi resp v = Inr d \<longleftrightarrow>
     grr_AccountId resp \<noteq> [] \<and> ga_AccountId d = grr_AccountId resp \<and>
     CredentialsToApi (grr_Credentials resp) v = Inr (ga_SharedCredentialInfo d) \<and>
     list_all (\<lambda>bkt. gbi_BucketId bkt \<noteq> [] \<and> (\<exists>r. BucketInfoToApi (gbi_BucketInfo bkt) (Some v) = Inr r))
       (grr_Buckets resp) \<and>
     ga_BucketInfoByBucketId d = fold (\<lambda>bkt. case BucketInfoToApi (gbi_BucketInfo bkt) (Some v) of
        Inl _ \<Rightarrow> (\<lambda>m. m) | Inr (_, info) \<Rightarrow> AList.update (gbi_BucketId bkt) info) (grr_Buckets resp) []"
proof (cases "CredentialsToApi (grr_Credentials resp) v")
  case (Inl err)
  then show ?thesis
    by (auto simp: translateDriverGrantBucketAccessResponseToApi_def Let_def granted_buckets_loop_ok
        split: prod.splits option.splits)
next
  case (Inr creds)
  let ?infos = "fold (\<lambda>bkt. case BucketInfoToApi (gbi_BucketInfo bkt) (Some v) of
        Inl _ \<Rightarrow> (\<lambda>m. m) | Inr (_, info) \<Rightarrow> AList.update (gbi_BucketId bkt) info) (grr_Buckets resp) []"
  let ?valid = "list_all (\<lambda>bkt. gbi_BucketId bkt \<noteq> [] \<and>
    (\<exists>r. BucketInfoToApi (gbi_BucketInfo bkt) (Some v) = Inr r)) (grr_Buckets resp)"
  show ?thesis
  proof (cases ?valid)
    case True
    then have "granted_buckets_loop v 0 (grr_Buckets resp) [] [] = ([], ?infos)"
      by (simp add: granted_buckets_loop_ok)
    moreover have "granted_buckets_loop v 0 (grr_Buckets resp) [x] [] \<noteq> ([], infos)" for x infos
      by (simp add: granted_buckets_loop_ok)
    ultimately show ?thesis using Inr True
      by (cases d; cases "grr_AccountId resp = []")
         (auto simp: translateDriverGrantBucketAccessResponseToApi_def join_errs_def split: prod.splits)
  next
    case False
    with Inr show ?thesis
      by (auto simp: translateDriverGrantBucketAccessResponseToApi_def Let_def granted_buckets_loop_ok
          split: prod.splits option.splits)
  qed
qed

lemma single_configuration:
  assumes "as_BucketClaims (a_Spec a) = [ref]" "ast_AccessedBuckets (a_Status a) = [ab]"
    "ab_BucketClaimName ab = bca_BucketClaimName ref"
    "HasAnyAccessMode (bca_AccessModes ref)" "claim_access_config ref = Inr cfg"
    "newInternalAccessConfig a = Inr shared"
  shows "newInternalGrantAccessConfig a secrets = Inr \<lparr>iac_Protocol = iac_Protocol shared,
    iac_AuthenticationType = iac_AuthenticationType shared,
    iac_ServiceAccountName = iac_ServiceAccountName shared, iac_Parameters = iac_Parameters shared,
    igc_AccountName = ''ba-'' @ om_UID (a_Meta a),
    igc_AccessConfigsByBucketId = [(ab_BucketID ab, cfg)], igc_SecretsByName = secrets\<rparr>"
  using assms
  by (simp add: newInternalGrantAccessConfig_def generateInternalAccessedBucketConfigs_def
      bucket_ids_by_claim_def join_errs_def)

lemma run_single_validation:
  assumes "ast_AccessedBuckets (a_Status a) = [ab]"
    "\<And>tr. e_GetBucket E tr \<lparr>nn_Namespace = [], nn_Name = ab_BucketName ab\<rparr> = Inr b"
    "bucket_accessible D b (ab_BucketID ab)"
  shows "run_state (getAndValidateAllAccessedBuckets E D a) tr =
    (None, tr @ [EvGetBucket \<lparr>nn_Namespace = [], nn_Name = ab_BucketName ab\<rparr> (Inr b)])"
  using assms
  by (simp add: getAndValidateAllAccessedBuckets_def run_calls validateBucketIsReadyForAccess_iff[THEN iffD2])

lemma run_single_reservation:
  assumes "as_BucketClaims (a_Spec a) = [ref]"
    "\<And>tr. e_GetSecret E tr (secret_key a (bca_AccessSecretName ref)) = Inl (ApiNotFound m)"
    "\<And>tr s. e_CreateSecret E tr s = Inr s"
  shows "run_state (reserveAccessSecrets E a) tr =
    (Inr [(bca_AccessSecretName ref, new_access_secret a (bca_AccessSecretName ref))],
     tr @ [EvGetSecret (secret_key a (bca_AccessSecretName ref)) (Inl (ApiNotFound m)),
           EvCreateSecret (new_access_secret a (bca_AccessSecretName ref))
             (Inr (new_access_secret a (bca_AccessSecretName ref)))])"
  using assms
  by (simp add: reserveAccessSecrets_def createNewOwnedAccessSecret_eq run_calls join_errs_def Let_def)

text \<open>
  With a cooperating server and driver one run grants a new access for one claim: the Bucket is
  checked, the Secret created, the driver asked once under the account name of the access, the
  Secret filled with credentials and bucket info, and the access published as ready with the
  driver's account ID.
\<close>

lemma access_grant_run:
  assumes a: "e_GetBucketAccess E [] req = Inr a" "ours D a" "IsZero (om_DeletionTimestamp (a_Meta a))"
      "SidecarRequirementsPresent (a_Status a) = Inr True" "ContainsFinalizer (a_Meta a) ProtectionFinalizer"
      "as_BucketClaims (a_Spec a) = [ref]" "ast_AccessedBuckets (a_Status a) = [ab]"
      "ab_BucketClaimName ab = bca_BucketClaimName ref"
    and server: "\<And>tr. e_GetBucket E tr \<lparr>nn_Namespace = [], nn_Name = ab_BucketName ab\<rparr> = Inr b"
      "bucket_accessible D b (ab_BucketID ab)"
      "\<And>tr. e_GetSecret E tr (secret_key a (bca_AccessSecretName ref)) = Inl (ApiNotFound m)"
      "\<And>tr s. e_CreateSecret E tr s = Inr s" "\<And>tr s. e_UpdateSecret E tr s = Inr s"
      "\<And>tr x. e_StatusUpdateBucketAccess E tr x = Inr x"
    and cfg: "newInternalAccessConfig a = Inr shared" "HasAnyAccessMode (bca_AccessModes ref)"
      "claim_access_config ref = Inr cfg"
    and driver: "\<And>tr q. e_DriverGrantBucketAccess E tr q = Inr resp"
      "translateDriverGrantBucketAccessResponseToApi resp (access_validation a) = Inr d"
      "ga_BucketInfoByBucketId d = [(ab_BucketID ab, info)]"
  shows "\<exists>q secret. gr_AccountName q = ''ba-'' @ om_UID (a_Meta a) \<and>
    gr_Buckets q = [grant_bucket (ab_BucketID ab, cfg)] \<and>
    secret = new_access_secret a (bca_AccessSecretName ref) \<and>
    run_state (Sidecar_Access_Reconcile E D req) [] = (Done,
      [EvGetBucketAccess req (Inr a),
       EvGetBucket \<lparr>nn_Namespace = [], nn_Name = ab_BucketName ab\<rparr> (Inr b),
       EvGetSecret (secret_key a (bca_AccessSecretName ref)) (Inl (ApiNotFound m)),
       EvCreateSecret secret (Inr secret),
       EvDriverGrantBucketAccess q (Inr resp),
       EvUpdateSecret (secret\<lparr>sec_StringData := Some (secret_data (ga_SharedCredentialInfo d) info)\<rparr>)
         (Inr (secret\<lparr>sec_StringData := Some (secret_data (ga_SharedCredentialInfo d) info)\<rparr>)),
       EvStatusUpdateBucketAccess (granted_access a (ga_AccountId d))
         (Inr (granted_access a (ga_AccountId d)))])"
proof -
  have same: "a\<lparr>a_Meta := a_Meta a\<rparr> = a" by (cases a) simp
  have secret: "bg_AccessSecretName cfg = bca_AccessSecretName ref" by (rule claim_access_config_secret[OF cfg(3)])
  note config = single_configuration[OF a(6-8) cfg(2,3,1)]
  note run = run_single_validation[OF a(7) server(1,2)] run_single_reservation[OF a(6) server(3,4)]
  show ?thesis
    using a server(5,6) driver secret
    by (simp add: Sidecar_Access_Reconcile_def Sidecar_Access_reconcile_def Sidecar_Access_finish_def ours_def
        Sidecar_Access_reconcileLive_def Sidecar_Access_addFinalizer_def AddFinalizer_present same run
        grantAccess_def config RpcGrantBucketsList_def run_calls publishAccess_def validateGrantedAccess_def
        missing_keys_def updateSecretsWithGrantedInfo_def join_errs_def grant_request_def Let_def)
qed

text \<open>An access for the Azure protocol that the Controller has handed over, and its finalizer is there.\<close>

definition azure_access :: BucketAccess where
  "azure_access = handed_over_access\<lparr>a_Meta := (a_Meta handed_over_access)\<lparr>om_Finalizers := [ProtectionFinalizer]\<rparr>,
     a_Spec := (a_Spec handed_over_access)\<lparr>as_Protocol := ObjectProtocolAzure\<rparr>\<rparr>"

lemma azure_access_fields:
  "a_Meta azure_access = zero_meta\<lparr>om_Name := ''a'', om_Namespace := ''ns'', om_UID := ''2'',
     om_Finalizers := [ProtectionFinalizer]\<rparr>"
  "as_BucketClaims (a_Spec azure_access) = [\<lparr>bca_BucketClaimName = ''c'',
     bca_AccessModes = \<lparr>am_ObjectData = BucketAccessModeReadWrite, am_ObjectMetadata = [],
       am_BucketMetadata = []\<rparr>, bca_AccessSecretName = ''s''\<rparr>]"
  "as_Protocol (a_Spec azure_access) = ObjectProtocolAzure" "as_ServiceAccountName (a_Spec azure_access) = []"
  "a_Status azure_access = \<lparr>ast_ReadyToUse = Some False, ast_AccountID = [],
     ast_AccessedBuckets = [\<lparr>ab_BucketName = ''bc-1'', ab_BucketID = ''x'', ab_BucketClaimName = ''c''\<rparr>],
     ast_DriverName = ''drv'', ast_AuthenticationType = BucketAccessAuthenticationTypeKey,
     ast_Parameters = None, ast_Error = None\<rparr>"
  by (simp_all add: azure_access_def handed_over_access_def example_access_def zero_meta_def)

text \<open>A driver's grant of access to the Azure bucket \<open>x\<close>.\<close>

definition azure_grant :: DriverGrantBucketAccessResponse where
  "azure_grant =
     \<lparr>grr_AccountId = ''acct'',
      grr_Buckets = [\<lparr>gbi_BucketId = ''x'', gbi_BucketInfo = Some
        \<lparr>bi_S3 = None, bi_Azure = Some \<lparr>azb_StorageAccount = ''sa''\<rparr>, bi_Gcs = None\<rparr>\<rparr>],
      grr_Credentials = Some \<lparr>ci_S3 = None,
        ci_Azure = Some \<lparr>azc_AccessToken = ''t'', azc_ExpiryTimestamp = []\<rparr>, ci_Gcs = None\<rparr>\<rparr>"

lemma azure_grant_translated:
  "translateDriverGrantBucketAccessResponseToApi azure_grant
     \<lparr>vc_ExpectedProtocol = ObjectProtocolAzure, vc_AuthenticationType = BucketAccessAuthenticationTypeKey\<rparr> =
     Inr \<lparr>ga_AccountId = ''acct'',
       ga_SharedCredentialInfo = [(CredentialVar_Azure_AccessToken, ''t''), (CredentialVar_Azure_ExpiryTimestamp, [])],
       ga_BucketInfoByBucketId = [(''x'', [(BucketInfoVar_Azure_StorageAccount, ''sa'')])]\<rparr>"
  by (simp add: translateDriverGrantBucketAccessResponseToApi_def azure_grant_def CredentialsToApi_def BucketInfoToApi_def
      translate_def AzureCredential_RpcToApi_def AzureCredential_Validate_def AzureBucketInfo_RpcToApi_def
      AzureBucketInfo_Validate_def unset_err_def gm_get_def join_errs_def MergeApiInfoIntoStringMap_def
      covered_protocols_def var_name_defs)

section \<open>References that share a bucket\<close>

lemma pair_configuration:
  assumes "as_BucketClaims (a_Spec a) = [r1, r2]" "ast_AccessedBuckets (a_Status a) = [ab1, ab2]"
    "ab_BucketClaimName ab1 = bca_BucketClaimName r1" "ab_BucketClaimName ab2 = bca_BucketClaimName r2"
    "ab_BucketID ab1 = i" "ab_BucketID ab2 = i"
    "HasAnyAccessMode (bca_AccessModes r1)" "HasAnyAccessMode (bca_AccessModes r2)"
    "claim_access_config r1 = Inr cfg1" "claim_access_config r2 = Inr cfg2"
    "newInternalAccessConfig a = Inr shared"
  shows "newInternalGrantAccessConfig a secrets = Inr \<lparr>iac_Protocol = iac_Protocol shared,
    iac_AuthenticationType = iac_AuthenticationType shared,
    iac_ServiceAccountName = iac_ServiceAccountName shared, iac_Parameters = iac_Parameters shared,
    igc_AccountName = ''ba-'' @ om_UID (a_Meta a),
    igc_AccessConfigsByBucketId = [(i, cfg2)], igc_SecretsByName = secrets\<rparr>"
  using assms
  by (simp add: newInternalGrantAccessConfig_def generateInternalAccessedBucketConfigs_def
      bucket_ids_by_claim_def join_errs_def)

lemma run_pair_validation:
  assumes "ast_AccessedBuckets (a_Status a) = [ab1, ab2]"
    "\<And>tr. e_GetBucket E tr \<lparr>nn_Namespace = [], nn_Name = ab_BucketName ab1\<rparr> = Inr b1"
    "\<And>tr. e_GetBucket E tr \<lparr>nn_Namespace = [], nn_Name = ab_BucketName ab2\<rparr> = Inr b2"
    "bucket_accessible D b1 (ab_BucketID ab1)" "bucket_accessible D b2 (ab_BucketID ab2)"
  shows "run_state (getAndValidateAllAccessedBuckets E D a) tr =
    (None, tr @ [EvGetBucket \<lparr>nn_Namespace = [], nn_Name = ab_BucketName ab1\<rparr> (Inr b1),
                 EvGetBucket \<lparr>nn_Namespace = [], nn_Name = ab_BucketName ab2\<rparr> (Inr b2)])"
  using assms
  by (simp add: getAndValidateAllAccessedBuckets_def run_calls validateBucketIsReadyForAccess_iff[THEN iffD2])

lemma run_pair_reservation:
  assumes "as_BucketClaims (a_Spec a) = [r1, r2]" "bca_AccessSecretName r1 = n1" "bca_AccessSecretName r2 = n2"
    "n1 \<noteq> n2" "\<And>tr k. e_GetSecret E tr k = Inl (ApiNotFound m)" "\<And>tr s. e_CreateSecret E tr s = Inr s"
  shows "run_state (reserveAccessSecrets E a) tr =
    (Inr [(n1, new_access_secret a n1), (n2, new_access_secret a n2)],
     tr @ [EvGetSecret (secret_key a n1) (Inl (ApiNotFound m)),
           EvCreateSecret (new_access_secret a n1) (Inr (new_access_secret a n1)),
           EvGetSecret (secret_key a n2) (Inl (ApiNotFound m)),
           EvCreateSecret (new_access_secret a n2) (Inr (new_access_secret a n2))])"
  using assms
  by (simp add: reserveAccessSecrets_def createNewOwnedAccessSecret_eq run_calls join_errs_def Let_def)

text \<open>
  C28. One backend bucket, one Secret: when the two references of an access lead to the same bucket ID,
  a run with a cooperating server and driver reserves the Secrets of both, asks the driver for the one
  bucket with the modes of the second reference, fills the second Secret only, and publishes the access
  as ready. The run ends there: the Secret of the first reference stays as it was created, without data.
\<close>

theorem shared_bucket_leaves_secret_empty:
  assumes a: "e_GetBucketAccess E [] req = Inr a" "ours D a" "IsZero (om_DeletionTimestamp (a_Meta a))"
      "SidecarRequirementsPresent (a_Status a) = Inr True" "ContainsFinalizer (a_Meta a) ProtectionFinalizer"
      "as_BucketClaims (a_Spec a) = [r1, r2]" "ast_AccessedBuckets (a_Status a) = [ab1, ab2]"
      "ab_BucketClaimName ab1 = bca_BucketClaimName r1" "ab_BucketClaimName ab2 = bca_BucketClaimName r2"
    and shared_bucket: "ab_BucketID ab1 = i" "ab_BucketID ab2 = i"
    and secret_names: "bca_AccessSecretName r1 = n1" "bca_AccessSecretName r2 = n2" "n1 \<noteq> n2"
    and buckets: "\<And>tr. e_GetBucket E tr \<lparr>nn_Namespace = [], nn_Name = ab_BucketName ab1\<rparr> = Inr b1"
      "\<And>tr. e_GetBucket E tr \<lparr>nn_Namespace = [], nn_Name = ab_BucketName ab2\<rparr> = Inr b2"
      "bucket_accessible D b1 i" "bucket_accessible D b2 i"
    and server: "\<And>tr k. e_GetSecret E tr k = Inl (ApiNotFound m)"
      "\<And>tr s. e_CreateSecret E tr s = Inr s" "\<And>tr s. e_UpdateSecret E tr s = Inr s"
      "\<And>tr x. e_StatusUpdateBucketAccess E tr x = Inr x"
    and cfg: "newInternalAccessConfig a = Inr shared"
      "HasAnyAccessMode (bca_AccessModes r1)" "HasAnyAccessMode (bca_AccessModes r2)"
      "claim_access_config r1 = Inr cfg1" "claim_access_config r2 = Inr cfg2"
    and driver: "\<And>tr q. e_DriverGrantBucketAccess E tr q = Inr resp"
      "translateDriverGrantBucketAccessResponseToApi resp (access_validation a) = Inr d"
      "ga_BucketInfoByBucketId d = [(i, info)]"
    and secrets: "s1 = new_access_secret a n1" "s2 = new_access_secret a n2"
      "filled = s2\<lparr>sec_StringData := Some (secret_data (ga_SharedCredentialInfo d) info)\<rparr>"
  shows "sec_StringData s1 = None \<and> om_Name (sec_Meta s1) = n1 \<and> om_Name (sec_Meta filled) = n2 \<and>
    (\<exists>q. gr_Buckets q = [grant_bucket (i, cfg2)] \<and>
      run_state (Sidecar_Access_Reconcile E D req) [] = (Done,
        [EvGetBucketAccess req (Inr a),
         EvGetBucket \<lparr>nn_Namespace = [], nn_Name = ab_BucketName ab1\<rparr> (Inr b1),
         EvGetBucket \<lparr>nn_Namespace = [], nn_Name = ab_BucketName ab2\<rparr> (Inr b2),
         EvGetSecret (secret_key a n1) (Inl (ApiNotFound m)), EvCreateSecret s1 (Inr s1),
         EvGetSecret (secret_key a n2) (Inl (ApiNotFound m)), EvCreateSecret s2 (Inr s2),
         EvDriverGrantBucketAccess q (Inr resp), EvUpdateSecret filled (Inr filled),
         EvStatusUpdateBucketAccess (granted_access a (ga_AccountId d))
           (Inr (granted_access a (ga_AccountId d)))]))"
proof -
  have same: "a\<lparr>a_Meta := a_Meta a\<rparr> = a" by (cases a) simp
  have secret: "bg_AccessSecretName cfg2 = n2"
    using claim_access_config_secret[OF cfg(5)] secret_names(2) by simp
  note config = pair_configuration[OF a(6-9) shared_bucket cfg(2-5,1)]
  note validation = run_pair_validation[OF a(7) buckets(1,2), of D, unfolded shared_bucket, OF buckets(3,4)]
  note reservation = run_pair_reservation[OF a(6) secret_names server(1,2)]
  have names: "sec_StringData s1 = None" "om_Name (sec_Meta s1) = n1" "om_Name (sec_Meta filled) = n2"
    by (simp_all add: secrets new_access_secret_def setAccessSecretRequiredMetadata_def AddFinalizer_def zero_Secret_def)
  show ?thesis
    using a(1-5) server(3,4) driver secret names secret_names(3)
    by (simp add: Sidecar_Access_Reconcile_def Sidecar_Access_reconcile_def Sidecar_Access_finish_def ours_def
        Sidecar_Access_reconcileLive_def Sidecar_Access_addFinalizer_def AddFinalizer_present same validation reservation
        grantAccess_def config RpcGrantBucketsList_def run_calls publishAccess_def validateGrantedAccess_def
        missing_keys_def updateSecretsWithGrantedInfo_def join_errs_def grant_request_def Let_def secrets)
qed

text \<open>An access with two references, whose claims are bound to two Buckets with the same backend bucket.\<close>

definition twin_access :: BucketAccess where
  "twin_access = azure_access\<lparr>
     a_Spec := (a_Spec azure_access)\<lparr>as_BucketClaims :=
       map (\<lambda>(c, s). \<lparr>bca_BucketClaimName = c, bca_AccessModes = \<lparr>am_ObjectData = BucketAccessModeReadWrite,
         am_ObjectMetadata = [], am_BucketMetadata = []\<rparr>, bca_AccessSecretName = s\<rparr>)
         [(''c1'', ''s1''), (''c2'', ''s2'')]\<rparr>,
     a_Status := (a_Status azure_access)\<lparr>ast_AccessedBuckets :=
       map (\<lambda>(b, c). \<lparr>ab_BucketName = b, ab_BucketID = ''x'', ab_BucketClaimName = c\<rparr>)
         [(''b1'', ''c1''), (''b2'', ''c2'')]\<rparr>\<rparr>"

definition twin_bucket :: Bucket where
  "twin_bucket =
     \<lparr>b_Meta = zero_meta,
      b_Spec = \<lparr>bs_DriverName = ''drv'', bs_DeletionPolicy = BucketDeletionPolicyDelete,
        bs_Parameters = None, bs_Protocols = [],
        bs_BucketClaimRef = \<lparr>cr_Name = ''c'', cr_Namespace = ''ns'', cr_UID = ''1''\<rparr>,
        bs_ExistingBucketID = []\<rparr>,
      b_Status = zero_BucketStatus\<lparr>bst_BucketID := ''x''\<rparr>\<rparr>"

definition twin_env :: env where
  "twin_env = echo_env\<lparr>e_GetBucketAccess := \<lambda>_ _. Inr twin_access, e_GetBucket := \<lambda>_ _. Inr twin_bucket,
     e_DriverGrantBucketAccess := \<lambda>_ _. Inr azure_grant\<rparr>"

theorem shared_bucket_leaves_secret_empty_witness:
  "let run = Sidecar_Access_Reconcile twin_env \<lparr>di_Name = ''drv'', di_SupportedProtocols = []\<rparr>
       \<lparr>nn_Namespace = ''ns'', nn_Name = ''a''\<rparr> in
   result_of run = Done \<and>
   (\<exists>s. EvCreateSecret s (Inr s) \<in> set (history_of run) \<and> om_Name (sec_Meta s) = ''s1'' \<and> sec_StringData s = None) \<and>
   (\<forall>s r. EvUpdateSecret s r \<in> set (history_of run) \<longrightarrow> om_Name (sec_Meta s) = ''s2'')"
proof -
  let ?modes = "\<lparr>am_ObjectData = BucketAccessModeReadWrite, am_ObjectMetadata = [], am_BucketMetadata = []\<rparr>"
  let ?r1 = "\<lparr>bca_BucketClaimName = ''c1'', bca_AccessModes = ?modes, bca_AccessSecretName = ''s1''\<rparr>"
  let ?r2 = "\<lparr>bca_BucketClaimName = ''c2'', bca_AccessModes = ?modes, bca_AccessSecretName = ''s2''\<rparr>"
  let ?ab1 = "\<lparr>ab_BucketName = ''b1'', ab_BucketID = ''x'', ab_BucketClaimName = ''c1''\<rparr>"
  let ?ab2 = "\<lparr>ab_BucketName = ''b2'', ab_BucketID = ''x'', ab_BucketClaimName = ''c2''\<rparr>"
  let ?D = "\<lparr>di_Name = ''drv'', di_SupportedProtocols = []\<rparr> :: DriverInfo"
  let ?req = "\<lparr>nn_Namespace = ''ns'', nn_Name = ''a''\<rparr>"
  have a: "ours ?D twin_access" "IsZero (om_DeletionTimestamp (a_Meta twin_access))"
    "SidecarRequirementsPresent (a_Status twin_access) = Inr True"
    "ContainsFinalizer (a_Meta twin_access) ProtectionFinalizer"
    "as_BucketClaims (a_Spec twin_access) = [?r1, ?r2]" "ast_AccessedBuckets (a_Status twin_access) = [?ab1, ?ab2]"
    "access_validation twin_access = \<lparr>vc_ExpectedProtocol = ObjectProtocolAzure,
       vc_AuthenticationType = BucketAccessAuthenticationTypeKey\<rparr>"
    by (simp_all add: twin_access_def azure_access_fields ours_def ManagedBySidecar_def has_annotation_def zero_meta_def
        SidecarRequirementsPresent_True ContainsFinalizer_def authentication_type_defs)
  obtain shared where shared: "newInternalAccessConfig twin_access = Inr shared"
    by (simp add: newInternalAccessConfig_def twin_access_def azure_access_fields ObjectProtocol_ApiToRpc_def
        objectProtocolProtoApiMapping_def AuthenticationTypeToRpc_def)
  have modes: "HasAnyAccessMode ?modes" by (simp add: HasAnyAccessMode_def access_mode_defs)
  obtain cfg1 cfg2 where cfg: "claim_access_config ?r1 = Inr cfg1" "claim_access_config ?r2 = Inr cfg2"
    using claim_access_config_ok[of ?r1] claim_access_config_ok[of ?r2] AccessModeToRpc_ok by auto
  have accessible: "bucket_accessible ?D twin_bucket ''x''"
    by (simp add: bucket_accessible_def twin_bucket_def zero_meta_def has_annotation_def zero_BucketStatus_def)
  have env: "e_GetBucketAccess twin_env [] ?req = Inr twin_access" "\<And>tr k. e_GetBucket twin_env tr k = Inr twin_bucket"
    "\<And>tr k. e_GetSecret twin_env tr k = Inl (ApiNotFound [])" "\<And>tr s. e_CreateSecret twin_env tr s = Inr s"
    "\<And>tr s. e_UpdateSecret twin_env tr s = Inr s" "\<And>tr x. e_StatusUpdateBucketAccess twin_env tr x = Inr x"
    "\<And>tr q. e_DriverGrantBucketAccess twin_env tr q = Inr azure_grant"
    by (simp_all add: twin_env_def echo_env_def)
  show ?thesis
    using shared_bucket_leaves_secret_empty[OF env(1) a(1-6) _ _ _ _ _ _ _ env(2,2) accessible accessible env(3-6) shared
        _ _ cfg env(7) azure_grant_translated[folded a(7)] _ refl refl refl, of "''s1''" "''s2''"] modes
    by (auto simp: result_of_def history_of_def intro!: exI[of _ "new_access_secret twin_access ''s1''"])
qed

section \<open>Taking an access back\<close>

lemma access_not_ready_frame [simp]:
  "a_Meta (access_not_ready a) = a_Meta a" "a_Spec (access_not_ready a) = a_Spec a"
  "ast_AccountID (a_Status (access_not_ready a)) = ast_AccountID (a_Status a)"
  "ast_AccessedBuckets (a_Status (access_not_ready a)) = ast_AccessedBuckets (a_Status a)"
  "ast_AuthenticationType (a_Status (access_not_ready a)) = ast_AuthenticationType (a_Status a)"
  "ast_Parameters (a_Status (access_not_ready a)) = ast_Parameters (a_Status a)"
  by (simp_all add: access_not_ready_def)

lemma newInternalRevokeAccessConfig_not_ready [simp]:
  "newInternalRevokeAccessConfig (access_not_ready a) = newInternalRevokeAccessConfig a"
  unfolding newInternalRevokeAccessConfig_def newInternalAccessConfig_def access_not_ready_frame ..

lemma run_single_cleanup:
  assumes "as_BucketClaims (a_Spec a) = [ref]"
    "\<And>tr. e_GetSecret E tr (secret_key a (bca_AccessSecretName ref)) = Inr s"
    "IsControlledBy (sec_Meta s) (a_Meta a)"
    "\<And>tr s. e_UpdateSecret E tr s = Inr s" "\<And>tr s. e_DeleteSecret E tr s = None"
  shows "run_state (deleteOwnedAccessSecrets E a) tr = (None,
    tr @ [EvGetSecret (secret_key a (bca_AccessSecretName ref)) (Inr s),
          EvUpdateSecret (unprotected s) (Inr (unprotected s)), EvDeleteSecret (unprotected s) None])"
  using assms by (simp add: deleteOwnedAccessSecrets_def run_calls join_errs_def Let_def unprotected_def)

text \<open>
  C31. With a cooperating server and driver one run takes back an access for one claim: the access
  is stored as not ready, its Secret released and deleted, the account revoked, and the access
  annotated for the Controller, which from then on is its manager.
\<close>

theorem access_revocation_completes:
  assumes a: "e_GetBucketAccess E [] req = Inr a" "ours D a" "\<not> IsZero (om_DeletionTimestamp (a_Meta a))"
      "as_BucketClaims (a_Spec a) = [ref]" "ast_AccountID (a_Status a) \<noteq> []"
      "newInternalRevokeAccessConfig a = Inr cfg"
    and server: "\<And>tr. e_GetSecret E tr (secret_key a (bca_AccessSecretName ref)) = Inr s"
      "IsControlledBy (sec_Meta s) (a_Meta a)"
      "\<And>tr s. e_UpdateSecret E tr s = Inr s" "\<And>tr s. e_DeleteSecret E tr s = None"
      "\<And>tr x. e_StatusUpdateBucketAccess E tr x = Inr x" "\<And>tr x. e_UpdateBucketAccess E tr x = Inr x"
    and driver: "\<And>tr q. e_DriverRevokeBucketAccess E tr q = None"
  shows "\<exists>a'. \<not> ManagedBySidecar a' \<and> run_state (Sidecar_Access_Reconcile E D req) [] = (Done,
      [EvGetBucketAccess req (Inr a),
       EvStatusUpdateBucketAccess (access_not_ready a) (Inr (access_not_ready a)),
       EvGetSecret (secret_key a (bca_AccessSecretName ref)) (Inr s),
       EvUpdateSecret (unprotected s) (Inr (unprotected s)),
       EvDeleteSecret (unprotected s) None,
       EvDriverRevokeBucketAccess (revoke_request (access_not_ready a) cfg) None,
       EvUpdateBucketAccess a' (Inr a')])"
proof -
  let ?a = "access_not_ready a"
  let ?a' = "?a\<lparr>a_Meta := add_annotation SidecarCleanupFinishedAnnotation (a_Meta a)\<rparr>"
  have handed: "\<not> ManagedBySidecar ?a'"
    by (rule handed_back) (use a(3) in simp_all)
  note run = run_single_cleanup[of ?a, simplified, OF a(4) server(1-4)]
  show ?thesis
    by (rule exI[of _ ?a'])
       (use a(1,2,3,5,6) server(5,6) driver handed in \<open>simp add: Sidecar_Access_Reconcile_def Sidecar_Access_reconcile_def
          Sidecar_Access_reconcileDelete_def Sidecar_Access_finish_def ours_def driverRevokeAccess_def handBack_def
          run run_calls Let_def\<close>)
qed

definition revoked_env :: env where
  "revoked_env = echo_env
     \<lparr>e_GetBucketAccess := \<lambda>_ _. Inr (azure_access\<lparr>a_Meta := (a_Meta azure_access)\<lparr>om_DeletionTimestamp := Some 1\<rparr>,
        a_Status := (a_Status azure_access)\<lparr>ast_AccountID := ''acct''\<rparr>\<rparr>),
      e_GetSecret := \<lambda>_ _. Inr (new_access_secret azure_access ''s''),
      e_DriverRevokeBucketAccess := \<lambda>_ _. None\<rparr>"

theorem access_revocation_completes_witness:
  "result_of (Sidecar_Access_Reconcile revoked_env \<lparr>di_Name = ''drv'', di_SupportedProtocols = []\<rparr>
     \<lparr>nn_Namespace = ''ns'', nn_Name = ''a''\<rparr>) = Done"
proof -
  let ?a = "azure_access\<lparr>a_Meta := (a_Meta azure_access)\<lparr>om_DeletionTimestamp := Some 1\<rparr>,
        a_Status := (a_Status azure_access)\<lparr>ast_AccountID := ''acct''\<rparr>\<rparr>"
  let ?D = "\<lparr>di_Name = ''drv'', di_SupportedProtocols = []\<rparr> :: DriverInfo"
  let ?req = "\<lparr>nn_Namespace = ''ns'', nn_Name = ''a''\<rparr>"
  let ?s = "new_access_secret azure_access ''s''"
  note facts = azure_access_fields zero_meta_def
  have a: "ours ?D ?a" "\<not> IsZero (om_DeletionTimestamp (a_Meta ?a))" "ast_AccountID (a_Status ?a) \<noteq> []"
    by (simp_all add: ours_def facts ManagedBySidecar_def has_annotation_def)
  obtain cfg where cfg: "newInternalRevokeAccessConfig ?a = Inr cfg"
    by (simp add: newInternalRevokeAccessConfig_def newInternalAccessConfig_def facts ObjectProtocol_ApiToRpc_def
        objectProtocolProtoApiMapping_def AuthenticationTypeToRpc_def)
  have s: "IsControlledBy (sec_Meta ?s) (a_Meta ?a)"
    by (simp add: new_access_secret_def setAccessSecretRequiredMetadata_def AddFinalizer_def IsControlledBy_def
        access_owner_reference_def facts zero_Secret_def)
  have env: "e_GetBucketAccess revoked_env [] ?req = Inr ?a" "\<And>tr k. e_GetSecret revoked_env tr k = Inr ?s"
    "\<And>tr s. e_UpdateSecret revoked_env tr s = Inr s" "\<And>tr s. e_DeleteSecret revoked_env tr s = None"
    "\<And>tr x. e_StatusUpdateBucketAccess revoked_env tr x = Inr x" "\<And>tr x. e_UpdateBucketAccess revoked_env tr x = Inr x"
    "\<And>tr q. e_DriverRevokeBucketAccess revoked_env tr q = None"
    by (simp_all add: revoked_env_def echo_env_def)
  have "\<exists>h. run_state (Sidecar_Access_Reconcile revoked_env ?D ?req) [] = (Done, h)"
    using access_revocation_completes[OF env(1) a(1,2) _ a(3) cfg env(2) s env(3-7)]
    by (auto simp: azure_access_fields(2))
  then show ?thesis by (auto simp: result_of_def)
qed

end
