(* ===== verification/End_To_End.thy ===== *)
theory End_To_End
  imports Concurrent_Runs Sidecar_BucketAccess_Results
begin

text \<open>
  The reconcilers working together: what one run stores is what the next one reads. The theorems
  follow a claim and an access through all the runs it takes to make them ready.
\<close>

section \<open>What a run leaves behind\<close>

definition bucket_after :: "history \<Rightarrow> Bucket" where
  "bucket_after h = last (List.map_filter stored_version h)"

definition claim_after :: "history \<Rightarrow> BucketClaim" where
  "claim_after h = last (List.map_filter (\<lambda>e. case e of
      EvUpdateBucketClaim _ (Inr c) \<Rightarrow> Some c
    | EvStatusUpdateBucketClaim _ (Inr c) \<Rightarrow> Some c
    | _ \<Rightarrow> None) h)"

definition access_after :: "history \<Rightarrow> BucketAccess" where
  "access_after h = last (List.map_filter (\<lambda>e. case e of
      EvUpdateBucketAccess _ (Inr a) \<Rightarrow> Some a
    | EvStatusUpdateBucketAccess _ (Inr a) \<Rightarrow> Some a
    | _ \<Rightarrow> None) h)"

lemma map_filter_append: "List.map_filter f (xs @ ys) = List.map_filter f xs @ List.map_filter f ys"
  by (simp add: List.map_filter_def)

lemma after_last [simp]:
  "bucket_after (h @ [EvStatusUpdateBucket x (Inr b)]) = b"
  "bucket_after (h @ [EvCreateBucket x (Inr b), EvStatusUpdateBucketClaim c d]) = b"
  "claim_after (h @ [EvStatusUpdateBucketClaim z (Inr c')]) = c'"
  "claim_after (h @ [e, EvStatusUpdateBucketClaim z (Inr c')]) = c'"
  "access_after (h @ [EvStatusUpdateBucketAccess w (Inr a)]) = a"
  by (simp_all add: bucket_after_def claim_after_def access_after_def stored_version_def map_filter_append
      List.map_filter_simps split: option.splits)

section \<open>From a claim to a bucket\<close>

text \<open>
  C3. A dynamic claim is served: one run of the Controller creates and binds the Bucket, one run of
  the Sidecar that reads this Bucket provisions it, and one more run of the Controller that reads
  what the two stored makes the claim ready, bound to the Bucket and offering exactly the protocols
  of the driver's answer. All three runs succeed.
\<close>

theorem claim_provisioned_end_to_end:
  assumes claim: "e_GetBucketClaim E1 [] req = Inr c" "IsZero (om_DeletionTimestamp (c_Meta c))"
      "cs_ExistingBucketName (c_Spec c) = []" "cs_BucketClassName (c_Spec c) \<noteq> []"
      "cst_BoundBucketName (c_Status c) = []" "cst_Error (c_Status c) = None"
      "om_UID (c_Meta c) \<noteq> []" "om_Name (c_Meta c) \<noteq> []" "om_Namespace (c_Meta c) \<noteq> []"
    and cls: "\<And>tr k. e_GetBucketClass E1 tr k = Inr cl" "bcs_DriverName (bc_Spec cl) = di_Name D"
    and absent: "\<And>tr k. e_GetBucket E1 tr k = Inl (ApiNotFound s)"
    and stores1: "\<And>tr x. e_UpdateBucketClaim E1 tr x = Inr x"
      "\<And>tr x. e_StatusUpdateBucketClaim E1 tr x = Inr x" "\<And>tr x. e_CreateBucket E1 tr x = Inr x"
    and h1: "h1 = history_of (BucketClaim_Reconcile E1 req)"
    and bucket: "e_GetBucket E2 [] k = Inr (bucket_after h1)"
    and stores2: "\<And>tr x. e_UpdateBucket E2 tr x = Inr x" "\<And>tr x. e_StatusUpdateBucket E2 tr x = Inr x"
    and protos: "objectProtocolListFromApiList (cs_Protocols (c_Spec c)) = Inr ps"
      "set ps \<subseteq> set (di_SupportedProtocols D)"
    and driver: "\<And>tr q. e_DriverGenerateBucketId E2 tr q = Inr i" "validateBucketID i = None" "i \<noteq> []"
      "\<And>tr q. e_DriverCreateBucket E2 tr q = Inr (Some resp)"
      "BucketInfoToApi (Some resp) None = Inr (supported, info)" "supported \<noteq> []"
      "set (cs_Protocols (c_Spec c)) \<subseteq> set supported"
    and h2: "h2 = history_of (Sidecar_Bucket_Reconcile E2 D k)"
    and again: "e_GetBucketClaim E3 [] req = Inr (claim_after h1)" "\<And>tr k. e_GetBucket E3 tr k = Inr (bucket_after h2)"
    and stores3: "\<And>tr x. e_UpdateBucketClaim E3 tr x = Inr x" "\<And>tr x. e_StatusUpdateBucketClaim E3 tr x = Inr x"
    and h3: "h3 = history_of (BucketClaim_Reconcile E3 req)"
  shows "result_of (BucketClaim_Reconcile E1 req) = Done \<and> result_of (Sidecar_Bucket_Reconcile E2 D k) = Done \<and>
    result_of (BucketClaim_Reconcile E3 req) = Done \<and>
    c_Status (claim_after h3) = \<lparr>cst_BoundBucketName = ''bc-'' @ om_UID (c_Meta c), cst_ReadyToUse = Some True,
      cst_Protocols = supported, cst_Error = None\<rparr> \<and>
    bst_BucketID (b_Status (bucket_after h2)) = i"
proof -
  let ?n = "''bc-'' @ om_UID (c_Meta c)"
  obtain m c'' pre where add: "AddFinalizer (c_Meta c) ProtectionFinalizer = (m \<noteq> c_Meta c, m)"
    and c'': "c_Meta c'' = m" "c_Spec c'' = c_Spec c" "cst_BoundBucketName (c_Status c'') = ?n"
    and run1: "run_state (BucketClaim_Reconcile E1 req) [] = (Done, pre @
      [EvCreateBucket (generateIntermediateBucket (c\<lparr>c_Meta := m\<rparr>) cl ?n)
         (Inr (generateIntermediateBucket (c\<lparr>c_Meta := m\<rparr>) cl ?n)), EvStatusUpdateBucketClaim c'' (Inr c'')])"
    using dynamic_claim_creates_bucket[OF stores1 absent claim(1-3,5,6,7,4) cls(1)] by (auto simp: Let_def)
  note frame = AddFinalizer_frame[OF add]
  define b where "b = generateIntermediateBucket (c\<lparr>c_Meta := m\<rparr>) cl ?n"
  have b: "bs_DriverName (b_Spec b) = di_Name D" "IsZero (om_DeletionTimestamp (b_Meta b))"
    "\<not> has_annotation (b_Meta b) BucketClaimBeingDeletedAnnotation" "b_Status b = zero_BucketStatus"
    "bs_ExistingBucketID (b_Spec b) = []" "bs_Protocols (b_Spec b) = cs_Protocols (c_Spec c)"
    "bs_BucketClaimRef (b_Spec b) = \<lparr>cr_Name = om_Name (c_Meta c), cr_Namespace = om_Namespace (c_Meta c),
       cr_UID = om_UID (c_Meta c)\<rparr>"
    by (simp_all add: b_def generateIntermediateBucket_def cls(2) frame zero_meta_def has_annotation_def)
  have after1: "bucket_after h1 = b" "claim_after h1 = c''"
    using run1 by (simp_all add: h1 history_of_def b_def)
  obtain m' tr2 where run2: "run_state (Sidecar_Bucket_Reconcile E2 D k) [] = (Done, tr2 @
      [EvStatusUpdateBucket (ready_bucket (b\<lparr>b_Meta := m'\<rparr>) i supported info)
        (Inr (ready_bucket (b\<lparr>b_Meta := m'\<rparr>) i supported info))])"
    using dynamic_provisioning_run[OF stores2 bucket[unfolded after1], of D ps i resp supported info]
      b claim(7-9) protos driver by auto
  then have after2: "bucket_after h2 = ready_bucket (b\<lparr>b_Meta := m'\<rparr>) i supported info"
    by (simp add: h2 history_of_def)
  have c: "IsZero (om_DeletionTimestamp (c_Meta c''))" "determineBucketName c'' = Inr ?n"
    "bucketIsBoundToClaim (bucket_after h2) c'' = Inr True"
    using claim(2,3,7) c'' frame b(7)
    by (simp_all add: determineBucketName_def after2 ready_bucket_def bucketIsBoundToClaim_iff Let_def)
  obtain c3 pre3 where run3: "c_Status c3 = \<lparr>cst_BoundBucketName = ?n, cst_ReadyToUse = Some True,
      cst_Protocols = bst_Protocols (b_Status (bucket_after h2)), cst_Error = None\<rparr>"
    "run_state (BucketClaim_Reconcile E3 req) [] = (Done, pre3 @ [EvStatusUpdateBucketClaim c3 (Inr c3)])"
    using claim_becomes_ready[OF stores3 again(1)[unfolded after1] c(1,2) again(2) c(3)] driver(3,6)
    by (auto simp: after2 ready_bucket_def)
  show ?thesis
    using run1 run2 run3 after2 by (simp add: result_of_def h3 history_of_def ready_bucket_def)
qed

text \<open>Three servers, each of which shows what the run before has stored.\<close>

definition claim_key :: NamespacedName where
  "claim_key = \<lparr>nn_Namespace = ''ns'', nn_Name = ''c''\<rparr>"

definition creating_env :: env where
  "creating_env = echo_env\<lparr>e_GetBucketClaim := \<lambda>_ _. Inr example_claim,
     e_GetBucketClass := \<lambda>_ _. Inr \<lparr>bc_Meta = zero_meta, bc_Spec =
       \<lparr>bcs_DriverName = ''drv'', bcs_DeletionPolicy = BucketDeletionPolicyDelete, bcs_Parameters = None\<rparr>\<rparr>\<rparr>"

definition provisioning_env :: env where
  "provisioning_env = echo_env
     \<lparr>e_GetBucket := \<lambda>_ _. Inr (bucket_after (history_of (BucketClaim_Reconcile creating_env claim_key))),
      e_DriverGenerateBucketId := \<lambda>_ _. Inr ''x'', e_DriverCreateBucket := \<lambda>_ _. Inr (Some example_response)\<rparr>"

definition publishing_env :: env where
  "publishing_env = echo_env
     \<lparr>e_GetBucketClaim := \<lambda>_ _. Inr (claim_after (history_of (BucketClaim_Reconcile creating_env claim_key))),
      e_GetBucket := \<lambda>_ _. Inr (bucket_after (history_of (Sidecar_Bucket_Reconcile provisioning_env example_driver
        \<lparr>nn_Namespace = [], nn_Name = ''bc-1''\<rparr>)))\<rparr>"

theorem claim_provisioned_end_to_end_witness:
  "cst_ReadyToUse (c_Status (claim_after (history_of (BucketClaim_Reconcile publishing_env claim_key)))) = Some True"
proof -
  obtain info where r: "BucketInfoToApi (Some example_response) None = Inr ([ObjectProtocolS3], info)"
    by (simp add: BucketInfoToApi_unvalidated covered_protocols_def example_response_def)
  have claim: "IsZero (om_DeletionTimestamp (c_Meta example_claim))" "cs_ExistingBucketName (c_Spec example_claim) = []"
    "cs_BucketClassName (c_Spec example_claim) \<noteq> []" "cst_BoundBucketName (c_Status example_claim) = []"
    "cst_Error (c_Status example_claim) = None" "om_UID (c_Meta example_claim) \<noteq> []"
    "om_Name (c_Meta example_claim) \<noteq> []" "om_Namespace (c_Meta example_claim) \<noteq> []"
    "cs_Protocols (c_Spec example_claim) = [ObjectProtocolS3]"
    by (simp_all add: example_claim_def zero_meta_def)
  have protos: "objectProtocolListFromApiList [ObjectProtocolS3] = Inr [ObjectProtocol_S3]"
    by (simp add: objectProtocolListFromApiList_def ObjectProtocol_ApiToRpc_def objectProtocolProtoApiMapping_def
        join_errs_def Let_def)
  have i: "validateBucketID ''x'' = None"
    by (simp add: validateBucketID_ok bucketIDPattern_def is_alnum_def lower_chars_def)
  show ?thesis
    using claim_provisioned_end_to_end[of creating_env claim_key example_claim _ example_driver "[]" _ provisioning_env
        "\<lparr>nn_Namespace = [], nn_Name = ''bc-1''\<rparr>" "[ObjectProtocol_S3]" "''x''" example_response "[ObjectProtocolS3]" info
        _ publishing_env, OF _ claim(1-8) _ _ _ _ _ _ refl _ _ _ _ _ _ i _ _ r _ _ refl _ _ _ _ refl]
    by (simp add: creating_env_def provisioning_env_def publishing_env_def echo_env_def example_driver_def claim(9) protos)
qed

section \<open>From an access to its credentials\<close>

lemma initialized_access_frame [simp]:
  "a_Meta (initialized_access a cls bs) = a_Meta a" "a_Spec (initialized_access a cls bs) = a_Spec a"
  "ast_AccessedBuckets (a_Status (initialized_access a cls bs)) = bs"
  "ast_DriverName (a_Status (initialized_access a cls bs)) = acs_DriverName cls"
  "ast_AuthenticationType (a_Status (initialized_access a cls bs)) = acs_AuthenticationType cls"
  by (simp_all add: initialized_access_def access_ready_set_def)

lemma granted_access_status [simp]:
  "ast_ReadyToUse (a_Status (granted_access a i)) = Some True" "ast_AccountID (a_Status (granted_access a i)) = i"
  "ast_Error (a_Status (granted_access a i)) = None" "ast_AccessedBuckets (a_Status (granted_access a i)) = ast_AccessedBuckets (a_Status a)"
  by (simp_all add: granted_access_def)

text \<open>
  C4. An access is served: one run of the Controller checks the class, the claim and the Bucket and
  hands the access over, and one run of the Sidecar that reads the access the Controller stored
  reserves the Secret, asks the driver and publishes the access. Both runs succeed; the access is
  ready under the driver's account ID, and the last write before is the one that fills the Secret
  with the credentials and the bucket info of the driver's answer.
\<close>

theorem access_granted_end_to_end:
  assumes access: "e_GetBucketAccess E1 [] req = Inr a" "IsZero (om_DeletionTimestamp (a_Meta a))"
      "\<not> has_annotation (a_Meta a) ControllerManagementOverrideAnnotation"
      "SidecarRequirementsPresent (a_Status a) = Inr False" "as_BucketClaims (a_Spec a) = [ref]"
    and stores1: "\<And>tr x. e_UpdateBucketAccess E1 tr x = Inr x" "\<And>tr x. e_StatusUpdateBucketAccess E1 tr x = Inr x"
      "\<And>tr x. e_UpdateBucketClaim E1 tr x = Inr x"
    and claim: "\<And>tr. e_GetBucketClaim E1 tr \<lparr>nn_Namespace = om_Namespace (a_Meta a), nn_Name = bca_BucketClaimName ref\<rparr> = Inr c"
      "IsZero (om_DeletionTimestamp (c_Meta c))" "cst_BoundBucketName (c_Status c) = om_Name (b_Meta b)" "om_Name (b_Meta b) \<noteq> []"
      "cst_ReadyToUse (c_Status c) = Some True" "as_Protocol (a_Spec a) \<in> set (cst_Protocols (c_Status c))"
    and cls: "\<And>tr k. e_GetBucketAccessClass E1 tr k = Inr cl" "ValidateAccessAgainstClass (ac_Spec cl) (a_Spec a) = None"
      "acs_DriverName (ac_Spec cl) = di_Name D" "di_Name D \<noteq> []"
    and bucket: "\<And>tr. e_GetBucket E1 tr \<lparr>nn_Namespace = [], nn_Name = om_Name (b_Meta b)\<rparr> = Inr b"
      "\<And>tr. e_GetBucket E2 tr \<lparr>nn_Namespace = [], nn_Name = om_Name (b_Meta b)\<rparr> = Inr b"
      "bucket_accessible D b (bst_BucketID (b_Status b))"
    and h1: "h1 = history_of (Controller_Access_Reconcile E1 req)"
    and again: "e_GetBucketAccess E2 [] req = Inr (access_after h1)"
    and stores2: "\<And>tr k. e_GetSecret E2 tr k = Inl (ApiNotFound m)" "\<And>tr s. e_CreateSecret E2 tr s = Inr s"
      "\<And>tr s. e_UpdateSecret E2 tr s = Inr s" "\<And>tr x. e_StatusUpdateBucketAccess E2 tr x = Inr x"
    and cfg: "ObjectProtocol_ApiToRpc (as_Protocol (a_Spec a)) = Inr p"
      "AuthenticationTypeToRpc (acs_AuthenticationType (ac_Spec cl)) = Inr t"
      "HasAnyAccessMode (bca_AccessModes ref)" "claim_access_config ref = Inr cfg"
    and driver: "\<And>tr q. e_DriverGrantBucketAccess E2 tr q = Inr resp"
      "translateDriverGrantBucketAccessResponseToApi resp \<lparr>vc_ExpectedProtocol = as_Protocol (a_Spec a),
         vc_AuthenticationType = acs_AuthenticationType (ac_Spec cl)\<rparr> = Inr d"
      "ga_BucketInfoByBucketId d = [(bst_BucketID (b_Status b), info)]"
    and h2: "h2 = history_of (Sidecar_Access_Reconcile E2 D req)"
  shows "result_of (Controller_Access_Reconcile E1 req) = Done \<and> result_of (Sidecar_Access_Reconcile E2 D req) = Done \<and>
    ast_ReadyToUse (a_Status (access_after h2)) = Some True \<and> ast_AccountID (a_Status (access_after h2)) = ga_AccountId d \<and>
    ast_AccessedBuckets (a_Status (access_after h2)) = [accessed_bucket ref b] \<and>
    (\<exists>pre s. h2 = pre @ [EvUpdateSecret s (Inr s), EvStatusUpdateBucketAccess (access_after h2) (Inr (access_after h2))] \<and>
      om_Name (sec_Meta s) = bca_AccessSecretName ref \<and> om_Namespace (sec_Meta s) = om_Namespace (a_Meta a) \<and>
      sec_StringData s = Some (secret_data (ga_SharedCredentialInfo d) info))"
proof -
  have id: "bst_BucketID (b_Status b) \<noteq> []" using bucket(3) by (simp add: bucket_accessible_def)
  have unmanaged: "\<not> ManagedBySidecar a"
    using access(4) ManagedBySidecar_has_driver by (auto simp: SidecarRequirementsPresent_False)
  obtain m' a1 pre1 where add: "AddFinalizer (a_Meta a) ProtectionFinalizer = (m' \<noteq> a_Meta a, m')"
    and a1: "a1 = initialized_access (a\<lparr>a_Meta := m'\<rparr>) (ac_Spec cl) [accessed_bucket ref b]"
    and run1: "run_state (Controller_Access_Reconcile E1 req) [] = (Done, pre1 @ [EvStatusUpdateBucketAccess a1 (Inr a1)])"
    using access_initialized_run[OF access(1) unmanaged access(2,4,5) stores1 claim(1,2) _ claim(5,6) cls(1,2) _ id] claim bucket(1)
    by auto
  note frame = AddFinalizer_frame[OF add]
  have after1: "access_after h1 = a1" using run1 by (simp add: h1 history_of_def)
  have auth: "acs_AuthenticationType (ac_Spec cl) \<noteq> []"
    using cfg(2) by (auto simp: AuthenticationTypeToRpc_def authentication_type_defs split: if_splits)
  have handed: "ours D a1" "IsZero (om_DeletionTimestamp (a_Meta a1))" "SidecarRequirementsPresent (a_Status a1) = Inr True"
    "ContainsFinalizer (a_Meta a1) ProtectionFinalizer" "as_BucketClaims (a_Spec a1) = [ref]"
    "ast_AccessedBuckets (a_Status a1) = [accessed_bucket ref b]" "om_Namespace (a_Meta a1) = om_Namespace (a_Meta a)"
    "access_validation a1 = \<lparr>vc_ExpectedProtocol = as_Protocol (a_Spec a), vc_AuthenticationType = acs_AuthenticationType (ac_Spec cl)\<rparr>"
    using access(2,3,5) cls(3,4) auth frame
    by (simp_all add: a1 ours_def ManagedBySidecar_def has_annotation_def SidecarRequirementsPresent_True)
  obtain shared where shared: "newInternalAccessConfig a1 = Inr shared"
    using cfg(1,2) by (simp add: newInternalAccessConfig_def a1)
  obtain pre2 s where run2: "run_state (Sidecar_Access_Reconcile E2 D req) [] = (Done, pre2 @
      [EvUpdateSecret s (Inr s), EvStatusUpdateBucketAccess (granted_access a1 (ga_AccountId d)) (Inr (granted_access a1 (ga_AccountId d)))])"
    and s: "s = (new_access_secret a1 (bca_AccessSecretName ref))\<lparr>sec_StringData := Some (secret_data (ga_SharedCredentialInfo d) info)\<rparr>"
    using access_grant_run[OF again[unfolded after1] handed(1-6) _ _ _ stores2 shared cfg(3,4) driver(1), of b d info]
      driver(2,3) bucket handed(8)
    by (auto simp: accessed_bucket_def)
  have names: "om_Name (sec_Meta s) = bca_AccessSecretName ref" "om_Namespace (sec_Meta s) = om_Namespace (a_Meta a)"
    "sec_StringData s = Some (secret_data (ga_SharedCredentialInfo d) info)"
    using handed(7) by (simp_all add: s new_access_secret_def setAccessSecretRequiredMetadata_def AddFinalizer_def)
  have after2: "h2 = (pre2 @ [EvUpdateSecret s (Inr s)]) @ [EvStatusUpdateBucketAccess (granted_access a1 (ga_AccountId d))
      (Inr (granted_access a1 (ga_AccountId d)))]"
    "access_after h2 = granted_access a1 (ga_AccountId d)"
    using run2 after_last(5)[of "pre2 @ [EvUpdateSecret s (Inr s)]"] by (simp_all add: h2 history_of_def)
  show ?thesis
    using run1 run2 after2 names handed(6) by (simp add: result_of_def)
qed

text \<open>A new access for the Azure protocol, its class and claim, and a driver that grants it.\<close>

definition azure_bucket_object :: Bucket where
  "azure_bucket_object =
     \<lparr>b_Meta = zero_meta\<lparr>om_Name := ''bc-1''\<rparr>,
      b_Spec = \<lparr>bs_DriverName = ''drv'', bs_DeletionPolicy = BucketDeletionPolicyDelete,
        bs_Parameters = None, bs_Protocols = [],
        bs_BucketClaimRef = \<lparr>cr_Name = ''c'', cr_Namespace = ''ns'', cr_UID = ''1''\<rparr>,
        bs_ExistingBucketID = []\<rparr>,
      b_Status = zero_BucketStatus\<lparr>bst_BucketID := ''x''\<rparr>\<rparr>"

definition azure_claim :: BucketClaim where
  "azure_claim = example_claim\<lparr>c_Status := \<lparr>cst_BoundBucketName = ''bc-1'', cst_ReadyToUse = Some True,
     cst_Protocols = [ObjectProtocolAzure], cst_Error = None\<rparr>\<rparr>"

definition azure_class :: BucketAccessClass where
  "azure_class = \<lparr>ac_Meta = zero_meta, ac_Spec = \<lparr>acs_DriverName = ''drv'',
     acs_AuthenticationType = BucketAccessAuthenticationTypeKey, acs_Parameters = None,
     acs_DisallowedBucketAccessModes = \<lparr>dm_ObjectData = [], dm_ObjectMetadata = [], dm_BucketMetadata = []\<rparr>,
     acs_MultiBucketAccess = []\<rparr>\<rparr>"

definition new_azure_access :: BucketAccess where
  "new_azure_access = example_access\<lparr>a_Spec := (a_Spec example_access)\<lparr>as_Protocol := ObjectProtocolAzure\<rparr>\<rparr>"

definition access_key :: NamespacedName where
  "access_key = \<lparr>nn_Namespace = ''ns'', nn_Name = ''a''\<rparr>"

definition initializing_env :: env where
  "initializing_env = echo_env\<lparr>e_GetBucketAccess := \<lambda>_ _. Inr new_azure_access, e_GetBucketClaim := \<lambda>_ _. Inr azure_claim,
     e_GetBucketAccessClass := \<lambda>_ _. Inr azure_class, e_GetBucket := \<lambda>_ _. Inr azure_bucket_object\<rparr>"

definition granting_env :: env where
  "granting_env = echo_env
     \<lparr>e_GetBucketAccess := \<lambda>_ _. Inr (access_after (history_of (Controller_Access_Reconcile initializing_env access_key))),
      e_GetBucket := \<lambda>_ _. Inr azure_bucket_object, e_DriverGrantBucketAccess := \<lambda>_ _. Inr azure_grant\<rparr>"

theorem access_granted_end_to_end_witness:
  "ast_ReadyToUse (a_Status (access_after (history_of (Sidecar_Access_Reconcile granting_env
     \<lparr>di_Name = ''drv'', di_SupportedProtocols = []\<rparr> access_key)))) = Some True"
proof -
  let ?ref = "\<lparr>bca_BucketClaimName = ''c'', bca_AccessModes = \<lparr>am_ObjectData = BucketAccessModeReadWrite,
     am_ObjectMetadata = [], am_BucketMetadata = []\<rparr>, bca_AccessSecretName = ''s''\<rparr>"
  let ?D = "\<lparr>di_Name = ''drv'', di_SupportedProtocols = []\<rparr> :: DriverInfo"
  have cfg: "\<exists>cfg. claim_access_config ?ref = Inr cfg" "HasAnyAccessMode (bca_AccessModes ?ref)"
    "ObjectProtocol_ApiToRpc ObjectProtocolAzure = Inr ObjectProtocol_AZURE"
    "AuthenticationTypeToRpc BucketAccessAuthenticationTypeKey = Inr AuthenticationType_KEY"
    using claim_access_config_ok[of ?ref] AccessModeToRpc_ok
    by (auto simp: HasAnyAccessMode_def access_mode_defs ObjectProtocol_ApiToRpc_def objectProtocolProtoApiMapping_def
        AuthenticationTypeToRpc_def)
  have access: "IsZero (om_DeletionTimestamp (a_Meta new_azure_access))"
    "\<not> has_annotation (a_Meta new_azure_access) ControllerManagementOverrideAnnotation"
    "SidecarRequirementsPresent (a_Status new_azure_access) = Inr False" "as_BucketClaims (a_Spec new_azure_access) = [?ref]"
    "as_Protocol (a_Spec new_azure_access) = ObjectProtocolAzure"
    by (simp_all add: new_azure_access_def example_access_def zero_meta_def has_annotation_def SidecarRequirementsPresent_False)
  have claim: "IsZero (om_DeletionTimestamp (c_Meta azure_claim))" "cst_BoundBucketName (c_Status azure_claim) = om_Name (b_Meta azure_bucket_object)"
    "om_Name (b_Meta azure_bucket_object) \<noteq> []" "cst_ReadyToUse (c_Status azure_claim) = Some True"
    "cst_Protocols (c_Status azure_claim) = [ObjectProtocolAzure]" "bst_BucketID (b_Status azure_bucket_object) = ''x''"
    by (simp_all add: azure_claim_def azure_bucket_object_def example_claim_def zero_meta_def)
  have accessible: "bucket_accessible ?D azure_bucket_object ''x''"
    by (simp add: bucket_accessible_def azure_bucket_object_def zero_meta_def has_annotation_def zero_BucketStatus_def)
  have cls: "ValidateAccessAgainstClass (ac_Spec azure_class) (a_Spec new_azure_access) = None"
    "acs_DriverName (ac_Spec azure_class) = ''drv''" "acs_AuthenticationType (ac_Spec azure_class) = BucketAccessAuthenticationTypeKey"
    by (simp_all add: azure_class_def new_azure_access_def example_access_def ValidateAccessAgainstClass_def
        validateClaimAccessModesAgainstClass_def HasAnyAccessMode_def access_mode_defs join_errs_def)
  obtain cfg' where cfg': "claim_access_config ?ref = Inr cfg'" using cfg(1) ..
  show ?thesis
    using access_granted_end_to_end[of initializing_env access_key new_azure_access ?ref azure_claim azure_bucket_object
        azure_class ?D granting_env _ "[]" ObjectProtocol_AZURE AuthenticationType_KEY cfg' azure_grant _
        "[(BucketInfoVar_Azure_StorageAccount, ''sa'')]",
        OF _ access(1-4) _ _ _ _ claim(1-4) _ _ cls(1) _ _ _ _ _ refl _ _ _ _ _ _ _ cfg(2) cfg' _ _ _ refl]
      azure_grant_translated accessible
    by (auto simp: initializing_env_def granting_env_def echo_env_def access(5) claim cls cfg)
qed

end
