(* ===== verification/Access_Lifecycle.thy ===== *)
theory Access_Lifecycle
  imports End_To_End
begin

text \<open>
  The life of an access, shared by the Controller and the Sidecars. An abstract machine says what may
  happen to the status of an access: it is initialized once, made ready under an account only after
  that, and may become not ready again. All runs of both reconcilers, interleaved call by call with
  each other and with the users, against a server that may answer with old versions but accepts a
  write only if it was made from the current one, refine this machine.
\<close>

section \<open>The abstract machine\<close>

text \<open>What the Controller copies into the status when it hands an access over.\<close>

record initialization =
  in_AccessedBuckets :: "AccessedBucket list"
  in_DriverName :: string
  in_AuthenticationType :: BucketAccessAuthenticationType
  in_Parameters :: "string gomap"

record phase =
  ph_Initialization :: initialization
  ph_AccountID :: string
  ph_Ready :: bool

definition blank :: "initialization \<Rightarrow> bool" where
  "blank i \<longleftrightarrow> in_AccessedBuckets i = [] \<and> in_DriverName i = [] \<and> in_AuthenticationType i = []"

definition complete :: "initialization \<Rightarrow> bool" where
  "complete i \<longleftrightarrow> in_AccessedBuckets i \<noteq> [] \<and> in_DriverName i \<noteq> [] \<and> in_AuthenticationType i \<noteq> []"

definition new_phase :: "phase \<Rightarrow> bool" where
  "new_phase p \<longleftrightarrow> blank (ph_Initialization p) \<and> ph_AccountID p = [] \<and> \<not> ph_Ready p"

inductive lifecycle :: "phase \<Rightarrow> phase \<Rightarrow> bool" where
  lifecycle_keep: "lifecycle p p"
| lifecycle_initialize: "blank (ph_Initialization p) \<Longrightarrow> lifecycle p (p\<lparr>ph_Initialization := i\<rparr>)"
| lifecycle_grant: "complete (ph_Initialization p) \<Longrightarrow> account \<noteq> [] \<Longrightarrow>
    lifecycle p (p\<lparr>ph_AccountID := account, ph_Ready := r\<rparr>)"
| lifecycle_withdraw: "lifecycle p (p\<lparr>ph_Ready := False\<rparr>)"

inductive_cases lifecycleE: "lifecycle p q"

text \<open>What the machine guarantees.\<close>

definition phase_ok :: "phase \<Rightarrow> bool" where
  "phase_ok p \<longleftrightarrow> (ph_Ready p \<longrightarrow> complete (ph_Initialization p) \<and> ph_AccountID p \<noteq> []) \<and>
     (blank (ph_Initialization p) \<longrightarrow> ph_AccountID p = [])"

lemma blank_not_complete: "blank i \<Longrightarrow> \<not> complete i"
  by (simp add: blank_def complete_def)

lemma phase_ok_new: "new_phase p \<Longrightarrow> phase_ok p"
  by (simp add: phase_ok_def new_phase_def)

lemma phase_ok_step: "lifecycle p q \<Longrightarrow> phase_ok p \<Longrightarrow> phase_ok q"
  by (induction rule: lifecycle.induct) (auto simp: phase_ok_def dest: blank_not_complete)

lemma lifecycle_keeps_initialization:
  "lifecycle p q \<Longrightarrow> \<not> blank (ph_Initialization p) \<Longrightarrow> ph_Initialization q = ph_Initialization p"
  by (elim lifecycleE) simp_all

section \<open>The concrete system\<close>

definition initialization_of :: "BucketAccess \<Rightarrow> initialization" where
  "initialization_of a = \<lparr>in_AccessedBuckets = ast_AccessedBuckets (a_Status a), in_DriverName = ast_DriverName (a_Status a),
     in_AuthenticationType = ast_AuthenticationType (a_Status a), in_Parameters = ast_Parameters (a_Status a)\<rparr>"

definition phase_of :: "BucketAccess \<Rightarrow> phase" where
  "phase_of a = \<lparr>ph_Initialization = initialization_of a, ph_AccountID = ast_AccountID (a_Status a),
     ph_Ready = ptr_Deref (ast_ReadyToUse (a_Status a)) False\<rparr>"

text \<open>A call of a run, or a version that somebody else stores: users create accesses, change their
  metadata and ask for their deletion.\<close>

datatype access_entry = ByRun nat event | ByUser BucketAccess

definition stored_access :: "access_entry \<Rightarrow> BucketAccess option" where
  "stored_access en = (case en of
      ByUser a \<Rightarrow> Some a
    | ByRun _ e \<Rightarrow> (case e of
        EvUpdateBucketAccess _ (Inr a) \<Rightarrow> Some a
      | EvStatusUpdateBucketAccess _ (Inr a) \<Rightarrow> Some a
      | _ \<Rightarrow> None))"

abbreviation access_versions :: "access_entry list \<Rightarrow> BucketAccess list" where
  "access_versions \<equiv> stored_versions stored_access"

abbreviation current_access :: "access_entry list \<Rightarrow> UID \<Rightarrow> BucketAccess option" where
  "current_access \<equiv> current_version stored_access a_Meta"

abbreviation fresh_access :: "access_entry list \<Rightarrow> BucketAccess \<Rightarrow> bool" where
  "fresh_access \<equiv> fresh_version stored_access a_Meta"

definition run_events :: "nat \<Rightarrow> access_entry list \<Rightarrow> history" where
  "run_events i = List.map_filter (\<lambda>en. case en of
      ByRun j e \<Rightarrow> if j = i then Some e else None
    | ByUser _ \<Rightarrow> None)"

text \<open>What each run has done so far is the beginning of a run of one of the two reconcilers.\<close>

definition access_run :: "history \<Rightarrow> bool" where
  "access_run h \<longleftrightarrow> (\<exists>E D k. h \<in> {history_of (Controller_Access_Reconcile E k), history_of (Sidecar_Access_Reconcile E D k)})"

definition access_runs :: "access_entry list \<Rightarrow> bool" where
  "access_runs T \<longleftrightarrow> (\<forall>i. \<exists>rest. access_run (run_events i T @ rest))"

text \<open>
  What is assumed of the server: reads return a version that was stored; a write is accepted only if it
  was made from the current version; an update leaves the status as it is, a status update stores the
  status it is sent; users do not write statuses and a new access has none; every stored access
  references at least one claim (the API types require it).
\<close>

definition access_server :: "access_entry list \<Rightarrow> access_entry \<Rightarrow> bool" where
  "access_server T en \<longleftrightarrow>
     (\<forall>y. stored_access en = Some y \<longrightarrow> fresh_access T y \<and> as_BucketClaims (a_Spec y) \<noteq> []) \<and>
     (case en of
        ByUser y \<Rightarrow>
          (case current_access T (om_UID (a_Meta y)) of
             None \<Rightarrow> new_phase (phase_of y)
           | Some cur \<Rightarrow> a_Status y = a_Status cur)
      | ByRun _ e \<Rightarrow> (case e of
          EvGetBucketAccess _ (Inr a) \<Rightarrow> a \<in> set (access_versions T)
        | EvUpdateBucketAccess x (Inr y) \<Rightarrow> om_UID (a_Meta y) = om_UID (a_Meta x) \<and>
            (\<exists>cur. current_access T (om_UID (a_Meta x)) = Some cur \<and> same_version (a_Meta x) (a_Meta cur) \<and>
               a_Status y = a_Status cur)
        | EvStatusUpdateBucketAccess x (Inr y) \<Rightarrow> om_UID (a_Meta y) = om_UID (a_Meta x) \<and>
            (\<exists>cur. current_access T (om_UID (a_Meta x)) = Some cur \<and> same_version (a_Meta x) (a_Meta cur)) \<and>
            a_Status y = a_Status x
        | _ \<Rightarrow> True))"

text \<open>The refinement: a stored version is a step of the machine from the version before it.\<close>

definition lifecycle_step :: "access_entry list \<Rightarrow> access_entry \<Rightarrow> bool" where
  "lifecycle_step T en = (case stored_access en of
      None \<Rightarrow> True
    | Some y \<Rightarrow>
        (case current_access T (om_UID (a_Meta y)) of
           None \<Rightarrow> new_phase (phase_of y)
         | Some cur \<Rightarrow> lifecycle (phase_of cur) (phase_of y)))"

section \<open>One write of a run\<close>

lemma phase_of_status: "a_Status a = a_Status b \<Longrightarrow> phase_of a = phase_of b"
  by (simp add: phase_of_def initialization_of_def)

lemma initialization_of_status: "a_Status a = a_Status b \<Longrightarrow> initialization_of a = initialization_of b"
  by (simp add: initialization_of_def)

text \<open>What a run has been shown, against what it has read: the same initialization, unless it was
  initialized by the run.\<close>

definition shown_consistent :: "history \<Rightarrow> bool" where
  "shown_consistent h \<longleftrightarrow> (\<forall>a0 \<in> set (accesses_shown h). \<forall>a \<in> set (accesses_read h).
     initialization_of a0 = initialization_of a \<or>
     blank (initialization_of a) \<and> ast_AccessedBuckets (a_Status a0) \<noteq> [])"

text \<open>What a status update may do to the version it was made from.\<close>

definition status_step :: "history \<Rightarrow> BucketAccess \<Rightarrow> BucketAccess \<Rightarrow> bool" where
  "status_step h a0 x \<longleftrightarrow> same_version (a_Meta x) (a_Meta a0) \<and> lifecycle (phase_of a0) (phase_of x) \<and>
     (initialization_of x = initialization_of a0 \<or>
      (\<forall>a \<in> set (accesses_read h). blank (initialization_of a)) \<and>
      (as_BucketClaims (a_Spec a0) \<noteq> [] \<longrightarrow> ast_AccessedBuckets (a_Status x) \<noteq> []))"

lemma same_status_fields:
  assumes "(a_Status x)\<lparr>ast_ReadyToUse := None, ast_Error := None\<rparr> = (a_Status a)\<lparr>ast_ReadyToUse := None, ast_Error := None\<rparr>"
  shows "initialization_of x = initialization_of a" "ast_AccountID (a_Status x) = ast_AccountID (a_Status a)"
  using assms by (cases "a_Status x"; cases "a_Status a"; simp add: initialization_of_def)+

lemma same_initialization_phase: "same_initialization x a \<Longrightarrow> phase_of x = phase_of a"
  by (auto simp: same_initialization_def same_progress_def phase_of_def dest: same_status_fields)

lemma same_grant_phase:
  assumes "same_grant x a"
  shows "phase_of x = phase_of a \<or> phase_of x = (phase_of a)\<lparr>ph_Ready := False\<rparr>"
  using assms same_status_fields[of x a] by (auto simp: same_grant_def phase_of_def)

lemma controller_status_step:
  assumes "access_status_ok h x" "shown_consistent h"
  shows "\<exists>a0 \<in> set (accesses_shown h). status_step h a0 x"
  using assms(1) unfolding access_status_ok_def
proof
  assume init: "initialized_ok h x"
  then obtain a0 where a0: "a0 \<in> set (accesses_shown h)" "ast_AccessedBuckets (a_Status a0) = []" "a_Spec x = a_Spec a0"
      "same_version (a_Meta x) (a_Meta a0)" "same_progress (a_Status x) (a_Status a0)"
    by (auto simp: initialized_ok_def)
  obtain a1 where a1: "a1 \<in> set (accesses_read h)" "blank (initialization_of a1)"
    using init by (auto simp: initialized_ok_def access_live_def SidecarRequirementsPresent_False blank_def initialization_of_def)
  have same: "initialization_of a = initialization_of a0" if "a \<in> set (accesses_read h)" for a
    using assms(2) a0(1,2) that by (auto simp: shown_consistent_def)
  have blanks: "blank (initialization_of a0)" "\<forall>a \<in> set (accesses_read h). blank (initialization_of a)"
    using a1 same by metis+
  have "length (ast_AccessedBuckets (a_Status x)) = length (as_BucketClaims (a_Spec a0))"
    using init a0(3) by (auto simp: initialized_ok_def dest: list_all2_lengthD)
  then have filled: "as_BucketClaims (a_Spec a0) \<noteq> [] \<longrightarrow> ast_AccessedBuckets (a_Status x) \<noteq> []" by auto
  have "phase_of x = (phase_of a0)\<lparr>ph_Initialization := initialization_of x\<rparr>"
    using a0(5) by (simp add: phase_of_def same_progress_def)
  then have "lifecycle (phase_of a0) (phase_of x)"
    using blanks(1) lifecycle_initialize[of "phase_of a0"] by (simp add: phase_of_def)
  then show ?thesis using a0(1,4) blanks(2) filled by (auto simp: status_step_def)
next
  assume "\<exists>a0 \<in> set (accesses_shown h). same_initialization x a0"
  then obtain a0 where a0: "a0 \<in> set (accesses_shown h)" "same_initialization x a0" by blast
  have "initialization_of x = initialization_of a0" "same_version (a_Meta x) (a_Meta a0)"
    using a0(2) by (auto simp: same_initialization_def dest: same_status_fields)
  then show ?thesis using a0(1) same_initialization_phase[OF a0(2)] lifecycle_keep
    unfolding status_step_def by metis
qed

text \<open>A grant was asked for only in a run for an initialized access.\<close>

lemma granted_run_live:
  assumes "guarded (grant_contract D) h" "accesses_granted h \<noteq> []"
  shows "run_live D h"
  using assms
proof (induction h rule: rev_induct)
  case (snoc e h)
  show ?case
  proof (cases "accesses_granted h = []")
    case True
    then show ?thesis using snoc.prems
      by (cases e) (auto simp: grant_ok_def grant_events split: sum.splits)
  qed (use snoc in \<open>simp add: grant_events\<close>)
qed simp

lemma granted_account: "translateDriverGrantBucketAccessResponseToApi resp v = Inr d \<Longrightarrow> ga_AccountId d \<noteq> []"
  by (auto simp: translateDriverGrantBucketAccessResponseToApi_def Let_def granted_buckets_loop_ok
      split: prod.splits option.splits if_splits sum.splits)

lemma sidecar_status_step:
  assumes "guarded (grant_contract D) h" "grant_status_ok h x" "shown_consistent h"
  shows "\<exists>a0 \<in> set (accesses_shown h). status_step h a0 x"
proof -
  obtain a0 where a0: "a0 \<in> set (accesses_shown h)"
    and cases: "same_grant x a0 \<or> (\<exists>cfgs d. same_grant x (granted_access a0 (ga_AccountId d)) \<and> grant_confirmed h a0 cfgs d)"
    using assms(2) by (auto simp: grant_status_ok_def granted_access_def)
  from cases show ?thesis
  proof
    assume "same_grant x a0"
    then have "status_step h a0 x"
      using same_grant_phase[of x a0] same_status_fields[of x a0] lifecycle_keep lifecycle_withdraw
      by (auto simp: status_step_def same_grant_def)
    then show ?thesis using a0 by blast
  next
    assume "\<exists>cfgs d. same_grant x (granted_access a0 (ga_AccountId d)) \<and> grant_confirmed h a0 cfgs d"
    then obtain cfgs d where x: "same_grant x (granted_access a0 (ga_AccountId d))" and conf: "grant_confirmed h a0 cfgs d" by blast
    have "accesses_granted h \<noteq> []" and account: "ga_AccountId d \<noteq> []"
      using conf by (auto simp: grant_confirmed_def dest: granted_account)
    then obtain a where a: "a \<in> set (accesses_read h)" "complete (initialization_of a)"
      using granted_run_live[OF assms(1)]
      by (auto simp: run_live_def SidecarRequirementsPresent_True complete_def initialization_of_def)
    then have comp: "complete (initialization_of a0)"
      using assms(3) a0 blank_not_complete by (metis shown_consistent_def)
    have granted: "phase_of (granted_access a0 i) = (phase_of a0)\<lparr>ph_AccountID := i, ph_Ready := True\<rparr>" for i
      by (simp add: phase_of_def initialization_of_def granted_access_def)
    have "phase_of x = (phase_of a0)\<lparr>ph_AccountID := ga_AccountId d, ph_Ready := ph_Ready (phase_of x)\<rparr>"
      using same_grant_phase[OF x] by (auto simp: granted)
    then have "lifecycle (phase_of a0) (phase_of x)"
      using lifecycle_grant[of "phase_of a0" "ga_AccountId d" "ph_Ready (phase_of x)"] comp account
      by (simp add: phase_of_def)
    moreover have "initialization_of x = initialization_of a0" "same_version (a_Meta x) (a_Meta a0)"
      using x same_status_fields(1)[of x "granted_access a0 (ga_AccountId d)"]
      by (auto simp: same_grant_def granted_access_def initialization_of_def)
    ultimately show ?thesis using a0 by (auto simp: status_step_def)
  qed
qed

text \<open>The contract of either reconciler, for one call of a run.\<close>

definition access_call_ok :: "history \<Rightarrow> event \<Rightarrow> bool" where
  "access_call_ok h e \<longleftrightarrow> guarded access_contract (h @ [e]) \<or> (\<exists>D. guarded (grant_contract D) (h @ [e]))"

lemma access_run_call: "access_run (h @ e # rest) \<Longrightarrow> access_call_ok h e"
proof -
  assume "access_run (h @ e # rest)"
  then obtain E D k where "(h @ [e]) @ rest = history_of (Controller_Access_Reconcile E k) \<or>
      (h @ [e]) @ rest = history_of (Sidecar_Access_Reconcile E D k)" by (auto simp: access_run_def)
  then have "guarded access_contract ((h @ [e]) @ rest) \<or> guarded (grant_contract D) ((h @ [e]) @ rest)"
    using Controller_Access_Reconcile_contract[of E k] Sidecar_Access_Reconcile_contract[of D E k] by metis
  then show ?thesis unfolding access_call_ok_def guarded_append by blast
qed

lemma read_first: "access_call_ok h (EvGetBucketAccess k r) \<Longrightarrow> h = []"
  by (auto simp: access_call_ok_def)

lemma read_is_shown: "a \<in> set (accesses_read h) \<Longrightarrow> a \<in> set (accesses_shown h)"
  by (induction h) (auto split: event.splits sum.splits)

lemma update_from_shown:
  assumes "access_call_ok h (EvUpdateBucketAccess x r)"
  shows "\<exists>a0 \<in> set (accesses_shown h). same_version (a_Meta x) (a_Meta a0)"
proof -
  have "access_release_ok h x \<or> (\<exists>D. access_update_ok D h x)" using assms by (auto simp: access_call_ok_def)
  then obtain a0 m where "a0 \<in> set (accesses_shown h)" "x = a0\<lparr>a_Meta := m\<rparr>" "same_version m (a_Meta a0)"
    unfolding access_release_ok_def access_update_ok_def
    by (elim disjE exE bexE conjE) (auto dest: read_is_shown)
  then show ?thesis by auto
qed

lemma status_from_shown:
  assumes "access_call_ok h (EvStatusUpdateBucketAccess x r)" "shown_consistent h"
  shows "\<exists>a0 \<in> set (accesses_shown h). status_step h a0 x"
  using assms controller_status_step sidecar_status_step by (auto simp: access_call_ok_def)

section \<open>The invariant\<close>

definition access_inv :: "access_entry list \<Rightarrow> bool" where
  "access_inv T \<longleftrightarrow>
     (\<forall>v \<in> set (access_versions T). as_BucketClaims (a_Spec v) \<noteq> []) \<and>
     (\<forall>i. set (accesses_shown (run_events i T)) \<subseteq> set (access_versions T) \<and> shown_consistent (run_events i T))"

lemma run_events_snoc:
  "run_events i (T @ [en]) = run_events i T @ (case en of ByRun j e \<Rightarrow> if j = i then [e] else [] | ByUser _ \<Rightarrow> [])"
  by (simp add: run_events_def List.map_filter_def split: access_entry.splits)

lemma access_runs_snoc:
  assumes "access_runs (T @ [en])"
  shows "access_runs T" and "en = ByRun i e \<Longrightarrow> access_call_ok (run_events i T) e"
proof -
  have run: "\<exists>rest. access_run (run_events j T @ (case en of ByRun i e \<Rightarrow> if i = j then [e] else [] | ByUser _ \<Rightarrow> []) @ rest)" for j
    using assms by (simp add: access_runs_def run_events_snoc)
  then show "access_runs T" unfolding access_runs_def by blast
  show "access_call_ok (run_events i T) e" if "en = ByRun i e"
    using run[of i] that access_run_call by auto
qed

interpretation access_store: versioning_server stored_access a_Meta access_server
  by unfold_locales (simp add: access_server_def)

lemma shown_consistent_snoc:
  assumes "shown_consistent h" "accesses_read (h @ [e]) = accesses_read h" "accesses_shown (h @ [e]) = accesses_shown h @ [y]"
    "\<And>a. a \<in> set (accesses_read h) \<Longrightarrow> initialization_of y = initialization_of a \<or>
       blank (initialization_of a) \<and> ast_AccessedBuckets (a_Status y) \<noteq> []"
  shows "shown_consistent (h @ [e])"
  using assms unfolding shown_consistent_def by simp

text \<open>What a run has been shown and its write names is the current version.\<close>

lemma shown_current:
  assumes "guarded access_server T" "access_inv T" "a0 \<in> set (accesses_shown (run_events i T))"
    "same_version (a_Meta x) (a_Meta a0)" "current_access T u = Some cur" "same_version (a_Meta x) (a_Meta cur)"
  shows "a0 = cur"
  by (rule access_store.shown_is_current[OF assms(1) _ assms(4-6)]) (use assms(2,3) in \<open>auto simp: access_inv_def\<close>)

lemma update_refines:
  assumes "guarded access_server T" "access_inv T" "access_server T (ByRun i e)" "access_call_ok (run_events i T) e"
    and e: "e = EvUpdateBucketAccess x (Inr y)"
  shows "lifecycle_step T (ByRun i e) \<and> shown_consistent (run_events i T @ [e])"
proof -
  let ?h = "run_events i T"
  have cons: "shown_consistent ?h" using assms(2) by (simp add: access_inv_def)
  obtain a0 where a0: "a0 \<in> set (accesses_shown ?h)" "same_version (a_Meta x) (a_Meta a0)"
    using update_from_shown[of ?h x] assms(4) e by blast
  obtain cur where cur: "current_access T (om_UID (a_Meta x)) = Some cur" "same_version (a_Meta x) (a_Meta cur)"
      "a_Status y = a_Status cur" "om_UID (a_Meta y) = om_UID (a_Meta x)"
    using assms(3) e by (auto simp: access_server_def)
  have "a0 = cur" by (rule shown_current[OF assms(1,2) a0 cur(1,2)])
  then have "initialization_of y = initialization_of a \<or> blank (initialization_of a) \<and> ast_AccessedBuckets (a_Status y) \<noteq> []"
    if "a \<in> set (accesses_read ?h)" for a
    using cons a0(1) that cur(3) initialization_of_status[OF cur(3)] by (auto simp: shown_consistent_def)
  then have "shown_consistent (?h @ [e])" using shown_consistent_snoc[OF cons, of e y] e by simp
  then show ?thesis using cur phase_of_status[OF cur(3)] lifecycle_keep e by (simp add: lifecycle_step_def stored_access_def)
qed

lemma status_refines:
  assumes "guarded access_server T" "access_inv T" "access_server T (ByRun i e)" "access_call_ok (run_events i T) e"
    and e: "e = EvStatusUpdateBucketAccess x (Inr y)"
  shows "lifecycle_step T (ByRun i e) \<and> shown_consistent (run_events i T @ [e])"
proof -
  let ?h = "run_events i T"
  have cons: "shown_consistent ?h" using assms(2) by (simp add: access_inv_def)
  obtain a0 where a0: "a0 \<in> set (accesses_shown ?h)" and step: "status_step ?h a0 x"
    using status_from_shown[OF _ cons, of x] assms(4) e by blast
  obtain cur where cur: "current_access T (om_UID (a_Meta x)) = Some cur" "same_version (a_Meta x) (a_Meta cur)"
      "a_Status y = a_Status x" "om_UID (a_Meta y) = om_UID (a_Meta x)"
    using assms(3) e by (auto simp: access_server_def)
  have same: "a0 = cur"
    using step by (intro shown_current[OF assms(1,2) a0 _ cur(1,2)]) (simp add: status_step_def)
  have "as_BucketClaims (a_Spec a0) \<noteq> []" using assms(2) a0 by (auto simp: access_inv_def)
  then have "initialization_of y = initialization_of a \<or> blank (initialization_of a) \<and> ast_AccessedBuckets (a_Status y) \<noteq> []"
    if "a \<in> set (accesses_read ?h)" for a
    using step cons a0 that cur(3) initialization_of_status[OF cur(3)]
    by (auto simp: shown_consistent_def status_step_def) (metis initialization.select_convs(1) initialization_of_def)+
  then have "shown_consistent (?h @ [e])" using shown_consistent_snoc[OF cons, of e y] e by simp
  then show ?thesis using cur step same phase_of_status[OF cur(3)] e
    by (simp add: lifecycle_step_def status_step_def stored_access_def)
qed

lemma run_write_refines:
  assumes "guarded access_server T" "access_inv T" "access_server T (ByRun i e)" "access_call_ok (run_events i T) e"
  shows "lifecycle_step T (ByRun i e) \<and> shown_consistent (run_events i T @ [e])"
proof (cases "stored_access (ByRun i e)")
  case None
  have "shown_consistent (run_events i T @ [e])"
  proof (cases "\<exists>k a. e = EvGetBucketAccess k (Inr a)")
    case True
    then have "run_events i T = []" using assms(4) read_first by blast
    then show ?thesis using True by (auto simp: shown_consistent_def)
  next
    case False
    then have "accesses_shown (run_events i T @ [e]) = accesses_shown (run_events i T)"
      "accesses_read (run_events i T @ [e]) = accesses_read (run_events i T)"
      using None by (auto simp: stored_access_def split: event.splits sum.splits)
    then show ?thesis using assms(2) by (simp add: shown_consistent_def access_inv_def)
  qed
  then show ?thesis using None by (simp add: lifecycle_step_def)
next
  case (Some y)
  then consider x where "e = EvUpdateBucketAccess x (Inr y)" | x where "e = EvStatusUpdateBucketAccess x (Inr y)"
    by (auto simp: stored_access_def split: event.splits sum.splits)
  then show ?thesis by cases (use update_refines[OF assms] status_refines[OF assms] in blast)+
qed

lemma shown_stored_snoc:
  assumes "access_server T (ByRun i e)" "set (accesses_shown h) \<subseteq> set (access_versions T)"
  shows "set (accesses_shown (h @ [e])) \<subseteq> set (access_versions (T @ [ByRun i e]))"
  using assms by (auto simp: access_server_def stored_access_def split: event.splits sum.splits)

lemma access_inv_preserved:
  assumes "guarded access_server T" "access_runs T"
  shows "access_inv T \<and> guarded lifecycle_step T"
  using assms
proof (induction T rule: rev_induct)
  case Nil
  then show ?case by (simp add: access_inv_def run_events_def shown_consistent_def List.map_filter_simps)
next
  case (snoc en T)
  have served: "guarded access_server T" and law: "access_server T en" and inv: "access_inv T" and steps: "guarded lifecycle_step T"
    using snoc access_runs_snoc(1)[of T en] by auto
  have claims: "\<forall>v \<in> set (access_versions (T @ [en])). as_BucketClaims (a_Spec v) \<noteq> []"
    using inv law by (auto simp: access_inv_def access_server_def split: option.splits)
  have "lifecycle_step T en \<and> (\<forall>j. set (accesses_shown (run_events j (T @ [en]))) \<subseteq> set (access_versions (T @ [en])) \<and>
      shown_consistent (run_events j (T @ [en])))"
  proof (cases en)
    case (ByUser y)
    have "lifecycle_step T en"
    proof (cases "current_access T (om_UID (a_Meta y))")
      case (Some cur)
      then have "phase_of y = phase_of cur" using law ByUser by (intro phase_of_status) (simp add: access_server_def)
      then show ?thesis using Some ByUser lifecycle_keep by (simp add: lifecycle_step_def stored_access_def)
    qed (use law ByUser in \<open>simp add: lifecycle_step_def stored_access_def access_server_def\<close>)
    moreover have "run_events j (T @ [en]) = run_events j T" for j using ByUser by (simp add: run_events_snoc)
    ultimately show ?thesis using inv by (auto simp: access_inv_def)
  next
    case (ByRun i e)
    have call: "access_call_ok (run_events i T) e" using access_runs_snoc(2)[OF snoc.prems(2) ByRun] .
    note refines = run_write_refines[OF served inv law[unfolded ByRun] call]
    have shown: "set (accesses_shown (run_events i T @ [e])) \<subseteq> set (access_versions (T @ [en]))"
      unfolding ByRun by (rule shown_stored_snoc[OF law[unfolded ByRun]]) (use inv in \<open>simp add: access_inv_def\<close>)
    have "set (accesses_shown (run_events j (T @ [en]))) \<subseteq> set (access_versions (T @ [en])) \<and>
        shown_consistent (run_events j (T @ [en]))" for j
    proof (cases "j = i")
      case True
      then have "run_events j (T @ [en]) = run_events i T @ [e]" by (simp add: ByRun run_events_snoc)
      then show ?thesis using shown refines by metis
    next
      case False
      then have "run_events j (T @ [en]) = run_events j T" by (simp add: ByRun run_events_snoc)
      then show ?thesis using inv by (auto simp: access_inv_def)
    qed
    then show ?thesis using refines ByRun by simp
  qed
  then show ?case using claims steps by (simp add: access_inv_def)
qed

section \<open>An access that is handed over\<close>

definition protected_access :: BucketAccess where
  "protected_access = new_azure_access\<lparr>a_Meta := (a_Meta new_azure_access)
     \<lparr>om_Finalizers := [ProtectionFinalizer], om_ResourceVersion := ''1''\<rparr>\<rparr>"

definition next_version :: "BucketAccess \<Rightarrow> BucketAccess" where
  "next_version a = a\<lparr>a_Meta := (a_Meta a)\<lparr>om_ResourceVersion := ''2''\<rparr>\<rparr>"

definition versioning_env :: env where
  "versioning_env = initializing_env\<lparr>e_GetBucketAccess := \<lambda>_ _. Inr protected_access,
     e_GetBucketClaim := \<lambda>_ _. Inr (mark_claim azure_claim), e_StatusUpdateBucketAccess := \<lambda>_ x. Inr (next_version x)\<rparr>"

definition handed_access :: BucketAccess where
  "handed_access = initialized_access protected_access (ac_Spec azure_class)
     [\<lparr>ab_BucketName = ''bc-1'', ab_BucketID = ''x'', ab_BucketClaimName = ''c''\<rparr>]"

text \<open>A user creates the access, and the calls of one run of the Controller follow.\<close>

definition handover_trace :: "access_entry list" where
  "handover_trace = ByUser protected_access #
     map (ByRun 0) (history_of (Controller_Access_Reconcile versioning_env access_key))"

lemma handover_run:
  "history_of (Controller_Access_Reconcile versioning_env access_key) =
    [EvGetBucketAccess access_key (Inr protected_access),
     EvGetBucketClaim \<lparr>nn_Namespace = ''ns'', nn_Name = ''c''\<rparr> (Inr (mark_claim azure_claim)),
     EvGetBucketAccessClass \<lparr>nn_Namespace = [], nn_Name = ''class''\<rparr> (Inr azure_class),
     EvGetBucket \<lparr>nn_Namespace = [], nn_Name = ''bc-1''\<rparr> (Inr azure_bucket_object),
     EvStatusUpdateBucketAccess handed_access (Inr (next_version handed_access))]"
proof -
  let ?ref = "\<lparr>bca_BucketClaimName = ''c'', bca_AccessModes = \<lparr>am_ObjectData = BucketAccessModeReadWrite,
     am_ObjectMetadata = [], am_BucketMetadata = []\<rparr>, bca_AccessSecretName = ''s''\<rparr>"
  let ?c = "mark_claim azure_claim"
  have access: "as_BucketClaims (a_Spec protected_access) = [?ref]" "as_Protocol (a_Spec protected_access) = ObjectProtocolAzure"
    "as_BucketAccessClassName (a_Spec protected_access) = ''class''"
    "om_Namespace (a_Meta protected_access) = ''ns''" "\<not> ManagedBySidecar protected_access"
    "IsZero (om_DeletionTimestamp (a_Meta protected_access))" "SidecarRequirementsPresent (a_Status protected_access) = Inr False"
    "ContainsFinalizer (a_Meta protected_access) ProtectionFinalizer" "ast_AccessedBuckets (a_Status protected_access) = []"
    by (simp_all add: protected_access_def new_azure_access_def example_access_def ManagedBySidecar_def
        SidecarRequirementsPresent_False ContainsFinalizer_def zero_meta_def)
  have same: "protected_access\<lparr>a_Meta := a_Meta protected_access\<rparr> = protected_access" by (cases protected_access) simp
  have claim: "IsZero (om_DeletionTimestamp (c_Meta ?c))" "cst_BoundBucketName (c_Status ?c) = ''bc-1''"
    "cst_ReadyToUse (c_Status ?c) = Some True" "cst_Protocols (c_Status ?c) = [ObjectProtocolAzure]" "claim_marked ?c"
    by (simp_all add: mark_claim_def azure_claim_def example_claim_def zero_meta_def claim_marked_def add_annotation_def
        has_annotation_def)
  have bucket: "om_Name (b_Meta azure_bucket_object) = ''bc-1''" "bst_BucketID (b_Status azure_bucket_object) = ''x''"
    by (simp_all add: azure_bucket_object_def)
  have cls: "ValidateAccessAgainstClass (ac_Spec azure_class) (a_Spec protected_access) = None"
    by (simp add: azure_class_def protected_access_def new_azure_access_def example_access_def ValidateAccessAgainstClass_def
        validateClaimAccessModesAgainstClass_def HasAnyAccessMode_def access_mode_defs join_errs_def)
  have env: "e_GetBucketAccess versioning_env tr k = Inr protected_access" "e_GetBucketClaim versioning_env tr k = Inr ?c"
    "e_GetBucketAccessClass versioning_env tr k = Inr azure_class" "e_GetBucket versioning_env tr k = Inr azure_bucket_object"
    "e_StatusUpdateBucketAccess versioning_env tr x = Inr (next_version x)" for tr k x
    by (simp_all add: versioning_env_def initializing_env_def)
  have mark: "run_state (markAllBucketClaimsAsAccessed versioning_env [(''c'', Some ?c)]) tr = ((None, [(''c'', Some ?c)]), tr)" for tr
    using claim(5) claim_annotations_made_same[OF claim(5)]
    by (simp add: markAllBucketClaimsAsAccessed_def join_errs_def claim_marked_def)
  have init: "run_state (initializeAccess versioning_env protected_access [(''c'', Some ?c)] azure_class) tr =
      ((None, next_version handed_access), tr @ [EvGetBucket \<lparr>nn_Namespace = [], nn_Name = ''bc-1''\<rparr> (Inr azure_bucket_object),
        EvStatusUpdateBucketAccess handed_access (Inr (next_version handed_access))])" for tr
    using run_initializeAccess[of protected_access ?ref ?c azure_class versioning_env azure_bucket_object next_version handed_access tr]
      access claim bucket cls env by (simp add: accessed_bucket_def handed_access_def)
  have unique: "validateAllBucketClaimReferencesUnique [?ref] = None" by (simp add: references_unique_iff)
  have claims: "run_state (getAllBucketClaims versioning_env ''ns'' [?ref]) tr = (Inr [(''c'', Some ?c)],
     tr @ [EvGetBucketClaim \<lparr>nn_Namespace = ''ns'', nn_Name = ''c''\<rparr> (Inr ?c)])" for tr
    using run_single_claim[of versioning_env "''ns''" ?ref ?c tr] env by simp
  show ?thesis
    by (simp add: history_of_def Controller_Access_Reconcile_def Controller_Access_reconcile_def Controller_Access_reconcileLive_def
        Access_addFinalizer_def AddFinalizer_present same access env run_calls Controller_Access_finish_def markAndInitialize_def
        readClassAndInitialize_def unique claims mark init Let_def)
qed

lemma handover_trace_server: "guarded access_server handover_trace"
proof -
  have access: "as_BucketClaims (a_Spec protected_access) \<noteq> []" "a_Spec (next_version handed_access) = a_Spec protected_access"
    "new_phase (phase_of protected_access)" "a_Status (next_version handed_access) = a_Status handed_access"
    by (simp_all add: protected_access_def new_azure_access_def example_access_def next_version_def handed_access_def
        new_phase_def phase_of_def initialization_of_def blank_def)
  have meta: "om_UID (a_Meta handed_access) = om_UID (a_Meta protected_access)" "same_version (a_Meta handed_access) (a_Meta protected_access)"
    "om_UID (a_Meta (next_version handed_access)) = om_UID (a_Meta protected_access)"
    "om_ResourceVersion (a_Meta (next_version handed_access)) \<noteq> om_ResourceVersion (a_Meta protected_access)"
    by (simp_all add: handed_access_def next_version_def protected_access_def)
  show ?thesis
    using access meta
    by (simp add: guarded_def handover_trace_def handover_run access_server_def stored_access_def fresh_version_def
        current_version_def)
qed

lemma handover_trace_runs: "access_runs handover_trace"
proof -
  have "run_events i handover_trace = (if i = 0 then history_of (Controller_Access_Reconcile versioning_env access_key) else [])" for i
    by (simp add: run_events_def handover_trace_def List.map_filter_def comp_def)
  then show ?thesis unfolding access_runs_def access_run_def
    by (metis append_Nil append_Nil2 insertI1)
qed

section \<open>The refinement theorem\<close>

text \<open>
  C1. However the runs of the Controller and of all Sidecars interleave, with each other and with the
  users, and however old the versions are that they read: every version of an access that the server
  stores is a step of the lifecycle machine from the version before it, and the first one is new. So
  the two reconcilers together refine the machine.
\<close>

theorem access_lifecycle_refined:
  assumes "guarded access_server T" "access_runs T"
  shows "guarded lifecycle_step T"
  using access_inv_preserved[OF assms] by simp

theorem access_lifecycle_refined_witness: "guarded lifecycle_step handover_trace"
  by (rule access_lifecycle_refined[OF handover_trace_server handover_trace_runs])

section \<open>What follows from the machine\<close>

text \<open>A version is stored in order, and keeps the initialization of every earlier one that has any.\<close>

definition handed_over_once :: "access_entry list \<Rightarrow> access_entry \<Rightarrow> bool" where
  "handed_over_once T en = (case stored_access en of
      None \<Rightarrow> True
    | Some y \<Rightarrow> phase_ok (phase_of y) \<and> list_all (\<lambda>v. om_UID (a_Meta v) = om_UID (a_Meta y) \<and>
        \<not> blank (initialization_of v) \<longrightarrow> initialization_of y = initialization_of v) (access_versions T))"

definition current_ok :: "access_entry list \<Rightarrow> bool" where
  "current_ok T \<longleftrightarrow> (\<forall>u cur. current_access T u = Some cur \<longrightarrow> phase_ok (phase_of cur) \<and>
     (\<forall>v \<in> set (access_versions T). om_UID (a_Meta v) = u \<longrightarrow> \<not> blank (initialization_of v) \<longrightarrow>
        initialization_of cur = initialization_of v))"

lemma lifecycle_invariant: "guarded lifecycle_step T \<Longrightarrow> current_ok T \<and> guarded handed_over_once T"
proof (induction T rule: rev_induct)
  case Nil
  then show ?case by (simp add: current_ok_def current_version_def)
next
  case (snoc en T)
  have step: "lifecycle_step T en" and IH: "current_ok T" "guarded handed_over_once T" using snoc by auto
  show ?case
  proof (cases "stored_access en")
    case None
    then have "current_ok (T @ [en])" "handed_over_once T en"
      using IH(1) by (simp_all add: current_ok_def handed_over_once_def current_version_snoc)
    then show ?thesis using IH(2) by simp
  next
    case (Some y)
    have "phase_ok (phase_of y) \<and> (\<forall>v \<in> set (access_versions T). om_UID (a_Meta v) = om_UID (a_Meta y) \<longrightarrow>
        \<not> blank (initialization_of v) \<longrightarrow> initialization_of y = initialization_of v)"
    proof (cases "current_access T (om_UID (a_Meta y))")
      case None
      then show ?thesis using step Some current_version_None[OF None] by (auto simp: lifecycle_step_def phase_ok_new)
    next
      case cur: (Some cur)
      have life: "lifecycle (phase_of cur) (phase_of y)" using step Some cur by (simp add: lifecycle_step_def)
      have keep: "initialization_of y = initialization_of cur" if "\<not> blank (initialization_of cur)"
        using lifecycle_keeps_initialization[OF life] that by (simp add: phase_of_def)
      show ?thesis using IH(1) cur phase_ok_step[OF life] keep by (auto simp: current_ok_def)
    qed
    then have "current_ok (T @ [en])" "handed_over_once T en"
      using IH(1) Some by (simp_all add: current_ok_def handed_over_once_def current_version_snoc list_all_iff)
    then show ?thesis using IH(2) by simp
  qed
qed

text \<open>
  C7. An access is handed over once: in every interleaving, a stored version that is ready has a complete
  initialization and an account, and every later version of an initialized access carries the same
  Buckets, driver, authentication type and parameters.
\<close>

theorem access_handed_over_once:
  assumes "guarded access_server T" "access_runs T"
  shows "guarded handed_over_once T"
  using lifecycle_invariant access_inv_preserved[OF assms] by simp

theorem access_handed_over_once_witness: "guarded handed_over_once handover_trace"
  by (rule access_handed_over_once[OF handover_trace_server handover_trace_runs])

end
