(* ===== verification/Predicates.thy ===== *)
theory Predicates
  imports Access_Handoff
begin

text \<open>
  Event filters: which watch events enqueue a reconcile.
  \<^item> \<^verbatim>\<open>src/internal/predicate/predicate.go\<close>, on top of controller-runtime's \<open>Funcs\<close>,
    \<open>And\<close>, \<open>Or\<close> and \<open>NewPredicateFuncs\<close>;
  \<^item> the filters the \<open>SetupWithManager\<close> methods compose from them.
  The locale \<open>update_only\<close> is the contract most of these predicates state in their comments:
  never enqueue for Create, Delete or Generic events.
\<close>

section \<open>Events and predicate functions\<close>

datatype client_object =
    BucketObj Bucket | BucketClaimObj BucketClaim | BucketAccessObj BucketAccess | OtherObj ObjectMeta

fun obj_meta :: "client_object \<Rightarrow> ObjectMeta" where
  "obj_meta (BucketObj b) = b_Meta b"
| "obj_meta (BucketClaimObj c) = c_Meta c"
| "obj_meta (BucketAccessObj a) = a_Meta a"
| "obj_meta (OtherObj m) = m"

datatype watch_event =
    CreateEvent client_object
  | UpdateEvent client_object client_object \<comment> \<open>old and new object\<close>
  | DeleteEvent client_object
  | GenericEvent client_object

record predicate_funcs =
  CreateFunc :: "client_object \<Rightarrow> bool"
  UpdateFunc :: "client_object \<Rightarrow> client_object \<Rightarrow> bool"
  DeleteFunc :: "client_object \<Rightarrow> bool"
  GenericFunc :: "client_object \<Rightarrow> bool"

fun admits :: "predicate_funcs \<Rightarrow> watch_event \<Rightarrow> bool" where
  "admits p (CreateEvent o1) = CreateFunc p o1"
| "admits p (UpdateEvent o1 o2) = UpdateFunc p o1 o2"
| "admits p (DeleteEvent o1) = DeleteFunc p o1"
| "admits p (GenericEvent o1) = GenericFunc p o1"

definition predicate_And :: "predicate_funcs list \<Rightarrow> predicate_funcs" where
  "predicate_And ps =
     \<lparr>CreateFunc = (\<lambda>x. \<forall>p \<in> set ps. CreateFunc p x),
      UpdateFunc = (\<lambda>x y. \<forall>p \<in> set ps. UpdateFunc p x y),
      DeleteFunc = (\<lambda>x. \<forall>p \<in> set ps. DeleteFunc p x),
      GenericFunc = (\<lambda>x. \<forall>p \<in> set ps. GenericFunc p x)\<rparr>"

definition predicate_Or :: "predicate_funcs list \<Rightarrow> predicate_funcs" where
  "predicate_Or ps =
     \<lparr>CreateFunc = (\<lambda>x. \<exists>p \<in> set ps. CreateFunc p x),
      UpdateFunc = (\<lambda>x y. \<exists>p \<in> set ps. UpdateFunc p x y),
      DeleteFunc = (\<lambda>x. \<exists>p \<in> set ps. DeleteFunc p x),
      GenericFunc = (\<lambda>x. \<exists>p \<in> set ps. GenericFunc p x)\<rparr>"

text \<open>For Update events the filter is applied to the new object.\<close>

definition NewPredicateFuncs :: "(client_object \<Rightarrow> bool) \<Rightarrow> predicate_funcs" where
  "NewPredicateFuncs flt =
     \<lparr>CreateFunc = flt, UpdateFunc = (\<lambda>_ new. flt new), DeleteFunc = flt, GenericFunc = flt\<rparr>"

section \<open>COSI's predicates\<close>

definition allFalseFuncs :: predicate_funcs where
  "allFalseFuncs =
     \<lparr>CreateFunc = (\<lambda>_. False), UpdateFunc = (\<lambda>_ _. False), DeleteFunc = (\<lambda>_. False),
      GenericFunc = (\<lambda>_. False)\<rparr>"

definition AnyCreate :: predicate_funcs where
  "AnyCreate = allFalseFuncs\<lparr>CreateFunc := \<lambda>_. True\<rparr>"

definition AnyDelete :: predicate_funcs where
  "AnyDelete = allFalseFuncs\<lparr>DeleteFunc := \<lambda>_. True\<rparr>"

definition AnyGeneric :: predicate_funcs where
  "AnyGeneric = allFalseFuncs\<lparr>GenericFunc := \<lambda>_. True\<rparr>"

definition GenerationChangedInUpdateOnly :: predicate_funcs where
  "GenerationChangedInUpdateOnly = allFalseFuncs\<lparr>UpdateFunc := \<lambda>old new.
     om_Generation (obj_meta new) \<noteq> om_Generation (obj_meta old)\<rparr>"

definition DeletionTimestampAdded :: predicate_funcs where
  "DeletionTimestampAdded = allFalseFuncs\<lparr>UpdateFunc := \<lambda>old new.
     IsZero (om_DeletionTimestamp (obj_meta old)) \<and> \<not> IsZero (om_DeletionTimestamp (obj_meta new))\<rparr>"

definition BucketClaimBeingDeletedAnnotationAdded :: predicate_funcs where
  "BucketClaimBeingDeletedAnnotationAdded = allFalseFuncs\<lparr>UpdateFunc := \<lambda>old new.
     \<not> has_annotation (obj_meta old) BucketClaimBeingDeletedAnnotation \<and>
     has_annotation (obj_meta new) BucketClaimBeingDeletedAnnotation\<rparr>"

definition ProtectionFinalizerRemoved :: predicate_funcs where
  "ProtectionFinalizerRemoved = allFalseFuncs\<lparr>UpdateFunc := \<lambda>old new.
     if \<not> IsZero (om_DeletionTimestamp (obj_meta new)) then False
     else ContainsFinalizer (obj_meta old) ProtectionFinalizer \<and>
          \<not> ContainsFinalizer (obj_meta new) ProtectionFinalizer\<rparr>"

definition handoffOccurred :: "BucketAccess \<Rightarrow> BucketAccess \<Rightarrow> bool" where
  "handoffOccurred old new \<longleftrightarrow> ManagedBySidecar old \<noteq> ManagedBySidecar new"

definition BucketAccessHandoffOccurred :: predicate_funcs where
  "BucketAccessHandoffOccurred = allFalseFuncs\<lparr>UpdateFunc := \<lambda>old new.
     (case old of
        BucketAccessObj oldBa \<Rightarrow>
          (case new of BucketAccessObj newBa \<Rightarrow> handoffOccurred oldBa newBa | _ \<Rightarrow> False)
      | _ \<Rightarrow> False)\<rparr>"

definition BucketReadinessStatusChanged :: predicate_funcs where
  "BucketReadinessStatusChanged = allFalseFuncs\<lparr>UpdateFunc := \<lambda>old new.
     (case old of
        BucketObj oldB \<Rightarrow>
          (case new of
             BucketObj newB \<Rightarrow>
               ptr_Deref (bst_ReadyToUse (b_Status oldB)) False \<noteq>
               ptr_Deref (bst_ReadyToUse (b_Status newB)) False
           | _ \<Rightarrow> False)
      | _ \<Rightarrow> False)\<rparr>"

definition BucketAccessManagedBySidecar :: predicate_funcs where
  "BucketAccessManagedBySidecar = NewPredicateFuncs (\<lambda>x.
     (case x of BucketAccessObj ba \<Rightarrow> ManagedBySidecar ba | _ \<Rightarrow> False))"

definition BucketAccessManagedByController :: predicate_funcs where
  "BucketAccessManagedByController = NewPredicateFuncs (\<lambda>x.
     (case x of BucketAccessObj ba \<Rightarrow> \<not> ManagedBySidecar ba | _ \<Rightarrow> False))"

text \<open>From \<^verbatim>\<open>src/sidecar/pkg/reconciler/driver.go\<close>.\<close>

definition driverNameMatchesPredicate :: "string \<Rightarrow> predicate_funcs" where
  "driverNameMatchesPredicate driverName = NewPredicateFuncs (\<lambda>x.
     (case x of
        BucketObj b \<Rightarrow> bs_DriverName (b_Spec b) = driverName
      | BucketAccessObj ba \<Rightarrow> ast_DriverName (a_Status ba) = driverName
      | _ \<Rightarrow> False))"

section \<open>The filters of the four controllers\<close>

definition BucketClaim_claim_filter :: predicate_funcs where
  "BucketClaim_claim_filter =
     predicate_Or [AnyCreate, AnyDelete, AnyGeneric, GenerationChangedInUpdateOnly,
       DeletionTimestampAdded, ProtectionFinalizerRemoved]"

definition BucketClaim_bucket_filter :: predicate_funcs where
  "BucketClaim_bucket_filter = predicate_Or [AnyCreate, BucketReadinessStatusChanged, AnyDelete]"

text \<open>The requests a Bucket event enqueues for the BucketClaim controller.\<close>

definition mapBucketToBucketClaim :: "client_object \<Rightarrow> NamespacedName list" where
  "mapBucketToBucketClaim x =
     (case x of
        BucketObj bucket \<Rightarrow>
          (let claimRef = bs_BucketClaimRef (b_Spec bucket) in
           if cr_Name claimRef = [] \<or> cr_Namespace claimRef = [] then []
           else [\<lparr>nn_Namespace = cr_Namespace claimRef, nn_Name = cr_Name claimRef\<rparr>])
      | _ \<Rightarrow> [])"

definition Controller_BucketAccess_filter :: predicate_funcs where
  "Controller_BucketAccess_filter =
     predicate_And [BucketAccessManagedByController,
       predicate_Or [AnyCreate, AnyDelete, AnyGeneric, BucketAccessHandoffOccurred,
         DeletionTimestampAdded, ProtectionFinalizerRemoved]]"

definition Sidecar_Bucket_filter :: "string \<Rightarrow> predicate_funcs" where
  "Sidecar_Bucket_filter driverName =
     predicate_And [driverNameMatchesPredicate driverName,
       predicate_Or [AnyCreate, AnyDelete, AnyGeneric, GenerationChangedInUpdateOnly,
         DeletionTimestampAdded, BucketClaimBeingDeletedAnnotationAdded, ProtectionFinalizerRemoved]]"

definition Sidecar_BucketAccess_filter :: "string \<Rightarrow> predicate_funcs" where
  "Sidecar_BucketAccess_filter driverName =
     predicate_And [driverNameMatchesPredicate driverName,
       predicate_Or [AnyCreate, AnyDelete, AnyGeneric, BucketAccessHandoffOccurred,
         DeletionTimestampAdded, ProtectionFinalizerRemoved]]"

section \<open>Laws of the combinators\<close>

lemma admits_And [simp]: "admits (predicate_And ps) e \<longleftrightarrow> (\<forall>p \<in> set ps. admits p e)"
  by (cases e) (simp_all add: predicate_And_def)

lemma admits_Or [simp]: "admits (predicate_Or ps) e \<longleftrightarrow> (\<exists>p \<in> set ps. admits p e)"
  by (cases e) (simp_all add: predicate_Or_def)

text \<open>The object a \<open>NewPredicateFuncs\<close> filter looks at.\<close>

fun current_object :: "watch_event \<Rightarrow> client_object" where
  "current_object (CreateEvent x) = x"
| "current_object (UpdateEvent x y) = y"
| "current_object (DeleteEvent x) = x"
| "current_object (GenericEvent x) = x"

lemma admits_NewPredicateFuncs [simp]: "admits (NewPredicateFuncs f) e \<longleftrightarrow> f (current_object e)"
  by (cases e) (simp_all add: NewPredicateFuncs_def)

fun is_update :: "watch_event \<Rightarrow> bool" where
  "is_update (UpdateEvent _ _) = True"
| "is_update _ = False"

lemma admits_any_other [simp]:
  "admits AnyCreate e \<or> admits AnyDelete e \<or> admits AnyGeneric e \<longleftrightarrow> \<not> is_update e"
  by (cases e) (simp_all add: AnyCreate_def AnyDelete_def AnyGeneric_def allFalseFuncs_def)

section \<open>Predicates that only react to updates\<close>

locale update_only =
  fixes p :: predicate_funcs
  assumes no_create: "\<not> CreateFunc p x"
    and no_delete: "\<not> DeleteFunc p x"
    and no_generic: "\<not> GenericFunc p x"
begin

lemma admits_only_updates: "admits p e \<longleftrightarrow> (\<exists>old new. e = UpdateEvent old new \<and> UpdateFunc p old new)"
  by (cases e) (simp_all add: no_create no_delete no_generic)

lemma admits_is_update: "admits p e \<Longrightarrow> is_update e"
  by (auto simp: admits_only_updates)

end

interpretation generation_changed: update_only GenerationChangedInUpdateOnly
  by unfold_locales (simp_all add: GenerationChangedInUpdateOnly_def allFalseFuncs_def)

interpretation deletion_added: update_only DeletionTimestampAdded
  by unfold_locales (simp_all add: DeletionTimestampAdded_def allFalseFuncs_def)

interpretation claim_deleting_added: update_only BucketClaimBeingDeletedAnnotationAdded
  by unfold_locales (simp_all add: BucketClaimBeingDeletedAnnotationAdded_def allFalseFuncs_def)

interpretation finalizer_removed: update_only ProtectionFinalizerRemoved
  by unfold_locales (simp_all add: ProtectionFinalizerRemoved_def allFalseFuncs_def)

interpretation handoff: update_only BucketAccessHandoffOccurred
  by unfold_locales (simp_all add: BucketAccessHandoffOccurred_def allFalseFuncs_def)

interpretation readiness_changed: update_only BucketReadinessStatusChanged
  by unfold_locales (simp_all add: BucketReadinessStatusChanged_def allFalseFuncs_def)

section \<open>What the BucketAccess filters let through\<close>

text \<open>The changes of a BucketAccess that COSI must react to.\<close>

fun access_needs_reconcile :: "watch_event \<Rightarrow> bool" where
  "access_needs_reconcile (UpdateEvent old new) =
     (case old of
        BucketAccessObj o1 \<Rightarrow>
          (case new of
             BucketAccessObj n1 \<Rightarrow>
               ManagedBySidecar o1 \<noteq> ManagedBySidecar n1 \<or>
               (IsZero (om_DeletionTimestamp (a_Meta o1)) \<and> \<not> IsZero (om_DeletionTimestamp (a_Meta n1))) \<or>
               (IsZero (om_DeletionTimestamp (a_Meta n1)) \<and>
                ContainsFinalizer (a_Meta o1) ProtectionFinalizer \<and>
                \<not> ContainsFinalizer (a_Meta n1) ProtectionFinalizer)
           | _ \<Rightarrow> False)
      | _ \<Rightarrow> False)"
| "access_needs_reconcile _ = True"

lemma access_change_admitted:
  assumes "current_object e = BucketAccessObj ba"
    and "\<And>old new. e = UpdateEvent old new \<Longrightarrow> \<exists>o1. old = BucketAccessObj o1"
  shows "admits (predicate_Or [AnyCreate, AnyDelete, AnyGeneric, BucketAccessHandoffOccurred,
         DeletionTimestampAdded, ProtectionFinalizerRemoved]) e \<longleftrightarrow> access_needs_reconcile e"
proof (cases e)
  case (UpdateEvent old new)
  with assms obtain o1 where [simp]: "old = BucketAccessObj o1" "new = BucketAccessObj ba"
    by auto
  show ?thesis
    unfolding admits_Or
    by (auto simp: UpdateEvent AnyCreate_def AnyDelete_def AnyGeneric_def allFalseFuncs_def
        BucketAccessHandoffOccurred_def handoffOccurred_def DeletionTimestampAdded_def
        ProtectionFinalizerRemoved_def)
qed (simp_all add: predicate_Or_def AnyCreate_def AnyDelete_def AnyGeneric_def)

lemma Controller_filter_iff:
  assumes "current_object e = BucketAccessObj ba"
    and "\<And>old new. e = UpdateEvent old new \<Longrightarrow> \<exists>o1. old = BucketAccessObj o1"
  shows "admits Controller_BucketAccess_filter e \<longleftrightarrow> \<not> ManagedBySidecar ba \<and> access_needs_reconcile e"
  using access_change_admitted[OF assms] assms(1)
  by (simp add: Controller_BucketAccess_filter_def BucketAccessManagedByController_def)

lemma Sidecar_filter_iff:
  assumes "current_object e = BucketAccessObj ba"
    and "\<And>old new. e = UpdateEvent old new \<Longrightarrow> \<exists>o1. old = BucketAccessObj o1"
  shows "admits (Sidecar_BucketAccess_filter d) e \<longleftrightarrow>
    ast_DriverName (a_Status ba) = d \<and> access_needs_reconcile e"
  using access_change_admitted[OF assms] assms(1)
  by (simp add: Sidecar_BucketAccess_filter_def driverNameMatchesPredicate_def)

end
