(* ===== verification/Startup.thy ===== *)
theory Startup
  imports Driver
begin

text \<open>
  How the two programs start (\<^verbatim>\<open>src/sidecar/cmd/main.go\<close>, \<^verbatim>\<open>src/controller/cmd/main.go\<close>): the options that
  \<open>main\<close> computes from its flags, and the order of the calls it makes. The flags are modelled by
  their values after parsing. The calls go to controller-runtime: which of them fail, and when,
  is a parameter, and every check of an error is a branch of the model. The two \<open>utilruntime.Must\<close> calls of \<open>init\<close>,
  which register the types before \<open>main\<close> and panic if they cannot, are not modelled.
\<close>

section \<open>Flags and options\<close>



record tls_Config =
  tls_NextProtos :: "string list"


text \<open>The options of the metrics server; \<open>ms_FilterProvider\<close> says whether requests are authenticated
  and authorized.\<close>

record metrics_Options =
  ms_BindAddress :: string
  ms_SecureServing :: bool
  ms_TLSOpts :: "(tls_Config \<Rightarrow> tls_Config) list"
  ms_FilterProvider :: bool
  ms_CertDir :: string
  ms_CertName :: string
  ms_KeyName :: string







record ctrl_Options =
  co_Metrics :: metrics_Options
  co_HealthProbeBindAddress :: string
  co_LeaderElection :: bool
  co_LeaderElectionID :: string
  co_LeaderElectionReleaseOnCancel :: bool



section \<open>The calls of main\<close>

datatype controller_name = BucketClaimController | BucketController | BucketAccessController

datatype main_call =
    GetConfigOrDie
  | NewManager ctrl_Options
  | SetupController controller_name "DriverInfo option"
  | AddHealthzCheck string
  | AddReadyzCheck string
  | StartManager

text \<open>A run of \<open>main\<close> carries the calls made so far; its result is the exit code.\<close>

type_synonym 'a main_run = "(main_call list, 'a) state"

text \<open>One call: whether it fails may depend on all the calls before it.\<close>

definition attempt :: "(main_call list \<Rightarrow> main_call \<Rightarrow> bool) \<Rightarrow> main_call \<Rightarrow> bool main_run" where
  "attempt fails c = State (\<lambda>calls. (fails calls c, calls @ [c]))"




section \<open>Starting\<close>

lemma run_attempt [simp]:
  "run_state (attempt fails c) calls = (fails calls c, calls @ [c])"
  by (simp add: attempt_def)









end
