(* ===== verification/Go_Heap.thy ===== *)
theory Go_Heap
  imports Cosi_Prelude "HOL-Library.Monad_Syntax" "HOL-Library.Multiset"
begin

text \<open>
  Memory that Go code shares through pointers, slices and maps, and the shapes of copying that the
  generated \<open>DeepCopyInto\<close> functions are made of. A memory maps addresses to cells; a pointer, a
  slice and a map value are references to a cell, nil is \<open>None\<close>. The locale \<open>deep_copier\<close> is the
  contract of a copying function: it ends, it writes only to memory it allocated, and its result
  is deeply equal to the original and readable from the new memory alone. Every theory of this
  development apart from this one and \<open>Deep_Copy\<close> passes objects as values; the contract is what
  entitles them to that.
\<close>

section \<open>Memory\<close>

type_synonym addr = nat
type_synonym ref = "addr option"
type_synonym 'c mem = "addr \<rightharpoonup> 'c"

text \<open>
  Cells below \<open>gh_next\<close> are allocated. The order in which \<open>range\<close> visits a map is not specified by
  Go and may differ between two loops; \<open>gh_range\<close> chooses it by the state of the allocation.
\<close>

record 'c go_heap =
  gh_mem :: "'c mem"
  gh_next :: addr
  gh_range :: "addr \<Rightarrow> (string \<times> string) list \<Rightarrow> (string \<times> string) list"

text \<open>How values of one Go type are held in cells.\<close>

record ('a, 'c) go_type =
  ty_inj :: "'a \<Rightarrow> 'c"
  ty_prj :: "'c \<Rightarrow> 'a option"

definition held :: "('a, 'c) go_type \<Rightarrow> bool" where
  "held T \<longleftrightarrow> (\<forall>x. ty_prj T (ty_inj T x) = Some x)"

definition heap_ok :: "'c go_heap \<Rightarrow> bool" where
  "heap_ok h \<longleftrightarrow> dom (gh_mem h) \<subseteq> {..<gh_next h} \<and> (\<forall>n es. mset (gh_range h n es) = mset es)"

text \<open>
  \<open>new(T)\<close> and \<open>make\<close>: a cell that no reference reaches yet. Its zero value is not modelled: reading
  the cell before the first assignment is stuck, like reading through a dangling reference.
\<close>

definition new_obj :: "'c go_heap \<Rightarrow> addr \<times> 'c go_heap" where
  "new_obj h = (gh_next h, h\<lparr>gh_next := gh_next h + 1\<rparr>)"

definition load :: "('a, 'c) go_type \<Rightarrow> 'c mem \<Rightarrow> addr \<Rightarrow> 'a option" where
  "load T m a = (case m a of None \<Rightarrow> None | Some c \<Rightarrow> ty_prj T c)"

definition store :: "('a, 'c) go_type \<Rightarrow> addr \<Rightarrow> 'a \<Rightarrow> 'c go_heap \<Rightarrow> 'c go_heap" where
  "store T b x h = h\<lparr>gh_mem := (gh_mem h)(b \<mapsto> ty_inj T x)\<rparr>"

section \<open>Shapes of copying\<close>

text \<open>
  A copying function gets the value of \<open>*in\<close> and returns the value it leaves in \<open>*out\<close>, with the
  heap after its allocations.
\<close>

type_synonym ('a, 'c) copier = "'a \<Rightarrow> 'c go_heap \<Rightarrow> ('a \<times> 'c go_heap) option"

text \<open>\<open>*out = *in\<close> for types without references.\<close>

definition assign :: "('a, 'c) copier" where
  "assign x h = Some (x, h)"

text \<open>
  \<open>if in != nil { out = new(T); (*in).DeepCopyInto(out) }\<close>, the shape of every pointer field and
  of every \<open>DeepCopy\<close>.
\<close>

definition copy_ptr :: "('a, 'c) go_type \<Rightarrow> ('a, 'c) copier \<Rightarrow> (ref, 'c) copier" where
  "copy_ptr T f p h =
     (case p of
        None \<Rightarrow> Some (None, h)
      | Some a \<Rightarrow> do {
          let (b, h) = new_obj h;
          x \<leftarrow> load T (gh_mem h) a;
          (y, h) \<leftarrow> f x h;
          Some (Some b, store T b y h)
        })"

text \<open>\<open>for i := range *in { (*in)[i].DeepCopyInto(&(*out)[i]) }\<close>\<close>

fun copy_each :: "('a, 'c) copier \<Rightarrow> ('a list, 'c) copier" where
  "copy_each f [] h = Some ([], h)"
| "copy_each f (x # xs) h = do {
     (y, h) \<leftarrow> f x h;
     (ys, h) \<leftarrow> copy_each f xs h;
     Some (y # ys, h)
   }"

text \<open>A slice field: \<open>make\<close> with the length of \<open>*in\<close>, then the elements in order.\<close>

definition copy_slice :: "('a list, 'c) go_type \<Rightarrow> ('a, 'c) copier \<Rightarrow> (ref, 'c) copier" where
  "copy_slice T f = copy_ptr T (copy_each f)"

text \<open>\<open>for key, val := range *in { (*out)[key] = val }\<close> into an empty map\<close>

definition copy_entries :: "((string \<times> string) list, 'c) copier" where
  "copy_entries es h =
     Some (fold (\<lambda>(key, val). AList.update key val) (gh_range h (gh_next h) es) [], h)"

definition copy_map :: "((string \<times> string) list, 'c) go_type \<Rightarrow> (ref, 'c) copier" where
  "copy_map T = copy_ptr T copy_entries"

section \<open>Deep equality\<close>

text \<open>
  \<open>reflect.DeepEqual\<close> between a value read from one memory and a value read from another. A value
  that is deeply equal to itself is one whose references all lead to cells of the right type.
\<close>

type_synonym ('a, 'c) deep_eq = "'c mem \<Rightarrow> 'a \<Rightarrow> 'c mem \<Rightarrow> 'a \<Rightarrow> bool"

definition eq_flat :: "('a, 'c) deep_eq" where
  "eq_flat m x m' y \<longleftrightarrow> x = y"

definition eq_ptr :: "('a, 'c) go_type \<Rightarrow> ('a, 'c) deep_eq \<Rightarrow> (ref, 'c) deep_eq" where
  "eq_ptr T e m p m' q =
     (case (p, q) of
        (None, None) \<Rightarrow> True
      | (Some a, Some b) \<Rightarrow>
          (case (load T m a, load T m' b) of (Some x, Some y) \<Rightarrow> e m x m' y | _ \<Rightarrow> False)
      | _ \<Rightarrow> False)"

definition eq_each :: "('a, 'c) deep_eq \<Rightarrow> ('a list, 'c) deep_eq" where
  "eq_each e m xs m' ys \<longleftrightarrow> list_all2 (\<lambda>x y. e m x m' y) xs ys"

definition eq_slice :: "('a list, 'c) go_type \<Rightarrow> ('a, 'c) deep_eq \<Rightarrow> (ref, 'c) deep_eq" where
  "eq_slice T e = eq_ptr T (eq_each e)"

definition eq_entries :: "((string \<times> string) list, 'c) deep_eq" where
  "eq_entries m es m' es' \<longleftrightarrow>
     distinct (map fst es) \<and> distinct (map fst es') \<and>
     (\<forall>k \<in> set (map fst es @ map fst es'). map_of es k = map_of es' k)"

definition eq_map :: "((string \<times> string) list, 'c) go_type \<Rightarrow> (ref, 'c) deep_eq" where
  "eq_map T = eq_ptr T eq_entries"

section \<open>Growing heaps\<close>

definition grows :: "'c go_heap \<Rightarrow> 'c go_heap \<Rightarrow> bool" where
  "grows h h' \<longleftrightarrow> heap_ok h' \<and> gh_mem h \<subseteq>\<^sub>m gh_mem h' \<and> gh_next h \<le> gh_next h'"

text \<open>The memory allocated at or above an address.\<close>

abbreviation new_mem :: "addr \<Rightarrow> 'c go_heap \<Rightarrow> 'c mem" where
  "new_mem l h \<equiv> gh_mem h |` {l..}"

lemma grows_refl: "heap_ok h \<Longrightarrow> grows h h"
  by (simp add: grows_def)

lemma grows_trans: "grows h h' \<Longrightarrow> grows h' h'' \<Longrightarrow> grows h h''"
  by (auto simp: grows_def intro: map_le_trans)

lemma grows_ok: "grows h h' \<Longrightarrow> heap_ok h'"
  by (simp add: grows_def)

lemma grows_mem: "m \<subseteq>\<^sub>m gh_mem h \<Longrightarrow> grows h h' \<Longrightarrow> m \<subseteq>\<^sub>m gh_mem h'"
  by (auto simp: grows_def intro: map_le_trans)

lemma restrict_map_le: "m \<subseteq>\<^sub>m m' \<Longrightarrow> A \<subseteq> B \<Longrightarrow> m |` A \<subseteq>\<^sub>m m' |` B"
  by (auto simp: map_le_def restrict_map_def dom_def split: if_splits)

lemma new_mem_le: "grows h h' \<Longrightarrow> l' \<le> l \<Longrightarrow> new_mem l h \<subseteq>\<^sub>m new_mem l' h'"
  by (auto simp: grows_def intro!: restrict_map_le)

lemma new_obj_grows: "heap_ok h \<Longrightarrow> new_obj h = (b, h') \<Longrightarrow> grows h h' \<and> b = gh_next h \<and> gh_next h' = b + 1"
  by (fastforce simp: new_obj_def grows_def heap_ok_def)

lemma load_mono: "load T m a = Some x \<Longrightarrow> m \<subseteq>\<^sub>m m' \<Longrightarrow> load T m' a = Some x"
  by (auto simp: load_def map_le_def dom_def split: option.splits)

section \<open>The contract of a copying function\<close>

locale deep_copier =
  fixes copy :: "('a, 'c) copier" and eq :: "('a, 'c) deep_eq"
  assumes eq_mono: "eq m x m' y \<Longrightarrow> m' \<subseteq>\<^sub>m m'' \<Longrightarrow> eq m x m'' y"
    and copies: "heap_ok h \<Longrightarrow> m \<subseteq>\<^sub>m gh_mem h \<Longrightarrow> eq m x m x \<Longrightarrow>
      \<exists>y h'. copy x h = Some (y, h') \<and> grows h h' \<and> eq m x (new_mem (gh_next h) h') y"
begin

text \<open>One step of a longer copying function: the copy stays equal whatever is allocated later.\<close>

lemma step:
  assumes "grows h0 h" "m \<subseteq>\<^sub>m gh_mem h0" "eq m x m x"
  obtains y h' where "copy x h = Some (y, h')" "grows h h'" "grows h0 h'"
    "\<And>h''. grows h' h'' \<Longrightarrow> eq m x (new_mem (gh_next h0) h'') y"
proof -
  have "heap_ok h" "m \<subseteq>\<^sub>m gh_mem h" "gh_next h0 \<le> gh_next h"
    using assms by (auto simp: grows_def intro: map_le_trans)
  with copies[OF this(1,2) assms(3)] obtain y h' where
    y: "copy x h = Some (y, h')" "grows h h'" "eq m x (new_mem (gh_next h) h') y" by blast
  with \<open>gh_next h0 \<le> gh_next h\<close> show ?thesis
    by (intro that[OF y(1,2) grows_trans[OF assms(1) y(2)]] eq_mono[OF y(3)] new_mem_le)
qed

text \<open>
  What the contract is for: whatever is later written to memory that existed before the copy, the
  copy keeps the value of the original, and whatever is written to memory of the copy, the original
  keeps its value.
\<close>

lemma separate:
  assumes "heap_ok h" "eq (gh_mem h) x (gh_mem h) x"
  shows "\<exists>y h'. copy x h = Some (y, h') \<and> grows h h' \<and>
    (\<forall>m. (\<forall>a \<ge> gh_next h. m a = gh_mem h' a) \<longrightarrow> eq (gh_mem h) x m y) \<and>
    (\<forall>m. (\<forall>a < gh_next h. m a = gh_mem h' a) \<longrightarrow> eq (gh_mem h) x m x)"
proof -
  obtain y h' where y: "copy x h = Some (y, h')" "grows h h'" "eq (gh_mem h) x (new_mem (gh_next h) h') y"
    using copies[OF assms(1) map_le_refl assms(2)] by blast
  have "new_mem (gh_next h) h' \<subseteq>\<^sub>m m" if "\<forall>a \<ge> gh_next h. m a = gh_mem h' a" for m
    using that by (auto simp: map_le_def)
  moreover have "gh_mem h \<subseteq>\<^sub>m m" if "\<forall>a < gh_next h. m a = gh_mem h' a" for m
    using that y(2) assms(1) by (auto simp: map_le_def grows_def heap_ok_def subset_iff)
  ultimately show ?thesis using y eq_mono[OF y(3)] eq_mono[OF assms(2)] by blast
qed

end

section \<open>The shapes keep the contract\<close>

lemma deep_copier_assign: "deep_copier assign eq_flat"
  by unfold_locales (auto simp: assign_def eq_flat_def grows_refl)

lemma deep_copier_each:
  assumes "deep_copier f e"
  shows "deep_copier (copy_each f) (eq_each e)"
proof
  fix m m' m'' :: "'b mem" and xs ys
  show "eq_each e m xs m' ys \<Longrightarrow> m' \<subseteq>\<^sub>m m'' \<Longrightarrow> eq_each e m xs m'' ys"
    unfolding eq_each_def by (erule list_all2_mono) (rule deep_copier.eq_mono[OF assms])
next
  fix h :: "'b go_heap" and m xs
  assume "heap_ok h" "m \<subseteq>\<^sub>m gh_mem h" "eq_each e m xs m xs"
  moreover from \<open>heap_ok h\<close> have "grows h h" by (rule grows_refl)
  ultimately have "\<exists>ys h'. copy_each f xs h1 = Some (ys, h') \<and> grows h1 h' \<and> grows h h' \<and>
      (\<forall>h''. grows h' h'' \<longrightarrow> eq_each e m xs (new_mem (gh_next h) h'') ys)" if "grows h h1" for h1
    using that
  proof (induction xs arbitrary: h1)
    case Nil
    then show ?case by (simp add: eq_each_def grows_refl grows_ok[OF Nil.prems(5)])
  next
    case (Cons x xs)
    then have e: "e m x m x" "eq_each e m xs m xs" by (auto simp: eq_each_def)
    obtain y h2 where y: "f x h1 = Some (y, h2)" "grows h1 h2" "grows h h2"
      "\<And>h''. grows h2 h'' \<Longrightarrow> e m x (new_mem (gh_next h) h'') y"
      using deep_copier.step[OF assms Cons.prems(5,2) e(1)] by blast
    obtain ys h3 where ys: "copy_each f xs h2 = Some (ys, h3)" "grows h2 h3" "grows h h3"
      "\<forall>h''. grows h3 h'' \<longrightarrow> eq_each e m xs (new_mem (gh_next h) h'') ys"
      using Cons.IH[OF Cons.prems(1,2) e(2) Cons.prems(4) y(3)] by blast
    show ?case using y ys by (auto simp: eq_each_def intro: grows_trans)
  qed
  from this[OF \<open>grows h h\<close>] show "\<exists>y h'. copy_each f xs h = Some (y, h') \<and> grows h h' \<and>
      eq_each e m xs (new_mem (gh_next h) h') y"
    by (blast intro: grows_refl grows_ok)
qed

lemma eq_ptr_mono:
  assumes "eq_ptr T e m p m' q" "m' \<subseteq>\<^sub>m m''" "deep_copier f e"
  shows "eq_ptr T e m p m'' q"
  using assms load_mono[OF _ assms(2)] deep_copier.eq_mono[OF assms(3) _ assms(2)]
  by (fastforce simp: eq_ptr_def split: option.splits)

lemma store_grows:
  assumes "heap_ok h" "new_obj h = (b, h1)" "grows h1 h2"
  shows "grows h (store T b y h2) \<and> new_mem (b + 1) h2 \<subseteq>\<^sub>m new_mem b (store T b y h2)"
proof -
  have b: "b = gh_next h" "gh_mem h1 = gh_mem h" "gh_next h1 = b + 1"
    using assms(2) by (auto simp: new_obj_def)
  have "gh_mem h \<subseteq>\<^sub>m (gh_mem h2)(b \<mapsto> c)" for c
    using assms(1,3) b by (auto simp: grows_def heap_ok_def map_le_def)
  then show ?thesis using assms(3) b
    by (auto simp: grows_def heap_ok_def store_def map_le_def restrict_map_def)
qed

lemma deep_copier_ptr:
  assumes "held T" "deep_copier f e"
  shows "deep_copier (copy_ptr T f) (eq_ptr T e)"
proof
  show "eq_ptr T e m p m' q \<Longrightarrow> m' \<subseteq>\<^sub>m m'' \<Longrightarrow> eq_ptr T e m p m'' q" for m p m' q m''
    using eq_ptr_mono assms(2) by blast
next
  fix h :: "'b go_heap" and m p
  assume h: "heap_ok h" "m \<subseteq>\<^sub>m gh_mem h" "eq_ptr T e m p m p"
  show "\<exists>q h'. copy_ptr T f p h = Some (q, h') \<and> grows h h' \<and> eq_ptr T e m p (new_mem (gh_next h) h') q"
  proof (cases p)
    case None
    then show ?thesis using h by (simp add: copy_ptr_def eq_ptr_def grows_refl)
  next
    case (Some a)
    then obtain x where x: "load T m a = Some x" "e m x m x"
      using h(3) by (auto simp: eq_ptr_def split: option.splits)
    obtain b h1 where new: "new_obj h = (b, h1)" by fastforce
    have h1: "grows h h1" "b = gh_next h" "gh_next h1 = b + 1" using new_obj_grows[OF h(1) new] by auto
    obtain y h2 where y: "f x h1 = Some (y, h2)" "grows h1 h2" "e m x (new_mem (b + 1) h2) y"
      using deep_copier.copies[OF assms(2) grows_ok[OF h1(1)] grows_mem[OF h(2) h1(1)] x(2)] h1(3) by auto
    note st = store_grows[OF h(1) new y(2), of T y]
    have "load T (new_mem b (store T b y h2)) b = Some y"
      by (simp add: load_def store_def assms(1)[unfolded held_def])
    moreover have "e m x (new_mem b (store T b y h2)) y"
      using deep_copier.eq_mono[OF assms(2) y(3)] st by blast
    moreover have "copy_ptr T f p h = Some (Some b, store T b y h2)"
      using new y(1) load_mono[OF x(1) grows_mem[OF h(2) h1(1)]] by (simp add: copy_ptr_def Some)
    ultimately show ?thesis using st x(1) h1(2) by (auto simp: Some eq_ptr_def)
  qed
qed

lemma deep_copier_slice:
  "held T \<Longrightarrow> deep_copier f e \<Longrightarrow> deep_copier (copy_slice T f) (eq_slice T e)"
  unfolding copy_slice_def eq_slice_def by (intro deep_copier_ptr deep_copier_each)

lemma deep_copier_entries: "deep_copier copy_entries eq_entries"
proof
  fix h :: "'c go_heap" and m :: "'c mem" and es
  assume h: "heap_ok h" and es: "eq_entries m es m es"
  let ?es = "gh_range h (gh_next h) es"
  have perm: "mset ?es = mset es" using h by (simp add: heap_ok_def)
  then have "mset (map fst ?es) = mset (map fst es)" by simp
  then have "distinct (map fst ?es)" using es mset_eq_imp_distinct_iff by (auto simp only: eq_entries_def)
  moreover have "set ?es = set es" by (rule mset_eq_setD[OF perm])
  moreover from calculation es have "map_of ?es = map_of es"
    by (simp add: eq_entries_def map_of_inject_set)
  ultimately show "\<exists>es' h'. copy_entries es h = Some (es', h') \<and> grows h h' \<and>
      eq_entries m es (new_mem (gh_next h) h') es'"
    using es by (simp add: copy_entries_def eq_entries_def grows_refl h map_of_fold_update distinct_fold_update)
qed (simp add: eq_entries_def)

lemma deep_copier_map: "held T \<Longrightarrow> deep_copier (copy_map T) (eq_map T)"
  unfolding copy_map_def eq_map_def by (intro deep_copier_ptr deep_copier_entries)

section \<open>Structs\<close>

text \<open>
  Rules for functions that copy one field after another. \<open>chain h0 h A\<close>: a function that began in
  \<open>h0\<close> has reached \<open>h\<close>, and \<open>A\<close> (the fields copied so far are equal) holds now and later.
\<close>

definition chain :: "'c go_heap \<Rightarrow> 'c go_heap \<Rightarrow> ('c go_heap \<Rightarrow> bool) \<Rightarrow> bool" where
  "chain h0 h A \<longleftrightarrow> grows h0 h \<and> (\<forall>h'. grows h h' \<longrightarrow> A h')"

definition copied :: "'c go_heap \<Rightarrow> 'c mem \<Rightarrow> ('a, 'c) deep_eq \<Rightarrow> 'a \<Rightarrow> ('a \<times> 'c go_heap) option \<Rightarrow> bool" where
  "copied h0 m E x r \<longleftrightarrow>
     (\<exists>y h'. r = Some (y, h') \<and> grows h0 h' \<and> E m x (new_mem (gh_next h0) h') y)"

lemma copied_bind:
  assumes "deep_copier f e" "chain h0 h A" "m \<subseteq>\<^sub>m gh_mem h0" "e m x m x"
    and rest: "\<And>y h'. chain h0 h' (\<lambda>h''. A h'' \<and> e m x (new_mem (gh_next h0) h'') y) \<Longrightarrow>
      copied h0 m E z (g y h')"
  shows "copied h0 m E z (Option.bind (f x h) (\<lambda>(y, h'). g y h'))"
proof -
  obtain y h' where y: "f x h = Some (y, h')" "grows h h'" "grows h0 h'"
    "\<And>h''. grows h' h'' \<Longrightarrow> e m x (new_mem (gh_next h0) h'') y"
    using deep_copier.step[OF assms(1) _ assms(3,4), of h] assms(2) unfolding chain_def by blast
  with assms(2) have "chain h0 h' (\<lambda>h''. A h'' \<and> e m x (new_mem (gh_next h0) h'') y)"
    by (auto simp: chain_def intro: grows_trans)
  with rest y(1) show ?thesis by simp
qed

lemma copied_return:
  "chain h0 h A \<Longrightarrow> (A h \<Longrightarrow> E m x (new_mem (gh_next h0) h) y) \<Longrightarrow> copied h0 m E x (Some (y, h))"
  by (auto simp: chain_def copied_def dest: grows_ok intro: grows_refl)

lemma deep_copierI:
  assumes "\<And>m x m' y m''. E m x m' y \<Longrightarrow> m' \<subseteq>\<^sub>m m'' \<Longrightarrow> E m x m'' y"
    and "\<And>h m x. chain h h (\<lambda>_. True) \<Longrightarrow> m \<subseteq>\<^sub>m gh_mem h \<Longrightarrow> E m x m x \<Longrightarrow> copied h m E x (f x h)"
  shows "deep_copier f E"
  using assms by unfold_locales (auto simp: chain_def copied_def grows_refl)

end
