(* ===== verification/Api_Objects.thy ===== *)
theory Api_Objects
  imports Api_Types Go_Heap "HOL-Library.Word"
begin

text \<open>
  The structs of \<^verbatim>\<open>src/client/apis/objectstorage/v1alpha2\<close> and the metadata they contain (vendored
  from apimachinery) as they lie in the memory of \<open>Go_Heap\<close>: a record \<open>X_obj\<close> for each type \<open>X\<close>
  with references, with the fields in the order of the source; structs without references are the
  records of \<open>Api_Types\<close>. Then the cells, and deep equality of the structs, field by field.
\<close>

section \<open>Structs in memory\<close>

record TypeMeta =
  tm_Kind :: string
  tm_APIVersion :: string

record TimestampedError_obj =
  hte_Time :: ref
  hte_Message :: ref

record OwnerReference_obj =
  hor_APIVersion :: string
  hor_Kind :: string
  hor_Name :: string
  hor_UID :: UID
  hor_Controller :: ref
  hor_BlockOwnerDeletion :: ref

record FieldsV1_obj =
  hfv_Raw :: ref

record ManagedFieldsEntry_obj =
  hmf_Manager :: string
  hmf_Operation :: string
  hmf_APIVersion :: string
  hmf_Time :: ref
  hmf_FieldsType :: string
  hmf_FieldsV1 :: ref
  hmf_Subresource :: string

record ObjectMeta_obj =
  hom_Name :: string
  hom_GenerateName :: string
  hom_Namespace :: string
  hom_SelfLink :: string
  hom_UID :: UID
  hom_ResourceVersion :: string
  hom_Generation :: int
  hom_CreationTimestamp :: time
  hom_DeletionTimestamp :: ref
  hom_DeletionGracePeriodSeconds :: ref
  hom_Labels :: ref
  hom_Annotations :: ref
  hom_OwnerReferences :: ref
  hom_Finalizers :: ref
  hom_ManagedFields :: ref

record ListMeta_obj =
  hlm_SelfLink :: string
  hlm_ResourceVersion :: string
  hlm_Continue :: string
  hlm_RemainingItemCount :: ref

record BucketSpec_obj =
  hbs_DriverName :: string
  hbs_DeletionPolicy :: BucketDeletionPolicy
  hbs_Parameters :: ref
  hbs_Protocols :: ref
  hbs_BucketClaimRef :: BucketClaimReference
  hbs_ExistingBucketID :: string

record BucketStatus_obj =
  hbst_ReadyToUse :: ref
  hbst_BucketID :: string
  hbst_Protocols :: ref
  hbst_BucketInfo :: ref
  hbst_Error :: ref

record Bucket_obj =
  hb_TypeMeta :: TypeMeta
  hb_ObjectMeta :: ObjectMeta_obj
  hb_Spec :: BucketSpec_obj
  hb_Status :: BucketStatus_obj

record BucketClassSpec_obj =
  hbcs_DriverName :: string
  hbcs_DeletionPolicy :: BucketDeletionPolicy
  hbcs_Parameters :: ref

record BucketClass_obj =
  hbc_TypeMeta :: TypeMeta
  hbc_ObjectMeta :: ObjectMeta_obj
  hbc_Spec :: BucketClassSpec_obj

record BucketClaimSpec_obj =
  hcs_BucketClassName :: string
  hcs_Protocols :: ref
  hcs_ExistingBucketName :: string

record BucketClaimStatus_obj =
  hcst_BoundBucketName :: string
  hcst_ReadyToUse :: ref
  hcst_Protocols :: ref
  hcst_Error :: ref

record BucketClaim_obj =
  hc_TypeMeta :: TypeMeta
  hc_ObjectMeta :: ObjectMeta_obj
  hc_Spec :: BucketClaimSpec_obj
  hc_Status :: BucketClaimStatus_obj

record BucketAccessSpec_obj =
  has_BucketClaims :: ref
  has_BucketAccessClassName :: string
  has_Protocol :: ObjectProtocol
  has_ServiceAccountName :: string

record BucketAccessStatus_obj =
  hast_ReadyToUse :: ref
  hast_AccountID :: string
  hast_AccessedBuckets :: ref
  hast_DriverName :: string
  hast_AuthenticationType :: BucketAccessAuthenticationType
  hast_Parameters :: ref
  hast_Error :: ref

record BucketAccess_obj =
  ha_TypeMeta :: TypeMeta
  ha_ObjectMeta :: ObjectMeta_obj
  ha_Spec :: BucketAccessSpec_obj
  ha_Status :: BucketAccessStatus_obj

record DisallowedBucketAccessModes_obj =
  hdm_ObjectData :: ref
  hdm_ObjectMetadata :: ref
  hdm_BucketMetadata :: ref

record BucketAccessClassSpec_obj =
  hacs_DriverName :: string
  hacs_AuthenticationType :: BucketAccessAuthenticationType
  hacs_Parameters :: ref
  hacs_DisallowedBucketAccessModes :: DisallowedBucketAccessModes_obj
  hacs_MultiBucketAccess :: MultiBucketAccess

record BucketAccessClass_obj =
  hac_TypeMeta :: TypeMeta
  hac_ObjectMeta :: ObjectMeta_obj
  hac_Spec :: BucketAccessClassSpec_obj

record BucketList_obj =
  hbl_TypeMeta :: TypeMeta
  hbl_ListMeta :: ListMeta_obj
  hbl_Items :: ref

record BucketClassList_obj =
  hbcl_TypeMeta :: TypeMeta
  hbcl_ListMeta :: ListMeta_obj
  hbcl_Items :: ref

record BucketClaimList_obj =
  hcl_TypeMeta :: TypeMeta
  hcl_ListMeta :: ListMeta_obj
  hcl_Items :: ref

record BucketAccessList_obj =
  hal_TypeMeta :: TypeMeta
  hal_ListMeta :: ListMeta_obj
  hal_Items :: ref

record BucketAccessClassList_obj =
  hacl_TypeMeta :: TypeMeta
  hacl_ListMeta :: ListMeta_obj
  hacl_Items :: ref

text \<open>
  A cell holds a value of one Go type: what a pointer points to, the array of a slice (its length is
  that of the slice; spare capacity is never used by this code), or the entries of a map. Slices of
  named string types share \<open>StringsCell\<close>.
\<close>

datatype cell =
    BoolCell bool
  | StringCell string
  | TimeCell time
  | Int64Cell int
  | BytesCell "8 word list"
  | StringsCell "string list"
  | StringMapCell "(string \<times> string) list"
  | FieldsV1Cell FieldsV1_obj
  | OwnerReferencesCell "OwnerReference_obj list"
  | ManagedFieldsCell "ManagedFieldsEntry_obj list"
  | BucketClaimAccessesCell "BucketClaimAccess list"
  | AccessedBucketsCell "AccessedBucket list"
  | AccessedBucketCell AccessedBucket
  | BucketAccessModesCell BucketAccessModes
  | BucketClaimAccessCell BucketClaimAccess
  | BucketClaimReferenceCell BucketClaimReference
  | TimestampedErrorCell TimestampedError_obj
  | BucketSpecCell BucketSpec_obj
  | BucketStatusCell BucketStatus_obj
  | BucketCell Bucket_obj
  | BucketClassSpecCell BucketClassSpec_obj
  | BucketClassCell BucketClass_obj
  | BucketClaimSpecCell BucketClaimSpec_obj
  | BucketClaimStatusCell BucketClaimStatus_obj
  | BucketClaimCell BucketClaim_obj
  | BucketAccessSpecCell BucketAccessSpec_obj
  | BucketAccessStatusCell BucketAccessStatus_obj
  | BucketAccessCell BucketAccess_obj
  | DisallowedBucketAccessModesCell DisallowedBucketAccessModes_obj
  | BucketAccessClassSpecCell BucketAccessClassSpec_obj
  | BucketAccessClassCell BucketAccessClass_obj
  | BucketListCell BucketList_obj
  | BucketClassListCell BucketClassList_obj
  | BucketClaimListCell BucketClaimList_obj
  | BucketAccessListCell BucketAccessList_obj
  | BucketAccessClassListCell BucketAccessClassList_obj
  | BucketsCell "Bucket_obj list"
  | BucketClassesCell "BucketClass_obj list"
  | BucketClaimsCell "BucketClaim_obj list"
  | BucketAccessesCell "BucketAccess_obj list"
  | BucketAccessClassesCell "BucketAccessClass_obj list"

type_synonym heap = "cell go_heap"

text \<open>The Go types of the cells.\<close>

definition bool_t :: "(bool, cell) go_type" where
  "bool_t = \<lparr>ty_inj = BoolCell, ty_prj = (\<lambda>c. case c of BoolCell x \<Rightarrow> Some x | _ \<Rightarrow> None)\<rparr>"

definition string_t :: "(string, cell) go_type" where
  "string_t = \<lparr>ty_inj = StringCell, ty_prj = (\<lambda>c. case c of StringCell x \<Rightarrow> Some x | _ \<Rightarrow> None)\<rparr>"

definition time_t :: "(time, cell) go_type" where
  "time_t = \<lparr>ty_inj = TimeCell, ty_prj = (\<lambda>c. case c of TimeCell x \<Rightarrow> Some x | _ \<Rightarrow> None)\<rparr>"

definition int64_t :: "(int, cell) go_type" where
  "int64_t = \<lparr>ty_inj = Int64Cell, ty_prj = (\<lambda>c. case c of Int64Cell x \<Rightarrow> Some x | _ \<Rightarrow> None)\<rparr>"

definition bytes_t :: "(8 word list, cell) go_type" where
  "bytes_t = \<lparr>ty_inj = BytesCell, ty_prj = (\<lambda>c. case c of BytesCell x \<Rightarrow> Some x | _ \<Rightarrow> None)\<rparr>"

definition strings_t :: "(string list, cell) go_type" where
  "strings_t = \<lparr>ty_inj = StringsCell, ty_prj = (\<lambda>c. case c of StringsCell x \<Rightarrow> Some x | _ \<Rightarrow> None)\<rparr>"

definition string_map_t :: "((string \<times> string) list, cell) go_type" where
  "string_map_t = \<lparr>ty_inj = StringMapCell, ty_prj = (\<lambda>c. case c of StringMapCell x \<Rightarrow> Some x | _ \<Rightarrow> None)\<rparr>"

definition FieldsV1_t :: "(FieldsV1_obj, cell) go_type" where
  "FieldsV1_t = \<lparr>ty_inj = FieldsV1Cell, ty_prj = (\<lambda>c. case c of FieldsV1Cell x \<Rightarrow> Some x | _ \<Rightarrow> None)\<rparr>"

definition OwnerReferences_t :: "(OwnerReference_obj list, cell) go_type" where
  "OwnerReferences_t = \<lparr>ty_inj = OwnerReferencesCell, ty_prj = (\<lambda>c. case c of OwnerReferencesCell x \<Rightarrow> Some x | _ \<Rightarrow> None)\<rparr>"

definition ManagedFields_t :: "(ManagedFieldsEntry_obj list, cell) go_type" where
  "ManagedFields_t = \<lparr>ty_inj = ManagedFieldsCell, ty_prj = (\<lambda>c. case c of ManagedFieldsCell x \<Rightarrow> Some x | _ \<Rightarrow> None)\<rparr>"

definition BucketClaimAccesses_t :: "(BucketClaimAccess list, cell) go_type" where
  "BucketClaimAccesses_t = \<lparr>ty_inj = BucketClaimAccessesCell, ty_prj = (\<lambda>c. case c of BucketClaimAccessesCell x \<Rightarrow> Some x | _ \<Rightarrow> None)\<rparr>"

definition AccessedBuckets_t :: "(AccessedBucket list, cell) go_type" where
  "AccessedBuckets_t = \<lparr>ty_inj = AccessedBucketsCell, ty_prj = (\<lambda>c. case c of AccessedBucketsCell x \<Rightarrow> Some x | _ \<Rightarrow> None)\<rparr>"

definition AccessedBucket_t :: "(AccessedBucket, cell) go_type" where
  "AccessedBucket_t = \<lparr>ty_inj = AccessedBucketCell, ty_prj = (\<lambda>c. case c of AccessedBucketCell x \<Rightarrow> Some x | _ \<Rightarrow> None)\<rparr>"

definition BucketAccessModes_t :: "(BucketAccessModes, cell) go_type" where
  "BucketAccessModes_t = \<lparr>ty_inj = BucketAccessModesCell, ty_prj = (\<lambda>c. case c of BucketAccessModesCell x \<Rightarrow> Some x | _ \<Rightarrow> None)\<rparr>"

definition BucketClaimAccess_t :: "(BucketClaimAccess, cell) go_type" where
  "BucketClaimAccess_t = \<lparr>ty_inj = BucketClaimAccessCell, ty_prj = (\<lambda>c. case c of BucketClaimAccessCell x \<Rightarrow> Some x | _ \<Rightarrow> None)\<rparr>"

definition BucketClaimReference_t :: "(BucketClaimReference, cell) go_type" where
  "BucketClaimReference_t = \<lparr>ty_inj = BucketClaimReferenceCell, ty_prj = (\<lambda>c. case c of BucketClaimReferenceCell x \<Rightarrow> Some x | _ \<Rightarrow> None)\<rparr>"

definition TimestampedError_t :: "(TimestampedError_obj, cell) go_type" where
  "TimestampedError_t = \<lparr>ty_inj = TimestampedErrorCell, ty_prj = (\<lambda>c. case c of TimestampedErrorCell x \<Rightarrow> Some x | _ \<Rightarrow> None)\<rparr>"

definition BucketSpec_t :: "(BucketSpec_obj, cell) go_type" where
  "BucketSpec_t = \<lparr>ty_inj = BucketSpecCell, ty_prj = (\<lambda>c. case c of BucketSpecCell x \<Rightarrow> Some x | _ \<Rightarrow> None)\<rparr>"

definition BucketStatus_t :: "(BucketStatus_obj, cell) go_type" where
  "BucketStatus_t = \<lparr>ty_inj = BucketStatusCell, ty_prj = (\<lambda>c. case c of BucketStatusCell x \<Rightarrow> Some x | _ \<Rightarrow> None)\<rparr>"

definition Bucket_t :: "(Bucket_obj, cell) go_type" where
  "Bucket_t = \<lparr>ty_inj = BucketCell, ty_prj = (\<lambda>c. case c of BucketCell x \<Rightarrow> Some x | _ \<Rightarrow> None)\<rparr>"

definition BucketClassSpec_t :: "(BucketClassSpec_obj, cell) go_type" where
  "BucketClassSpec_t = \<lparr>ty_inj = BucketClassSpecCell, ty_prj = (\<lambda>c. case c of BucketClassSpecCell x \<Rightarrow> Some x | _ \<Rightarrow> None)\<rparr>"

definition BucketClass_t :: "(BucketClass_obj, cell) go_type" where
  "BucketClass_t = \<lparr>ty_inj = BucketClassCell, ty_prj = (\<lambda>c. case c of BucketClassCell x \<Rightarrow> Some x | _ \<Rightarrow> None)\<rparr>"

definition BucketClaimSpec_t :: "(BucketClaimSpec_obj, cell) go_type" where
  "BucketClaimSpec_t = \<lparr>ty_inj = BucketClaimSpecCell, ty_prj = (\<lambda>c. case c of BucketClaimSpecCell x \<Rightarrow> Some x | _ \<Rightarrow> None)\<rparr>"

definition BucketClaimStatus_t :: "(BucketClaimStatus_obj, cell) go_type" where
  "BucketClaimStatus_t = \<lparr>ty_inj = BucketClaimStatusCell, ty_prj = (\<lambda>c. case c of BucketClaimStatusCell x \<Rightarrow> Some x | _ \<Rightarrow> None)\<rparr>"

definition BucketClaim_t :: "(BucketClaim_obj, cell) go_type" where
  "BucketClaim_t = \<lparr>ty_inj = BucketClaimCell, ty_prj = (\<lambda>c. case c of BucketClaimCell x \<Rightarrow> Some x | _ \<Rightarrow> None)\<rparr>"

definition BucketAccessSpec_t :: "(BucketAccessSpec_obj, cell) go_type" where
  "BucketAccessSpec_t = \<lparr>ty_inj = BucketAccessSpecCell, ty_prj = (\<lambda>c. case c of BucketAccessSpecCell x \<Rightarrow> Some x | _ \<Rightarrow> None)\<rparr>"

definition BucketAccessStatus_t :: "(BucketAccessStatus_obj, cell) go_type" where
  "BucketAccessStatus_t = \<lparr>ty_inj = BucketAccessStatusCell, ty_prj = (\<lambda>c. case c of BucketAccessStatusCell x \<Rightarrow> Some x | _ \<Rightarrow> None)\<rparr>"

definition BucketAccess_t :: "(BucketAccess_obj, cell) go_type" where
  "BucketAccess_t = \<lparr>ty_inj = BucketAccessCell, ty_prj = (\<lambda>c. case c of BucketAccessCell x \<Rightarrow> Some x | _ \<Rightarrow> None)\<rparr>"

definition DisallowedBucketAccessModes_t :: "(DisallowedBucketAccessModes_obj, cell) go_type" where
  "DisallowedBucketAccessModes_t = \<lparr>ty_inj = DisallowedBucketAccessModesCell, ty_prj = (\<lambda>c. case c of DisallowedBucketAccessModesCell x \<Rightarrow> Some x | _ \<Rightarrow> None)\<rparr>"

definition BucketAccessClassSpec_t :: "(BucketAccessClassSpec_obj, cell) go_type" where
  "BucketAccessClassSpec_t = \<lparr>ty_inj = BucketAccessClassSpecCell, ty_prj = (\<lambda>c. case c of BucketAccessClassSpecCell x \<Rightarrow> Some x | _ \<Rightarrow> None)\<rparr>"

definition BucketAccessClass_t :: "(BucketAccessClass_obj, cell) go_type" where
  "BucketAccessClass_t = \<lparr>ty_inj = BucketAccessClassCell, ty_prj = (\<lambda>c. case c of BucketAccessClassCell x \<Rightarrow> Some x | _ \<Rightarrow> None)\<rparr>"

definition BucketList_t :: "(BucketList_obj, cell) go_type" where
  "BucketList_t = \<lparr>ty_inj = BucketListCell, ty_prj = (\<lambda>c. case c of BucketListCell x \<Rightarrow> Some x | _ \<Rightarrow> None)\<rparr>"

definition BucketClassList_t :: "(BucketClassList_obj, cell) go_type" where
  "BucketClassList_t = \<lparr>ty_inj = BucketClassListCell, ty_prj = (\<lambda>c. case c of BucketClassListCell x \<Rightarrow> Some x | _ \<Rightarrow> None)\<rparr>"

definition BucketClaimList_t :: "(BucketClaimList_obj, cell) go_type" where
  "BucketClaimList_t = \<lparr>ty_inj = BucketClaimListCell, ty_prj = (\<lambda>c. case c of BucketClaimListCell x \<Rightarrow> Some x | _ \<Rightarrow> None)\<rparr>"

definition BucketAccessList_t :: "(BucketAccessList_obj, cell) go_type" where
  "BucketAccessList_t = \<lparr>ty_inj = BucketAccessListCell, ty_prj = (\<lambda>c. case c of BucketAccessListCell x \<Rightarrow> Some x | _ \<Rightarrow> None)\<rparr>"

definition BucketAccessClassList_t :: "(BucketAccessClassList_obj, cell) go_type" where
  "BucketAccessClassList_t = \<lparr>ty_inj = BucketAccessClassListCell, ty_prj = (\<lambda>c. case c of BucketAccessClassListCell x \<Rightarrow> Some x | _ \<Rightarrow> None)\<rparr>"

definition Buckets_t :: "(Bucket_obj list, cell) go_type" where
  "Buckets_t = \<lparr>ty_inj = BucketsCell, ty_prj = (\<lambda>c. case c of BucketsCell x \<Rightarrow> Some x | _ \<Rightarrow> None)\<rparr>"

definition BucketClasses_t :: "(BucketClass_obj list, cell) go_type" where
  "BucketClasses_t = \<lparr>ty_inj = BucketClassesCell, ty_prj = (\<lambda>c. case c of BucketClassesCell x \<Rightarrow> Some x | _ \<Rightarrow> None)\<rparr>"

definition BucketClaims_t :: "(BucketClaim_obj list, cell) go_type" where
  "BucketClaims_t = \<lparr>ty_inj = BucketClaimsCell, ty_prj = (\<lambda>c. case c of BucketClaimsCell x \<Rightarrow> Some x | _ \<Rightarrow> None)\<rparr>"

definition BucketAccesses_t :: "(BucketAccess_obj list, cell) go_type" where
  "BucketAccesses_t = \<lparr>ty_inj = BucketAccessesCell, ty_prj = (\<lambda>c. case c of BucketAccessesCell x \<Rightarrow> Some x | _ \<Rightarrow> None)\<rparr>"

definition BucketAccessClasses_t :: "(BucketAccessClass_obj list, cell) go_type" where
  "BucketAccessClasses_t = \<lparr>ty_inj = BucketAccessClassesCell, ty_prj = (\<lambda>c. case c of BucketAccessClassesCell x \<Rightarrow> Some x | _ \<Rightarrow> None)\<rparr>"

section \<open>Deep equality of structs\<close>

definition TimestampedError_DeepEqual :: "(TimestampedError_obj, cell) deep_eq" where
  "TimestampedError_DeepEqual m x m' y \<longleftrightarrow>
     eq_ptr time_t eq_flat m (hte_Time x) m' (hte_Time y) \<and>
     eq_ptr string_t eq_flat m (hte_Message x) m' (hte_Message y)"

definition OwnerReference_DeepEqual :: "(OwnerReference_obj, cell) deep_eq" where
  "OwnerReference_DeepEqual m x m' y \<longleftrightarrow>
     hor_APIVersion x = hor_APIVersion y \<and>
     hor_Kind x = hor_Kind y \<and>
     hor_Name x = hor_Name y \<and>
     hor_UID x = hor_UID y \<and>
     eq_ptr bool_t eq_flat m (hor_Controller x) m' (hor_Controller y) \<and>
     eq_ptr bool_t eq_flat m (hor_BlockOwnerDeletion x) m' (hor_BlockOwnerDeletion y)"

definition FieldsV1_DeepEqual :: "(FieldsV1_obj, cell) deep_eq" where
  "FieldsV1_DeepEqual m x m' y \<longleftrightarrow>
     eq_slice bytes_t eq_flat m (hfv_Raw x) m' (hfv_Raw y)"

definition ManagedFieldsEntry_DeepEqual :: "(ManagedFieldsEntry_obj, cell) deep_eq" where
  "ManagedFieldsEntry_DeepEqual m x m' y \<longleftrightarrow>
     hmf_Manager x = hmf_Manager y \<and>
     hmf_Operation x = hmf_Operation y \<and>
     hmf_APIVersion x = hmf_APIVersion y \<and>
     eq_ptr time_t eq_flat m (hmf_Time x) m' (hmf_Time y) \<and>
     hmf_FieldsType x = hmf_FieldsType y \<and>
     eq_ptr FieldsV1_t FieldsV1_DeepEqual m (hmf_FieldsV1 x) m' (hmf_FieldsV1 y) \<and>
     hmf_Subresource x = hmf_Subresource y"

definition ObjectMeta_DeepEqual :: "(ObjectMeta_obj, cell) deep_eq" where
  "ObjectMeta_DeepEqual m x m' y \<longleftrightarrow>
     hom_Name x = hom_Name y \<and>
     hom_GenerateName x = hom_GenerateName y \<and>
     hom_Namespace x = hom_Namespace y \<and>
     hom_SelfLink x = hom_SelfLink y \<and>
     hom_UID x = hom_UID y \<and>
     hom_ResourceVersion x = hom_ResourceVersion y \<and>
     hom_Generation x = hom_Generation y \<and>
     eq_flat m (hom_CreationTimestamp x) m' (hom_CreationTimestamp y) \<and>
     eq_ptr time_t eq_flat m (hom_DeletionTimestamp x) m' (hom_DeletionTimestamp y) \<and>
     eq_ptr int64_t eq_flat m (hom_DeletionGracePeriodSeconds x) m' (hom_DeletionGracePeriodSeconds y) \<and>
     eq_map string_map_t m (hom_Labels x) m' (hom_Labels y) \<and>
     eq_map string_map_t m (hom_Annotations x) m' (hom_Annotations y) \<and>
     eq_slice OwnerReferences_t OwnerReference_DeepEqual m (hom_OwnerReferences x) m' (hom_OwnerReferences y) \<and>
     eq_slice strings_t eq_flat m (hom_Finalizers x) m' (hom_Finalizers y) \<and>
     eq_slice ManagedFields_t ManagedFieldsEntry_DeepEqual m (hom_ManagedFields x) m' (hom_ManagedFields y)"

definition ListMeta_DeepEqual :: "(ListMeta_obj, cell) deep_eq" where
  "ListMeta_DeepEqual m x m' y \<longleftrightarrow>
     hlm_SelfLink x = hlm_SelfLink y \<and>
     hlm_ResourceVersion x = hlm_ResourceVersion y \<and>
     hlm_Continue x = hlm_Continue y \<and>
     eq_ptr int64_t eq_flat m (hlm_RemainingItemCount x) m' (hlm_RemainingItemCount y)"

definition BucketSpec_DeepEqual :: "(BucketSpec_obj, cell) deep_eq" where
  "BucketSpec_DeepEqual m x m' y \<longleftrightarrow>
     hbs_DriverName x = hbs_DriverName y \<and>
     hbs_DeletionPolicy x = hbs_DeletionPolicy y \<and>
     eq_map string_map_t m (hbs_Parameters x) m' (hbs_Parameters y) \<and>
     eq_slice strings_t eq_flat m (hbs_Protocols x) m' (hbs_Protocols y) \<and>
     hbs_BucketClaimRef x = hbs_BucketClaimRef y \<and>
     hbs_ExistingBucketID x = hbs_ExistingBucketID y"

definition BucketStatus_DeepEqual :: "(BucketStatus_obj, cell) deep_eq" where
  "BucketStatus_DeepEqual m x m' y \<longleftrightarrow>
     eq_ptr bool_t eq_flat m (hbst_ReadyToUse x) m' (hbst_ReadyToUse y) \<and>
     hbst_BucketID x = hbst_BucketID y \<and>
     eq_slice strings_t eq_flat m (hbst_Protocols x) m' (hbst_Protocols y) \<and>
     eq_map string_map_t m (hbst_BucketInfo x) m' (hbst_BucketInfo y) \<and>
     eq_ptr TimestampedError_t TimestampedError_DeepEqual m (hbst_Error x) m' (hbst_Error y)"

definition Bucket_DeepEqual :: "(Bucket_obj, cell) deep_eq" where
  "Bucket_DeepEqual m x m' y \<longleftrightarrow>
     hb_TypeMeta x = hb_TypeMeta y \<and>
     ObjectMeta_DeepEqual m (hb_ObjectMeta x) m' (hb_ObjectMeta y) \<and>
     BucketSpec_DeepEqual m (hb_Spec x) m' (hb_Spec y) \<and>
     BucketStatus_DeepEqual m (hb_Status x) m' (hb_Status y)"

definition BucketClassSpec_DeepEqual :: "(BucketClassSpec_obj, cell) deep_eq" where
  "BucketClassSpec_DeepEqual m x m' y \<longleftrightarrow>
     hbcs_DriverName x = hbcs_DriverName y \<and>
     hbcs_DeletionPolicy x = hbcs_DeletionPolicy y \<and>
     eq_map string_map_t m (hbcs_Parameters x) m' (hbcs_Parameters y)"

definition BucketClass_DeepEqual :: "(BucketClass_obj, cell) deep_eq" where
  "BucketClass_DeepEqual m x m' y \<longleftrightarrow>
     hbc_TypeMeta x = hbc_TypeMeta y \<and>
     ObjectMeta_DeepEqual m (hbc_ObjectMeta x) m' (hbc_ObjectMeta y) \<and>
     BucketClassSpec_DeepEqual m (hbc_Spec x) m' (hbc_Spec y)"

definition BucketClaimSpec_DeepEqual :: "(BucketClaimSpec_obj, cell) deep_eq" where
  "BucketClaimSpec_DeepEqual m x m' y \<longleftrightarrow>
     hcs_BucketClassName x = hcs_BucketClassName y \<and>
     eq_slice strings_t eq_flat m (hcs_Protocols x) m' (hcs_Protocols y) \<and>
     hcs_ExistingBucketName x = hcs_ExistingBucketName y"

definition BucketClaimStatus_DeepEqual :: "(BucketClaimStatus_obj, cell) deep_eq" where
  "BucketClaimStatus_DeepEqual m x m' y \<longleftrightarrow>
     hcst_BoundBucketName x = hcst_BoundBucketName y \<and>
     eq_ptr bool_t eq_flat m (hcst_ReadyToUse x) m' (hcst_ReadyToUse y) \<and>
     eq_slice strings_t eq_flat m (hcst_Protocols x) m' (hcst_Protocols y) \<and>
     eq_ptr TimestampedError_t TimestampedError_DeepEqual m (hcst_Error x) m' (hcst_Error y)"

definition BucketClaim_DeepEqual :: "(BucketClaim_obj, cell) deep_eq" where
  "BucketClaim_DeepEqual m x m' y \<longleftrightarrow>
     hc_TypeMeta x = hc_TypeMeta y \<and>
     ObjectMeta_DeepEqual m (hc_ObjectMeta x) m' (hc_ObjectMeta y) \<and>
     BucketClaimSpec_DeepEqual m (hc_Spec x) m' (hc_Spec y) \<and>
     BucketClaimStatus_DeepEqual m (hc_Status x) m' (hc_Status y)"

definition BucketAccessSpec_DeepEqual :: "(BucketAccessSpec_obj, cell) deep_eq" where
  "BucketAccessSpec_DeepEqual m x m' y \<longleftrightarrow>
     eq_slice BucketClaimAccesses_t eq_flat m (has_BucketClaims x) m' (has_BucketClaims y) \<and>
     has_BucketAccessClassName x = has_BucketAccessClassName y \<and>
     has_Protocol x = has_Protocol y \<and>
     has_ServiceAccountName x = has_ServiceAccountName y"

definition BucketAccessStatus_DeepEqual :: "(BucketAccessStatus_obj, cell) deep_eq" where
  "BucketAccessStatus_DeepEqual m x m' y \<longleftrightarrow>
     eq_ptr bool_t eq_flat m (hast_ReadyToUse x) m' (hast_ReadyToUse y) \<and>
     hast_AccountID x = hast_AccountID y \<and>
     eq_slice AccessedBuckets_t eq_flat m (hast_AccessedBuckets x) m' (hast_AccessedBuckets y) \<and>
     hast_DriverName x = hast_DriverName y \<and>
     hast_AuthenticationType x = hast_AuthenticationType y \<and>
     eq_map string_map_t m (hast_Parameters x) m' (hast_Parameters y) \<and>
     eq_ptr TimestampedError_t TimestampedError_DeepEqual m (hast_Error x) m' (hast_Error y)"

definition BucketAccess_DeepEqual :: "(BucketAccess_obj, cell) deep_eq" where
  "BucketAccess_DeepEqual m x m' y \<longleftrightarrow>
     ha_TypeMeta x = ha_TypeMeta y \<and>
     ObjectMeta_DeepEqual m (ha_ObjectMeta x) m' (ha_ObjectMeta y) \<and>
     BucketAccessSpec_DeepEqual m (ha_Spec x) m' (ha_Spec y) \<and>
     BucketAccessStatus_DeepEqual m (ha_Status x) m' (ha_Status y)"

definition DisallowedBucketAccessModes_DeepEqual :: "(DisallowedBucketAccessModes_obj, cell) deep_eq" where
  "DisallowedBucketAccessModes_DeepEqual m x m' y \<longleftrightarrow>
     eq_slice strings_t eq_flat m (hdm_ObjectData x) m' (hdm_ObjectData y) \<and>
     eq_slice strings_t eq_flat m (hdm_ObjectMetadata x) m' (hdm_ObjectMetadata y) \<and>
     eq_slice strings_t eq_flat m (hdm_BucketMetadata x) m' (hdm_BucketMetadata y)"

definition BucketAccessClassSpec_DeepEqual :: "(BucketAccessClassSpec_obj, cell) deep_eq" where
  "BucketAccessClassSpec_DeepEqual m x m' y \<longleftrightarrow>
     hacs_DriverName x = hacs_DriverName y \<and>
     hacs_AuthenticationType x = hacs_AuthenticationType y \<and>
     eq_map string_map_t m (hacs_Parameters x) m' (hacs_Parameters y) \<and>
     DisallowedBucketAccessModes_DeepEqual m (hacs_DisallowedBucketAccessModes x) m' (hacs_DisallowedBucketAccessModes y) \<and>
     hacs_MultiBucketAccess x = hacs_MultiBucketAccess y"

definition BucketAccessClass_DeepEqual :: "(BucketAccessClass_obj, cell) deep_eq" where
  "BucketAccessClass_DeepEqual m x m' y \<longleftrightarrow>
     hac_TypeMeta x = hac_TypeMeta y \<and>
     ObjectMeta_DeepEqual m (hac_ObjectMeta x) m' (hac_ObjectMeta y) \<and>
     BucketAccessClassSpec_DeepEqual m (hac_Spec x) m' (hac_Spec y)"

definition BucketList_DeepEqual :: "(BucketList_obj, cell) deep_eq" where
  "BucketList_DeepEqual m x m' y \<longleftrightarrow>
     hbl_TypeMeta x = hbl_TypeMeta y \<and>
     ListMeta_DeepEqual m (hbl_ListMeta x) m' (hbl_ListMeta y) \<and>
     eq_slice Buckets_t Bucket_DeepEqual m (hbl_Items x) m' (hbl_Items y)"

definition BucketClassList_DeepEqual :: "(BucketClassList_obj, cell) deep_eq" where
  "BucketClassList_DeepEqual m x m' y \<longleftrightarrow>
     hbcl_TypeMeta x = hbcl_TypeMeta y \<and>
     ListMeta_DeepEqual m (hbcl_ListMeta x) m' (hbcl_ListMeta y) \<and>
     eq_slice BucketClasses_t BucketClass_DeepEqual m (hbcl_Items x) m' (hbcl_Items y)"

definition BucketClaimList_DeepEqual :: "(BucketClaimList_obj, cell) deep_eq" where
  "BucketClaimList_DeepEqual m x m' y \<longleftrightarrow>
     hcl_TypeMeta x = hcl_TypeMeta y \<and>
     ListMeta_DeepEqual m (hcl_ListMeta x) m' (hcl_ListMeta y) \<and>
     eq_slice BucketClaims_t BucketClaim_DeepEqual m (hcl_Items x) m' (hcl_Items y)"

definition BucketAccessList_DeepEqual :: "(BucketAccessList_obj, cell) deep_eq" where
  "BucketAccessList_DeepEqual m x m' y \<longleftrightarrow>
     hal_TypeMeta x = hal_TypeMeta y \<and>
     ListMeta_DeepEqual m (hal_ListMeta x) m' (hal_ListMeta y) \<and>
     eq_slice BucketAccesses_t BucketAccess_DeepEqual m (hal_Items x) m' (hal_Items y)"

definition BucketAccessClassList_DeepEqual :: "(BucketAccessClassList_obj, cell) deep_eq" where
  "BucketAccessClassList_DeepEqual m x m' y \<longleftrightarrow>
     hacl_TypeMeta x = hacl_TypeMeta y \<and>
     ListMeta_DeepEqual m (hacl_ListMeta x) m' (hacl_ListMeta y) \<and>
     eq_slice BucketAccessClasses_t BucketAccessClass_DeepEqual m (hacl_Items x) m' (hacl_Items y)"

end
