(* ===== verification/Deep_Copy.thy ===== *)
theory Deep_Copy
  imports Api_Objects
begin

text \<open>
  The generated deep copies of \<^verbatim>\<open>src/client/apis/objectstorage/v1alpha2/zz_generated.deepcopy.go\<close>
  and of the metadata (vendored from apimachinery): \<open>X_DeepCopyInto\<close>, \<open>X_DeepCopy\<close> and
  \<open>X_DeepCopyObject\<close> for every type that has them. \<open>in\<close> and \<open>out\<close> of the code are distinct structs
  throughout (\<open>out\<close> is new), so \<open>DeepCopyInto\<close> is a function from \<open>*in\<close> to \<open>*out\<close>.
\<close>

section \<open>Structs without references\<close>

text \<open>\<open>time.Time\<close> is immutable for users of the time package; \<open>metav1.Time\<close> is copied by assignment.\<close>

definition Time_DeepCopyInto :: "(time, cell) copier" where
  "Time_DeepCopyInto t h = Some (t, h)"

definition AccessedBucket_DeepCopyInto :: "(AccessedBucket, cell) copier" where
  "AccessedBucket_DeepCopyInto x h = (let out = x in Some (out, h))"

definition AccessedBucket_DeepCopy :: "(ref, cell) copier" where
  "AccessedBucket_DeepCopy p h = copy_ptr AccessedBucket_t AccessedBucket_DeepCopyInto p h"

definition BucketAccessModes_DeepCopyInto :: "(BucketAccessModes, cell) copier" where
  "BucketAccessModes_DeepCopyInto x h = (let out = x in Some (out, h))"

definition BucketAccessModes_DeepCopy :: "(ref, cell) copier" where
  "BucketAccessModes_DeepCopy p h = copy_ptr BucketAccessModes_t BucketAccessModes_DeepCopyInto p h"

definition BucketClaimAccess_DeepCopyInto :: "(BucketClaimAccess, cell) copier" where
  "BucketClaimAccess_DeepCopyInto x h = (let out = x; out = out\<lparr>bca_AccessModes := bca_AccessModes x\<rparr> in Some (out, h))"

definition BucketClaimAccess_DeepCopy :: "(ref, cell) copier" where
  "BucketClaimAccess_DeepCopy p h = copy_ptr BucketClaimAccess_t BucketClaimAccess_DeepCopyInto p h"

definition BucketClaimReference_DeepCopyInto :: "(BucketClaimReference, cell) copier" where
  "BucketClaimReference_DeepCopyInto x h = (let out = x in Some (out, h))"

definition BucketClaimReference_DeepCopy :: "(ref, cell) copier" where
  "BucketClaimReference_DeepCopy p h = copy_ptr BucketClaimReference_t BucketClaimReference_DeepCopyInto p h"

section \<open>Errors and metadata\<close>

definition TimestampedError_DeepCopyInto :: "(TimestampedError_obj, cell) copier" where
  "TimestampedError_DeepCopyInto x h = do {
     let out = x;
     (v, h) \<leftarrow> copy_ptr time_t Time_DeepCopyInto (hte_Time x) h;
     let out = out\<lparr>hte_Time := v\<rparr>;
     (v, h) \<leftarrow> copy_ptr string_t assign (hte_Message x) h;
     let out = out\<lparr>hte_Message := v\<rparr>;
     Some (out, h)
   }"

definition TimestampedError_DeepCopy :: "(ref, cell) copier" where
  "TimestampedError_DeepCopy p h = copy_ptr TimestampedError_t TimestampedError_DeepCopyInto p h"

definition OwnerReference_DeepCopyInto :: "(OwnerReference_obj, cell) copier" where
  "OwnerReference_DeepCopyInto x h = do {
     let out = x;
     (v, h) \<leftarrow> copy_ptr bool_t assign (hor_Controller x) h;
     let out = out\<lparr>hor_Controller := v\<rparr>;
     (v, h) \<leftarrow> copy_ptr bool_t assign (hor_BlockOwnerDeletion x) h;
     let out = out\<lparr>hor_BlockOwnerDeletion := v\<rparr>;
     Some (out, h)
   }"

definition FieldsV1_DeepCopyInto :: "(FieldsV1_obj, cell) copier" where
  "FieldsV1_DeepCopyInto x h = do {
     let out = x;
     (v, h) \<leftarrow> copy_slice bytes_t assign (hfv_Raw x) h;
     let out = out\<lparr>hfv_Raw := v\<rparr>;
     Some (out, h)
   }"

definition ManagedFieldsEntry_DeepCopyInto :: "(ManagedFieldsEntry_obj, cell) copier" where
  "ManagedFieldsEntry_DeepCopyInto x h = do {
     let out = x;
     (v, h) \<leftarrow> copy_ptr time_t Time_DeepCopyInto (hmf_Time x) h;
     let out = out\<lparr>hmf_Time := v\<rparr>;
     (v, h) \<leftarrow> copy_ptr FieldsV1_t FieldsV1_DeepCopyInto (hmf_FieldsV1 x) h;
     let out = out\<lparr>hmf_FieldsV1 := v\<rparr>;
     Some (out, h)
   }"

definition ObjectMeta_DeepCopyInto :: "(ObjectMeta_obj, cell) copier" where
  "ObjectMeta_DeepCopyInto x h = do {
     let out = x;
     (v, h) \<leftarrow> Time_DeepCopyInto (hom_CreationTimestamp x) h;
     let out = out\<lparr>hom_CreationTimestamp := v\<rparr>;
     (v, h) \<leftarrow> copy_ptr time_t Time_DeepCopyInto (hom_DeletionTimestamp x) h;
     let out = out\<lparr>hom_DeletionTimestamp := v\<rparr>;
     (v, h) \<leftarrow> copy_ptr int64_t assign (hom_DeletionGracePeriodSeconds x) h;
     let out = out\<lparr>hom_DeletionGracePeriodSeconds := v\<rparr>;
     (v, h) \<leftarrow> copy_map string_map_t (hom_Labels x) h;
     let out = out\<lparr>hom_Labels := v\<rparr>;
     (v, h) \<leftarrow> copy_map string_map_t (hom_Annotations x) h;
     let out = out\<lparr>hom_Annotations := v\<rparr>;
     (v, h) \<leftarrow> copy_slice OwnerReferences_t OwnerReference_DeepCopyInto (hom_OwnerReferences x) h;
     let out = out\<lparr>hom_OwnerReferences := v\<rparr>;
     (v, h) \<leftarrow> copy_slice strings_t assign (hom_Finalizers x) h;
     let out = out\<lparr>hom_Finalizers := v\<rparr>;
     (v, h) \<leftarrow> copy_slice ManagedFields_t ManagedFieldsEntry_DeepCopyInto (hom_ManagedFields x) h;
     let out = out\<lparr>hom_ManagedFields := v\<rparr>;
     Some (out, h)
   }"

definition ListMeta_DeepCopyInto :: "(ListMeta_obj, cell) copier" where
  "ListMeta_DeepCopyInto x h = do {
     let out = x;
     (v, h) \<leftarrow> copy_ptr int64_t assign (hlm_RemainingItemCount x) h;
     let out = out\<lparr>hlm_RemainingItemCount := v\<rparr>;
     Some (out, h)
   }"

section \<open>Bucket and BucketClass\<close>

definition BucketSpec_DeepCopyInto :: "(BucketSpec_obj, cell) copier" where
  "BucketSpec_DeepCopyInto x h = do {
     let out = x;
     (v, h) \<leftarrow> copy_map string_map_t (hbs_Parameters x) h;
     let out = out\<lparr>hbs_Parameters := v\<rparr>;
     (v, h) \<leftarrow> copy_slice strings_t assign (hbs_Protocols x) h;
     let out = out\<lparr>hbs_Protocols := v\<rparr>;
     let out = out\<lparr>hbs_BucketClaimRef := hbs_BucketClaimRef x\<rparr>;
     Some (out, h)
   }"

definition BucketSpec_DeepCopy :: "(ref, cell) copier" where
  "BucketSpec_DeepCopy p h = copy_ptr BucketSpec_t BucketSpec_DeepCopyInto p h"

definition BucketStatus_DeepCopyInto :: "(BucketStatus_obj, cell) copier" where
  "BucketStatus_DeepCopyInto x h = do {
     let out = x;
     (v, h) \<leftarrow> copy_ptr bool_t assign (hbst_ReadyToUse x) h;
     let out = out\<lparr>hbst_ReadyToUse := v\<rparr>;
     (v, h) \<leftarrow> copy_slice strings_t assign (hbst_Protocols x) h;
     let out = out\<lparr>hbst_Protocols := v\<rparr>;
     (v, h) \<leftarrow> copy_map string_map_t (hbst_BucketInfo x) h;
     let out = out\<lparr>hbst_BucketInfo := v\<rparr>;
     (v, h) \<leftarrow> copy_ptr TimestampedError_t TimestampedError_DeepCopyInto (hbst_Error x) h;
     let out = out\<lparr>hbst_Error := v\<rparr>;
     Some (out, h)
   }"

definition BucketStatus_DeepCopy :: "(ref, cell) copier" where
  "BucketStatus_DeepCopy p h = copy_ptr BucketStatus_t BucketStatus_DeepCopyInto p h"

definition Bucket_DeepCopyInto :: "(Bucket_obj, cell) copier" where
  "Bucket_DeepCopyInto x h = do {
     let out = x;
     let out = out\<lparr>hb_TypeMeta := hb_TypeMeta x\<rparr>;
     (v, h) \<leftarrow> ObjectMeta_DeepCopyInto (hb_ObjectMeta x) h;
     let out = out\<lparr>hb_ObjectMeta := v\<rparr>;
     (v, h) \<leftarrow> BucketSpec_DeepCopyInto (hb_Spec x) h;
     let out = out\<lparr>hb_Spec := v\<rparr>;
     (v, h) \<leftarrow> BucketStatus_DeepCopyInto (hb_Status x) h;
     let out = out\<lparr>hb_Status := v\<rparr>;
     Some (out, h)
   }"

definition Bucket_DeepCopy :: "(ref, cell) copier" where
  "Bucket_DeepCopy p h = copy_ptr Bucket_t Bucket_DeepCopyInto p h"

definition BucketClassSpec_DeepCopyInto :: "(BucketClassSpec_obj, cell) copier" where
  "BucketClassSpec_DeepCopyInto x h = do {
     let out = x;
     (v, h) \<leftarrow> copy_map string_map_t (hbcs_Parameters x) h;
     let out = out\<lparr>hbcs_Parameters := v\<rparr>;
     Some (out, h)
   }"

definition BucketClassSpec_DeepCopy :: "(ref, cell) copier" where
  "BucketClassSpec_DeepCopy p h = copy_ptr BucketClassSpec_t BucketClassSpec_DeepCopyInto p h"

definition BucketClass_DeepCopyInto :: "(BucketClass_obj, cell) copier" where
  "BucketClass_DeepCopyInto x h = do {
     let out = x;
     let out = out\<lparr>hbc_TypeMeta := hbc_TypeMeta x\<rparr>;
     (v, h) \<leftarrow> ObjectMeta_DeepCopyInto (hbc_ObjectMeta x) h;
     let out = out\<lparr>hbc_ObjectMeta := v\<rparr>;
     (v, h) \<leftarrow> BucketClassSpec_DeepCopyInto (hbc_Spec x) h;
     let out = out\<lparr>hbc_Spec := v\<rparr>;
     Some (out, h)
   }"

definition BucketClass_DeepCopy :: "(ref, cell) copier" where
  "BucketClass_DeepCopy p h = copy_ptr BucketClass_t BucketClass_DeepCopyInto p h"

section \<open>BucketClaim\<close>

definition BucketClaimSpec_DeepCopyInto :: "(BucketClaimSpec_obj, cell) copier" where
  "BucketClaimSpec_DeepCopyInto x h = do {
     let out = x;
     (v, h) \<leftarrow> copy_slice strings_t assign (hcs_Protocols x) h;
     let out = out\<lparr>hcs_Protocols := v\<rparr>;
     Some (out, h)
   }"

definition BucketClaimSpec_DeepCopy :: "(ref, cell) copier" where
  "BucketClaimSpec_DeepCopy p h = copy_ptr BucketClaimSpec_t BucketClaimSpec_DeepCopyInto p h"

definition BucketClaimStatus_DeepCopyInto :: "(BucketClaimStatus_obj, cell) copier" where
  "BucketClaimStatus_DeepCopyInto x h = do {
     let out = x;
     (v, h) \<leftarrow> copy_ptr bool_t assign (hcst_ReadyToUse x) h;
     let out = out\<lparr>hcst_ReadyToUse := v\<rparr>;
     (v, h) \<leftarrow> copy_slice strings_t assign (hcst_Protocols x) h;
     let out = out\<lparr>hcst_Protocols := v\<rparr>;
     (v, h) \<leftarrow> copy_ptr TimestampedError_t TimestampedError_DeepCopyInto (hcst_Error x) h;
     let out = out\<lparr>hcst_Error := v\<rparr>;
     Some (out, h)
   }"

definition BucketClaimStatus_DeepCopy :: "(ref, cell) copier" where
  "BucketClaimStatus_DeepCopy p h = copy_ptr BucketClaimStatus_t BucketClaimStatus_DeepCopyInto p h"

definition BucketClaim_DeepCopyInto :: "(BucketClaim_obj, cell) copier" where
  "BucketClaim_DeepCopyInto x h = do {
     let out = x;
     let out = out\<lparr>hc_TypeMeta := hc_TypeMeta x\<rparr>;
     (v, h) \<leftarrow> ObjectMeta_DeepCopyInto (hc_ObjectMeta x) h;
     let out = out\<lparr>hc_ObjectMeta := v\<rparr>;
     (v, h) \<leftarrow> BucketClaimSpec_DeepCopyInto (hc_Spec x) h;
     let out = out\<lparr>hc_Spec := v\<rparr>;
     (v, h) \<leftarrow> BucketClaimStatus_DeepCopyInto (hc_Status x) h;
     let out = out\<lparr>hc_Status := v\<rparr>;
     Some (out, h)
   }"

definition BucketClaim_DeepCopy :: "(ref, cell) copier" where
  "BucketClaim_DeepCopy p h = copy_ptr BucketClaim_t BucketClaim_DeepCopyInto p h"

section \<open>BucketAccess and BucketAccessClass\<close>

definition BucketAccessSpec_DeepCopyInto :: "(BucketAccessSpec_obj, cell) copier" where
  "BucketAccessSpec_DeepCopyInto x h = do {
     let out = x;
     (v, h) \<leftarrow> copy_slice BucketClaimAccesses_t assign (has_BucketClaims x) h;
     let out = out\<lparr>has_BucketClaims := v\<rparr>;
     Some (out, h)
   }"

definition BucketAccessSpec_DeepCopy :: "(ref, cell) copier" where
  "BucketAccessSpec_DeepCopy p h = copy_ptr BucketAccessSpec_t BucketAccessSpec_DeepCopyInto p h"

definition BucketAccessStatus_DeepCopyInto :: "(BucketAccessStatus_obj, cell) copier" where
  "BucketAccessStatus_DeepCopyInto x h = do {
     let out = x;
     (v, h) \<leftarrow> copy_ptr bool_t assign (hast_ReadyToUse x) h;
     let out = out\<lparr>hast_ReadyToUse := v\<rparr>;
     (v, h) \<leftarrow> copy_slice AccessedBuckets_t assign (hast_AccessedBuckets x) h;
     let out = out\<lparr>hast_AccessedBuckets := v\<rparr>;
     (v, h) \<leftarrow> copy_map string_map_t (hast_Parameters x) h;
     let out = out\<lparr>hast_Parameters := v\<rparr>;
     (v, h) \<leftarrow> copy_ptr TimestampedError_t TimestampedError_DeepCopyInto (hast_Error x) h;
     let out = out\<lparr>hast_Error := v\<rparr>;
     Some (out, h)
   }"

definition BucketAccessStatus_DeepCopy :: "(ref, cell) copier" where
  "BucketAccessStatus_DeepCopy p h = copy_ptr BucketAccessStatus_t BucketAccessStatus_DeepCopyInto p h"

definition BucketAccess_DeepCopyInto :: "(BucketAccess_obj, cell) copier" where
  "BucketAccess_DeepCopyInto x h = do {
     let out = x;
     let out = out\<lparr>ha_TypeMeta := ha_TypeMeta x\<rparr>;
     (v, h) \<leftarrow> ObjectMeta_DeepCopyInto (ha_ObjectMeta x) h;
     let out = out\<lparr>ha_ObjectMeta := v\<rparr>;
     (v, h) \<leftarrow> BucketAccessSpec_DeepCopyInto (ha_Spec x) h;
     let out = out\<lparr>ha_Spec := v\<rparr>;
     (v, h) \<leftarrow> BucketAccessStatus_DeepCopyInto (ha_Status x) h;
     let out = out\<lparr>ha_Status := v\<rparr>;
     Some (out, h)
   }"

definition BucketAccess_DeepCopy :: "(ref, cell) copier" where
  "BucketAccess_DeepCopy p h = copy_ptr BucketAccess_t BucketAccess_DeepCopyInto p h"

definition DisallowedBucketAccessModes_DeepCopyInto :: "(DisallowedBucketAccessModes_obj, cell) copier" where
  "DisallowedBucketAccessModes_DeepCopyInto x h = do {
     let out = x;
     (v, h) \<leftarrow> copy_slice strings_t assign (hdm_ObjectData x) h;
     let out = out\<lparr>hdm_ObjectData := v\<rparr>;
     (v, h) \<leftarrow> copy_slice strings_t assign (hdm_ObjectMetadata x) h;
     let out = out\<lparr>hdm_ObjectMetadata := v\<rparr>;
     (v, h) \<leftarrow> copy_slice strings_t assign (hdm_BucketMetadata x) h;
     let out = out\<lparr>hdm_BucketMetadata := v\<rparr>;
     Some (out, h)
   }"

definition DisallowedBucketAccessModes_DeepCopy :: "(ref, cell) copier" where
  "DisallowedBucketAccessModes_DeepCopy p h = copy_ptr DisallowedBucketAccessModes_t DisallowedBucketAccessModes_DeepCopyInto p h"

definition BucketAccessClassSpec_DeepCopyInto :: "(BucketAccessClassSpec_obj, cell) copier" where
  "BucketAccessClassSpec_DeepCopyInto x h = do {
     let out = x;
     (v, h) \<leftarrow> copy_map string_map_t (hacs_Parameters x) h;
     let out = out\<lparr>hacs_Parameters := v\<rparr>;
     (v, h) \<leftarrow> DisallowedBucketAccessModes_DeepCopyInto (hacs_DisallowedBucketAccessModes x) h;
     let out = out\<lparr>hacs_DisallowedBucketAccessModes := v\<rparr>;
     Some (out, h)
   }"

definition BucketAccessClassSpec_DeepCopy :: "(ref, cell) copier" where
  "BucketAccessClassSpec_DeepCopy p h = copy_ptr BucketAccessClassSpec_t BucketAccessClassSpec_DeepCopyInto p h"

definition BucketAccessClass_DeepCopyInto :: "(BucketAccessClass_obj, cell) copier" where
  "BucketAccessClass_DeepCopyInto x h = do {
     let out = x;
     let out = out\<lparr>hac_TypeMeta := hac_TypeMeta x\<rparr>;
     (v, h) \<leftarrow> ObjectMeta_DeepCopyInto (hac_ObjectMeta x) h;
     let out = out\<lparr>hac_ObjectMeta := v\<rparr>;
     (v, h) \<leftarrow> BucketAccessClassSpec_DeepCopyInto (hac_Spec x) h;
     let out = out\<lparr>hac_Spec := v\<rparr>;
     Some (out, h)
   }"

definition BucketAccessClass_DeepCopy :: "(ref, cell) copier" where
  "BucketAccessClass_DeepCopy p h = copy_ptr BucketAccessClass_t BucketAccessClass_DeepCopyInto p h"

section \<open>Lists of objects\<close>

definition BucketList_DeepCopyInto :: "(BucketList_obj, cell) copier" where
  "BucketList_DeepCopyInto x h = do {
     let out = x;
     let out = out\<lparr>hbl_TypeMeta := hbl_TypeMeta x\<rparr>;
     (v, h) \<leftarrow> ListMeta_DeepCopyInto (hbl_ListMeta x) h;
     let out = out\<lparr>hbl_ListMeta := v\<rparr>;
     (v, h) \<leftarrow> copy_slice Buckets_t Bucket_DeepCopyInto (hbl_Items x) h;
     let out = out\<lparr>hbl_Items := v\<rparr>;
     Some (out, h)
   }"

definition BucketList_DeepCopy :: "(ref, cell) copier" where
  "BucketList_DeepCopy p h = copy_ptr BucketList_t BucketList_DeepCopyInto p h"

definition BucketClassList_DeepCopyInto :: "(BucketClassList_obj, cell) copier" where
  "BucketClassList_DeepCopyInto x h = do {
     let out = x;
     let out = out\<lparr>hbcl_TypeMeta := hbcl_TypeMeta x\<rparr>;
     (v, h) \<leftarrow> ListMeta_DeepCopyInto (hbcl_ListMeta x) h;
     let out = out\<lparr>hbcl_ListMeta := v\<rparr>;
     (v, h) \<leftarrow> copy_slice BucketClasses_t BucketClass_DeepCopyInto (hbcl_Items x) h;
     let out = out\<lparr>hbcl_Items := v\<rparr>;
     Some (out, h)
   }"

definition BucketClassList_DeepCopy :: "(ref, cell) copier" where
  "BucketClassList_DeepCopy p h = copy_ptr BucketClassList_t BucketClassList_DeepCopyInto p h"

definition BucketClaimList_DeepCopyInto :: "(BucketClaimList_obj, cell) copier" where
  "BucketClaimList_DeepCopyInto x h = do {
     let out = x;
     let out = out\<lparr>hcl_TypeMeta := hcl_TypeMeta x\<rparr>;
     (v, h) \<leftarrow> ListMeta_DeepCopyInto (hcl_ListMeta x) h;
     let out = out\<lparr>hcl_ListMeta := v\<rparr>;
     (v, h) \<leftarrow> copy_slice BucketClaims_t BucketClaim_DeepCopyInto (hcl_Items x) h;
     let out = out\<lparr>hcl_Items := v\<rparr>;
     Some (out, h)
   }"

definition BucketClaimList_DeepCopy :: "(ref, cell) copier" where
  "BucketClaimList_DeepCopy p h = copy_ptr BucketClaimList_t BucketClaimList_DeepCopyInto p h"

definition BucketAccessList_DeepCopyInto :: "(BucketAccessList_obj, cell) copier" where
  "BucketAccessList_DeepCopyInto x h = do {
     let out = x;
     let out = out\<lparr>hal_TypeMeta := hal_TypeMeta x\<rparr>;
     (v, h) \<leftarrow> ListMeta_DeepCopyInto (hal_ListMeta x) h;
     let out = out\<lparr>hal_ListMeta := v\<rparr>;
     (v, h) \<leftarrow> copy_slice BucketAccesses_t BucketAccess_DeepCopyInto (hal_Items x) h;
     let out = out\<lparr>hal_Items := v\<rparr>;
     Some (out, h)
   }"

definition BucketAccessList_DeepCopy :: "(ref, cell) copier" where
  "BucketAccessList_DeepCopy p h = copy_ptr BucketAccessList_t BucketAccessList_DeepCopyInto p h"

definition BucketAccessClassList_DeepCopyInto :: "(BucketAccessClassList_obj, cell) copier" where
  "BucketAccessClassList_DeepCopyInto x h = do {
     let out = x;
     let out = out\<lparr>hacl_TypeMeta := hacl_TypeMeta x\<rparr>;
     (v, h) \<leftarrow> ListMeta_DeepCopyInto (hacl_ListMeta x) h;
     let out = out\<lparr>hacl_ListMeta := v\<rparr>;
     (v, h) \<leftarrow> copy_slice BucketAccessClasses_t BucketAccessClass_DeepCopyInto (hacl_Items x) h;
     let out = out\<lparr>hacl_Items := v\<rparr>;
     Some (out, h)
   }"

definition BucketAccessClassList_DeepCopy :: "(ref, cell) copier" where
  "BucketAccessClassList_DeepCopy p h = copy_ptr BucketAccessClassList_t BucketAccessClassList_DeepCopyInto p h"

section \<open>Copies through \<open>runtime.Object\<close>\<close>

text \<open>
  The interface value that holds a pointer to one of the ten kinds; the nil interface is \<open>None\<close> where
  the code can return it.
\<close>

datatype runtime_Object =
    Bucket_ptr ref
  | BucketList_ptr ref
  | BucketClass_ptr ref
  | BucketClassList_ptr ref
  | BucketClaim_ptr ref
  | BucketClaimList_ptr ref
  | BucketAccess_ptr ref
  | BucketAccessList_ptr ref
  | BucketAccessClass_ptr ref
  | BucketAccessClassList_ptr ref

definition Bucket_DeepCopyObject :: "ref \<Rightarrow> heap \<Rightarrow> (runtime_Object option \<times> heap) option" where
  "Bucket_DeepCopyObject p h = do {
     (c, h) \<leftarrow> Bucket_DeepCopy p h;
     if c \<noteq> None then Some (Some (Bucket_ptr c), h) else Some (None, h)
   }"

definition BucketList_DeepCopyObject :: "ref \<Rightarrow> heap \<Rightarrow> (runtime_Object option \<times> heap) option" where
  "BucketList_DeepCopyObject p h = do {
     (c, h) \<leftarrow> BucketList_DeepCopy p h;
     if c \<noteq> None then Some (Some (BucketList_ptr c), h) else Some (None, h)
   }"

definition BucketClass_DeepCopyObject :: "ref \<Rightarrow> heap \<Rightarrow> (runtime_Object option \<times> heap) option" where
  "BucketClass_DeepCopyObject p h = do {
     (c, h) \<leftarrow> BucketClass_DeepCopy p h;
     if c \<noteq> None then Some (Some (BucketClass_ptr c), h) else Some (None, h)
   }"

definition BucketClassList_DeepCopyObject :: "ref \<Rightarrow> heap \<Rightarrow> (runtime_Object option \<times> heap) option" where
  "BucketClassList_DeepCopyObject p h = do {
     (c, h) \<leftarrow> BucketClassList_DeepCopy p h;
     if c \<noteq> None then Some (Some (BucketClassList_ptr c), h) else Some (None, h)
   }"

definition BucketClaim_DeepCopyObject :: "ref \<Rightarrow> heap \<Rightarrow> (runtime_Object option \<times> heap) option" where
  "BucketClaim_DeepCopyObject p h = do {
     (c, h) \<leftarrow> BucketClaim_DeepCopy p h;
     if c \<noteq> None then Some (Some (BucketClaim_ptr c), h) else Some (None, h)
   }"

definition BucketClaimList_DeepCopyObject :: "ref \<Rightarrow> heap \<Rightarrow> (runtime_Object option \<times> heap) option" where
  "BucketClaimList_DeepCopyObject p h = do {
     (c, h) \<leftarrow> BucketClaimList_DeepCopy p h;
     if c \<noteq> None then Some (Some (BucketClaimList_ptr c), h) else Some (None, h)
   }"

definition BucketAccess_DeepCopyObject :: "ref \<Rightarrow> heap \<Rightarrow> (runtime_Object option \<times> heap) option" where
  "BucketAccess_DeepCopyObject p h = do {
     (c, h) \<leftarrow> BucketAccess_DeepCopy p h;
     if c \<noteq> None then Some (Some (BucketAccess_ptr c), h) else Some (None, h)
   }"

definition BucketAccessList_DeepCopyObject :: "ref \<Rightarrow> heap \<Rightarrow> (runtime_Object option \<times> heap) option" where
  "BucketAccessList_DeepCopyObject p h = do {
     (c, h) \<leftarrow> BucketAccessList_DeepCopy p h;
     if c \<noteq> None then Some (Some (BucketAccessList_ptr c), h) else Some (None, h)
   }"

definition BucketAccessClass_DeepCopyObject :: "ref \<Rightarrow> heap \<Rightarrow> (runtime_Object option \<times> heap) option" where
  "BucketAccessClass_DeepCopyObject p h = do {
     (c, h) \<leftarrow> BucketAccessClass_DeepCopy p h;
     if c \<noteq> None then Some (Some (BucketAccessClass_ptr c), h) else Some (None, h)
   }"

definition BucketAccessClassList_DeepCopyObject :: "ref \<Rightarrow> heap \<Rightarrow> (runtime_Object option \<times> heap) option" where
  "BucketAccessClassList_DeepCopyObject p h = do {
     (c, h) \<leftarrow> BucketAccessClassList_DeepCopy p h;
     if c \<noteq> None then Some (Some (BucketAccessClassList_ptr c), h) else Some (None, h)
   }"

text \<open>The call of the method on an interface value.\<close>

fun DeepCopyObject :: "runtime_Object \<Rightarrow> heap \<Rightarrow> (runtime_Object option \<times> heap) option" where
  "DeepCopyObject (Bucket_ptr p) = Bucket_DeepCopyObject p"
| "DeepCopyObject (BucketList_ptr p) = BucketList_DeepCopyObject p"
| "DeepCopyObject (BucketClass_ptr p) = BucketClass_DeepCopyObject p"
| "DeepCopyObject (BucketClassList_ptr p) = BucketClassList_DeepCopyObject p"
| "DeepCopyObject (BucketClaim_ptr p) = BucketClaim_DeepCopyObject p"
| "DeepCopyObject (BucketClaimList_ptr p) = BucketClaimList_DeepCopyObject p"
| "DeepCopyObject (BucketAccess_ptr p) = BucketAccess_DeepCopyObject p"
| "DeepCopyObject (BucketAccessList_ptr p) = BucketAccessList_DeepCopyObject p"
| "DeepCopyObject (BucketAccessClass_ptr p) = BucketAccessClass_DeepCopyObject p"
| "DeepCopyObject (BucketAccessClassList_ptr p) = BucketAccessClassList_DeepCopyObject p"

end
