(* ===== verification/Deep_Copy_Contract.thy ===== *)
theory Deep_Copy_Contract
  imports Deep_Copy
begin

text \<open>
  Every generated copying function keeps the contract of \<open>Go_Heap\<close>: an interpretation of
  \<open>deep_copier\<close> for each type, built from the shapes and from the types it contains. Then what
  callers rely on, for every kind of object the API has: the cache of controller-runtime hands out
  \<open>DeepCopyObject\<close> of the objects it holds, and the reconcilers write to what they get.
\<close>

section \<open>Deep equality of objects\<close>

definition Object_DeepEqual :: "(runtime_Object, cell) deep_eq" where
  "Object_DeepEqual m x m' y =
     (case x of
        Bucket_ptr p \<Rightarrow> (case y of Bucket_ptr q \<Rightarrow> eq_ptr Bucket_t Bucket_DeepEqual m p m' q | _ \<Rightarrow> False)
      | BucketList_ptr p \<Rightarrow> (case y of BucketList_ptr q \<Rightarrow> eq_ptr BucketList_t BucketList_DeepEqual m p m' q | _ \<Rightarrow> False)
      | BucketClass_ptr p \<Rightarrow> (case y of BucketClass_ptr q \<Rightarrow> eq_ptr BucketClass_t BucketClass_DeepEqual m p m' q | _ \<Rightarrow> False)
      | BucketClassList_ptr p \<Rightarrow> (case y of BucketClassList_ptr q \<Rightarrow> eq_ptr BucketClassList_t BucketClassList_DeepEqual m p m' q | _ \<Rightarrow> False)
      | BucketClaim_ptr p \<Rightarrow> (case y of BucketClaim_ptr q \<Rightarrow> eq_ptr BucketClaim_t BucketClaim_DeepEqual m p m' q | _ \<Rightarrow> False)
      | BucketClaimList_ptr p \<Rightarrow> (case y of BucketClaimList_ptr q \<Rightarrow> eq_ptr BucketClaimList_t BucketClaimList_DeepEqual m p m' q | _ \<Rightarrow> False)
      | BucketAccess_ptr p \<Rightarrow> (case y of BucketAccess_ptr q \<Rightarrow> eq_ptr BucketAccess_t BucketAccess_DeepEqual m p m' q | _ \<Rightarrow> False)
      | BucketAccessList_ptr p \<Rightarrow> (case y of BucketAccessList_ptr q \<Rightarrow> eq_ptr BucketAccessList_t BucketAccessList_DeepEqual m p m' q | _ \<Rightarrow> False)
      | BucketAccessClass_ptr p \<Rightarrow> (case y of BucketAccessClass_ptr q \<Rightarrow> eq_ptr BucketAccessClass_t BucketAccessClass_DeepEqual m p m' q | _ \<Rightarrow> False)
      | BucketAccessClassList_ptr p \<Rightarrow> (case y of BucketAccessClassList_ptr q \<Rightarrow> eq_ptr BucketAccessClassList_t BucketAccessClassList_DeepEqual m p m' q | _ \<Rightarrow> False))"

section \<open>Every copy keeps the contract\<close>

named_theorems copiers "copying functions that keep their contract"

lemmas cell_type_defs =
  bool_t_def string_t_def time_t_def int64_t_def bytes_t_def strings_t_def string_map_t_def
  FieldsV1_t_def OwnerReferences_t_def ManagedFields_t_def BucketClaimAccesses_t_def
  AccessedBuckets_t_def AccessedBucket_t_def BucketAccessModes_t_def BucketClaimAccess_t_def
  BucketClaimReference_t_def TimestampedError_t_def BucketSpec_t_def BucketStatus_t_def
  Bucket_t_def BucketClassSpec_t_def BucketClass_t_def BucketClaimSpec_t_def
  BucketClaimStatus_t_def BucketClaim_t_def BucketAccessSpec_t_def BucketAccessStatus_t_def
  BucketAccess_t_def DisallowedBucketAccessModes_t_def BucketAccessClassSpec_t_def
  BucketAccessClass_t_def BucketList_t_def BucketClassList_t_def BucketClaimList_t_def
  BucketAccessList_t_def BucketAccessClassList_t_def Buckets_t_def BucketClasses_t_def
  BucketClaims_t_def BucketAccesses_t_def BucketAccessClasses_t_def

lemma cell_types [copiers]:
  "held bool_t" "held string_t" "held time_t" "held int64_t" "held bytes_t" "held strings_t"
  "held string_map_t" "held FieldsV1_t" "held OwnerReferences_t" "held ManagedFields_t"
  "held BucketClaimAccesses_t" "held AccessedBuckets_t" "held AccessedBucket_t"
  "held BucketAccessModes_t" "held BucketClaimAccess_t" "held BucketClaimReference_t"
  "held TimestampedError_t" "held BucketSpec_t" "held BucketStatus_t" "held Bucket_t"
  "held BucketClassSpec_t" "held BucketClass_t" "held BucketClaimSpec_t"
  "held BucketClaimStatus_t" "held BucketClaim_t" "held BucketAccessSpec_t"
  "held BucketAccessStatus_t" "held BucketAccess_t" "held DisallowedBucketAccessModes_t"
  "held BucketAccessClassSpec_t" "held BucketAccessClass_t" "held BucketList_t"
  "held BucketClassList_t" "held BucketClaimList_t" "held BucketAccessList_t"
  "held BucketAccessClassList_t" "held Buckets_t" "held BucketClasses_t" "held BucketClaims_t"
  "held BucketAccesses_t" "held BucketAccessClasses_t"
  by (simp_all add: held_def cell_type_defs)

lemma eq_monoI: "E m x m' y \<Longrightarrow> m' \<subseteq>\<^sub>m m'' \<Longrightarrow> deep_copier f E \<Longrightarrow> E m x m'' y"
  by (rule deep_copier.eq_mono)

lemmas shapes [copiers] =
  deep_copier_assign deep_copier_ptr deep_copier_slice deep_copier_map

lemma flat_copiers [copiers]:
  "deep_copier Time_DeepCopyInto eq_flat"
  "deep_copier AccessedBucket_DeepCopyInto eq_flat"
  "deep_copier BucketAccessModes_DeepCopyInto eq_flat"
  "deep_copier BucketClaimAccess_DeepCopyInto eq_flat"
  "deep_copier BucketClaimReference_DeepCopyInto eq_flat"
  using deep_copier_assign by (simp_all add: assign_def[abs_def] Let_def
      Time_DeepCopyInto_def[abs_def] AccessedBucket_DeepCopyInto_def[abs_def]
      BucketAccessModes_DeepCopyInto_def[abs_def] BucketClaimAccess_DeepCopyInto_def[abs_def]
      BucketClaimReference_DeepCopyInto_def[abs_def])

interpretation TimestampedError_copier: deep_copier TimestampedError_DeepCopyInto TimestampedError_DeepEqual
  by (rule deep_copierI)
     (auto simp: TimestampedError_DeepEqual_def intro: eq_monoI copiers,
      simp add: TimestampedError_DeepCopyInto_def TimestampedError_DeepEqual_def,
      (rule copied_bind, (rule copiers)+, assumption, assumption, blast)+,
      erule copied_return, simp add: TimestampedError_DeepEqual_def)

declare TimestampedError_copier.deep_copier_axioms [copiers]

interpretation OwnerReference_copier: deep_copier OwnerReference_DeepCopyInto OwnerReference_DeepEqual
  by (rule deep_copierI)
     (auto simp: OwnerReference_DeepEqual_def intro: eq_monoI copiers,
      simp add: OwnerReference_DeepCopyInto_def OwnerReference_DeepEqual_def,
      (rule copied_bind, (rule copiers)+, assumption, assumption, blast)+,
      erule copied_return, simp add: OwnerReference_DeepEqual_def)

declare OwnerReference_copier.deep_copier_axioms [copiers]

interpretation FieldsV1_copier: deep_copier FieldsV1_DeepCopyInto FieldsV1_DeepEqual
  by (rule deep_copierI)
     (auto simp: FieldsV1_DeepEqual_def intro: eq_monoI copiers,
      simp add: FieldsV1_DeepCopyInto_def FieldsV1_DeepEqual_def,
      (rule copied_bind, (rule copiers)+, assumption, assumption, blast)+,
      erule copied_return, simp add: FieldsV1_DeepEqual_def)

declare FieldsV1_copier.deep_copier_axioms [copiers]

interpretation ManagedFieldsEntry_copier: deep_copier ManagedFieldsEntry_DeepCopyInto ManagedFieldsEntry_DeepEqual
  by (rule deep_copierI)
     (auto simp: ManagedFieldsEntry_DeepEqual_def intro: eq_monoI copiers,
      simp add: ManagedFieldsEntry_DeepCopyInto_def ManagedFieldsEntry_DeepEqual_def,
      (rule copied_bind, (rule copiers)+, assumption, assumption, blast)+,
      erule copied_return, simp add: ManagedFieldsEntry_DeepEqual_def)

declare ManagedFieldsEntry_copier.deep_copier_axioms [copiers]

interpretation ObjectMeta_copier: deep_copier ObjectMeta_DeepCopyInto ObjectMeta_DeepEqual
  by (rule deep_copierI)
     (auto simp: ObjectMeta_DeepEqual_def intro: eq_monoI copiers,
      simp add: ObjectMeta_DeepCopyInto_def ObjectMeta_DeepEqual_def,
      (rule copied_bind, (rule copiers)+, assumption, assumption, blast)+,
      erule copied_return, simp add: ObjectMeta_DeepEqual_def)

declare ObjectMeta_copier.deep_copier_axioms [copiers]

interpretation ListMeta_copier: deep_copier ListMeta_DeepCopyInto ListMeta_DeepEqual
  by (rule deep_copierI)
     (auto simp: ListMeta_DeepEqual_def intro: eq_monoI copiers,
      simp add: ListMeta_DeepCopyInto_def ListMeta_DeepEqual_def,
      (rule copied_bind, (rule copiers)+, assumption, assumption, blast)+,
      erule copied_return, simp add: ListMeta_DeepEqual_def)

declare ListMeta_copier.deep_copier_axioms [copiers]

interpretation BucketSpec_copier: deep_copier BucketSpec_DeepCopyInto BucketSpec_DeepEqual
  by (rule deep_copierI)
     (auto simp: BucketSpec_DeepEqual_def intro: eq_monoI copiers,
      simp add: BucketSpec_DeepCopyInto_def BucketSpec_DeepEqual_def,
      (rule copied_bind, (rule copiers)+, assumption, assumption, blast)+,
      erule copied_return, simp add: BucketSpec_DeepEqual_def)

declare BucketSpec_copier.deep_copier_axioms [copiers]

interpretation BucketStatus_copier: deep_copier BucketStatus_DeepCopyInto BucketStatus_DeepEqual
  by (rule deep_copierI)
     (auto simp: BucketStatus_DeepEqual_def intro: eq_monoI copiers,
      simp add: BucketStatus_DeepCopyInto_def BucketStatus_DeepEqual_def,
      (rule copied_bind, (rule copiers)+, assumption, assumption, blast)+,
      erule copied_return, simp add: BucketStatus_DeepEqual_def)

declare BucketStatus_copier.deep_copier_axioms [copiers]

interpretation Bucket_copier: deep_copier Bucket_DeepCopyInto Bucket_DeepEqual
  by (rule deep_copierI)
     (auto simp: Bucket_DeepEqual_def intro: eq_monoI copiers,
      simp add: Bucket_DeepCopyInto_def Bucket_DeepEqual_def,
      (rule copied_bind, (rule copiers)+, assumption, assumption, blast)+,
      erule copied_return, simp add: Bucket_DeepEqual_def)

declare Bucket_copier.deep_copier_axioms [copiers]

interpretation BucketClassSpec_copier: deep_copier BucketClassSpec_DeepCopyInto BucketClassSpec_DeepEqual
  by (rule deep_copierI)
     (auto simp: BucketClassSpec_DeepEqual_def intro: eq_monoI copiers,
      simp add: BucketClassSpec_DeepCopyInto_def BucketClassSpec_DeepEqual_def,
      (rule copied_bind, (rule copiers)+, assumption, assumption, blast)+,
      erule copied_return, simp add: BucketClassSpec_DeepEqual_def)

declare BucketClassSpec_copier.deep_copier_axioms [copiers]

interpretation BucketClass_copier: deep_copier BucketClass_DeepCopyInto BucketClass_DeepEqual
  by (rule deep_copierI)
     (auto simp: BucketClass_DeepEqual_def intro: eq_monoI copiers,
      simp add: BucketClass_DeepCopyInto_def BucketClass_DeepEqual_def,
      (rule copied_bind, (rule copiers)+, assumption, assumption, blast)+,
      erule copied_return, simp add: BucketClass_DeepEqual_def)

declare BucketClass_copier.deep_copier_axioms [copiers]

interpretation BucketClaimSpec_copier: deep_copier BucketClaimSpec_DeepCopyInto BucketClaimSpec_DeepEqual
  by (rule deep_copierI)
     (auto simp: BucketClaimSpec_DeepEqual_def intro: eq_monoI copiers,
      simp add: BucketClaimSpec_DeepCopyInto_def BucketClaimSpec_DeepEqual_def,
      (rule copied_bind, (rule copiers)+, assumption, assumption, blast)+,
      erule copied_return, simp add: BucketClaimSpec_DeepEqual_def)

declare BucketClaimSpec_copier.deep_copier_axioms [copiers]

interpretation BucketClaimStatus_copier: deep_copier BucketClaimStatus_DeepCopyInto BucketClaimStatus_DeepEqual
  by (rule deep_copierI)
     (auto simp: BucketClaimStatus_DeepEqual_def intro: eq_monoI copiers,
      simp add: BucketClaimStatus_DeepCopyInto_def BucketClaimStatus_DeepEqual_def,
      (rule copied_bind, (rule copiers)+, assumption, assumption, blast)+,
      erule copied_return, simp add: BucketClaimStatus_DeepEqual_def)

declare BucketClaimStatus_copier.deep_copier_axioms [copiers]

interpretation BucketClaim_copier: deep_copier BucketClaim_DeepCopyInto BucketClaim_DeepEqual
  by (rule deep_copierI)
     (auto simp: BucketClaim_DeepEqual_def intro: eq_monoI copiers,
      simp add: BucketClaim_DeepCopyInto_def BucketClaim_DeepEqual_def,
      (rule copied_bind, (rule copiers)+, assumption, assumption, blast)+,
      erule copied_return, simp add: BucketClaim_DeepEqual_def)

declare BucketClaim_copier.deep_copier_axioms [copiers]

interpretation BucketAccessSpec_copier: deep_copier BucketAccessSpec_DeepCopyInto BucketAccessSpec_DeepEqual
  by (rule deep_copierI)
     (auto simp: BucketAccessSpec_DeepEqual_def intro: eq_monoI copiers,
      simp add: BucketAccessSpec_DeepCopyInto_def BucketAccessSpec_DeepEqual_def,
      (rule copied_bind, (rule copiers)+, assumption, assumption, blast)+,
      erule copied_return, simp add: BucketAccessSpec_DeepEqual_def)

declare BucketAccessSpec_copier.deep_copier_axioms [copiers]

interpretation BucketAccessStatus_copier: deep_copier BucketAccessStatus_DeepCopyInto BucketAccessStatus_DeepEqual
  by (rule deep_copierI)
     (auto simp: BucketAccessStatus_DeepEqual_def intro: eq_monoI copiers,
      simp add: BucketAccessStatus_DeepCopyInto_def BucketAccessStatus_DeepEqual_def,
      (rule copied_bind, (rule copiers)+, assumption, assumption, blast)+,
      erule copied_return, simp add: BucketAccessStatus_DeepEqual_def)

declare BucketAccessStatus_copier.deep_copier_axioms [copiers]

interpretation BucketAccess_copier: deep_copier BucketAccess_DeepCopyInto BucketAccess_DeepEqual
  by (rule deep_copierI)
     (auto simp: BucketAccess_DeepEqual_def intro: eq_monoI copiers,
      simp add: BucketAccess_DeepCopyInto_def BucketAccess_DeepEqual_def,
      (rule copied_bind, (rule copiers)+, assumption, assumption, blast)+,
      erule copied_return, simp add: BucketAccess_DeepEqual_def)

declare BucketAccess_copier.deep_copier_axioms [copiers]

interpretation DisallowedBucketAccessModes_copier: deep_copier DisallowedBucketAccessModes_DeepCopyInto DisallowedBucketAccessModes_DeepEqual
  by (rule deep_copierI)
     (auto simp: DisallowedBucketAccessModes_DeepEqual_def intro: eq_monoI copiers,
      simp add: DisallowedBucketAccessModes_DeepCopyInto_def DisallowedBucketAccessModes_DeepEqual_def,
      (rule copied_bind, (rule copiers)+, assumption, assumption, blast)+,
      erule copied_return, simp add: DisallowedBucketAccessModes_DeepEqual_def)

declare DisallowedBucketAccessModes_copier.deep_copier_axioms [copiers]

interpretation BucketAccessClassSpec_copier: deep_copier BucketAccessClassSpec_DeepCopyInto BucketAccessClassSpec_DeepEqual
  by (rule deep_copierI)
     (auto simp: BucketAccessClassSpec_DeepEqual_def intro: eq_monoI copiers,
      simp add: BucketAccessClassSpec_DeepCopyInto_def BucketAccessClassSpec_DeepEqual_def,
      (rule copied_bind, (rule copiers)+, assumption, assumption, blast)+,
      erule copied_return, simp add: BucketAccessClassSpec_DeepEqual_def)

declare BucketAccessClassSpec_copier.deep_copier_axioms [copiers]

interpretation BucketAccessClass_copier: deep_copier BucketAccessClass_DeepCopyInto BucketAccessClass_DeepEqual
  by (rule deep_copierI)
     (auto simp: BucketAccessClass_DeepEqual_def intro: eq_monoI copiers,
      simp add: BucketAccessClass_DeepCopyInto_def BucketAccessClass_DeepEqual_def,
      (rule copied_bind, (rule copiers)+, assumption, assumption, blast)+,
      erule copied_return, simp add: BucketAccessClass_DeepEqual_def)

declare BucketAccessClass_copier.deep_copier_axioms [copiers]

interpretation BucketList_copier: deep_copier BucketList_DeepCopyInto BucketList_DeepEqual
  by (rule deep_copierI)
     (auto simp: BucketList_DeepEqual_def intro: eq_monoI copiers,
      simp add: BucketList_DeepCopyInto_def BucketList_DeepEqual_def,
      (rule copied_bind, (rule copiers)+, assumption, assumption, blast)+,
      erule copied_return, simp add: BucketList_DeepEqual_def)

declare BucketList_copier.deep_copier_axioms [copiers]

interpretation BucketClassList_copier: deep_copier BucketClassList_DeepCopyInto BucketClassList_DeepEqual
  by (rule deep_copierI)
     (auto simp: BucketClassList_DeepEqual_def intro: eq_monoI copiers,
      simp add: BucketClassList_DeepCopyInto_def BucketClassList_DeepEqual_def,
      (rule copied_bind, (rule copiers)+, assumption, assumption, blast)+,
      erule copied_return, simp add: BucketClassList_DeepEqual_def)

declare BucketClassList_copier.deep_copier_axioms [copiers]

interpretation BucketClaimList_copier: deep_copier BucketClaimList_DeepCopyInto BucketClaimList_DeepEqual
  by (rule deep_copierI)
     (auto simp: BucketClaimList_DeepEqual_def intro: eq_monoI copiers,
      simp add: BucketClaimList_DeepCopyInto_def BucketClaimList_DeepEqual_def,
      (rule copied_bind, (rule copiers)+, assumption, assumption, blast)+,
      erule copied_return, simp add: BucketClaimList_DeepEqual_def)

declare BucketClaimList_copier.deep_copier_axioms [copiers]

interpretation BucketAccessList_copier: deep_copier BucketAccessList_DeepCopyInto BucketAccessList_DeepEqual
  by (rule deep_copierI)
     (auto simp: BucketAccessList_DeepEqual_def intro: eq_monoI copiers,
      simp add: BucketAccessList_DeepCopyInto_def BucketAccessList_DeepEqual_def,
      (rule copied_bind, (rule copiers)+, assumption, assumption, blast)+,
      erule copied_return, simp add: BucketAccessList_DeepEqual_def)

declare BucketAccessList_copier.deep_copier_axioms [copiers]

interpretation BucketAccessClassList_copier: deep_copier BucketAccessClassList_DeepCopyInto BucketAccessClassList_DeepEqual
  by (rule deep_copierI)
     (auto simp: BucketAccessClassList_DeepEqual_def intro: eq_monoI copiers,
      simp add: BucketAccessClassList_DeepCopyInto_def BucketAccessClassList_DeepEqual_def,
      (rule copied_bind, (rule copiers)+, assumption, assumption, blast)+,
      erule copied_return, simp add: BucketAccessClassList_DeepEqual_def)

declare BucketAccessClassList_copier.deep_copier_axioms [copiers]

section \<open>What callers rely on\<close>

text \<open>
  The writes a program may make after a copy: any change of memory that was there before the copy,
  or any change of memory the copy is made of, up to removing cells altogether.
\<close>

definition old_memory_changed :: "heap \<Rightarrow> heap \<Rightarrow> cell mem \<Rightarrow> bool" where
  "old_memory_changed h h' m \<longleftrightarrow> (\<forall>a \<ge> gh_next h. m a = gh_mem h' a)"

definition new_memory_changed :: "heap \<Rightarrow> heap \<Rightarrow> cell mem \<Rightarrow> bool" where
  "new_memory_changed h h' m \<longleftrightarrow> (\<forall>a < gh_next h. m a = gh_mem h' a)"

definition object_ref :: "runtime_Object \<Rightarrow> ref" where
  "object_ref ob =
     (case ob of
        Bucket_ptr p \<Rightarrow> p | BucketList_ptr p \<Rightarrow> p | BucketClass_ptr p \<Rightarrow> p | BucketClassList_ptr p \<Rightarrow> p
      | BucketClaim_ptr p \<Rightarrow> p | BucketClaimList_ptr p \<Rightarrow> p | BucketAccess_ptr p \<Rightarrow> p
      | BucketAccessList_ptr p \<Rightarrow> p | BucketAccessClass_ptr p \<Rightarrow> p | BucketAccessClassList_ptr p \<Rightarrow> p)"

lemma DeepCopy_separate:
  assumes "deep_copier f e" "held T" "heap_ok h" "eq_ptr T e (gh_mem h) p (gh_mem h) p"
  shows "\<exists>q h'. copy_ptr T f p h = Some (q, h') \<and> grows h h' \<and> (q = None \<longleftrightarrow> p = None) \<and>
    (\<forall>m. old_memory_changed h h' m \<longrightarrow> eq_ptr T e (gh_mem h) p m q) \<and>
    (\<forall>m. new_memory_changed h h' m \<longrightarrow> eq_ptr T e (gh_mem h) p m p)"
  using deep_copier.separate[OF deep_copier_ptr[OF assms(2,1)] assms(3,4)]
  unfolding old_memory_changed_def new_memory_changed_def
  by (fastforce simp: eq_ptr_def copy_ptr_def split: option.splits)

lemmas DeepCopy_defs =
  Bucket_DeepCopy_def BucketList_DeepCopy_def BucketClass_DeepCopy_def BucketClassList_DeepCopy_def
  BucketClaim_DeepCopy_def BucketClaimList_DeepCopy_def BucketAccess_DeepCopy_def
  BucketAccessList_DeepCopy_def BucketAccessClass_DeepCopy_def BucketAccessClassList_DeepCopy_def

lemmas DeepCopyObject_defs =
  Bucket_DeepCopyObject_def BucketList_DeepCopyObject_def BucketClass_DeepCopyObject_def
  BucketClassList_DeepCopyObject_def BucketClaim_DeepCopyObject_def BucketClaimList_DeepCopyObject_def
  BucketAccess_DeepCopyObject_def BucketAccessList_DeepCopyObject_def
  BucketAccessClass_DeepCopyObject_def BucketAccessClassList_DeepCopyObject_def

lemma object_separate:
  assumes "deep_copier f e" "held T" "heap_ok h" "Object_DeepEqual (gh_mem h) (K p) (gh_mem h) (K p)"
    and K: "\<And>m m' q r. Object_DeepEqual m (K q) m' (K r) = eq_ptr T e m q m' r" "\<And>q. object_ref (K q) = q"
    and copy: "DeepCopyObject (K p) h = do {
      (c, h) \<leftarrow> copy_ptr T f p h;
      if c \<noteq> None then Some (Some (K c), h) else Some (None, h)
    }"
  shows "\<exists>c h'. DeepCopyObject (K p) h = Some (c, h') \<and> gh_mem h \<subseteq>\<^sub>m gh_mem h' \<and>
    (c = None \<longleftrightarrow> object_ref (K p) = None) \<and>
    (\<forall>ob' m. c = Some ob' \<and> old_memory_changed h h' m \<longrightarrow> Object_DeepEqual (gh_mem h) (K p) m ob') \<and>
    (\<forall>m. new_memory_changed h h' m \<longrightarrow> Object_DeepEqual (gh_mem h) (K p) m (K p))"
  using DeepCopy_separate[OF assms(1-3), of p] assms(4) unfolding copy K
  by (fastforce simp: grows_def K)

lemmas kind_separate =
  object_separate[where K = Bucket_ptr and T = Bucket_t, OF Bucket_copier.deep_copier_axioms]
  object_separate[where K = BucketList_ptr and T = BucketList_t, OF BucketList_copier.deep_copier_axioms]
  object_separate[where K = BucketClass_ptr and T = BucketClass_t, OF BucketClass_copier.deep_copier_axioms]
  object_separate[where K = BucketClassList_ptr and T = BucketClassList_t, OF BucketClassList_copier.deep_copier_axioms]
  object_separate[where K = BucketClaim_ptr and T = BucketClaim_t, OF BucketClaim_copier.deep_copier_axioms]
  object_separate[where K = BucketClaimList_ptr and T = BucketClaimList_t, OF BucketClaimList_copier.deep_copier_axioms]
  object_separate[where K = BucketAccess_ptr and T = BucketAccess_t, OF BucketAccess_copier.deep_copier_axioms]
  object_separate[where K = BucketAccessList_ptr and T = BucketAccessList_t, OF BucketAccessList_copier.deep_copier_axioms]
  object_separate[where K = BucketAccessClass_ptr and T = BucketAccessClass_t, OF BucketAccessClass_copier.deep_copier_axioms]
  object_separate[where K = BucketAccessClassList_ptr and T = BucketAccessClassList_t, OF BucketAccessClassList_copier.deep_copier_axioms]

text \<open>
  C40. A deep copy of an API object shares nothing with the original. For each of the ten kinds of
  \<open>runtime.Object\<close>, and an object whose references are all valid: the copy ends, it changes no
  existing memory, it is nil exactly for a nil pointer, and it is deeply equal to the original (with
  nil and empty slices and maps told apart, and whatever order \<open>range\<close> visits maps in). It stays so
  under every later change of the memory that was there before, and the original keeps its value
  under every later change of the memory of the copy.
\<close>

theorem deep_copies_are_separate:
  assumes "heap_ok h" "Object_DeepEqual (gh_mem h) ob (gh_mem h) ob"
  shows "\<exists>c h'. DeepCopyObject ob h = Some (c, h') \<and> gh_mem h \<subseteq>\<^sub>m gh_mem h' \<and>
    (c = None \<longleftrightarrow> object_ref ob = None) \<and>
    (\<forall>ob' m. c = Some ob' \<and> old_memory_changed h h' m \<longrightarrow> Object_DeepEqual (gh_mem h) ob m ob') \<and>
    (\<forall>m. new_memory_changed h h' m \<longrightarrow> Object_DeepEqual (gh_mem h) ob m ob)"
  by (insert assms; cases ob; hypsubst; rule kind_separate;
      simp add: cell_types DeepCopyObject_defs DeepCopy_defs Object_DeepEqual_def object_ref_def)

definition sample_bucket :: Bucket_obj where
  "sample_bucket =
     \<lparr>hb_TypeMeta = \<lparr>tm_Kind = ''Bucket'', tm_APIVersion = ''objectstorage.k8s.io/v1alpha2''\<rparr>,
      hb_ObjectMeta =
        \<lparr>hom_Name = ''b'', hom_GenerateName = [], hom_Namespace = [], hom_SelfLink = [], hom_UID = ''u'',
         hom_ResourceVersion = ''7'', hom_Generation = 1, hom_CreationTimestamp = 5,
         hom_DeletionTimestamp = None, hom_DeletionGracePeriodSeconds = None, hom_Labels = None,
         hom_Annotations = None, hom_OwnerReferences = None, hom_Finalizers = Some 1, hom_ManagedFields = None\<rparr>,
      hb_Spec =
        \<lparr>hbs_DriverName = ''drv'', hbs_DeletionPolicy = ''Delete'', hbs_Parameters = None,
         hbs_Protocols = None,
         hbs_BucketClaimRef = \<lparr>cr_Name = ''c'', cr_Namespace = ''ns'', cr_UID = ''cu''\<rparr>,
         hbs_ExistingBucketID = []\<rparr>,
      hb_Status =
        \<lparr>hbst_ReadyToUse = Some 2, hbst_BucketID = ''id'', hbst_Protocols = None,
         hbst_BucketInfo = Some 3, hbst_Error = None\<rparr>\<rparr>"

text \<open>A Bucket with a finalizer, a ready flag and two entries of information, visited in reverse.\<close>

definition sample_heap :: heap where
  "sample_heap =
     \<lparr>gh_mem = [0 \<mapsto> BucketCell sample_bucket, 1 \<mapsto> StringsCell [ProtectionFinalizer], 2 \<mapsto> BoolCell True,
        3 \<mapsto> StringMapCell [(''region'', ''r''), (''endpoint'', ''e'')]],
      gh_next = 4, gh_range = \<lambda>_. rev\<rparr>"

lemmas sample_eval =
  Object_DeepEqual_def Bucket_DeepEqual_def ObjectMeta_DeepEqual_def BucketSpec_DeepEqual_def
  BucketStatus_DeepEqual_def eq_ptr_def eq_slice_def eq_each_def eq_map_def eq_entries_def eq_flat_def
  load_def cell_type_defs sample_bucket_def sample_heap_def

theorem deep_copies_are_separate_witness:
  "\<exists>c h'. DeepCopyObject (Bucket_ptr (Some 0)) sample_heap = Some (Some c, h') \<and>
     Object_DeepEqual (gh_mem sample_heap) (Bucket_ptr (Some 0)) (gh_mem h' |` {4..}) c"
proof -
  have "heap_ok sample_heap" by (auto simp: heap_ok_def sample_heap_def)
  moreover have "Object_DeepEqual (gh_mem sample_heap) (Bucket_ptr (Some 0)) (gh_mem sample_heap) (Bucket_ptr (Some 0))"
    by (simp add: sample_eval)
  ultimately obtain c h' where c: "DeepCopyObject (Bucket_ptr (Some 0)) sample_heap = Some (c, h')"
    "c = None \<longleftrightarrow> object_ref (Bucket_ptr (Some 0)) = None"
    "\<forall>ob' m. c = Some ob' \<and> old_memory_changed sample_heap h' m \<longrightarrow>
       Object_DeepEqual (gh_mem sample_heap) (Bucket_ptr (Some 0)) m ob'"
    using deep_copies_are_separate by blast
  moreover have "old_memory_changed sample_heap h' (gh_mem h' |` {4..})"
    by (simp add: old_memory_changed_def sample_heap_def)
  ultimately show ?thesis by (auto simp: object_ref_def)
qed

end
