(* ===== verification/Fake_Gen.thy ===== *)
theory Fake_Gen
  imports Cosi_Prelude "HOL-Library.Sublist"
begin

text \<open>
  The generator of the fake driver clients (\<^verbatim>\<open>src/proto/hack/fake-gen/main.go\<close>), a plugin of protoc: it
  reads a request with the parsed proto files and writes a Go file per proto file, with a fake client
  per service whose methods call functions that a test supplies. The code model of the jennifer
  library is the datatype of the calls the generator makes on it; printing that model, reading the
  standard input and the wire format are parameters.
\<close>

section \<open>The request\<close>

record MethodDescriptorProto =
  md_Name :: "string option"
  md_InputType :: "string option"
  md_OutputType :: "string option"

record ServiceDescriptorProto =
  sd_Name :: "string option"
  sd_Method :: "MethodDescriptorProto list"

record FileDescriptorProto =
  fd_Name :: "string option"
  fd_Service :: "ServiceDescriptorProto list"

text \<open>protoc sends the files named on its command line and, in \<open>ProtoFile\<close>, also all they import.\<close>

record CodeGeneratorRequest =
  cg_FileToGenerate :: "string list"
  cg_Parameter :: "string option"
  cg_ProtoFile :: "FileDescriptorProto list"

record response_File =
  rf_Name :: string
  rf_Content :: string

datatype gen_panic = NilDereference | ReadFailed | UnmarshalFailed | MarshalFailed

section \<open>Strings\<close>

text \<open>\<open>strings.Split\<close> at a one-character separator: never an empty list.\<close>

fun split_on :: "char \<Rightarrow> string \<Rightarrow> string list" where
  "split_on c [] = [[]]"
| "split_on c (x # xs) =
     (if x = c then [] # split_on c xs
      else (case split_on c xs of [] \<Rightarrow> [[x]] | w # ws \<Rightarrow> (x # w) # ws))"

text \<open>\<open>strings.Replace(s, old, new, -1)\<close> for a non-empty \<open>old\<close>.\<close>

function replace_all :: "string \<Rightarrow> string \<Rightarrow> string \<Rightarrow> string" where
  "replace_all old new s =
     (if old = [] \<or> s = [] then s
      else if prefix old s then new @ replace_all old new (drop (length old) s)
      else hd s # replace_all old new (tl s))"
  by auto
termination by (relation "measure (\<lambda>(old, new, s). length s)") auto

declare replace_all.simps [simp del]

section \<open>The services\<close>

record fake_method =
  mt_Name :: string
  mt_Input :: string
  mt_Output :: string

record FakeService =
  fs_Name :: string
  fs_Methods :: "fake_method list"

definition cleanInput :: "string \<Rightarrow> string" where
  "cleanInput val = (let spl = split_on (CHR ''.'') val in spl ! (length spl - 1))"

text \<open>A loop whose body may panic.\<close>

fun each_or_panic :: "('a \<Rightarrow> gen_panic + 'b) \<Rightarrow> 'a list \<Rightarrow> gen_panic + 'b list" where
  "each_or_panic f [] = Inr []"
| "each_or_panic f (x # xs) =
     (case f x of
        Inl p \<Rightarrow> Inl p
      | Inr y \<Rightarrow> (case each_or_panic f xs of Inl p \<Rightarrow> Inl p | Inr ys \<Rightarrow> Inr (y # ys)))"

definition fake_method_of :: "MethodDescriptorProto \<Rightarrow> gen_panic + fake_method" where
  "fake_method_of mtd =
     (case md_Name mtd of
        None \<Rightarrow> Inl NilDereference
      | Some n \<Rightarrow>
          (let method = \<lparr>mt_Name = n, mt_Input = [], mt_Output = []\<rparr>;
               method = (case md_InputType mtd of None \<Rightarrow> method | Some t \<Rightarrow> method\<lparr>mt_Input := cleanInput t\<rparr>);
               method = (case md_OutputType mtd of None \<Rightarrow> method | Some t \<Rightarrow> method\<lparr>mt_Output := cleanInput t\<rparr>)
           in Inr method))"

definition fake_service_of :: "ServiceDescriptorProto \<Rightarrow> gen_panic + FakeService" where
  "fake_service_of svc =
     (case sd_Name svc of
        None \<Rightarrow> Inl NilDereference
      | Some n \<Rightarrow>
          (case each_or_panic fake_method_of (sd_Method svc) of
             Inl p \<Rightarrow> Inl p
           | Inr methods \<Rightarrow> Inr \<lparr>fs_Name = n @ ''Client'', fs_Methods = methods\<rparr>))"

fun getLocationMessage_loop ::
  "FileDescriptorProto list \<Rightarrow> (string \<times> FakeService list) list \<Rightarrow> gen_panic + (string \<times> FakeService list) list" where
  "getLocationMessage_loop [] found = Inr found"
| "getLocationMessage_loop (protoFile # fs) found =
     (case fd_Name protoFile of
        None \<Rightarrow> Inl NilDereference
      | Some n \<Rightarrow>
          (case each_or_panic fake_service_of (fd_Service protoFile) of
             Inl p \<Rightarrow> Inl p
           | Inr fakeServices \<Rightarrow> getLocationMessage_loop fs (AList.update n fakeServices found)))"

definition getLocationMessage :: "CodeGeneratorRequest \<Rightarrow> gen_panic + (string \<times> FakeService list) list" where
  "getLocationMessage req = getLocationMessage_loop (cg_ProtoFile req) []"

section \<open>The generated code\<close>

text \<open>One constructor per jennifer function the generator calls; a statement is a chain of calls.\<close>

datatype jen =
    JType | JFunc | JError
  | JId string | JOp string | JDot string
  | JQual string string
  | JParams "jen list list" | JList "jen list list" | JStruct "jen list list"
  | JBlock "jen list list" | JReturn "jen list list" | JCall "jen list list"

type_synonym stmt = "jen list"

definition signature :: "string \<Rightarrow> fake_method \<Rightarrow> stmt" where
  "signature pkgPath mtd =
     [JParams
        [[JId ''ctx'', JQual ''context'' ''Context''],
         [JId ''in'', JOp ''*'', JQual pkgPath (mt_Input mtd)],
         [JId ''opts'', JOp ''...'', JQual ''google.golang.org/grpc'' ''CallOption'']],
      JOp ''('',
      JList [[JOp ''*'', JQual pkgPath (mt_Output mtd)], [JError]],
      JOp '')'']"

definition fake_field :: "string \<Rightarrow> fake_method \<Rightarrow> stmt" where
  "fake_field pkgPath mtd = [JId (''Fake'' @ mt_Name mtd), JFunc] @ signature pkgPath mtd"

definition fake_func :: "string \<Rightarrow> FakeService \<Rightarrow> fake_method \<Rightarrow> stmt" where
  "fake_func pkgPath fakeSVC mtd =
     [JFunc, JParams [[JId ''f'', JId (''*Fake'' @ fs_Name fakeSVC)]], JId (mt_Name mtd)] @
     signature pkgPath mtd @
     [JBlock [[JReturn [[JId ''f'', JDot (''Fake'' @ mt_Name mtd),
        JCall [[JId ''ctx''], [JId ''in''], [JId ''opts'', JOp ''...'']]]]]]]"

definition fake_service_code :: "string \<Rightarrow> FakeService \<Rightarrow> stmt list" where
  "fake_service_code pkgPath fakeSVC =
     [JType, JId (''Fake'' @ fs_Name fakeSVC), JStruct (map (fake_field pkgPath) (fs_Methods fakeSVC))] #
     map (fake_func pkgPath fakeSVC) (fs_Methods fakeSVC)"

text \<open>\<open>render package statements\<close> is what printing a jennifer file yields.\<close>

definition CreateFakeFile ::
  "(string \<Rightarrow> stmt list \<Rightarrow> string) \<Rightarrow> string gomap \<Rightarrow> string \<Rightarrow> FakeService list \<Rightarrow> response_File" where
  "CreateFakeFile render parameters filename fakeSVCs =
     \<lparr>rf_Name = replace_all ''.proto'' ''.pb.fake.go'' filename,
      rf_Content = render ''fake'' (concat (map (fake_service_code (gm_get parameters ''packagePath'')) fakeSVCs))\<rparr>"

text \<open>\<open>order\<close> is the order in which \<open>range\<close> visits the map of files.\<close>

definition generateMessageMarkdown ::
  "(string \<Rightarrow> stmt list \<Rightarrow> string) \<Rightarrow> ((string \<times> FakeService list) list \<Rightarrow> (string \<times> FakeService list) list) \<Rightarrow>
   CodeGeneratorRequest \<Rightarrow> string gomap \<Rightarrow> response_File list \<Rightarrow> gen_panic + response_File list" where
  "generateMessageMarkdown render order req parameters files =
     (case getLocationMessage req of
        Inl p \<Rightarrow> Inl p
      | Inr m \<Rightarrow> Inr (fold (\<lambda>(filename, locationMessages) files.
          files @ [CreateFakeFile render parameters filename locationMessages]) (order m) files))"

definition generateCode ::
  "(string \<Rightarrow> stmt list \<Rightarrow> string) \<Rightarrow> ((string \<times> FakeService list) list \<Rightarrow> (string \<times> FakeService list) list) \<Rightarrow>
   CodeGeneratorRequest \<Rightarrow> string gomap \<Rightarrow> gen_panic + response_File list" where
  "generateCode render order req parameters = generateMessageMarkdown render order req parameters []"

definition parse_parameters :: "string \<Rightarrow> string gomap" where
  "parse_parameters parameters =
     fold (\<lambda>element m. let kv = split_on (CHR ''='') element in
         if length kv > 1 then gm_put (kv ! 0) (kv ! 1) m else m)
       (split_on (CHR '','') parameters) (Some [])"

definition fake_gen_main ::
  "(string \<Rightarrow> stmt list \<Rightarrow> string) \<Rightarrow> ((string \<times> FakeService list) list \<Rightarrow> (string \<times> FakeService list) list) \<Rightarrow>
   ('b \<Rightarrow> CodeGeneratorRequest option) \<Rightarrow> (response_File list \<Rightarrow> 'b option) \<Rightarrow> 'b option \<Rightarrow> gen_panic + 'b" where
  "fake_gen_main render order unmarshal marshal stdin =
     (case stdin of
        None \<Rightarrow> Inl ReadFailed
      | Some data \<Rightarrow>
          (case unmarshal data of
             None \<Rightarrow> Inl UnmarshalFailed
           | Some req \<Rightarrow>
               (case generateCode render order req (parse_parameters (ptr_Deref (cg_Parameter req) [])) of
                  Inl p \<Rightarrow> Inl p
                | Inr resp \<Rightarrow> (case marshal resp of None \<Rightarrow> Inl MarshalFailed | Some out \<Rightarrow> Inr out))))"

section \<open>Strings: lemmas\<close>

lemma split_on_not_nil [simp]: "split_on c s \<noteq> []"
  by (cases s) (auto split: list.splits)

lemma split_on_no_sep: "c \<notin> set s \<Longrightarrow> split_on c s = [s]"
  by (induction s) auto

lemma split_on_append: "c \<notin> set s \<Longrightarrow> split_on c (s @ c # t) = s # split_on c t"
  by (induction s) auto

lemma split_on_many: "length (split_on c (s @ c # t)) \<ge> 2"
  by (induction s) (auto split: list.splits simp: Suc_le_eq)

lemma last_split_on: "c \<notin> set t \<Longrightarrow> last (split_on c (s @ c # t)) = t"
proof (induction s)
  case (Cons x s)
  then show ?case using split_on_many[of c s t] by (auto split: list.splits)
qed (simp add: split_on_no_sep)

lemma cleanInput_last: "cleanInput val = last (split_on (CHR ''.'') val)"
  by (simp add: cleanInput_def Let_def last_conv_nth)

text \<open>The name of a message without its package: \<open>.pkg.Message\<close> and \<open>Message\<close> alike.\<close>

lemma cleanInput_message:
  assumes "CHR ''.'' \<notin> set msg"
  shows "cleanInput (pkg @ ''.'' @ msg) = msg" "cleanInput msg = msg"
  using assms last_split_on[OF assms, of pkg] by (simp_all add: cleanInput_last split_on_no_sep)

text \<open>The file name of the usual shape.\<close>

lemma fake_file_name:
  "CHR ''.'' \<notin> set base \<Longrightarrow> replace_all ''.proto'' ''.pb.fake.go'' (base @ ''.proto'') = base @ ''.pb.fake.go''"
proof (induction base)
  case (Cons x base)
  then have "\<not> prefix ''.proto'' ((x # base) @ ''.proto'')" by auto
  with Cons show ?case by (subst replace_all.simps) simp
qed (simp add: replace_all.simps)

section \<open>Every method of every service has its fake\<close>

text \<open>The names a file must have for the generator not to panic, and the services it then yields.\<close>

definition named_service :: "ServiceDescriptorProto \<Rightarrow> bool" where
  "named_service svc \<longleftrightarrow> sd_Name svc \<noteq> None \<and> list_all (\<lambda>mtd. md_Name mtd \<noteq> None) (sd_Method svc)"

definition named_file :: "FileDescriptorProto \<Rightarrow> bool" where
  "named_file f \<longleftrightarrow> fd_Name f \<noteq> None \<and> list_all named_service (fd_Service f)"

definition message_name :: "string option \<Rightarrow> string" where
  "message_name t = (case t of None \<Rightarrow> [] | Some t \<Rightarrow> cleanInput t)"

definition expected_method :: "MethodDescriptorProto \<Rightarrow> fake_method" where
  "expected_method mtd = \<lparr>mt_Name = the (md_Name mtd), mt_Input = message_name (md_InputType mtd),
     mt_Output = message_name (md_OutputType mtd)\<rparr>"

definition expected_service :: "ServiceDescriptorProto \<Rightarrow> FakeService" where
  "expected_service svc = \<lparr>fs_Name = the (sd_Name svc) @ ''Client'', fs_Methods = map expected_method (sd_Method svc)\<rparr>"

lemma each_or_panic_eq:
  assumes "\<And>x. x \<in> set xs \<Longrightarrow> f x = (if ok x then Inr (g x) else Inl NilDereference)"
  shows "each_or_panic f xs = (if list_all ok xs then Inr (map g xs) else Inl NilDereference)"
  using assms by (induction xs) auto

lemma fake_method_of_eq:
  "fake_method_of mtd = (if md_Name mtd \<noteq> None then Inr (expected_method mtd) else Inl NilDereference)"
  by (simp add: fake_method_of_def expected_method_def message_name_def Let_def split: option.splits)

lemma fake_service_of_eq:
  "fake_service_of svc = (if named_service svc then Inr (expected_service svc) else Inl NilDereference)"
  using each_or_panic_eq[of "sd_Method svc" fake_method_of "\<lambda>mtd. md_Name mtd \<noteq> None" expected_method] fake_method_of_eq
  by (simp add: fake_service_of_def named_service_def expected_service_def split: option.splits)

lemma getLocationMessage_loop_eq:
  "getLocationMessage_loop fs found =
     (if list_all named_file fs
      then Inr (fold (\<lambda>f. AList.update (the (fd_Name f)) (map expected_service (fd_Service f))) fs found)
      else Inl NilDereference)"
proof (induction fs arbitrary: found)
  case (Cons f fs)
  show ?case using each_or_panic_eq[of "fd_Service f" fake_service_of named_service expected_service] fake_service_of_eq
    by (cases "fd_Name f") (simp_all add: Cons.IH named_file_def)
qed simp

lemma fold_update_distinct:
  assumes "distinct (map k fs)" "set (map k fs) \<inter> fst ` set found = {}"
  shows "fold (\<lambda>f. AList.update (k f) (v f)) fs found = found @ map (\<lambda>f. (k f, v f)) fs"
  using assms
proof (induction fs arbitrary: found)
  case (Cons f fs)
  then have "AList.update (k f) (v f) found = found @ [(k f, v f)]"
    by (induction found) auto
  with Cons show ?case by auto
qed simp

lemma fold_append: "fold (\<lambda>x ys. ys @ [g x]) xs zs = zs @ map g xs"
  by (induction xs arbitrary: zs) auto

text \<open>The file for one proto file.\<close>

definition expected_file :: "(string \<Rightarrow> stmt list \<Rightarrow> string) \<Rightarrow> string gomap \<Rightarrow> FileDescriptorProto \<Rightarrow> response_File" where
  "expected_file render parameters f =
     CreateFakeFile render parameters (the (fd_Name f)) (map expected_service (fd_Service f))"

text \<open>
  The generator panics exactly when a file, a service or a method has no name. Otherwise, when file
  names are distinct (protoc guarantees it), the response has one file for each proto file of the
  request, in any order, and no other.
\<close>

lemma generateCode_spec:
  assumes "\<And>m. mset (order m) = mset m" "distinct (map fd_Name (cg_ProtoFile req))"
  shows "if list_all named_file (cg_ProtoFile req)
    then \<exists>files. generateCode render order req ps = Inr files \<and>
      mset files = mset (map (expected_file render ps) (cg_ProtoFile req))
    else generateCode render order req ps = Inl NilDereference"
proof (cases "list_all named_file (cg_ProtoFile req)")
  case True
  let ?name = "\<lambda>f. the (fd_Name f)" and ?svcs = "\<lambda>f. map expected_service (fd_Service f)"
  have "map fd_Name (cg_ProtoFile req) = map Some (map ?name (cg_ProtoFile req))"
    using True by (auto simp: list_all_iff named_file_def)
  then have "distinct (map ?name (cg_ProtoFile req))" using assms(2) by (metis distinct_map)
  then have "generateCode render order req ps = Inr (map (\<lambda>(n, svcs). CreateFakeFile render ps n svcs)
      (order (map (\<lambda>f. (?name f, ?svcs f)) (cg_ProtoFile req))))"
    using True by (simp add: generateCode_def generateMessageMarkdown_def getLocationMessage_def
        getLocationMessage_loop_eq fold_update_distinct fold_append split_def)
  moreover have "mset (map (\<lambda>(n, svcs). CreateFakeFile render ps n svcs)
      (order (map (\<lambda>f. (?name f, ?svcs f)) (cg_ProtoFile req)))) =
      mset (map (expected_file render ps) (cg_ProtoFile req))"
    using assms(1)[of "map (\<lambda>f. (?name f, ?svcs f)) (cg_ProtoFile req)"]
    by (simp add: expected_file_def[abs_def] image_mset.compositionality comp_def)
  ultimately show ?thesis using True by simp
next
  case False
  then show ?thesis
    by (auto simp: generateCode_def generateMessageMarkdown_def getLocationMessage_def getLocationMessage_loop_eq)
qed

text \<open>
  In particular the generator does not look at \<open>FileToGenerate\<close>: it also answers with a file for
  every proto file that is only imported.
\<close>

lemma imported_files_generated:
  assumes "\<And>m. mset (order m) = mset m" "distinct (map fd_Name (cg_ProtoFile req))"
    "list_all named_file (cg_ProtoFile req)" "f \<in> set (cg_ProtoFile req)"
  shows "\<exists>files. generateCode render order req ps = Inr files \<and>
    replace_all ''.proto'' ''.pb.fake.go'' (the (fd_Name f)) \<in> rf_Name ` set files"
proof -
  obtain files where files: "generateCode render order req ps = Inr files"
    "mset files = mset (map (expected_file render ps) (cg_ProtoFile req))"
    using generateCode_spec[OF assms(1,2), of render ps] assms(3) by auto
  from mset_eq_setD[OF files(2)] files(1) assms(4) show ?thesis
    by (auto simp: expected_file_def CreateFakeFile_def image_iff)
qed

text \<open>The declarations of a generated file: the function fields of its structs and its methods.\<close>

definition field_decls :: "stmt list \<Rightarrow> (string \<times> string \<times> stmt) list" where
  "field_decls code = concat (map (\<lambda>st. case st of
      [JType, JId s, JStruct fds] \<Rightarrow>
        concat (map (\<lambda>fd. case fd of JId n # JFunc # sig \<Rightarrow> [(s, n, sig)] | _ \<Rightarrow> []) fds)
    | _ \<Rightarrow> []) code)"

definition method_decls :: "stmt list \<Rightarrow> (string \<times> string \<times> stmt) list" where
  "method_decls code = concat (map (\<lambda>st. case st of
      JFunc # JParams [[JId _, JId r]] # JId n # rest \<Rightarrow> [(tl r, n, butlast rest)]
    | _ \<Rightarrow> []) code)"

text \<open>
  Every method of a service is implemented once by the fake of the service, with a function field
  of the same signature beside it, and nothing else is declared.
\<close>

lemma fake_declarations:
  "field_decls (fake_service_code pkg svc) =
     map (\<lambda>m. (''Fake'' @ fs_Name svc, ''Fake'' @ mt_Name m, signature pkg m)) (fs_Methods svc)"
  "method_decls (fake_service_code pkg svc) =
     map (\<lambda>m. (''Fake'' @ fs_Name svc, mt_Name m, signature pkg m)) (fs_Methods svc)"
proof -
  have "concat (map (\<lambda>x. [g x]) xs) = map g xs" for g :: "fake_method \<Rightarrow> string \<times> string \<times> stmt" and xs
    by (induction xs) auto
  then show "field_decls (fake_service_code pkg svc) =
      map (\<lambda>m. (''Fake'' @ fs_Name svc, ''Fake'' @ mt_Name m, signature pkg m)) (fs_Methods svc)"
    "method_decls (fake_service_code pkg svc) =
      map (\<lambda>m. (''Fake'' @ fs_Name svc, mt_Name m, signature pkg m)) (fs_Methods svc)"
    by (simp_all add: field_decls_def method_decls_def fake_service_code_def fake_field_def fake_func_def
        signature_def comp_def)
qed

section \<open>Parameters\<close>

text \<open>A parameter is taken up to a second equals sign.\<close>

lemma parse_parameter:
  assumes "CHR '','' \<notin> set (k @ v)" "CHR ''='' \<notin> set (k @ v)"
  shows "parse_parameters (k @ ''='' @ v) = Some [(k, v)]"
    and "parse_parameters (k @ ''='' @ v @ ''=rest'') = Some [(k, v)]"
  using assms split_on_append[of "CHR ''=''" k] split_on_append[of "CHR ''=''" v]
  by (simp_all add: parse_parameters_def split_on_no_sep gm_put_def gm_entries_def Let_def)

end
