(* ===== verification/Spec2Isabelle.thy ===== *)
theory Spec2Isabelle
  imports Call_Bounds Access_Lifecycle Predicates Startup Deep_Copy_Contract Fake_Gen
begin

text \<open>
  \<^bold>\<open>Container Object Storage Interface (COSI): a verification development.\<close>

  \<^bold>\<open>The program.\<close> COSI provisions object storage for Kubernetes. Users write \<open>BucketClaim\<close>s and
  \<open>BucketAccess\<close>es; administrators write classes. One \<^emph>\<open>Controller\<close> per cluster
  (\<^verbatim>\<open>src/controller\<close>) turns a claim into a cluster-wide \<open>Bucket\<close> and an access into a complete
  order for a driver; one \<^emph>\<open>Sidecar\<close> per storage driver (\<^verbatim>\<open>src/sidecar\<close>) provisions Buckets and
  grants accesses by calling its driver over gRPC, and stores credentials in Secrets. Controller and
  Sidecars never talk to each other: they meet in the objects of the API server. Each is a set of
  reconcilers; a reconcile reads one object, makes calls to the API server and the driver, and
  reports success, an error to retry, or a terminal error. Reconciles are started by watch events that
  pass a filter, may be repeated at any time, and interleave with those of other objects and programs.

  \<^bold>\<open>How the code is modelled.\<close> Code outside the repository (the API server behind
  controller-runtime's client, the driver behind gRPC, the clock, the text of errors, the order of map
  iterations) is a parameter: an environment \<open>env\<close> with one field per kind of call, which answers
  from the history of all calls so far, so an answer may depend on anything that happened before. A
  program (\<open>'a prog\<close>, a state monad over histories) is the code of a Go function with its calls in
  the order of the code; every early return, error and failed call is a branch. Objects that Go code
  mutates in place are passed on and returned, also on the error paths, because the callers read them.
  Go maps are association lists with nil as \<open>None\<close>; \<open>range\<close> visits them in an order that the
  environment chooses. Errors are trees of format and arguments, with the marker of non-retryable
  errors. A property of all runs is a \<^emph>\<open>guard\<close>: \<open>guarded P h\<close> says that every call in \<open>h\<close> was
  allowed by the calls before it; it is proved by weakest preconditions (\<open>wp\<close>, rules in
  \<open>wp_intro\<close>) for the whole code of a reconciler, in every environment.

  \<^bold>\<open>Theories.\<close>
  \<^item> \<open>Cosi_Prelude\<close>: Go values, histories, programs, \<open>wp\<close>, \<open>guarded\<close>; the locale
    \<open>effect_call\<close> is the contract of one kind of call, interpreted in \<open>Client\<close> for each.
  \<^item> \<open>Api_Types\<close>, \<open>Errors\<close>: \<^verbatim>\<open>src/client/apis/objectstorage/v1alpha2\<close>,
    \<^verbatim>\<open>src/internal/errors\<close> and the metadata helpers (finalizers, annotations).
  \<^item> \<open>Protocol\<close>, \<open>Translator\<close>: \<^verbatim>\<open>src/internal/protocol\<close>,
    \<^verbatim>\<open>src/sidecar/internal/translator\<close>, and the driver messages of \<^verbatim>\<open>src/proto\<close>; the locale
    \<open>rpc_api_translator\<close> states the round trip of a translator and is interpreted for all six.
  \<^item> \<open>Driver\<close>, \<open>Startup\<close>: \<^verbatim>\<open>src/sidecar/pkg/reconciler/driver.go\<close>,
    \<^verbatim>\<open>src/sidecar/cmd/rpc.go\<close> and the two \<^verbatim>\<open>main.go\<close>, with the exit after every call that can fail.
  \<^item> \<open>Access_Handoff\<close>, \<open>Predicates\<close>: \<^verbatim>\<open>src/internal/bucketaccess\<close>,
    \<^verbatim>\<open>src/internal/predicate\<close> and the watch filters of the reconcilers; the locale
    \<open>update_only\<close> is the contract of a predicate that looks only at updates.
  \<^item> \<open>Owner_Reference\<close>: the vendored ownership helpers the Sidecar uses for Secrets.
  \<^item> \<open>Client\<close>, \<open>Reconciler\<close>, \<open>History_Views\<close>: the calls, the shape the four reconcilers share
    as the locale \<open>reconciler\<close> (read, skip, reconcile, record the outcome), interpreted for each of
    them, and the lists of objects a history shows.
  \<^item> \<open>Controller_BucketClaim\<close>, \<open>Controller_BucketAccess\<close>, \<open>Sidecar_Bucket\<close>,
    \<open>Sidecar_BucketAccess\<close> with \<open>_Contract\<close> and \<open>_Results\<close>: the reconcilers of
    \<^verbatim>\<open>src/controller/pkg/reconciler\<close> and \<^verbatim>\<open>src/sidecar/pkg/reconciler\<close>. Each has its operations
    in the order of the code, its contract (for every kind of call, what must have happened before),
    the proof that every run keeps the contract, the guarantees read off it, and exact successful runs.
  \<^item> \<open>Call_Bounds\<close>: every reconcile ends after a bounded number of calls.
  \<^item> \<open>Object_Store\<close>, \<open>Concurrent_Runs\<close>, \<open>Access_Lifecycle\<close>: all runs interleaved. The locale
    \<open>versioning_server\<close> is the contract of the API server under optimistic concurrency, interpreted
    for the traces of Buckets and of accesses.
  \<^item> \<open>End_To_End\<close>: runs that read what earlier runs stored, from a new claim and a new access to ready.
  \<^item> \<open>Go_Heap\<close>, \<open>Api_Objects\<close>, \<open>Deep_Copy\<close>, \<open>Deep_Copy_Contract\<close>: memory with pointers, slices and maps;
    the API structs as they lie in it; the generated \<^verbatim>\<open>zz_generated.deepcopy.go\<close>; the locale
    \<open>deep_copier\<close>, the contract of a copying function, interpreted for every type.
  \<^item> \<open>Fake_Gen\<close>: the generator of the fake driver clients, \<^verbatim>\<open>src/proto/hack/fake-gen\<close>.
  \<^item> This theory: properties that span components.

  \<^bold>\<open>What is shown.\<close>
  \<^item> Refinement: in every interleaving, Controller and Sidecars implement an abstract lifecycle of an
    access; its initialization is written once, readiness needs initialization and an account.
  \<^item> Invariants: the ID of a backend bucket never changes; where it comes from; which party manages an
    access; that statuses are backed by what the server and the driver answered.
  \<^item> Safety of every destructive or external step: IDs recorded before provisioning, finalizers before
    any effect and removed only when nothing is left, backend deletion only under the documented
    conditions, grants only for prepared accesses, Secrets only of the own access, revocation in order.
  \<^item> Progress: a new claim becomes ready after three runs and a new access after two, deletions
    complete, with a server and a driver that cooperate (the hypotheses of these theorems).
  \<^item> Exact meaning of the checks: class validation, grant validation and translation, watch filters,
    driver identity; round trips of the translators; the contents of a filled Secret.
  \<^item> Copies: a deep copy of any API object is deeply equal to the original and shares no memory with it.
    The reconcilers mutate the objects they read, and those are deep copies of what the cache of
    controller-runtime holds; this is why the other theories may pass objects as values.
  \<^item> Errors: exactly what each reconciler reports to controller-runtime, a terminal error included, and
    when an error is written again.
  \<^item> Where the code falls short of its documents: two references to one backend bucket leave a Secret
    empty; the deletion of a claim looks neither at its has-references mark nor at the accesses; driver
    names with upper-case letters are refused.

  \<^bold>\<open>Bounds.\<close> Nothing in the model needs fuel: the loops of the code run over lists and maps and are
  structural recursions, but for one replacement of text in \<open>Fake_Gen\<close>, which has a termination proof.
  A reconcile makes at most 7 calls for a Bucket, 8 for a claim, \<open>3 * n + 5\<close> and
  \<open>4 * n + 5\<close> for an access in Controller and Sidecar, where \<open>n\<close> bounds the references and accessed
  buckets of the accesses the server shows (128 by the API types).

  \<^bold>\<open>Assumptions about the server\<close> appear only where runs interleave: reads return some stored
  version, a write is accepted only from the current version, versions get new resource versions, an
  update keeps the status and a status update stores the status sent, only the Sidecars' Bucket
  reconciler writes Bucket statuses and users write no access statuses, a new access has no status,
  and an access references at least one claim (a validation rule of the API types). The immutability
  rules that the API types declare for statuses are not used.

  \<^bold>\<open>Not modelled.\<close> Wire formats and their generated code (gRPC stubs, and the JSON methods, which only
  call protojson with fixed options); logging; the text of error messages beyond its format and
  arguments; the scheme registration and its panics in \<open>init\<close>; command-line parsing, signals and the internals of
  controller-runtime (queues, caches, leader election, rate limiting), of which only the contract of the
  reconcile result and the filters are used; RBAC markers; test fixtures. In gRPC
  dialling only the observed connectivity states are modelled, without real time.
\<close>

section \<open>Translation between driver messages and environment variables\<close>

text \<open>
  C36. Nothing is lost in translation: for each of the six translators, converting a driver message
  to environment variables and back returns the message, where an S3 addressing style that the API
  cannot express comes back as unknown; and the two protocol mappings are inverse to each other.
\<close>

theorem translators_round_trip:
  "S3BucketInfo_ApiToRpc (S3BucketInfo_RpcToApi b) = map_option (\<lambda>b. b\<lparr>s3b_AddressingStyle :=
     Some (if s3b_AddressingStyle b = Some S3AddressingStyle_PATH then S3AddressingStyle_PATH
       else if s3b_AddressingStyle b = Some S3AddressingStyle_VIRTUAL then S3AddressingStyle_VIRTUAL
       else S3AddressingStyle_UNKNOWN)\<rparr>) b \<and>
   S3Credential_ApiToRpc (S3Credential_RpcToApi c) = c \<and>
   AzureBucketInfo_ApiToRpc (AzureBucketInfo_RpcToApi ab) = ab \<and>
   AzureCredential_ApiToRpc (AzureCredential_RpcToApi ac) = ac \<and>
   GcsBucketInfo_ApiToRpc (GcsBucketInfo_RpcToApi gb) = gb \<and>
   GcsCredential_ApiToRpc (GcsCredential_RpcToApi gc) = gc \<and>
   (ObjectProtocol_RpcToApi p = Inr a \<longleftrightarrow> ObjectProtocol_ApiToRpc a = Inr p)"
proof (intro conjI)
  show "S3BucketInfo_ApiToRpc (S3BucketInfo_RpcToApi b) = map_option (\<lambda>b. b\<lparr>s3b_AddressingStyle :=
     Some (if s3b_AddressingStyle b = Some S3AddressingStyle_PATH then S3AddressingStyle_PATH
       else if s3b_AddressingStyle b = Some S3AddressingStyle_VIRTUAL then S3AddressingStyle_VIRTUAL
       else S3AddressingStyle_UNKNOWN)\<rparr>) b"
    by (auto simp: S3BucketInfo_RpcToApi_def S3BucketInfo_ApiToRpc_def gm_len_def gm_get_def var_name_defs
        split: option.splits S3AddressingStyle_Style.splits)
  show "S3Credential_ApiToRpc (S3Credential_RpcToApi c) = c"
    by (rule s3_credential.round_trip) (simp add: option.pred_True)
  show "AzureBucketInfo_ApiToRpc (AzureBucketInfo_RpcToApi ab) = ab"
    by (rule azure_bucket.round_trip) (simp add: option.pred_True)
  show "AzureCredential_ApiToRpc (AzureCredential_RpcToApi ac) = ac"
    by (rule azure_credential.round_trip) (simp add: option.pred_True)
  show "GcsBucketInfo_ApiToRpc (GcsBucketInfo_RpcToApi gb) = gb"
    by (rule gcs_bucket.round_trip) (simp add: option.pred_True)
  show "GcsCredential_ApiToRpc (GcsCredential_RpcToApi gc) = gc"
    by (rule gcs_credential.round_trip) (simp add: option.pred_True)
  show "ObjectProtocol_RpcToApi p = Inr a \<longleftrightarrow> ObjectProtocol_ApiToRpc a = Inr p"
    by (auto simp: ObjectProtocol_RpcToApi_def ObjectProtocol_ApiToRpc_def objectProtocolProtoApiMapping_def)
qed









section \<open>One manager for every access\<close>

text \<open>
  C33. At any time one party manages an access: of the Controller and the Sidecars of two different
  drivers, each of which reads the same version of the access, at most one makes a further call;
  the others stop after reading it.
\<close>

theorem one_manager_per_access:
  assumes "e_GetBucketAccess E1 [] req = Inr a" "e_GetBucketAccess E2 [] req = Inr a"
    "e_GetBucketAccess E3 [] req = Inr a" "di_Name D \<noteq> di_Name D'"
    "calls = [history_of (Controller_Access_Reconcile E1 req), history_of (Sidecar_Access_Reconcile E2 D req),
       history_of (Sidecar_Access_Reconcile E3 D' req)]"
  shows "length (filter (\<lambda>h. h \<noteq> [EvGetBucketAccess req (Inr a)]) calls) \<le> 1"
proof -
  have "history_of (Controller_Access_Reconcile E1 req) = [EvGetBucketAccess req (Inr a)]" if "ManagedBySidecar a"
    using sidecar_managed_access_left_alone[OF assms(1) that] by (simp add: history_of_def)
  moreover have "history_of (Sidecar_Access_Reconcile E2 D req) = [EvGetBucketAccess req (Inr a)]" if "\<not> ours D a"
    using foreign_access_left_alone[OF assms(2) that] by (simp add: history_of_def)
  moreover have "history_of (Sidecar_Access_Reconcile E3 D' req) = [EvGetBucketAccess req (Inr a)]" if "\<not> ours D' a"
    using foreign_access_left_alone[OF assms(3) that] by (simp add: history_of_def)
  moreover have "\<not> (ours D a \<and> ours D' a)" "ManagedBySidecar a \<or> \<not> ours D a \<and> \<not> ours D' a"
    using assms(4) by (auto simp: ours_def)
  ultimately show ?thesis unfolding assms(5) by auto
qed

theorem one_manager_per_access_witness:
  "history_of (Controller_Access_Reconcile (echo_env\<lparr>e_GetBucketAccess := \<lambda>_ _. Inr azure_access\<rparr>) access_key) =
     [EvGetBucketAccess access_key (Inr azure_access)] \<or>
   history_of (Sidecar_Access_Reconcile (echo_env\<lparr>e_GetBucketAccess := \<lambda>_ _. Inr azure_access\<rparr>)
     \<lparr>di_Name = ''drv'', di_SupportedProtocols = []\<rparr> access_key) =
     [EvGetBucketAccess access_key (Inr azure_access)]"
proof -
  let ?E = "echo_env\<lparr>e_GetBucketAccess := \<lambda>_ _. Inr azure_access\<rparr>"
  show ?thesis
    using one_manager_per_access[of ?E access_key azure_access ?E ?E "\<lparr>di_Name = ''drv'', di_SupportedProtocols = []\<rparr>"
        "\<lparr>di_Name = ''other'', di_SupportedProtocols = []\<rparr>" _]
    by (auto split: if_splits)
qed

text \<open>
  C37. The watch filters miss no change an access's manager must see: an update enqueues the access
  for the Controller exactly when the new version is the Controller's and something relevant changed
  (the manager, a deletion timestamp that was added, the finalizer lost), and for the Sidecar of a
  driver exactly when the new version names the driver and something relevant changed.
\<close>

theorem access_filters_spec:
  "(admits Controller_BucketAccess_filter (UpdateEvent (BucketAccessObj old) (BucketAccessObj new)) \<longleftrightarrow>
      \<not> ManagedBySidecar new \<and> access_needs_reconcile (UpdateEvent (BucketAccessObj old) (BucketAccessObj new))) \<and>
   (admits (Sidecar_BucketAccess_filter d) (UpdateEvent (BucketAccessObj old) (BucketAccessObj new)) \<longleftrightarrow>
      ast_DriverName (a_Status new) = d \<and>
      access_needs_reconcile (UpdateEvent (BucketAccessObj old) (BucketAccessObj new)))"
  by (intro conjI Controller_filter_iff Sidecar_filter_iff) auto

section \<open>Errors\<close>

text \<open>
  What a reconciler owes to controller-runtime. A failed read is retried unless the object is gone, and
  an object that is not the reconciler's is left alone. Otherwise the outcome of the reconcile proper is
  recorded in the status: \<open>stored\<close> says that the run made no further call, as the status had to change
  in nothing, or that its last call saved the status. Without an error the run is done if the status is
  stored and is retried with the server's error if not. An error is reported as it is or, by the
  reconcilers of accesses, with their note (\<open>tag\<close>): it ends the retries if it is marked as
  non-retryable and the status is stored, and in every other case it is retried.
\<close>

definition error_contract ::
  "(history \<Rightarrow> 'k \<Rightarrow> api_error + 'o) \<Rightarrow> ('k \<Rightarrow> api_error + 'o \<Rightarrow> event) \<Rightarrow> ('o \<Rightarrow> bool) \<Rightarrow>
   ('o \<Rightarrow> (error option \<times> 'o) prog) \<Rightarrow> (error \<Rightarrow> error) \<Rightarrow> (event \<Rightarrow> bool) \<Rightarrow> 'k \<Rightarrow> reconcile_result prog \<Rightarrow> bool" where
  "error_contract answer log skip core tag saved req run =
     (case answer [] req of
        Inl err \<Rightarrow> run_state run [] = (if IsNotFound err then Done else Retry (ApiError err), [log req (Inl err)])
      | Inr x \<Rightarrow>
          if skip x then run_state run [] = (Done, [log req (Inr x)])
          else (let ((outcome, _), before) = run_state (core x) [log req (Inr x)];
                    stored = (history_of run = before \<or> saved (last (history_of run))) in
            case outcome of
              None \<Rightarrow> if stored then result_of run = Done else \<exists>err. result_of run = Retry (ApiError err)
            | Some e \<Rightarrow> result_of run = (if IsNonRetryable e \<and> stored then Terminal (tag e) else Retry (tag e))))"

context reconciler
begin

lemma error_contract: "error_contract answer log skip core tag saved req (Reconcile req)"
proof (cases "answer [] req")
  case (Inl err)
  with read_failed[OF Inl] show ?thesis
    by (simp add: error_contract_def result_of_def history_of_def prod_eq_iff)
next
  case (Inr x)
  show ?thesis
  proof (cases "skip x")
    case True
    with Inr show ?thesis
      by (simp add: error_contract_def Reconcile_shape reconcile_shape_def get.run_oper)
  next
    case False
    obtain err x' tr where run: "run_state (core x) [log req (Inr x)] = ((err, x'), tr)" by (metis surj_pair)
    have "run_state (Reconcile req) [] = run_state (finish err x') tr"
      by (simp add: Reconcile_shape reconcile_shape_def get.run_oper Inr False run)
    then have "result_of (Reconcile req) = fst (run_state (finish err x') tr)"
      "history_of (Reconcile req) = snd (run_state (finish err x') tr)"
      by (simp_all add: result_of_def history_of_def)
    then show ?thesis using wp_run[OF finish_verdict[of err x' tr]] Inr False run
      by (auto simp: error_contract_def classify_def tag_NonRetryable Let_def split: option.splits if_splits)
  qed
qed

end

text \<open>
  C34. All four reconcilers honour this contract in every environment; in particular each of them ends
  the retries of every non-retryable error whose status is stored, and of no other error. The last call
  saves the status if it is an update of the object's status that the server accepted.
\<close>

theorem reconcilers_report_errors:
  "error_contract (e_GetBucket E) EvGetBucket (\<lambda>_. False) (Sidecar_Bucket_reconcile E D) (\<lambda>e. e)
     status_bucket_saved k (Sidecar_Bucket_Reconcile E D k) \<and>
   error_contract (e_GetBucketClaim E) EvGetBucketClaim (\<lambda>_. False) (BucketClaim_reconcile E) (\<lambda>e. e)
     status_claim_saved k (BucketClaim_Reconcile E k) \<and>
   error_contract (e_GetBucketAccess E) EvGetBucketAccess ManagedBySidecar (Controller_Access_reconcile E)
     controller_error status_access_saved k (Controller_Access_Reconcile E k) \<and>
   error_contract (e_GetBucketAccess E) EvGetBucketAccess (\<lambda>a. \<not> ManagedBySidecar a) (Sidecar_Access_reconcile E D)
     sidecar_error status_access_saved k (Sidecar_Access_Reconcile E D k)"
  by (intro conjI sidecar_bucket.error_contract controller_claim.error_contract
      controller_access.error_contract sidecar_access.error_contract)

section \<open>Connecting to the driver\<close>

text \<open>
  C38. The Sidecar starts with a driver exactly when its endpoint is a unix socket, the connection
  is idle at first and becomes ready before the deadline, and the driver reports a name of at most
  63 characters, made of labels that are joined by dots, and a non-empty list of known protocols; it then
  uses exactly the reported name and protocols. A label has only lower-case letters, digits and dashes,
  starts with a letter and does not end with a dash: the code refuses the upper-case letters and leading
  digits that the specification of the driver interface and the documentation of \<open>driverName\<close> allow.
  It also refuses a protocol that is listed twice, which its comment says it would drop.
\<close>

theorem driver_connection_spec:
  "connectRpcAndGetDriverInfo endpoint newClient getInfo = Inr d \<longleftrightarrow>
     HasPrefix endpoint ''unix://'' \<and> HasSuffix endpoint ''.sock'' \<and>
     (\<exists>changes. newClient = Inr (Idle, changes) \<and> Ready \<in> set changes) \<and>
     getInfo = Inr \<lparr>gi_Name = di_Name d, gi_SupportedProtocols = di_SupportedProtocols d\<rparr> \<and>
     length (di_Name d) \<le> 63 \<and> (\<exists>ls. ls \<noteq> [] \<and> di_Name d = join_dots ls \<and> list_all lower_label ls) \<and>
     di_SupportedProtocols d \<noteq> [] \<and> distinct (di_SupportedProtocols d) \<and>
     ObjectProtocol_UNKNOWN \<notin> set (di_SupportedProtocols d)"
proof -
  have label: "length l \<le> length n" if "l \<in> set (split_dots n)" for l n
    using that
    by (induction n arbitrary: l) (auto split: if_splits list.splits simp: le_SucI)
  have name: "validateDriverName n = None \<longleftrightarrow> length n \<le> 63 \<and> list_all dns1035LabelRegexp (split_dots n)" for n
    using label by (fastforce simp: validateDriverName_ok list_all_iff)
  have bad: "ps = [] \<or> ObjectProtocol_UNKNOWN \<in> set ps \<or> \<not> distinct ps"
    if "validateAndParseProtocols ps = Inl e" for ps e
    using validateAndParseProtocols_ok[of ps ps] that by auto
  have info: "ValidateAndSetDriverConnectionInfo r = Inr d \<longleftrightarrow>
      r = \<lparr>gi_Name = di_Name d, gi_SupportedProtocols = di_SupportedProtocols d\<rparr> \<and>
      validateDriverName (di_Name d) = None \<and> di_SupportedProtocols d \<noteq> [] \<and>
      distinct (di_SupportedProtocols d) \<and> ObjectProtocol_UNKNOWN \<notin> set (di_SupportedProtocols d)" for r
    by (cases r; cases d; cases "validateAndParseProtocols (gi_SupportedProtocols r)")
       (auto simp: ValidateAndSetDriverConnectionInfo_def validateAndParseProtocols_ok dest!: bad split: option.splits sum.splits)
  have connect: "connectRpc newClient = None \<longleftrightarrow> (\<exists>changes. newClient = Inr (Idle, changes) \<and> Ready \<in> set changes)"
    by (auto simp: connectRpc_def wait_ready_iff split: sum.splits)
  have "connectRpcAndGetDriverInfo endpoint newClient getInfo = Inr d \<longleftrightarrow>
      HasPrefix endpoint ''unix://'' \<and> HasSuffix endpoint ''.sock'' \<and> connectRpc newClient = None \<and>
      (\<exists>r. getInfo = Inr r \<and> ValidateAndSetDriverConnectionInfo r = Inr d)"
    by (auto simp: connectRpcAndGetDriverInfo_def split: sum.splits option.splits)
  then show ?thesis by (auto simp: info name connect labels_iff)
qed

end
